(* ===== verification/Cpp_Prelude.thy ===== *)
theory Cpp_Prelude
  imports Main "HOL-Library.Word" "HOL-Library.List_Lexorder" "HOL-Library.Char_ord"
begin

text \<open>
  Shared vocabulary of the development: the fixed-width integer types of the C++ code, the
  parts of the C and C++ standard library the agent uses on strings (character classes in the
  "C" locale, trimming, splitting, searching, decimal printing, \<open>strtoll\<close>, ordered maps) and
  the lemmas about them that every component uses.  A \<open>std::string\<close> is a list of bytes
  (\<open>string\<close>); a \<open>const char*\<close> obtained from it ends at the first NUL byte (\<open>c_string\<close>).
\<close>

section \<open>Machine integers\<close>

type_synonym u8 = "8 word"
type_synonym u16 = "16 word"
type_synonym u32 = "32 word"
type_synonym u64 = "64 word"

text \<open>\<open>int32_t\<close> and \<open>int64_t\<close> share the words of their unsigned twins and are read with \<open>sint\<close>.\<close>

type_synonym i32 = "32 word"
type_synonym i64 = "64 word"

named_theorems string_simps "library facts on the strings of the code"
named_theorems printed_text "shape of texts the code prints (no quotes, no control bytes, ...)"
named_theorems frame_rules "what an operation leaves unchanged"

section \<open>Characters in the C locale\<close>

definition code :: "char \<Rightarrow> nat" where
  "code c = of_char c"

definition is_space :: "char \<Rightarrow> bool" where
  "is_space c \<longleftrightarrow> code c = 32 \<or> (9 \<le> code c \<and> code c \<le> 13)"

definition is_digit :: "char \<Rightarrow> bool" where
  "is_digit c \<longleftrightarrow> 48 \<le> code c \<and> code c \<le> 57"

definition is_alnum :: "char \<Rightarrow> bool" where
  "is_alnum c \<longleftrightarrow> is_digit c \<or> (65 \<le> code c \<and> code c \<le> 90) \<or> (97 \<le> code c \<and> code c \<le> 122)"

definition to_lower :: "char \<Rightarrow> char" where
  "to_lower c = (if 65 \<le> code c \<and> code c \<le> 90 then char_of (code c + 32) else c)"

definition to_upper :: "char \<Rightarrow> char" where
  "to_upper c = (if 97 \<le> code c \<and> code c \<le> 122 then char_of (code c - 32) else c)"

definition lowercase :: "string \<Rightarrow> string" where
  "lowercase s = map to_lower s"

definition ascii_upper :: "string \<Rightarrow> string" where
  "ascii_upper s = map to_upper s"

lemma code_lt_256 [simp]: "code c < 256"
  by (simp add: code_def)

lemma code_char_of [simp]: "n < 256 \<Longrightarrow> code (char_of n) = n"
  by (simp add: code_def)

lemma char_of_code [simp]: "char_of (code c) = c"
  by (simp add: code_def)

lemma code_inject: "code c = code d \<longleftrightarrow> c = d"
  by (metis char_of_code)

lemma to_lower_idem [simp]: "to_lower (to_lower c) = to_lower c"
  by (auto simp: to_lower_def)

lemma lowercase_idem [simp]: "lowercase (lowercase s) = lowercase s"
  by (simp add: lowercase_def)

lemma length_lowercase [simp]: "length (lowercase s) = length s"
  by (simp add: lowercase_def)

text \<open>Nibbles, for the hexadecimal tables.\<close>

lemma nibble_cases:
  "(n::nat) < 16 \<Longrightarrow> n \<in> {0, 1, 2, 3, 4, 5, 6, 7, 8, 9, 10, 11, 12, 13, 14, 15}"
  by (simp, presburger)

section \<open>Strings\<close>

definition c_string :: "string \<Rightarrow> string" where
  "c_string s = takeWhile (\<lambda>c. c \<noteq> CHR 0x00) s"

definition trim :: "string \<Rightarrow> string" where
  "trim s = rev (dropWhile is_space (rev (dropWhile is_space s)))"

text \<open>
  The idiom \<open>while (offset <= text.size()) { end = text.find(sep, offset); ... }\<close> visits the
  pieces between separators, the empty ones included.
\<close>

fun split_on :: "char \<Rightarrow> string \<Rightarrow> string list" where
  "split_on sep [] = [[]]"
| "split_on sep (c # cs) =
     (if c = sep then [] # split_on sep cs
      else (case split_on sep cs of [] \<Rightarrow> [[c]] | p # ps \<Rightarrow> (c # p) # ps))"

text \<open>The idiom \<open>for (...) { if (index != 0) out += sep; out += item; }\<close>.\<close>

fun join_with :: "string \<Rightarrow> string list \<Rightarrow> string" where
  "join_with sep [] = []"
| "join_with sep [x] = x"
| "join_with sep (x # y # ys) = x @ sep @ join_with sep (y # ys)"

definition starts_with :: "string \<Rightarrow> string \<Rightarrow> bool" where
  "starts_with s prefix \<longleftrightarrow> take (length prefix) s = prefix"

text \<open>\<open>s.find(needle)\<close>: the text before and after the first occurrence.\<close>

fun find_sub :: "string \<Rightarrow> string \<Rightarrow> (string \<times> string) option" where
  "find_sub needle [] = (if needle = [] then Some ([], []) else None)"
| "find_sub needle (c # cs) =
     (if starts_with (c # cs) needle then Some ([], drop (length needle) (c # cs))
      else map_option (\<lambda>(a, b). (c # a, b)) (find_sub needle cs))"

definition contains_sub :: "string \<Rightarrow> string \<Rightarrow> bool" where
  "contains_sub s needle \<longleftrightarrow> find_sub needle s \<noteq> None"

lemma c_string_no_nul [string_simps]: "CHR 0x00 \<notin> set (c_string s)"
  by (auto simp: c_string_def dest: set_takeWhileD)

lemma c_string_id [string_simps]: "CHR 0x00 \<notin> set s \<Longrightarrow> c_string s = s"
  by (auto simp: c_string_def takeWhile_eq_all_conv)

lemma c_string_idem [simp]: "c_string (c_string s) = c_string s"
  by (simp add: c_string_id c_string_no_nul)

lemma c_string_Nil [simp]: "c_string [] = []"
  by (simp add: c_string_def)

lemma length_c_string: "length (c_string s) \<le> length s"
  by (simp add: c_string_def length_takeWhile_le)

lemma split_on_nonempty [simp]: "split_on sep s \<noteq> []"
  by (cases s) (auto split: list.splits)

lemma split_on_no_sep [string_simps]: "sep \<notin> set s \<Longrightarrow> split_on sep s = [s]"
  by (induction s) auto

lemma split_on_append [string_simps]:
  "sep \<notin> set s \<Longrightarrow> split_on sep (s @ sep # t) = s # split_on sep t"
  by (induction s) auto

lemma split_on_pieces: "p \<in> set (split_on sep s) \<Longrightarrow> sep \<notin> set p"
  by (induction sep s arbitrary: p rule: split_on.induct) (auto split: list.splits if_splits)

lemma join_split: "join_with [sep] (split_on sep s) = s"
proof (induction sep s rule: split_on.induct)
  case (2 sep c cs)
  obtain p ps where split: "split_on sep cs = p # ps"
    by (cases "split_on sep cs") auto
  from 2 split show ?case by (cases ps) (auto split: if_splits)
qed simp

lemma split_join:
  "xs \<noteq> [] \<Longrightarrow> (\<And>x. x \<in> set xs \<Longrightarrow> sep \<notin> set x) \<Longrightarrow> split_on sep (join_with [sep] xs) = xs"
  by (induction "[sep]" xs rule: join_with.induct) (auto simp: string_simps)

lemma set_trim: "set (trim s) \<subseteq> set s"
  by (auto simp: trim_def dest!: set_dropWhileD)

lemma length_trim: "length (trim s) \<le> length s"
  using length_dropWhile_le [of is_space s] length_dropWhile_le [of is_space "rev (dropWhile is_space s)"]
  by (simp add: trim_def)

lemma trim_Nil [simp]: "trim [] = []"
  by (simp add: trim_def)

lemma starts_with_append [simp]: "starts_with (p @ s) p"
  by (simp add: starts_with_def)

lemma starts_with_iff: "starts_with s p \<longleftrightarrow> (\<exists>r. s = p @ r)"
  by (auto simp: starts_with_def) (metis append_take_drop_id)

lemma find_sub_Some: "find_sub n s = Some (a, b) \<Longrightarrow> s = a @ n @ b"
  by (induction n s arbitrary: a rule: find_sub.induct)
    (auto simp: starts_with_iff split: if_splits)

lemma find_sub_None_iff: "find_sub n s = None \<longleftrightarrow> (\<forall>a b. s \<noteq> a @ n @ b)"
proof (induction n s rule: find_sub.induct)
  case (1 n)
  then show ?case by auto
next
  case (2 n c cs)
  show ?case
  proof (cases "starts_with (c # cs) n")
    case True
    then show ?thesis by (auto simp: starts_with_iff) (metis append_Nil)
  next
    case False
    with 2 show ?thesis
      by (auto simp: starts_with_iff Cons_eq_append_conv)
  qed
qed

lemma contains_sub_iff: "contains_sub s n \<longleftrightarrow> (\<exists>a b. s = a @ n @ b)"
  by (simp add: contains_sub_def find_sub_None_iff)

section \<open>Decimal numbers\<close>

definition digit_char :: "nat \<Rightarrow> char" where
  "digit_char n = char_of (48 + n)"

definition digit_val :: "char \<Rightarrow> nat" where
  "digit_val c = code c - 48"

fun dec :: "nat \<Rightarrow> string" where
  "dec n = (if n < 10 then [digit_char n] else dec (n div 10) @ [digit_char (n mod 10)])"

declare dec.simps [simp del]

definition digits_val :: "string \<Rightarrow> nat" where
  "digits_val s = foldl (\<lambda>v c. 10 * v + digit_val c) 0 s"

text \<open>\<open>std::to_string\<close> of an unsigned and of a signed integer.\<close>

definition to_string_u :: "'w::len word \<Rightarrow> string" where
  "to_string_u w = dec (unat w)"

definition dec_int :: "int \<Rightarrow> string" where
  "dec_int i = (if i < 0 then CHR ''-'' # dec (nat (- i)) else dec (nat i))"

definition to_string_i :: "'w::len word \<Rightarrow> string" where
  "to_string_i w = dec_int (sint w)"

lemma is_digit_digit_char [simp]: "n < 10 \<Longrightarrow> is_digit (digit_char n)"
  by (simp add: is_digit_def digit_char_def)

lemma digit_val_digit_char [simp]: "n < 10 \<Longrightarrow> digit_val (digit_char n) = n"
  by (simp add: digit_val_def digit_char_def)

lemma dec_digits [printed_text]: "list_all is_digit (dec n)"
proof (induction n rule: dec.induct)
  case (1 n)
  then show ?case by (subst dec.simps) auto
qed

lemma dec_not_Nil [simp]: "dec n \<noteq> []"
  by (subst dec.simps) simp

lemma digits_val_append: "digits_val (s @ [c]) = 10 * digits_val s + digit_val c"
  by (simp add: digits_val_def)

lemma digits_val_dec [simp]: "digits_val (dec n) = n"
proof (induction n rule: dec.induct)
  case (1 n)
  show ?case
  proof (cases "n < 10")
    case True
    then show ?thesis by (subst dec.simps) (simp add: digits_val_def)
  next
    case False
    with 1 have "digits_val (dec (n div 10)) = n div 10" by simp
    with False show ?thesis by (subst dec.simps) (simp add: digits_val_append)
  qed
qed

lemma dec_inject [simp]: "dec m = dec n \<longleftrightarrow> m = n"
  by (metis digits_val_dec)

lemma digit_not_special:
  assumes "is_digit c"
  shows "c \<noteq> CHR 0x22" "c \<noteq> CHR 0x5C" "c \<noteq> CHR ''-''" "c \<noteq> CHR 0x27" "c \<noteq> CHR 0x0A"
    "c \<noteq> CHR 0x00" "c \<noteq> CHR ''.''" "c \<noteq> CHR '' ''" "c \<noteq> CHR ''_''" "\<not> is_space c"
  using assms by (auto simp: is_digit_def is_space_def code_def)

lemma dec_set: "c \<in> set (dec n) \<Longrightarrow> is_digit c"
  using dec_digits by (auto simp: list_all_iff)

section \<open>Reading numbers: \<open>strtoll\<close> and \<open>from_chars\<close>\<close>

definition i64_max :: int where "i64_max = 2 ^ 63 - 1"
definition i64_min :: int where "i64_min = - (2 ^ 63)"

text \<open>
  \<open>strtoll(text, &end, 10)\<close> on a C string: the value, whether \<open>errno\<close> is set to \<open>ERANGE\<close>, and the
  rest \<open>end\<close> points to.  Without a digit nothing is converted and \<open>end == text\<close>.
\<close>

definition scan_sign :: "string \<Rightarrow> bool \<times> string" where
  "scan_sign s = (case s of
       c # cs \<Rightarrow> (if c = CHR ''-'' then (True, cs) else if c = CHR ''+'' then (False, cs) else (False, s))
     | [] \<Rightarrow> (False, s))"

definition strtoll :: "string \<Rightarrow> i64 \<times> bool \<times> string" where
  "strtoll text =
     (let (neg, s) = scan_sign (dropWhile is_space text);
          digits = takeWhile is_digit s
      in if digits = [] then (0, False, text)
         else let v = (if neg then - int (digits_val digits) else int (digits_val digits));
                  rest = dropWhile is_digit s
              in if v < i64_min then (word_of_int i64_min, True, rest)
                 else if i64_max < v then (word_of_int i64_max, True, rest)
                 else (word_of_int v, False, rest))"

text \<open>\<open>strtoll\<close> with \<open>errno != 0 || end == text || *end != '\0'\<close> rejected, as most callers do.\<close>

definition parse_int64 :: "string \<Rightarrow> i64 option" where
  "parse_int64 s =
     (let text = c_string s; (v, erange, rest) = strtoll text
      in if erange \<or> rest = text \<or> rest \<noteq> [] then None else Some v)"

lemma takeWhile_digits_dec [simp]:
  "list_all is_digit s \<Longrightarrow> takeWhile is_digit s = s \<and> dropWhile is_digit s = []"
  by (induction s) auto

lemma dropWhile_space_dec [simp]: "dropWhile is_space (dec n) = dec n"
proof -
  obtain c cs where c: "dec n = c # cs" by (cases "dec n") auto
  then have "is_digit c" using dec_set by (metis list.set_intros(1))
  then show ?thesis using c digit_not_special(10) by simp
qed

lemma scan_sign_dec [simp]: "scan_sign (dec n) = (False, dec n)"
proof -
  obtain c cs where c: "dec n = c # cs" by (cases "dec n") auto
  then have "is_digit c" using dec_set by (metis list.set_intros(1))
  then have "c \<noteq> CHR ''-'' \<and> c \<noteq> CHR ''+''" by (auto simp: is_digit_def code_def)
  then show ?thesis using c by (simp add: scan_sign_def)
qed

lemma c_string_dec [simp]: "c_string (dec n) = dec n"
  using dec_set digit_not_special(6) by (intro c_string_id) blast

lemma c_string_dec_int [simp]: "c_string (dec_int i) = dec_int i"
  using dec_set digit_not_special(6) by (intro c_string_id) (auto simp: dec_int_def)

lemma strtoll_dec_int:
  assumes "i64_min \<le> i" "i \<le> i64_max"
  shows "strtoll (dec_int i) = (word_of_int i, False, [])"
proof (cases "i < 0")
  case True
  have "scan_sign (dropWhile is_space (CHR ''-'' # dec (nat (- i)))) = (True, dec (nat (- i)))"
    by (simp add: scan_sign_def is_space_def code_def)
  with True assms show ?thesis
    by (simp add: strtoll_def dec_int_def dec_digits)
next
  case False
  with assms show ?thesis by (simp add: strtoll_def dec_int_def dec_digits)
qed

lemma dec_int_not_Nil [simp]: "dec_int i \<noteq> []" "[] \<noteq> dec_int i"
  by (auto simp: dec_int_def not_sym [OF dec_not_Nil])

lemma i64_range: "i64_min \<le> sint (w::i64)" "sint (w::i64) \<le> i64_max"
  using sint_range_size [of w] by (simp_all add: i64_min_def i64_max_def size_word_def)

lemma parse_int64_to_string [simp]: "parse_int64 (to_string_i (w::i64)) = Some w"
  using strtoll_dec_int [OF i64_range [of w]] by (simp add: parse_int64_def to_string_i_def)

section \<open>Ordered maps\<close>

text \<open>
  \<open>std::map<K, V>\<close>: an association list sorted by key.  \<open>map[k] = v\<close> is \<open>omap_put\<close>, \<open>find\<close> is
  \<open>map_of\<close>, iteration goes through the list.
\<close>

fun omap_put :: "'k::linorder \<Rightarrow> 'v \<Rightarrow> ('k \<times> 'v) list \<Rightarrow> ('k \<times> 'v) list" where
  "omap_put k v [] = [(k, v)]"
| "omap_put k v ((k', v') # m) =
     (if k < k' then (k, v) # (k', v') # m
      else if k = k' then (k, v) # m
      else (k', v') # omap_put k v m)"

definition omap_ok :: "('k::linorder \<times> 'v) list \<Rightarrow> bool" where
  "omap_ok m \<longleftrightarrow> sorted_wrt (<) (map fst m)"

lemma keys_omap_put: "fst ` set (omap_put k v m) = insert k (fst ` set m)"
  by (induction k v m rule: omap_put.induct) auto

lemma omap_ok_put [simp]: "omap_ok m \<Longrightarrow> omap_ok (omap_put k v m)"
proof (induction k v m rule: omap_put.induct)
  case (2 k v k' v' m)
  have keys: "set (map fst (omap_put k v m)) = insert k (set (map fst m))"
    using keys_omap_put [of k v m] by auto
  from 2 show ?case
    using keys by (auto simp: omap_ok_def not_less_iff_gr_or_eq)
qed (simp add: omap_ok_def)

lemma omap_ok_Nil [simp]: "omap_ok []"
  by (simp add: omap_ok_def)

lemma map_of_omap_put [simp]:
  "omap_ok m \<Longrightarrow> map_of (omap_put k v m) = (map_of m)(k \<mapsto> v)"
proof (induction k v m rule: omap_put.induct)
  case (2 k v k' v' m)
  from 2 show ?case
    by (auto simp: omap_ok_def fun_eq_iff map_of_eq_None_iff)
qed auto

lemma omap_ok_distinct: "omap_ok m \<Longrightarrow> distinct (map fst m)"
  by (simp add: omap_ok_def strict_sorted_iff)

lemma omap_ok_sorted: "omap_ok m \<Longrightarrow> sorted (map fst m)"
  by (simp add: omap_ok_def strict_sorted_iff)

lemma map_of_reconstruct:
  "distinct (map fst m) \<Longrightarrow> map (\<lambda>k. (k, the (map_of m k))) (map fst m) = m"
  by (auto intro!: map_idI)

lemma omap_unique:
  assumes "omap_ok m" "omap_ok m'" "map_of m = map_of m'"
  shows "m = m'"
proof -
  have "dom (map_of m) = dom (map_of m')" using assms(3) by simp
  then have "set (map fst m) = set (map fst m')"
    by (simp add: dom_map_of_conv_image_fst)
  then have "map fst m = map fst m'"
    using assms(1,2) by (simp add: omap_ok_def strict_sorted_equal)
  then show ?thesis
    using assms map_of_reconstruct by (metis omap_ok_distinct)
qed

end
