(* ===== verification/Json_Boundary.thy ===== *)
theory Json_Boundary
  imports Cpp_Prelude
begin

text \<open>
  The JSON boundary: \<open>src/src/protocol/json.cpp\<close> and the accessors \<open>optional_int\<close>,
  \<open>optional_string\<close>, \<open>optional_bool\<close> that \<open>application/configuration.cpp\<close>,
  \<open>application/configuration_exchange.cpp\<close>, \<open>openwrt/opennds.cpp\<close> and \<open>openwrt/telemetry.cpp\<close>
  keep for themselves.

  json-c is not part of the repository, so it is a parameter: a record \<open>jsonc\<close> of the library
  functions the code calls, passed to every definition that reads or prints JSON.  Only the
  data type of parsed documents is fixed, after json-c's \<open>json_type\<close>: a \<open>json_object*\<close> is a
  value of \<open>json\<close>, the null pointer (which json-c also uses for the literal \<open>null\<close>) is \<open>JNull\<close>,
  and objects keep their members in insertion order, the order of \<open>json_object_object_foreach\<close>.
\<close>

section \<open>Documents and the library\<close>

datatype json =
    JNull
  | JBool bool
  | JInt int
  | JDouble u64
  | JString string
  | JArray "json list"
  | JObject "(string \<times> json) list"

record jsonc =
  jc_parse :: "string \<Rightarrow> json option"
  jc_get_string :: "json \<Rightarrow> string option"
  jc_get_int64 :: "json \<Rightarrow> i64"
  jc_get_boolean :: "json \<Rightarrow> bool"
  jc_render :: "json \<Rightarrow> string option"

fun is_object :: "json \<Rightarrow> bool" where
  "is_object (JObject _) = True"
| "is_object _ = False"

fun is_array :: "json \<Rightarrow> bool" where
  "is_array (JArray _) = True"
| "is_array _ = False"

text \<open>\<open>json_object_object_foreach\<close>, \<open>json_object_array_get_idx\<close> over the whole length.\<close>

fun object_entries :: "json \<Rightarrow> (string \<times> json) list" where
  "object_entries (JObject kvs) = kvs"
| "object_entries _ = []"

fun array_items :: "json \<Rightarrow> json list" where
  "array_items (JArray xs) = xs"
| "array_items _ = []"

text \<open>\<open>JsonDocument::parse\<close>: anything but a successfully parsed object is the empty document.\<close>

definition json_document_parse :: "jsonc \<Rightarrow> string \<Rightarrow> json" where
  "json_document_parse J text =
     (case jc_parse J text of
        None \<Rightarrow> JNull
      | Some parsed \<Rightarrow> (if is_object parsed then parsed else JNull))"

definition valid :: "json \<Rightarrow> bool" where
  "valid document \<longleftrightarrow> document \<noteq> JNull"

definition object_member :: "json \<Rightarrow> string \<Rightarrow> json" where
  "object_member object key =
     (case object of
        JObject kvs \<Rightarrow> (case map_of kvs key of Some value \<Rightarrow> value | None \<Rightarrow> JNull)
      | _ \<Rightarrow> JNull)"

definition json_string :: "jsonc \<Rightarrow> json \<Rightarrow> string option" where
  "json_string J object =
     (case object of JString _ \<Rightarrow> map_option c_string (jc_get_string J object) | _ \<Rightarrow> None)"

definition json_int :: "jsonc \<Rightarrow> json \<Rightarrow> i64 option" where
  "json_int J object =
     (case object of
        JInt _ \<Rightarrow> Some (jc_get_int64 J object)
      | JDouble _ \<Rightarrow> Some (jc_get_int64 J object)
      | _ \<Rightarrow> None)"

section \<open>ECSP header accessors\<close>

definition ecsp_header_type :: "jsonc \<Rightarrow> json \<Rightarrow> u32 option" where
  "ecsp_header_type J message =
     (let header = object_member message ''header''
      in case json_int J (object_member header ''type'') of
           None \<Rightarrow> None
         | Some value \<Rightarrow> (if sint value < 0 then None else Some (ucast value)))"

definition ecsp_header_error :: "jsonc \<Rightarrow> json \<Rightarrow> i32" where
  "ecsp_header_error J message =
     (let header = object_member message ''header''
      in case json_int J (object_member header ''error'') of
           None \<Rightarrow> 0
         | Some value \<Rightarrow> ucast value)"

definition ecsp_header_seq :: "jsonc \<Rightarrow> json \<Rightarrow> u32 option" where
  "ecsp_header_seq J message =
     (let header = object_member message ''header''
      in case json_int J (object_member header ''seq'') of
           None \<Rightarrow> None
         | Some value \<Rightarrow> (if sint value < 0 then None else Some (ucast value)))"

definition ecsp_body :: "json \<Rightarrow> json" where
  "ecsp_body message =
     (let body = object_member message ''body''
      in if is_object body then body else JNull)"

section \<open>Lenient accessors\<close>

definition optional_string :: "jsonc \<Rightarrow> json \<Rightarrow> string option" where
  "optional_string J value =
     (if value = JNull then None else map_option c_string (jc_get_string J value))"

text \<open>The adapters under \<open>openwrt/\<close> also drop the empty string.\<close>

definition optional_string_any :: "jsonc \<Rightarrow> json \<Rightarrow> string option" where
  "optional_string_any J value =
     (if value = JNull then None
      else case map_option c_string (jc_get_string J value) of
             None \<Rightarrow> None
           | Some text \<Rightarrow> (if text = [] then None else Some text))"

definition optional_int :: "jsonc \<Rightarrow> json \<Rightarrow> i64 option" where
  "optional_int J value =
     (case value of
        JNull \<Rightarrow> None
      | JString _ \<Rightarrow>
          (case optional_string J value of
             None \<Rightarrow> None
           | Some text \<Rightarrow> (if text = [] then None else parse_int64 text))
      | JInt _ \<Rightarrow> Some (jc_get_int64 J value)
      | JBool _ \<Rightarrow> Some (jc_get_int64 J value)
      | JDouble _ \<Rightarrow> Some (jc_get_int64 J value)
      | _ \<Rightarrow> None)"

text \<open>
  The copy in \<open>configuration_exchange.cpp\<close> does not look at \<open>errno\<close>: a number text out of range
  is read as the clamped value instead of being refused.
\<close>

definition optional_int_exchange :: "jsonc \<Rightarrow> json \<Rightarrow> i64 option" where
  "optional_int_exchange J value =
     (case value of
        JNull \<Rightarrow> None
      | JString _ \<Rightarrow>
          (case map_option c_string (jc_get_string J value) of
             None \<Rightarrow> None
           | Some text \<Rightarrow>
               (if text = [] then None
                else let (v, erange, rest) = strtoll text
                     in if rest = text \<or> rest \<noteq> [] then None else Some v))
      | JInt _ \<Rightarrow> Some (jc_get_int64 J value)
      | JBool _ \<Rightarrow> Some (jc_get_int64 J value)
      | JDouble _ \<Rightarrow> Some (jc_get_int64 J value)
      | _ \<Rightarrow> None)"

definition optional_int_any :: "jsonc \<Rightarrow> json \<Rightarrow> i64 option" where
  "optional_int_any J value =
     (case value of
        JNull \<Rightarrow> None
      | JString _ \<Rightarrow>
          (case map_option c_string (jc_get_string J value) of
             None \<Rightarrow> None
           | Some text \<Rightarrow> (if text = [] then None else parse_int64 text))
      | JInt _ \<Rightarrow> Some (jc_get_int64 J value)
      | JDouble _ \<Rightarrow> Some (jc_get_int64 J value)
      | JBool _ \<Rightarrow> Some (jc_get_int64 J value)
      | _ \<Rightarrow> None)"

definition optional_bool :: "jsonc \<Rightarrow> json \<Rightarrow> bool option" where
  "optional_bool J value =
     (case value of
        JNull \<Rightarrow> None
      | JBool _ \<Rightarrow> Some (jc_get_boolean J value)
      | JInt _ \<Rightarrow> Some (jc_get_int64 J value \<noteq> 0)
      | JString _ \<Rightarrow>
          (case optional_string J value of
             None \<Rightarrow> None
           | Some text \<Rightarrow>
               Some (lowercase text \<in> {''1'', ''true'', ''yes'', ''on'', ''enable'', ''enabled''}))
      | _ \<Rightarrow> Some (jc_get_boolean J value))"

section \<open>What json-c documents\<close>

text \<open>
  The laws the theorems may assume of the library, each by name: reading a string node gives its
  bytes, reading an integer node that fits 64 bits gives its value, booleans read as themselves.
\<close>

definition jsonc_strings :: "jsonc \<Rightarrow> bool" where
  "jsonc_strings J \<longleftrightarrow> (\<forall>s. jc_get_string J (JString s) = Some s)"

definition jsonc_ints :: "jsonc \<Rightarrow> bool" where
  "jsonc_ints J \<longleftrightarrow> (\<forall>i. i64_min \<le> i \<longrightarrow> i \<le> i64_max \<longrightarrow> jc_get_int64 J (JInt i) = word_of_int i)"

definition jsonc_bools :: "jsonc \<Rightarrow> bool" where
  "jsonc_bools J \<longleftrightarrow>
     (\<forall>b. jc_get_boolean J (JBool b) = b \<and> jc_get_int64 J (JBool b) = (if b then 1 else 0))"

section \<open>Lemmas\<close>

lemma object_member_JNull [simp]: "object_member JNull key = JNull"
  by (simp add: object_member_def)

lemma object_member_JObject [simp]:
  "object_member (JObject kvs) key = (case map_of kvs key of Some v \<Rightarrow> v | None \<Rightarrow> JNull)"
  by (simp add: object_member_def)

lemma object_member_in_entries:
  "object_member object key \<noteq> JNull \<Longrightarrow> key \<in> fst ` set (object_entries object)"
  by (cases object) (auto simp: object_member_def split: option.splits dest!: map_of_SomeD intro: rev_image_eqI)

lemma json_document_parse_cases:
  obtains (invalid) "json_document_parse J text = JNull"
  | (object) kvs where "json_document_parse J text = JObject kvs"
proof -
  have "json_document_parse J text = JNull \<or> is_object (json_document_parse J text)"
    by (auto simp: json_document_parse_def split: option.splits)
  then show ?thesis
    using invalid object by (cases "json_document_parse J text") auto
qed

lemma is_object_ecsp_body: "ecsp_body message \<noteq> JNull \<Longrightarrow> is_object (ecsp_body message)"
  by (auto simp: ecsp_body_def Let_def split: if_splits)

lemma optional_string_no_nul:
  "optional_string J value = Some s \<Longrightarrow> CHR 0x00 \<notin> set s"
  by (auto simp: optional_string_def c_string_no_nul split: if_splits)

lemma json_string_no_nul: "json_string J value = Some s \<Longrightarrow> CHR 0x00 \<notin> set s"
  by (auto simp: json_string_def c_string_no_nul split: json.splits)

lemma json_string_JString:
  "jsonc_strings J \<Longrightarrow> json_string J (JString s) = Some (c_string s)"
  by (simp add: json_string_def jsonc_strings_def)

lemma json_int_JInt:
  "jsonc_ints J \<Longrightarrow> i64_min \<le> i \<Longrightarrow> i \<le> i64_max \<Longrightarrow> json_int J (JInt i) = Some (word_of_int i)"
  by (simp add: json_int_def jsonc_ints_def)

text \<open>The two readers of integers differ only on texts out of the 64-bit range.\<close>

lemma optional_int_exchange_cases:
  "optional_int J v = optional_int_exchange J v \<or>
   (\<exists>s. v = JString s \<and> optional_int J v = None \<and>
        (optional_int_exchange J v = Some (word_of_int i64_max) \<or>
         optional_int_exchange J v = Some (word_of_int i64_min)))"
proof (cases v)
  case (JString s)
  then show ?thesis
    by (cases "jc_get_string J v")
      (auto simp: optional_int_def optional_int_exchange_def optional_string_def parse_int64_def
        strtoll_def Let_def split: prod.splits if_splits)
qed (simp_all add: optional_int_def optional_int_exchange_def)

section \<open>A concrete library\<close>

text \<open>
  A json-c for concrete runs: its reader knows a table of texts, its accessors behave as documented.
\<close>

definition table_jsonc :: "(string \<times> json) list \<Rightarrow> jsonc" where
  "table_jsonc table =
     \<lparr>jc_parse = map_of table,
      jc_get_string = (\<lambda>v. case v of JString s \<Rightarrow> Some s | JInt i \<Rightarrow> Some (dec_int i) | _ \<Rightarrow> None),
      jc_get_int64 = (\<lambda>v. case v of
          JInt i \<Rightarrow> word_of_int (max i64_min (min i64_max i)) | JBool True \<Rightarrow> 1 | _ \<Rightarrow> 0),
      jc_get_boolean = (\<lambda>v. case v of JBool b \<Rightarrow> b | JInt i \<Rightarrow> i \<noteq> 0 | _ \<Rightarrow> False),
      jc_render = (\<lambda>_. None)\<rparr>"

lemma table_jsonc_laws [simp]:
  "jsonc_strings (table_jsonc t)" "jsonc_ints (table_jsonc t)" "jsonc_bools (table_jsonc t)"
  by (simp_all add: table_jsonc_def jsonc_strings_def jsonc_ints_def jsonc_bools_def split: bool.splits)

lemma table_jsonc_simps [simp]:
  "jc_parse (table_jsonc t) s = map_of t s"
  "jc_get_string (table_jsonc t) (JString s) = Some s"
  by (simp_all add: table_jsonc_def)

end
