(* ===== verification/Json_Text.thy ===== *)
theory Json_Text
  imports Json_Boundary
begin

text \<open>
  JSON texts.  \<open>json_escape\<close> and the \<open>quoted\<close> helpers (\<open>src/src/protocol/ecsp_message.cpp\<close> and the
  copies of \<open>quoted\<close>/\<open>quote\<close> in the other files) print strings by hand; every message of the agent
  is assembled from them.  As the specification of what such a text means this theory gives the
  relation \<open>json_text v t\<close> ("t is a JSON text of the value v", the part of RFC 8259 the agent
  emits) and the compact printer \<open>render\<close>, and proves that \<open>json_escape\<close> prints exactly the string
  it is given.
\<close>

section \<open>\<open>json_escape\<close> and \<open>quoted\<close>\<close>

definition upper_hex_char :: "nat \<Rightarrow> char" where
  "upper_hex_char n = ''0123456789ABCDEF'' ! n"

definition escape_char :: "char \<Rightarrow> string" where
  "escape_char ch =
     (if ch = CHR 0x22 then [CHR 0x5C, CHR 0x22]
      else if ch = CHR 0x5C then [CHR 0x5C, CHR 0x5C]
      else if ch = CHR 0x08 then [CHR 0x5C, CHR ''b'']
      else if ch = CHR 0x0C then [CHR 0x5C, CHR ''f'']
      else if ch = CHR 0x0A then [CHR 0x5C, CHR ''n'']
      else if ch = CHR 0x0D then [CHR 0x5C, CHR ''r'']
      else if ch = CHR 0x09 then [CHR 0x5C, CHR ''t'']
      else if code ch < 32
      then CHR 0x5C # ''u00'' @ [upper_hex_char (code ch div 16 mod 16), upper_hex_char (code ch mod 16)]
      else [ch])"

definition json_escape :: "string \<Rightarrow> string" where
  "json_escape value = concat (map escape_char value)"

definition quoted :: "string \<Rightarrow> string" where
  "quoted value = CHR 0x22 # json_escape value @ [CHR 0x22]"

section \<open>The meaning of a JSON text\<close>

definition unescape :: "char \<Rightarrow> char option" where
  "unescape e = map_of
     [(CHR 0x22, CHR 0x22), (CHR 0x5C, CHR 0x5C), (CHR ''/'', CHR ''/''), (CHR ''b'', CHR 0x08),
      (CHR ''f'', CHR 0x0C), (CHR ''n'', CHR 0x0A), (CHR ''r'', CHR 0x0D), (CHR ''t'', CHR 0x09)] e"

definition hex_digit_val :: "char \<Rightarrow> nat option" where
  "hex_digit_val c =
     (if is_digit c then Some (code c - 48)
      else if 97 \<le> code c \<and> code c \<le> 102 then Some (code c - 87)
      else if 65 \<le> code c \<and> code c \<le> 70 then Some (code c - 55)
      else None)"

inductive string_text :: "string \<Rightarrow> string \<Rightarrow> bool" where
  st_end: "string_text [] []"
| st_plain: "code c \<ge> 32 \<Longrightarrow> c \<noteq> CHR 0x22 \<Longrightarrow> c \<noteq> CHR 0x5C \<Longrightarrow> string_text s t \<Longrightarrow>
    string_text (c # s) (c # t)"
| st_escape: "unescape e = Some c \<Longrightarrow> string_text s t \<Longrightarrow> string_text (c # s) (CHR 0x5C # e # t)"
| st_unicode: "hex_digit_val a = Some m \<Longrightarrow> hex_digit_val b = Some n \<Longrightarrow> 16 * m + n < 128 \<Longrightarrow>
    string_text s t \<Longrightarrow>
    string_text (char_of (16 * m + n) # s) (CHR 0x5C # CHR ''u'' # CHR ''0'' # CHR ''0'' # a # b # t)"

definition white :: "string \<Rightarrow> bool" where
  "white s \<longleftrightarrow> set s \<subseteq> {CHR '' '', CHR 0x09, CHR 0x0A, CHR 0x0D}"

text \<open>The number texts of JSON; which floating point number one denotes is left open.\<close>

definition digits_text :: "string \<Rightarrow> bool" where
  "digits_text t \<longleftrightarrow> t \<noteq> [] \<and> list_all is_digit t"

definition number_text :: "string \<Rightarrow> bool" where
  "number_text t \<longleftrightarrow>
     (\<exists>sign whole fraction exponent. t = sign @ whole @ fraction @ exponent \<and>
       sign \<in> {[], ''-''} \<and> digits_text whole \<and>
       (fraction = [] \<or> (\<exists>d. fraction = CHR ''.'' # d \<and> digits_text d)) \<and>
       (exponent = [] \<or>
        (\<exists>e s d. exponent = e # s @ d \<and> e \<in> {CHR ''e'', CHR ''E''} \<and> s \<in> {[], ''+'', ''-''} \<and> digits_text d)))"

inductive json_text :: "json \<Rightarrow> string \<Rightarrow> bool"
  and elements_text :: "json list \<Rightarrow> string \<Rightarrow> bool"
  and members_text :: "(string \<times> json) list \<Rightarrow> string \<Rightarrow> bool" where
  jt_null: "json_text JNull ''null''"
| jt_true: "json_text (JBool True) ''true''"
| jt_false: "json_text (JBool False) ''false''"
| jt_int: "json_text (JInt i) (dec_int i)"
| jt_double: "number_text t \<Longrightarrow> json_text (JDouble d) t"
| jt_string: "string_text s t \<Longrightarrow> json_text (JString s) (CHR 0x22 # t @ [CHR 0x22])"
| jt_array_empty: "white w \<Longrightarrow> json_text (JArray []) (CHR ''['' # w @ [CHR '']''])"
| jt_array: "elements_text (v # vs) t \<Longrightarrow> json_text (JArray (v # vs)) (CHR ''['' # t @ [CHR '']''])"
| jt_object_empty: "white w \<Longrightarrow> json_text (JObject []) (CHR ''{'' # w @ [CHR ''}''])"
| jt_object: "members_text (kv # kvs) t \<Longrightarrow> distinct (map fst (kv # kvs)) \<Longrightarrow>
    json_text (JObject (kv # kvs)) (CHR ''{'' # t @ [CHR ''}''])"
| et_last: "white w \<Longrightarrow> json_text v t \<Longrightarrow> white w' \<Longrightarrow> elements_text [v] (w @ t @ w')"
| et_more: "white w \<Longrightarrow> json_text v t \<Longrightarrow> white w' \<Longrightarrow> elements_text (v' # vs) r \<Longrightarrow>
    elements_text (v # v' # vs) (w @ t @ w' @ CHR '','' # r)"
| mt_last: "white w \<Longrightarrow> string_text k s \<Longrightarrow> white w1 \<Longrightarrow> white w2 \<Longrightarrow> json_text v t \<Longrightarrow> white w' \<Longrightarrow>
    members_text [(k, v)] (w @ CHR 0x22 # s @ CHR 0x22 # w1 @ CHR '':'' # w2 @ t @ w')"
| mt_more: "white w \<Longrightarrow> string_text k s \<Longrightarrow> white w1 \<Longrightarrow> white w2 \<Longrightarrow> json_text v t \<Longrightarrow> white w' \<Longrightarrow>
    members_text (kv # kvs) r \<Longrightarrow>
    members_text ((k, v) # kv # kvs)
      (w @ CHR 0x22 # s @ CHR 0x22 # w1 @ CHR '':'' # w2 @ t @ w' @ CHR '','' # r)"

section \<open>The compact printer\<close>

fun render :: "json \<Rightarrow> string" where
  "render JNull = ''null''"
| "render (JBool b) = (if b then ''true'' else ''false'')"
| "render (JInt i) = dec_int i"
| "render (JDouble d) = []"
| "render (JString s) = quoted s"
| "render (JArray vs) = CHR ''['' # join_with '','' (map render vs) @ '']''"
| "render (JObject kvs) =
     CHR ''{'' # join_with '','' (map (\<lambda>(k, v). quoted k @ CHR '':'' # render v) kvs) @ ''}''"

text \<open>Values the agent's own texts denote: no doubles, distinct keys.\<close>

fun printable :: "json \<Rightarrow> bool" where
  "printable (JDouble _) = False"
| "printable (JArray vs) = list_all printable vs"
| "printable (JObject kvs) = (distinct (map fst kvs) \<and> list_all (\<lambda>kv. printable (snd kv)) kvs)"
| "printable _ = True"

section \<open>Lemmas\<close>

lemma white_Nil [simp]: "white []"
  by (simp add: white_def)

lemma string_text_append: "string_text s t \<Longrightarrow> string_text s' t' \<Longrightarrow> string_text (s @ s') (t @ t')"
  by (induction rule: string_text.induct) (auto intro: string_text.intros)

lemma hex_digit_upper: "n < 16 \<Longrightarrow> hex_digit_val (upper_hex_char n) = Some n"
  by (drule nibble_cases, elim insertE)
    (simp_all add: upper_hex_char_def hex_digit_val_def is_digit_def code_def)

lemma upper_hex_printable: "n < 16 \<Longrightarrow> 48 \<le> code (upper_hex_char n)"
  by (drule nibble_cases, elim insertE) (simp_all add: upper_hex_char_def code_def)

lemma string_text_escape_char: "string_text [ch] (escape_char ch)"
proof -
  have escape: "string_text [c] [CHR 0x5C, e]" if "unescape e = Some c" for c e
    using st_escape [OF that st_end] .
  have unicode: "string_text [ch] (CHR 0x5C # CHR ''u'' # CHR ''0'' # CHR ''0'' #
      upper_hex_char (code ch div 16) # upper_hex_char (code ch mod 16) # [])"
    if "code ch < 32"
  proof -
    have small: "code ch div 16 < 16" using that by (simp add: less_mult_imp_div_less)
    have "16 * (code ch div 16) + code ch mod 16 = code ch" by simp
    then show ?thesis
      using st_unicode [OF hex_digit_upper [OF small] hex_digit_upper [of "code ch mod 16"] _ st_end] that
      by simp
  qed
  have div16: "code ch div 16 mod 16 = code ch div 16"
    by (simp add: less_mult_imp_div_less)
  have plain: "string_text [ch] [ch]" if "\<not> code ch < 32" "ch \<noteq> CHR 0x22" "ch \<noteq> CHR 0x5C"
    using that by (intro st_plain st_end) auto
  consider "ch \<in> {CHR 0x22, CHR 0x5C, CHR 0x08, CHR 0x0C, CHR 0x0A, CHR 0x0D, CHR 0x09}"
    | "ch \<notin> {CHR 0x22, CHR 0x5C, CHR 0x08, CHR 0x0C, CHR 0x0A, CHR 0x0D, CHR 0x09}" by blast
  then show ?thesis
  proof cases
    case 1
    then show ?thesis
      by (elim insertE emptyE) (simp_all add: escape_char_def escape unescape_def)
  next
    case 2
    then show ?thesis
      using unicode plain by (cases "code ch < 32") (simp_all add: escape_char_def div16)
  qed
qed

lemma string_text_json_escape: "string_text s (json_escape s)"
proof (induction s)
  case (Cons c s)
  from string_text_append [OF string_text_escape_char this, of c] show ?case
    by (simp add: json_escape_def)
qed (simp add: json_escape_def st_end)

lemma json_text_quoted: "json_text (JString s) (quoted s)"
  by (simp add: quoted_def jt_string string_text_json_escape)

lemma members_text_render:
  assumes "\<And>k v. (k, v) \<in> set (kv # kvs) \<Longrightarrow> json_text v (render v)"
  shows "members_text (kv # kvs)
           (join_with '','' (map (\<lambda>(k, v). quoted k @ CHR '':'' # render v) (kv # kvs)))"
  using assms
proof (induction kvs arbitrary: kv)
  case Nil
  then show ?case
    using mt_last [OF white_Nil string_text_json_escape white_Nil white_Nil _ white_Nil]
    by (cases kv) (simp add: quoted_def)
next
  case (Cons kv' kvs)
  obtain k v where kv: "kv = (k, v)" by (cases kv)
  then have v: "json_text v (render v)" by (intro Cons.prems [of k v]) simp
  have "members_text (kv' # kvs)
          (join_with '','' (map (\<lambda>(k, v). quoted k @ CHR '':'' # render v) (kv' # kvs)))"
    using Cons.prems by (intro Cons.IH) auto
  from mt_more [OF white_Nil string_text_json_escape [of k] white_Nil white_Nil v white_Nil this]
  show ?case by (simp add: kv quoted_def)
qed

lemma elements_text_render:
  assumes "\<And>v. v \<in> set (x # xs) \<Longrightarrow> json_text v (render v)"
  shows "elements_text (x # xs) (join_with '','' (map render (x # xs)))"
  using assms
proof (induction xs arbitrary: x)
  case Nil
  then show ?case using et_last [OF white_Nil _ white_Nil] by simp
next
  case (Cons y ys)
  then show ?case using et_more [OF white_Nil _ white_Nil Cons.IH [of y]] by simp
qed

lemma json_text_render: "printable v \<Longrightarrow> json_text v (render v)"
proof (induction v rule: render.induct)
  case (6 vs)
  show ?case
  proof (cases vs)
    case Nil
    then show ?thesis using jt_array_empty [OF white_Nil] by simp
  next
    case (Cons x xs)
    with 6 have "\<And>v. v \<in> set (x # xs) \<Longrightarrow> json_text v (render v)"
      by (auto simp: list_all_iff)
    from jt_array [OF elements_text_render [OF this]] Cons show ?thesis by simp
  qed
next
  case (7 kvs)
  show ?case
  proof (cases kvs)
    case Nil
    then show ?thesis using jt_object_empty [OF white_Nil] by simp
  next
    case (Cons kv kvs')
    with 7 have "\<And>k v. (k, v) \<in> set (kv # kvs') \<Longrightarrow> json_text v (render v)"
      by (fastforce simp: list_all_iff)
    from jt_object [OF members_text_render [OF this]] 7 Cons show ?thesis by simp
  qed
qed (auto intro: json_text_elements_text_members_text.intros json_text_quoted)

text \<open>An escaped string holds no raw quote, no control byte and ends where its text ends.\<close>

lemma json_escape_append [simp]: "json_escape (s @ t) = json_escape s @ json_escape t"
  by (simp add: json_escape_def)

lemma escape_char_no_control: "\<forall>c \<in> set (escape_char d). 32 \<le> code c"
proof -
  have hex: "48 \<le> code (upper_hex_char (n mod 16))" for n
    using upper_hex_printable [of "n mod 16"] by simp
  have hex32: "32 \<le> code (upper_hex_char (n mod 16))" for n
    using hex [of n] by simp
  have div16: "code d div 16 mod 16 = code d div 16"
    by (simp add: less_mult_imp_div_less)
  have "32 \<le> code e" if "e \<in> set ''bfnrtu0'' \<union> {CHR 0x5C, CHR 0x22}" for e
    using that by (auto simp: code_def)
  then show ?thesis
    using hex32 [of "code d"] hex32 [of "code d div 16"] by (simp add: escape_char_def div16)
qed

lemma json_escape_no_control [printed_text]: "c \<in> set (json_escape s) \<Longrightarrow> 32 \<le> code c"
  using escape_char_no_control by (auto simp: json_escape_def)

text \<open>Texts that \<open>json_escape\<close> copies: keys and constants of the code.\<close>

definition plain :: "string \<Rightarrow> bool" where
  "plain s \<longleftrightarrow> list_all (\<lambda>c. 32 \<le> code c \<and> c \<noteq> CHR 0x22 \<and> c \<noteq> CHR 0x5C) s"

lemma escape_char_plain: "32 \<le> code c \<Longrightarrow> c \<noteq> CHR 0x22 \<Longrightarrow> c \<noteq> CHR 0x5C \<Longrightarrow> escape_char c = [c]"
  by (auto simp: escape_char_def code_def)

lemma json_escape_plain: "plain s \<Longrightarrow> json_escape s = s"
  by (induction s) (auto simp: plain_def json_escape_def escape_char_plain)

lemma quoted_plain: "plain s \<Longrightarrow> quoted s = CHR 0x22 # s @ [CHR 0x22]"
  by (simp add: quoted_def json_escape_plain)

lemma json_escape_Nil [simp]: "json_escape [] = []"
  by (simp add: json_escape_def)

text \<open>Members printed one after the other, for the values of the messages.\<close>

definition render_members :: "(string \<times> json) list \<Rightarrow> string" where
  "render_members kvs = join_with '','' (map (\<lambda>(k, v). quoted k @ CHR '':'' # render v) kvs)"

lemma render_JObject: "render (JObject kvs) = CHR ''{'' # render_members kvs @ ''}''"
  by (simp add: render_members_def)

lemma render_members_Cons:
  "render_members ((k, v) # kvs) =
     quoted k @ CHR '':'' # render v @ (if kvs = [] then [] else CHR '','' # render_members kvs)"
  by (cases kvs) (auto simp: render_members_def)

lemma render_members_Nil [simp]: "render_members [] = []"
  by (simp add: render_members_def)

lemma render_members_append:
  "render_members (xs @ ys) =
     render_members xs @ (if xs = [] \<or> ys = [] then [] else '','') @ render_members ys"
  by (induction xs) (auto simp: render_members_Cons)

lemma render_members_app:
  "kvs \<noteq> [] \<Longrightarrow> render_members (kvs @ [(k, v)]) =
     render_members kvs @ CHR '','' # quoted k @ CHR '':'' # render v"
  by (simp add: render_members_append render_members_Cons)

section \<open>A text has one meaning\<close>

inductive_cases string_text_NilE: "string_text s []"
inductive_cases string_text_ConsE: "string_text s (c # t)"

lemma unescape_not_u: "unescape CHR ''u'' = None"
  by (simp add: unescape_def)

lemma string_text_unique: "string_text s t \<Longrightarrow> string_text s' t \<Longrightarrow> s = s'"
proof (induction arbitrary: s' rule: string_text.induct)
  case st_end
  then show ?case by (auto elim: string_text_NilE)
next
  case (st_plain c s t)
  from st_plain.prems show ?case
    by (rule string_text_ConsE) (use st_plain.hyps st_plain.IH in blast)+
next
  case (st_escape e c s t)
  have e: "e \<noteq> CHR ''u''" using st_escape.hyps unescape_not_u by auto
  from st_escape.prems show ?case
    by (rule string_text_ConsE) (use st_escape.hyps st_escape.IH e in force)+
next
  case (st_unicode a m b n s t)
  from st_unicode.prems show ?case
  proof (rule string_text_ConsE, goal_cases)
    case (2 e c' sa ta)
    then show ?case using unescape_not_u by auto
  next
    case (3 a' m' b' n' sa ta)
    then have "m' = m" "n' = n" "string_text sa t" using st_unicode.hyps by auto
    then show ?case using 3 st_unicode.IH by blast
  qed simp
qed

text \<open>Members concatenated one after the other.\<close>

lemma members_text_append:
  assumes "members_text xs t" "members_text ys r"
  shows "members_text (xs @ ys) (t @ CHR '','' # r)"
proof -
  have "ys \<noteq> []" using assms(2) by (cases rule: members_text.cases) auto
  then obtain y ys' where ys: "ys = y # ys'" by (cases ys) auto
  from assms(1) show ?thesis
  proof (induction rule: json_text_elements_text_members_text.inducts(3)
      [where ?P1.0 = "\<lambda>_ _. True" and ?P2.0 = "\<lambda>_ _. True"])
    case (mt_last w k s w1 w2 v t w')
    then show ?case
      using mt_more [OF mt_last(1-5,7), of y ys' r] assms(2) ys by simp
  next
    case (mt_more w k s w1 w2 v t w' kv kvs u)
    then show ?case
      using json_text_elements_text_members_text.mt_more
        [of w k s w1 w2 v t w' kv "kvs @ ys" "u @ CHR '','' # r"] by simp
  qed auto
qed

lemma member_text: "json_text v t \<Longrightarrow> members_text [(k, v)] (quoted k @ CHR '':'' # t)"
  using mt_last [of "[]" k "json_escape k" "[]" "[]" v t "[]"]
  by (simp add: quoted_def string_text_json_escape)

lemma members_text_render_members:
  "kvs \<noteq> [] \<Longrightarrow> list_all (\<lambda>kv. printable (snd kv)) kvs \<Longrightarrow> members_text kvs (render_members kvs)"
  using members_text_render [of "hd kvs" "tl kvs"] json_text_render
  by (fastforce simp: render_members_def list_all_iff)

lemma json_text_members:
  "members_text kvs t \<Longrightarrow> distinct (map fst kvs) \<Longrightarrow> json_text (JObject kvs) (CHR ''{'' # t @ ''}'')"
  using jt_object by (cases kvs) (auto elim: members_text.cases)

lemma json_text_not_Nil: "json_text v t \<Longrightarrow> t \<noteq> []"
  by (cases rule: json_text.cases) (auto simp: number_text_def digits_text_def)

section \<open>Property\<close>

text \<open>
  C18. \<open>json_escape\<close> prints a string so that a JSON reader gets back exactly that string, byte for
  byte, and the text it prints has no control byte.
\<close>

theorem json_escape_exact:
  "(string_text s' (json_escape s) \<longleftrightarrow> s' = s) \<and> list_all (\<lambda>c. 32 \<le> code c) (json_escape s)"
  using string_text_json_escape [of s] string_text_unique [of s "json_escape s"] json_escape_no_control
  by (auto simp: list_all_iff)

end
