(* ===== verification/Mac_Address.thy ===== *)
theory Mac_Address
  imports Cpp_Prelude
begin

unbundle bit_operations_syntax

text \<open>
  \<open>src/src/domain/mac_address.cpp\<close>: hardware addresses.  \<open>MacAddress::parse\<close> keeps the hexadecimal
  digits of any text and wants exactly twelve of them; \<open>normalized\<close> and \<open>omada\<close> print the two
  spellings the agent uses.  The two hexadecimal tables are shared with \<open>src/crypto\<close>, which has
  copies of them.
\<close>

section \<open>Hexadecimal digits\<close>

definition hex_value :: "char \<Rightarrow> int" where
  "hex_value ch =
     (if 48 \<le> code ch \<and> code ch \<le> 57 then int (code ch) - 48
      else if 97 \<le> code ch \<and> code ch \<le> 102 then int (code ch) - 97 + 10
      else if 65 \<le> code ch \<and> code ch \<le> 70 then int (code ch) - 65 + 10
      else -1)"

definition lower_hex :: "u8 \<Rightarrow> char" where
  "lower_hex nibble = ''0123456789abcdef'' ! unat (nibble AND 0x0F)"

definition upper_hex :: "u8 \<Rightarrow> char" where
  "upper_hex nibble = ''0123456789ABCDEF'' ! unat (nibble AND 0x0F)"

section \<open>Addresses\<close>

datatype mac_address = MacAddress u8 u8 u8 u8 u8 u8

fun mac_bytes :: "mac_address \<Rightarrow> u8 list" where
  "mac_bytes (MacAddress a b c d e f) = [a, b, c, d, e, f]"

definition default_mac :: mac_address where
  "default_mac = MacAddress 0 0 0 0 0 0"

text \<open>The loop of \<open>MacAddress::parse\<close>; a thirteenth digit ends it with \<open>nullopt\<close>.\<close>

fun parse_nibbles :: "string \<Rightarrow> int list \<Rightarrow> int list option" where
  "parse_nibbles [] nibbles = Some nibbles"
| "parse_nibbles (ch # text) nibbles =
     (let value = hex_value ch
      in if value < 0 then parse_nibbles text nibbles
         else if 12 \<le> length nibbles then None
         else parse_nibbles text (nibbles @ [value]))"

definition nibble_byte :: "int list \<Rightarrow> nat \<Rightarrow> u8" where
  "nibble_byte nibbles i = word_of_int (push_bit 4 (nibbles ! (i * 2)) OR nibbles ! (i * 2 + 1))"

definition parse_mac :: "string \<Rightarrow> mac_address option" where
  "parse_mac text =
     (case parse_nibbles text [] of
        None \<Rightarrow> None
      | Some nibbles \<Rightarrow>
          (if length nibbles \<noteq> 12 then None
           else Some (MacAddress (nibble_byte nibbles 0) (nibble_byte nibbles 1) (nibble_byte nibbles 2)
                        (nibble_byte nibbles 3) (nibble_byte nibbles 4) (nibble_byte nibbles 5))))"

definition normalized :: "mac_address \<Rightarrow> string" where
  "normalized mac =
     join_with '':'' (map (\<lambda>b. [lower_hex (drop_bit 4 b), lower_hex b]) (mac_bytes mac))"

definition omada :: "mac_address \<Rightarrow> string" where
  "omada mac =
     join_with ''-'' (map (\<lambda>b. [upper_hex (drop_bit 4 b), upper_hex b]) (mac_bytes mac))"

section \<open>Lemmas\<close>

definition is_hex :: "char \<Rightarrow> bool" where
  "is_hex c \<longleftrightarrow> 0 \<le> hex_value c"

lemma unat_and_15: "unat ((b::u8) AND 0x0F) = unat b mod 16"
proof -
  have "b AND 0x0F = take_bit 4 b"
    by (simp add: take_bit_eq_mask mask_eq_exp_minus_1)
  then have "unat (b AND 0x0F) = take_bit 4 (unat b)"
    by (simp only: unsigned_take_bit_eq)
  then show ?thesis by (simp add: take_bit_eq_mod [where 'a = nat])
qed

lemma unat_high_nibble: "unat (drop_bit 4 (b::u8)) = unat b div 16"
  by (simp add: unat_drop_bit_eq drop_bit_eq_div [where 'a = nat])

lemma unat_byte_lt: "unat (b::u8) < 256"
  using unsigned_less [of b, where ?'a = nat] by simp

lemma high_nibble_lt: "unat (b::u8) div 16 < 16"
  using unat_byte_lt [of b] by (simp add: less_mult_imp_div_less)

lemma hex_value_lower: "hex_value (lower_hex b) = int (unat b mod 16)"
proof -
  have "unat b mod 16 < 16" by simp
  then show ?thesis
    unfolding lower_hex_def unat_and_15
    by (drule_tac nibble_cases, elim insertE) (simp_all add: hex_value_def code_def)
qed

lemma hex_value_upper: "hex_value (upper_hex b) = int (unat b mod 16)"
proof -
  have "unat b mod 16 < 16" by simp
  then show ?thesis
    unfolding upper_hex_def unat_and_15
    by (drule_tac nibble_cases, elim insertE) (simp_all add: hex_value_def code_def)
qed

lemma nibbles_make_byte:
  "word_of_int (push_bit 4 (int (unat (b::u8) div 16)) OR int (unat b mod 16)) = b"
proof -
  have "push_bit 4 (int (unat b div 16)) OR int (unat b mod 16) =
        push_bit 4 (drop_bit 4 (int (unat b))) OR take_bit 4 (int (unat b))"
    by (simp add: drop_bit_eq_div take_bit_eq_mod zdiv_int zmod_int)
  also have "\<dots> = int (unat b)"
    by (intro bit_eqI) (auto simp: bit_or_iff bit_push_bit_iff bit_drop_bit_eq bit_take_bit_iff)
  finally show ?thesis by simp
qed

lemma parse_nibbles_filter:
  "parse_nibbles s nibbles =
     (let ns = map hex_value (filter is_hex s)
      in if ns = [] \<or> length nibbles + length ns \<le> 12 then Some (nibbles @ ns) else None)"
  by (induction s nibbles rule: parse_nibbles.induct) (auto simp: is_hex_def Let_def)

lemma parse_mac_filter:
  "parse_mac text =
     (let ns = map hex_value (filter is_hex text)
      in if length ns = 12
         then Some (MacAddress (nibble_byte ns 0) (nibble_byte ns 1) (nibble_byte ns 2)
                      (nibble_byte ns 3) (nibble_byte ns 4) (nibble_byte ns 5))
         else None)"
  by (auto simp: parse_mac_def parse_nibbles_filter Let_def split: if_splits)

lemma is_hex_lower [simp]: "is_hex (lower_hex b)"
  by (simp add: is_hex_def hex_value_lower)

lemma is_hex_upper [simp]: "is_hex (upper_hex b)"
  by (simp add: is_hex_def hex_value_upper)

lemma separators_not_hex [simp]: "\<not> is_hex CHR '':''" "\<not> is_hex CHR ''-''"
  by (simp_all add: is_hex_def hex_value_def code_def)

lemmas mac_print_simps = normalized_def omada_def hex_value_lower hex_value_upper
  unat_high_nibble mod_less [OF high_nibble_lt]

lemma nibbles_of_printed:
  "map hex_value (filter is_hex (normalized m)) =
     concat (map (\<lambda>b. [int (unat b div 16), int (unat b mod 16)]) (mac_bytes m))"
  "map hex_value (filter is_hex (omada m)) =
     concat (map (\<lambda>b. [int (unat b div 16), int (unat b mod 16)]) (mac_bytes m))"
  by (cases m; simp add: mac_print_simps)+

lemma nibble_byte_make:
  "ns ! (i * 2) = int (unat b div 16) \<Longrightarrow> ns ! (i * 2 + 1) = int (unat b mod 16) \<Longrightarrow>
   nibble_byte ns i = b"
  unfolding nibble_byte_def by (simp only: nibbles_make_byte)

lemma parse_mac_of_nibbles:
  assumes "map hex_value (filter is_hex s) =
     concat (map (\<lambda>b. [int (unat b div 16), int (unat b mod 16)]) (mac_bytes m))"
  shows "parse_mac s = Some m"
proof -
  obtain b0 b1 b2 b3 b4 b5 where m: "m = MacAddress b0 b1 b2 b3 b4 b5" by (cases m)
  define ns where "ns = map hex_value (filter is_hex s)"
  have ns: "ns = [int (unat b0 div 16), int (unat b0 mod 16), int (unat b1 div 16), int (unat b1 mod 16),
      int (unat b2 div 16), int (unat b2 mod 16), int (unat b3 div 16), int (unat b3 mod 16),
      int (unat b4 div 16), int (unat b4 mod 16), int (unat b5 div 16), int (unat b5 mod 16)]"
    using assms by (simp add: ns_def m)
  have "nibble_byte ns 0 = b0" "nibble_byte ns 1 = b1" "nibble_byte ns 2 = b2"
    "nibble_byte ns 3 = b3" "nibble_byte ns 4 = b4" "nibble_byte ns 5 = b5"
    by (rule nibble_byte_make; simp only: ns; simp)+
  moreover have "length ns = 12" by (simp only: ns) simp
  ultimately show ?thesis
    by (simp only: parse_mac_filter Let_def ns_def [symmetric] m) simp
qed

lemma length_normalized [simp]: "length (normalized m) = 17"
  by (cases m) (simp add: normalized_def)

lemma length_omada [simp]: "length (omada m) = 17"
  by (cases m) (simp add: omada_def)

lemma hex_value_lt_16: "hex_value c < 16"
  by (auto simp: hex_value_def)

lemma hex_value_to_lower [simp]: "hex_value (to_lower c) = hex_value c"
proof -
  have "hex_value (char_of (code c + 32)) = hex_value c" if "65 \<le> code c" "code c \<le> 90"
    using that by (auto simp: hex_value_def)
  then show ?thesis by (simp add: to_lower_def)
qed

lemma lower_hex_is_lower [simp]: "to_lower (lower_hex b) = lower_hex b"
proof -
  have "unat b mod 16 < 16" by simp
  then show ?thesis
    unfolding lower_hex_def unat_and_15
    by (drule_tac nibble_cases, elim insertE) (simp_all add: to_lower_def code_def)
qed

lemma to_lower_hex:
  assumes "is_hex c"
  shows "to_lower c = ''0123456789abcdef'' ! nat (hex_value c)"
proof -
  define k where "k = code c"
  from assms have "48 \<le> k \<and> k \<le> 57 \<or> 97 \<le> k \<and> k \<le> 102 \<or> 65 \<le> k \<and> k \<le> 70"
    by (auto simp: k_def is_hex_def hex_value_def split: if_splits)
  then have "k \<in> {48, 49, 50, 51, 52, 53, 54, 55, 56, 57, 97, 98, 99, 100, 101, 102, 65, 66, 67, 68, 69, 70}"
    by (simp, presburger)
  then obtain n where "c = char_of n"
    "n \<in> {48, 49, 50, 51, 52, 53, 54, 55, 56, 57, 97, 98, 99, 100, 101, 102, 65, 66, 67, 68, 69, 70::nat}"
    by (metis char_of_code k_def)
  then show ?thesis
    by (elim insertE emptyE) (simp_all add: to_lower_def hex_value_def char_of_eq_iff)
qed

lemma nibbles_of_byte:
  assumes "0 \<le> a" "a < 16" "0 \<le> b" "b < 16"
  defines "x \<equiv> word_of_int (push_bit 4 a OR b) :: u8"
  shows "int (unat x div 16) = a \<and> int (unat x mod 16) = b"
proof -
  have b: "take_bit 4 b = b" "drop_bit 4 b = 0"
    using assms by (simp_all add: take_bit_int_eq_self drop_bit_eq_div)
  have low: "take_bit 4 (push_bit 4 a OR b) = b"
    by (simp add: take_bit_or b) (simp add: take_bit_push_bit)
  have high: "drop_bit 4 (push_bit 4 a OR b) = a"
    by (simp only: drop_bit_or b) (simp add: push_bit_eq_mult drop_bit_eq_div)
  have "push_bit 4 a OR b = 16 * a + b"
    using low high div_mult_mod_eq [of "push_bit 4 a OR b" 16]
    by (simp add: take_bit_eq_mod drop_bit_eq_div del: push_bit_of_0)
  then have "uint x = 16 * a + b"
    using assms(1-4) unfolding x_def uint_word_of_int by simp
  then have "int (unat x) = 16 * a + b" by simp
  then show ?thesis
    using assms by (simp add: zdiv_int zmod_int)
qed

lemma to_lower_lower_hex: "is_hex c \<Longrightarrow> hex_value c = int (unat b mod 16) \<Longrightarrow> to_lower c = lower_hex b"
  by (simp add: to_lower_hex lower_hex_def unat_and_15)

lemma hex_digits_of_normalized:
  "filter (\<lambda>c. c \<noteq> CHR '':'') (normalized m) =
     concat (map (\<lambda>b. [lower_hex (drop_bit 4 b), lower_hex b]) (mac_bytes m))"
proof -
  have "lower_hex b \<noteq> CHR '':''" for b
    using is_hex_lower [of b] by (metis separators_not_hex(1))
  then show ?thesis by (cases m) (simp add: normalized_def)
qed

lemma lowercase_filter_hex:
  assumes "map hex_value (filter is_hex s) =
     concat (map (\<lambda>b. [int (unat b div 16), int (unat b mod 16)]) (mac_bytes m))"
  shows "lowercase (filter is_hex s) = filter (\<lambda>c. c \<noteq> CHR '':'') (normalized m)"
proof -
  have "lowercase (filter is_hex s) = map (\<lambda>v. ''0123456789abcdef'' ! nat v) (map hex_value (filter is_hex s))"
    by (simp add: lowercase_def to_lower_hex)
  also have "\<dots> = filter (\<lambda>c. c \<noteq> CHR '':'') (normalized m)"
    unfolding assms hex_digits_of_normalized
    by (cases m) (simp add: lower_hex_def unat_and_15 unat_high_nibble high_nibble_lt)
  finally show ?thesis .
qed

lemma parse_mac_SomeD:
  assumes "parse_mac s = Some m"
  shows "map hex_value (filter is_hex s) =
     concat (map (\<lambda>b. [int (unat b div 16), int (unat b mod 16)]) (mac_bytes m))"
proof -
  define ns where "ns = map hex_value (filter is_hex s)"
  have len: "length ns = 12"
    using assms by (simp add: parse_mac_filter ns_def Let_def split: if_splits)
  have range: "0 \<le> ns ! i \<and> ns ! i < 16" if "i < 12" for i
    using that len nth_mem [of i ns] hex_value_lt_16 by (auto simp: ns_def is_hex_def)
  have m: "mac_bytes m = map (nibble_byte ns) [0, 1, 2, 3, 4, 5]"
    using assms len by (auto simp: parse_mac_filter ns_def Let_def split: if_splits)
  have byte: "[int (unat (nibble_byte ns i) div 16), int (unat (nibble_byte ns i) mod 16)] =
      [ns ! (2 * i), ns ! (2 * i + 1)]" if "i < 6" for i
    unfolding nibble_byte_def
    using nibbles_of_byte [of "ns ! (i * 2)" "ns ! (i * 2 + 1)"] range [of "i * 2"] range [of "i * 2 + 1"] that
    by (simp add: mult.commute)
  have "map (\<lambda>i. ns ! i) [0..<12] = ns" using len map_nth by metis
  then have ns: "ns = [ns ! 0, ns ! 1, ns ! 2, ns ! 3, ns ! 4, ns ! 5, ns ! 6, ns ! 7, ns ! 8, ns ! 9, ns ! 10, ns ! 11]"
    by (simp add: upt_rec eval_nat_numeral)
  have "concat (map (\<lambda>b. [int (unat b div 16), int (unat b mod 16)]) (mac_bytes m)) =
      concat (map (\<lambda>i. [ns ! (2 * i), ns ! (2 * i + 1)]) [0, 1, 2, 3, 4, 5])"
    unfolding m map_map o_def
    by (rule arg_cong [where f = concat], rule map_cong [OF refl], rule byte) auto
  then show ?thesis using ns by (simp add: ns_def [symmetric])
qed

section \<open>The order of addresses\<close>

text \<open>
  The code keys its maps by \<open>normalized\<close> and sorts by it, so addresses are ordered as these texts.
\<close>

lemma normalized_inject [simp]: "normalized a = normalized b \<longleftrightarrow> a = b"
  using parse_mac_of_nibbles [OF nibbles_of_printed(1)] by (metis option.inject)

instantiation mac_address :: linorder
begin

definition less_eq_mac_address :: "mac_address \<Rightarrow> mac_address \<Rightarrow> bool" where
  "a \<le> b \<longleftrightarrow> normalized a \<le> normalized b"

definition less_mac_address :: "mac_address \<Rightarrow> mac_address \<Rightarrow> bool" where
  "a < b \<longleftrightarrow> normalized a < normalized b"

instance
  by standard (auto simp: less_eq_mac_address_def less_mac_address_def order.strict_iff_order)

end

section \<open>Properties\<close>

text \<open>Both spellings of an address are read back by \<open>MacAddress::parse\<close> as the same address.\<close>

theorem mac_print_parse:
  "parse_mac (normalized m) = Some m \<and> parse_mac (omada m) = Some m"
  by (simp add: parse_mac_of_nibbles nibbles_of_printed)

text \<open>
  C19. \<open>MacAddress::parse\<close> accepts a text as the address \<open>m\<close> exactly when the hexadecimal digits of
  the text, in lower case and whatever stands between them, are the twelve digits of
  \<open>normalized m\<close>; it refuses every text with another number of digits.
\<close>

theorem mac_parse_exact:
  "(parse_mac s = Some m \<longleftrightarrow>
      lowercase (filter is_hex s) = filter (\<lambda>c. c \<noteq> CHR '':'') (normalized m)) \<and>
   (parse_mac s = None \<longleftrightarrow> length (filter is_hex s) \<noteq> 12)"
proof
  show "parse_mac s = Some m \<longleftrightarrow>
      lowercase (filter is_hex s) = filter (\<lambda>c. c \<noteq> CHR '':'') (normalized m)"
  proof
    assume "parse_mac s = Some m"
    then show "lowercase (filter is_hex s) = filter (\<lambda>c. c \<noteq> CHR '':'') (normalized m)"
      by (intro lowercase_filter_hex parse_mac_SomeD)
  next
    assume eq: "lowercase (filter is_hex s) = filter (\<lambda>c. c \<noteq> CHR '':'') (normalized m)"
    have "map hex_value (filter is_hex s) = map hex_value (lowercase (filter is_hex s))"
      by (simp add: lowercase_def)
    also have "\<dots> = concat (map (\<lambda>b. [int (unat b div 16), int (unat b mod 16)]) (mac_bytes m))"
      unfolding eq hex_digits_of_normalized
      by (cases m) (simp add: mac_print_simps)
    finally show "parse_mac s = Some m" by (rule parse_mac_of_nibbles)
  qed
  show "parse_mac s = None \<longleftrightarrow> length (filter is_hex s) \<noteq> 12"
    by (simp add: parse_mac_filter Let_def)
qed

end
