(* ===== verification/Ecsp_Message.thy ===== *)
theory Ecsp_Message
  imports Json_Text Mac_Address
begin

text \<open>
  \<open>src/include/openomada/protocol/message_type.hpp\<close> and \<open>src/src/protocol/ecsp_message.cpp\<close>: the
  message numbers of ECSP, the header and \<open>build_message_json\<close>, which prints every message the
  agent sends.  \<open>header_value\<close> and \<open>message_value\<close> are the specification: the JSON value the text
  is meant to be.
\<close>

section \<open>Message types\<close>

datatype message_type =
    Discovery | PreAdoptRequest | PreConnectInfo | AdoptRequest | AdoptResponse | EventPortalQuery
  | EventPortalAuth | EventPortalAuthResponse | NotifyRequest | NotifyReply | InformRequest
  | InformResponse | SetRequest | SetResponse | ForgetRequest | ForgetResponse | InitSync
  | GetRequest | GetResponse | ForgetRequestNoReset | ForgetResponseNoReset
  | PreConnectInfoResponse | DeviceVerifyInfo | DeviceVerifyResponse | SystemVerifyResult
  | DeviceNegotiation | SystemNegotiation | InitSyncResult | NotifyRequestV2 | NotifyReplyV2
  | VerifyResultAck | InitSyncResultAck | Report

fun to_underlying :: "message_type \<Rightarrow> u32" where
  "to_underlying Discovery = 1"
| "to_underlying PreAdoptRequest = 2"
| "to_underlying PreConnectInfo = 3"
| "to_underlying AdoptRequest = 16"
| "to_underlying AdoptResponse = 32"
| "to_underlying EventPortalQuery = 64"
| "to_underlying EventPortalAuth = 128"
| "to_underlying EventPortalAuthResponse = 352"
| "to_underlying NotifyRequest = 80"
| "to_underlying NotifyReply = 144"
| "to_underlying InformRequest = 256"
| "to_underlying InformResponse = 512"
| "to_underlying SetRequest = 4096"
| "to_underlying SetResponse = 8192"
| "to_underlying ForgetRequest = 16384"
| "to_underlying ForgetResponse = 20480"
| "to_underlying InitSync = 4352"
| "to_underlying GetRequest = 24576"
| "to_underlying GetResponse = 28672"
| "to_underlying ForgetRequestNoReset = 131072"
| "to_underlying ForgetResponseNoReset = 196608"
| "to_underlying PreConnectInfoResponse = 0x100000"
| "to_underlying DeviceVerifyInfo = 0x100001"
| "to_underlying DeviceVerifyResponse = 0x100002"
| "to_underlying SystemVerifyResult = 0x100003"
| "to_underlying DeviceNegotiation = 0x100004"
| "to_underlying SystemNegotiation = 0x100005"
| "to_underlying InitSyncResult = 0x100006"
| "to_underlying NotifyRequestV2 = 0x100007"
| "to_underlying NotifyReplyV2 = 0x100008"
| "to_underlying VerifyResultAck = 0x100009"
| "to_underlying InitSyncResultAck = 0x10000A"
| "to_underlying Report = 0x150000"

section \<open>Headers and messages\<close>

record ecsp_header =
  hd_seq :: "u32 option"
  hd_version :: string
  hd_ver_cap :: u32
  hd_device :: string
  hd_mac :: mac_address
  hd_type :: message_type
  hd_error :: i32
  hd_dest :: string
  hd_timestamp :: "u64 option"

definition default_header :: ecsp_header where
  "default_header =
     \<lparr>hd_seq = Some 1, hd_version = ''2.3.0'', hd_ver_cap = 2, hd_device = ''ap'',
      hd_mac = default_mac, hd_type = Discovery, hd_error = 0, hd_dest = [], hd_timestamp = None\<rparr>"

text \<open>
  The string under construction together with the flag \<open>need_comma\<close> of the lambda \<open>comma\<close>.
\<close>

type_synonym writer = "string \<times> bool"

definition comma :: "writer \<Rightarrow> writer" where
  "comma w = (if snd w then fst w @ '','' else fst w, True)"

definition emit :: "string \<Rightarrow> writer \<Rightarrow> writer" where
  "emit s w = (fst w @ s, snd w)"

definition build_message_json :: "ecsp_header \<Rightarrow> string \<Rightarrow> bool \<Rightarrow> string" where
  "build_message_json header body_json include_body =
    (let w = ([], False);
         w = emit ''{\"header\":{'' w;
         w = (case hd_seq header of
                Some seq \<Rightarrow> emit (to_string_u seq) (emit ''\"seq\":'' (comma w))
              | None \<Rightarrow> w);
         w = comma w;
         w = emit ''\"version\":\"'' w;
         w = emit (json_escape (hd_version header)) w;
         w = emit ''\"'' w;
         w = comma w;
         w = emit ''\"verCap\":'' w;
         w = emit (to_string_u (hd_ver_cap header)) w;
         w = comma w;
         w = emit ''\"device\":\"'' w;
         w = emit (json_escape (hd_device header)) w;
         w = emit ''\"'' w;
         w = comma w;
         w = emit ''\"mac\":\"'' w;
         w = emit (omada (hd_mac header)) w;
         w = emit ''\"'' w;
         w = comma w;
         w = emit ''\"type\":'' w;
         w = emit (to_string_u (to_underlying (hd_type header))) w;
         w = comma w;
         w = emit ''\"error\":'' w;
         w = emit (to_string_i (hd_error header)) w;
         w = (if hd_dest header \<noteq> []
              then emit ''\"'' (emit (json_escape (hd_dest header)) (emit ''\"dest\":\"'' (comma w)))
              else w);
         w = (case hd_timestamp header of
                Some timestamp \<Rightarrow> emit (to_string_u timestamp) (emit ''\"timestamp\":'' (comma w))
              | None \<Rightarrow> w);
         w = emit ''}'' w;
         w = (if include_body
              then emit (if body_json = [] then ''{}'' else body_json) (emit '',\"body\":'' w)
              else w);
         w = emit ''}'' w
     in fst w)"

section \<open>The value of a message\<close>

definition unsigned_value :: "'w::len word \<Rightarrow> json" where
  "unsigned_value w = JInt (int (unat w))"

definition header_members :: "ecsp_header \<Rightarrow> (string \<times> json) list" where
  "header_members h =
     (case hd_seq h of None \<Rightarrow> [] | Some seq \<Rightarrow> [(''seq'', unsigned_value seq)]) @
     [(''version'', JString (hd_version h)), (''verCap'', unsigned_value (hd_ver_cap h)),
      (''device'', JString (hd_device h)), (''mac'', JString (omada (hd_mac h))),
      (''type'', unsigned_value (to_underlying (hd_type h))), (''error'', JInt (sint (hd_error h)))] @
     (if hd_dest h = [] then [] else [(''dest'', JString (hd_dest h))]) @
     (case hd_timestamp h of None \<Rightarrow> [] | Some t \<Rightarrow> [(''timestamp'', unsigned_value t)])"

definition message_value :: "ecsp_header \<Rightarrow> json option \<Rightarrow> json" where
  "message_value h body =
     JObject ((''header'', JObject (header_members h)) #
       (case body of None \<Rightarrow> [] | Some v \<Rightarrow> [(''body'', v)]))"

section \<open>Lemmas\<close>

lemma to_underlying_inject [simp]: "to_underlying a = to_underlying b \<longleftrightarrow> a = b"
  by (cases a; cases b; simp)

lemma render_unsigned [simp]: "render (unsigned_value w) = to_string_u w"
  by (simp add: unsigned_value_def to_string_u_def dec_int_def)

lemma printable_unsigned [simp]: "printable (unsigned_value w)"
  by (simp add: unsigned_value_def)

lemma plain_header_keys:
  "quoted ''seq'' = ''\"seq\"''" "quoted ''version'' = ''\"version\"''"
  "quoted ''verCap'' = ''\"verCap\"''" "quoted ''device'' = ''\"device\"''"
  "quoted ''mac'' = ''\"mac\"''" "quoted ''type'' = ''\"type\"''"
  "quoted ''error'' = ''\"error\"''" "quoted ''dest'' = ''\"dest\"''"
  "quoted ''timestamp'' = ''\"timestamp\"''" "quoted ''header'' = ''\"header\"''"
  "quoted ''body'' = ''\"body\"''"
  by (simp_all add: quoted_plain plain_def code_def)

lemma is_hex_plain: "is_hex c \<Longrightarrow> 32 \<le> code c \<and> c \<noteq> CHR 0x22 \<and> c \<noteq> CHR 0x5C"
  by (auto simp: is_hex_def hex_value_def code_def split: if_splits)

lemma plain_omada: "plain (omada m)"
proof -
  have upper: "32 \<le> code (upper_hex b)" "upper_hex b \<noteq> CHR 0x22" "upper_hex b \<noteq> CHR 0x5C" for b
    using is_hex_plain [OF is_hex_upper] by auto
  have dash: "32 \<le> code CHR ''-''" by (simp add: code_def)
  show ?thesis
    by (cases m) (simp add: omada_def plain_def upper dash)
qed

lemma render_omada [simp]: "quoted (omada m) = CHR 0x22 # omada m @ [CHR 0x22]"
  by (simp add: quoted_plain plain_omada)

lemma comma_pair [simp]: "comma (s, c) = (if c then s @ '','' else s, True)"
  by (simp add: comma_def)

lemma emit_pair [simp]: "emit t (s, c) = (s @ t, c)"
  by (simp add: emit_def)

lemma fst_emit [simp]: "fst (emit t w) = fst w @ t"
  by (simp add: emit_def)

lemma build_message_json_header:
  "build_message_json h body include_body =
     ''{\"header\":'' @ render (JObject (header_members h)) @
     (if include_body then '',\"body\":'' @ (if body = [] then ''{}'' else body) else []) @ ''}''"
  unfolding build_message_json_def header_members_def render_JObject
  by (cases "hd_seq h"; cases "hd_timestamp h"; cases "hd_dest h = []"; cases include_body)
    (simp_all add: Let_def render_members_Cons plain_header_keys to_string_i_def
      quoted_def [of "hd_version h"] quoted_def [of "hd_device h"] quoted_def [of "hd_dest h"])

lemma render_not_Nil: "printable v \<Longrightarrow> render v \<noteq> []"
  by (cases v) (auto simp: quoted_def)

lemma build_message_json_render:
  "printable v \<Longrightarrow> build_message_json h (render v) True = render (message_value h (Some v))"
  "build_message_json h body False = render (message_value h None)"
  by (simp_all add: build_message_json_header message_value_def plain_header_keys render_not_Nil)

lemma printable_message:
  "(case body of None \<Rightarrow> True | Some v \<Rightarrow> printable v) \<Longrightarrow> printable (message_value h body)"
  by (auto simp: message_value_def header_members_def split: option.splits)

text \<open>A message around any JSON text.\<close>

lemma json_text_message:
  assumes "json_text v body"
  shows "json_text (message_value h (Some v)) (build_message_json h body True)"
proof -
  have "printable (JObject (header_members h))"
    using printable_message [of None h] by (simp add: message_value_def)
  then have "members_text [(''header'', JObject (header_members h))]
      (quoted ''header'' @ CHR '':'' # render (JObject (header_members h)))"
    by (intro member_text json_text_render)
  from members_text_append [OF this member_text [OF assms]]
  have "members_text [(''header'', JObject (header_members h)), (''body'', v)]
      (quoted ''header'' @ CHR '':'' # render (JObject (header_members h)) @ CHR '','' #
        quoted ''body'' @ CHR '':'' # body)"
    by simp
  from json_text_members [OF this] show ?thesis
    using json_text_not_Nil [OF assms]
    by (simp add: build_message_json_header message_value_def plain_header_keys del: render.simps(7))
qed

end
