(* ===== verification/Device_Profile.thy ===== *)
theory Device_Profile
  imports Ecsp_Message
begin

text \<open>
  \<open>src/include/openomada/application/settings.hpp\<close> and \<open>src/src/domain/device_profile.cpp\<close>: the
  settings of the agent and the access point profile, which prints the device description parts of
  the messages.  The \<open>*_value\<close> definitions are the values these texts are meant to be.
\<close>

section \<open>Settings\<close>

record agent_settings =
  controller_host :: string
  discovery_port :: u16
  manage_port :: u16
  local_discovery_port :: u16
  tcp_timeout_seconds :: u32
  inform_interval_ms :: u32
  reconnect_delay_ms :: u32
  managed_reconnect_attempts :: u32
  state_file :: string
  tls_verify :: bool
  tls_ca_file :: string
  mac :: mac_address
  device_name :: string
  model :: string
  model_version :: string
  hardware_version :: string
  firmware_version :: string
  customize_region :: u32
  device_ip :: string
  ecsp_version :: string
  ecsp_ver_cap :: u32
  controller_id :: string
  site_id :: string
  destination_controller_id :: string
  device_username :: string
  device_password :: string
  device_cipher_type :: u32

definition default_settings :: agent_settings where
  "default_settings =
     \<lparr>controller_host = [], discovery_port = 29810, manage_port = 29814, local_discovery_port = 0,
      tcp_timeout_seconds = 15, inform_interval_ms = 3000, reconnect_delay_ms = 3000,
      managed_reconnect_attempts = 3, state_file = [], tls_verify = False, tls_ca_file = [],
      mac = default_mac, device_name = ''OpenOmada-AP'', model = ''EAP110'', model_version = ''4.0'',
      hardware_version = ''4.0'', firmware_version = ''5.0.4'', customize_region = 841,
      device_ip = ''0.0.0.0'', ecsp_version = ''2.3.0'', ecsp_ver_cap = 2, controller_id = [],
      site_id = [], destination_controller_id = [], device_username = [], device_password = [],
      device_cipher_type = 5\<rparr>"

section \<open>The profile\<close>

record component_version =
  component_name :: string
  component_version :: string

record access_point_profile =
  settings :: agent_settings
  components_v2 :: "component_version list"

definition make_profile :: "agent_settings \<Rightarrow> access_point_profile" where
  "make_profile s =
     \<lparr>settings = s,
      components_v2 =
        [\<lparr>component_name = ''system'', component_version = ''2.0''\<rparr>,
         \<lparr>component_name = ''configVersion'', component_version = ''1.0''\<rparr>,
         \<lparr>component_name = ''time'', component_version = ''1.0''\<rparr>,
         \<lparr>component_name = ''informInterval'', component_version = ''1.2''\<rparr>,
         \<lparr>component_name = ''devInform'', component_version = ''2.0''\<rparr>]\<rparr>"

definition device_info_json :: "access_point_profile \<Rightarrow> bool \<Rightarrow> bool \<Rightarrow> bool \<Rightarrow> string" where
  "device_info_json profile is_factory include_ip include_factory_flag =
    (let s = settings profile;
         w = (''{'', False);
         w = (if include_ip then emit (quoted (device_ip s)) (emit ''\"ip\":'' (comma w)) else w);
         w = (if include_factory_flag
              then emit (if is_factory then ''true'' else ''false'') (emit ''\"isFactory\":'' (comma w))
              else w);
         w = comma w;
         w = emit ''\"name\":'' w;
         w = emit (quoted (device_name s)) w;
         w = comma w;
         w = emit ''\"model\":'' w;
         w = emit (quoted (model s)) w;
         w = comma w;
         w = emit ''\"modelVersion\":'' w;
         w = emit (quoted (model_version s)) w;
         w = comma w;
         w = emit ''\"firmwareVersion\":'' w;
         w = emit (quoted (firmware_version s)) w;
         w = comma w;
         w = emit ''\"hardwareVersion\":'' w;
         w = emit (quoted (hardware_version s)) w;
         w = comma w;
         w = emit ''\"upTime\":0,\"cpuUti\":0,\"memUti\":0,\"wirelessLinked\":false,\"p2p\":false,\"supportBridge\":0'' w;
         w = comma w;
         w = emit ''\"mainMac\":'' w;
         w = emit (quoted (omada (mac s))) w;
         w = emit ''}'' w
     in fst w)"

definition adoption_device_info_json :: "access_point_profile \<Rightarrow> string" where
  "adoption_device_info_json profile = device_info_json profile False False False"

definition inform_device_info_json :: "access_point_profile \<Rightarrow> u64 \<Rightarrow> string" where
  "inform_device_info_json profile uptime_seconds =
    (let s = settings profile
     in ''{''
        @ ''\"ip\":'' @ quoted (device_ip s)
        @ '',\"isFactory\":false''
        @ '',\"name\":'' @ quoted (device_name s)
        @ '',\"model\":'' @ quoted (model s)
        @ '',\"modelVersion\":'' @ quoted (model_version s)
        @ '',\"firmwareVersion\":'' @ quoted (firmware_version s)
        @ '',\"hardwareVersion\":'' @ quoted (hardware_version s)
        @ '',\"upTime\":'' @ quoted (to_string_u uptime_seconds)
        @ '',\"cpuUti\":0,\"memUti\":0,\"wirelessLinked\":false,\"p2p\":false,\"supportBridge\":0''
        @ '',\"mainMac\":'' @ quoted (omada (mac s))
        @ ''}'')"

definition device_misc_json :: "access_point_profile \<Rightarrow> string" where
  "device_misc_json profile =
     ''{\"modelType\":\"NORMAL\",\"support_11ac\":false,\"support_lag\":false,''
     @ ''\"supportMesh\":0,\"customizeRegion\":''
     @ to_string_u (customize_region (settings profile))
     @ '',\"support_channelLimit\":false,\"channelLimit_mode\":0,\"supportDfs\":0,''
     @ ''\"lanPortsNum\":1,\"lanVlanPorts\":[],\"lanPoePorts\":[],\"supportRoaming\":0}''"

definition components_v2_json :: "access_point_profile \<Rightarrow> string" where
  "components_v2_json profile =
     fst (emit ''}''
       (fold (\<lambda>component w.
          emit (quoted (component_version component))
            (emit '':'' (emit (quoted (component_name component)) (comma w))))
        (components_v2 profile) (''{'', False)))"

definition channel_info_json :: "access_point_profile \<Rightarrow> string" where
  "channel_info_json profile = ''[]''"

definition radio_cap_json :: "access_point_profile \<Rightarrow> string" where
  "radio_cap_json profile = ''[]''"

definition controller_setting_json :: "string \<Rightarrow> string \<Rightarrow> string" where
  "controller_setting_json controller destination =
     ''{\"controllerId\":'' @ quoted controller
     @ '',\"destOmadacId\":'' @ quoted (if destination = [] then controller else destination)
     @ ''}''"

section \<open>The values\<close>

definition load_members :: "(string \<times> json) list" where
  "load_members =
     [(''cpuUti'', JInt 0), (''memUti'', JInt 0), (''wirelessLinked'', JBool False),
      (''p2p'', JBool False), (''supportBridge'', JInt 0)]"

definition identity_members :: "agent_settings \<Rightarrow> (string \<times> json) list" where
  "identity_members s =
     [(''name'', JString (device_name s)), (''model'', JString (model s)),
      (''modelVersion'', JString (model_version s)), (''firmwareVersion'', JString (firmware_version s)),
      (''hardwareVersion'', JString (hardware_version s))]"

definition device_info_value :: "agent_settings \<Rightarrow> bool \<Rightarrow> bool \<Rightarrow> bool \<Rightarrow> json" where
  "device_info_value s is_factory include_ip include_factory_flag =
     JObject
       ((if include_ip then [(''ip'', JString (device_ip s))] else [])
        @ (if include_factory_flag then [(''isFactory'', JBool is_factory)] else [])
        @ identity_members s @ [(''upTime'', JInt 0)] @ load_members
        @ [(''mainMac'', JString (omada (mac s)))])"

definition inform_device_info_value :: "agent_settings \<Rightarrow> u64 \<Rightarrow> json" where
  "inform_device_info_value s uptime =
     JObject
       ([(''ip'', JString (device_ip s)), (''isFactory'', JBool False)]
        @ identity_members s @ [(''upTime'', JString (to_string_u uptime))] @ load_members
        @ [(''mainMac'', JString (omada (mac s)))])"

definition device_misc_value :: "agent_settings \<Rightarrow> json" where
  "device_misc_value s =
     JObject
       [(''modelType'', JString ''NORMAL''), (''support_11ac'', JBool False), (''support_lag'', JBool False),
        (''supportMesh'', JInt 0), (''customizeRegion'', unsigned_value (customize_region s)),
        (''support_channelLimit'', JBool False), (''channelLimit_mode'', JInt 0), (''supportDfs'', JInt 0),
        (''lanPortsNum'', JInt 1), (''lanVlanPorts'', JArray []), (''lanPoePorts'', JArray []),
        (''supportRoaming'', JInt 0)]"

definition components_value :: "component_version list \<Rightarrow> json" where
  "components_value cs = JObject (map (\<lambda>c. (component_name c, JString (component_version c))) cs)"

definition controller_setting_value :: "string \<Rightarrow> string \<Rightarrow> json" where
  "controller_setting_value controller destination =
     JObject [(''controllerId'', JString controller),
       (''destOmadacId'', JString (if destination = [] then controller else destination))]"

section \<open>Lemmas\<close>

lemma dec_int_0_1 [simp]: "dec_int 0 = ''0''" "dec_int 1 = ''1''"
  by (simp_all add: dec_int_def dec.simps digit_char_def char_of_eq_iff)

lemma plain_profile_keys:
  "quoted ''ip'' = ''\"ip\"''" "quoted ''isFactory'' = ''\"isFactory\"''"
  "quoted ''name'' = ''\"name\"''" "quoted ''model'' = ''\"model\"''"
  "quoted ''modelVersion'' = ''\"modelVersion\"''" "quoted ''firmwareVersion'' = ''\"firmwareVersion\"''"
  "quoted ''hardwareVersion'' = ''\"hardwareVersion\"''" "quoted ''upTime'' = ''\"upTime\"''"
  "quoted ''cpuUti'' = ''\"cpuUti\"''" "quoted ''memUti'' = ''\"memUti\"''"
  "quoted ''wirelessLinked'' = ''\"wirelessLinked\"''" "quoted ''p2p'' = ''\"p2p\"''"
  "quoted ''supportBridge'' = ''\"supportBridge\"''" "quoted ''mainMac'' = ''\"mainMac\"''"
  by (simp_all add: quoted_plain plain_def code_def)

lemma plain_misc_keys:
  "quoted ''modelType'' = ''\"modelType\"''" "quoted ''NORMAL'' = ''\"NORMAL\"''"
  "quoted ''support_11ac'' = ''\"support_11ac\"''" "quoted ''support_lag'' = ''\"support_lag\"''"
  "quoted ''supportMesh'' = ''\"supportMesh\"''" "quoted ''customizeRegion'' = ''\"customizeRegion\"''"
  "quoted ''support_channelLimit'' = ''\"support_channelLimit\"''"
  "quoted ''channelLimit_mode'' = ''\"channelLimit_mode\"''" "quoted ''supportDfs'' = ''\"supportDfs\"''"
  "quoted ''lanPortsNum'' = ''\"lanPortsNum\"''" "quoted ''lanVlanPorts'' = ''\"lanVlanPorts\"''"
  "quoted ''lanPoePorts'' = ''\"lanPoePorts\"''" "quoted ''supportRoaming'' = ''\"supportRoaming\"''"
  "quoted ''controllerId'' = ''\"controllerId\"''" "quoted ''destOmadacId'' = ''\"destOmadacId\"''"
  by (simp_all add: quoted_plain plain_def code_def)

lemma device_info_json_render:
  "device_info_json profile f ip flag = render (device_info_value (settings profile) f ip flag)"
  unfolding device_info_json_def device_info_value_def render_JObject identity_members_def load_members_def
  by (cases ip; cases flag) (simp_all add: Let_def render_members_Cons plain_profile_keys)

lemma inform_device_info_json_render:
  "inform_device_info_json profile uptime = render (inform_device_info_value (settings profile) uptime)"
  unfolding inform_device_info_json_def inform_device_info_value_def render_JObject
    identity_members_def load_members_def
  by (simp add: Let_def render_members_Cons plain_profile_keys)

lemma device_misc_json_render:
  "device_misc_json profile = render (device_misc_value (settings profile))"
  unfolding device_misc_json_def device_misc_value_def render_JObject
  by (simp add: render_members_Cons plain_misc_keys)

lemma components_fold:
  "fold (\<lambda>c w. emit (quoted (component_version c)) (emit '':'' (emit (quoted (component_name c)) (comma w))))
     cs (s, b) =
   (s @ (if b \<and> cs \<noteq> [] then '','' else []) @
     render_members (map (\<lambda>c. (component_name c, JString (component_version c))) cs), b \<or> cs \<noteq> [])"
  by (induction cs arbitrary: s b) (auto simp: render_members_Cons)

lemma components_v2_json_render:
  "components_v2_json profile = render (components_value (components_v2 profile))"
  unfolding components_v2_json_def components_value_def render_JObject by (simp add: components_fold)

lemma controller_setting_json_render:
  "controller_setting_json c d = render (controller_setting_value c d)"
  unfolding controller_setting_json_def controller_setting_value_def render_JObject
  by (simp add: render_members_Cons plain_misc_keys)

lemma printable_profile [simp]:
  "printable (device_info_value s f ip flag)" "printable (inform_device_info_value s uptime)"
  "printable (device_misc_value s)" "printable (controller_setting_value c d)"
  "printable (components_value (components_v2 (make_profile s)))"
  by (auto simp: device_info_value_def inform_device_info_value_def device_misc_value_def
      controller_setting_value_def components_value_def make_profile_def identity_members_def
      load_members_def)

lemmas profile_render = device_info_json_render inform_device_info_json_render
  device_misc_json_render components_v2_json_render controller_setting_json_render

end
