(* ===== verification/Ecsp_Builders.thy ===== *)
theory Ecsp_Builders
  imports Device_Profile
begin

text \<open>
  \<open>src/src/protocol/ecsp_builders.cpp\<close>: the messages of discovery and adoption.  Each is printed by
  concatenating the texts of its parts; the \<open>*_message\<close> definitions are the values they stand for
  and the lemmas show that every builder prints exactly that value.
\<close>

definition destination_id :: "agent_settings \<Rightarrow> string" where
  "destination_id s =
     (if site_id s \<noteq> [] then site_id s
      else if destination_controller_id s \<noteq> [] then destination_controller_id s
      else controller_id s)"

definition base_header :: "agent_settings \<Rightarrow> message_type \<Rightarrow> u32 \<Rightarrow> string \<Rightarrow> u64 \<Rightarrow> ecsp_header" where
  "base_header s type seq dest timestamp_ms =
    (let header =
           \<lparr>hd_seq = Some seq, hd_version = ecsp_version s, hd_ver_cap = ecsp_ver_cap s, hd_device = ''ap'',
            hd_mac = mac s, hd_type = type, hd_error = 0, hd_dest = dest, hd_timestamp = None\<rparr>
     in if timestamp_ms \<noteq> 0 then header\<lparr>hd_timestamp := Some timestamp_ms\<rparr> else header)"

definition build_discovery_json ::
  "agent_settings \<Rightarrow> access_point_profile \<Rightarrow> u32 \<Rightarrow> bool \<Rightarrow> u64 \<Rightarrow> string" where
  "build_discovery_json s profile seq managed_restart timestamp_ms =
    (let dest = destination_id s;
         body = ''{\"deviceInfo\":''
           @ device_info_json profile (\<not> managed_restart) True True
           @ '',\"deviceMisc\":'' @ device_misc_json profile
           @ '',\"controllerSetting\":'' @ controller_setting_json (controller_id s) dest
           @ ''}''
     in build_message_json (base_header s Discovery seq dest timestamp_ms) body True)"

definition build_preconnect_json ::
  "agent_settings \<Rightarrow> access_point_profile \<Rightarrow> u32 \<Rightarrow> string \<Rightarrow> bool \<Rightarrow> u64 \<Rightarrow> string" where
  "build_preconnect_json s profile seq controller managed_reconnect timestamp_ms =
    (let body = ''{\"needUsername\":true,\"rebuild\":''
           @ (if managed_reconnect then ''1'' else ''0'')
           @ '',\"secureCap\":0,\"deviceInfo\":''
           @ device_info_json profile (\<not> managed_reconnect) True True
           @ '',\"deviceMisc\":'' @ device_misc_json profile
           @ '',\"controllerSetting\":'' @ controller_setting_json controller []
           @ ''}''
     in build_message_json (base_header s PreConnectInfo seq controller timestamp_ms) body True)"

definition build_device_verify_json ::
  "agent_settings \<Rightarrow> u32 \<Rightarrow> string \<Rightarrow> string \<Rightarrow> string \<Rightarrow> u64 \<Rightarrow> string" where
  "build_device_verify_json s seq controller auth random_key_for_system_verify timestamp_ms =
    (let body = ''{\"auth\":\"'' @ json_escape auth
           @ ''\",\"randomKeyForSystemVerify\":\"'' @ json_escape random_key_for_system_verify
           @ ''\",\"cipherType\":5}''
     in build_message_json (base_header s DeviceVerifyInfo seq controller timestamp_ms) body True)"

definition build_system_verify_result_json :: "agent_settings \<Rightarrow> u32 \<Rightarrow> string \<Rightarrow> u64 \<Rightarrow> string" where
  "build_system_verify_result_json s seq controller timestamp_ms =
     build_message_json (base_header s SystemVerifyResult seq controller timestamp_ms) ''{}'' True"

definition build_device_negotiation_json ::
  "agent_settings \<Rightarrow> access_point_profile \<Rightarrow> u32 \<Rightarrow> string \<Rightarrow> u32 \<Rightarrow> u64 \<Rightarrow> string" where
  "build_device_negotiation_json s profile seq controller config_version timestamp_ms =
    (let body = ''{\"configVersion\":'' @ to_string_u config_version
           @ '',\"devCap\":{},\"deviceInfo\":'' @ adoption_device_info_json profile
           @ '',\"controllerSetting\":{\"controllerId\":\"'' @ json_escape controller
           @ ''\"},\"components\":{},\"components_v2\":'' @ components_v2_json profile
           @ '',\"channelInfo\":'' @ channel_info_json profile
           @ '',\"radioCap\":'' @ radio_cap_json profile
           @ '',\"deviceMisc\":'' @ device_misc_json profile
           @ ''}''
     in build_message_json (base_header s DeviceNegotiation seq controller timestamp_ms) body True)"

definition build_init_sync_result_json :: "agent_settings \<Rightarrow> u32 \<Rightarrow> string \<Rightarrow> u64 \<Rightarrow> string" where
  "build_init_sync_result_json s seq controller timestamp_ms =
     build_message_json (base_header s InitSyncResult seq controller timestamp_ms) ''{}'' False"

section \<open>The values of the messages\<close>

definition discovery_message ::
  "agent_settings \<Rightarrow> access_point_profile \<Rightarrow> u32 \<Rightarrow> bool \<Rightarrow> u64 \<Rightarrow> json" where
  "discovery_message s profile seq managed_restart t =
     message_value (base_header s Discovery seq (destination_id s) t)
       (Some (JObject
          [(''deviceInfo'', device_info_value (settings profile) (\<not> managed_restart) True True),
           (''deviceMisc'', device_misc_value (settings profile)),
           (''controllerSetting'', controller_setting_value (controller_id s) (destination_id s))]))"

definition preconnect_message ::
  "agent_settings \<Rightarrow> access_point_profile \<Rightarrow> u32 \<Rightarrow> string \<Rightarrow> bool \<Rightarrow> u64 \<Rightarrow> json" where
  "preconnect_message s profile seq controller managed_reconnect t =
     message_value (base_header s PreConnectInfo seq controller t)
       (Some (JObject
          [(''needUsername'', JBool True), (''rebuild'', JInt (if managed_reconnect then 1 else 0)),
           (''secureCap'', JInt 0),
           (''deviceInfo'', device_info_value (settings profile) (\<not> managed_reconnect) True True),
           (''deviceMisc'', device_misc_value (settings profile)),
           (''controllerSetting'', controller_setting_value controller [])]))"

definition device_verify_message ::
  "agent_settings \<Rightarrow> u32 \<Rightarrow> string \<Rightarrow> string \<Rightarrow> string \<Rightarrow> u64 \<Rightarrow> json" where
  "device_verify_message s seq controller auth key t =
     message_value (base_header s DeviceVerifyInfo seq controller t)
       (Some (JObject
          [(''auth'', JString auth), (''randomKeyForSystemVerify'', JString key), (''cipherType'', JInt 5)]))"

definition system_verify_message :: "agent_settings \<Rightarrow> u32 \<Rightarrow> string \<Rightarrow> u64 \<Rightarrow> json" where
  "system_verify_message s seq controller t =
     message_value (base_header s SystemVerifyResult seq controller t) (Some (JObject []))"

definition device_negotiation_message ::
  "agent_settings \<Rightarrow> access_point_profile \<Rightarrow> u32 \<Rightarrow> string \<Rightarrow> u32 \<Rightarrow> u64 \<Rightarrow> json" where
  "device_negotiation_message s profile seq controller config_version t =
     message_value (base_header s DeviceNegotiation seq controller t)
       (Some (JObject
          [(''configVersion'', unsigned_value config_version), (''devCap'', JObject []),
           (''deviceInfo'', device_info_value (settings profile) False False False),
           (''controllerSetting'', JObject [(''controllerId'', JString controller)]),
           (''components'', JObject []), (''components_v2'', components_value (components_v2 profile)),
           (''channelInfo'', JArray []), (''radioCap'', JArray []),
           (''deviceMisc'', device_misc_value (settings profile))]))"

definition init_sync_result_message :: "agent_settings \<Rightarrow> u32 \<Rightarrow> string \<Rightarrow> u64 \<Rightarrow> json" where
  "init_sync_result_message s seq controller t =
     message_value (base_header s InitSyncResult seq controller t) None"

section \<open>Lemmas\<close>

lemma plain_builder_keys:
  "quoted ''deviceInfo'' = ''\"deviceInfo\"''" "quoted ''deviceMisc'' = ''\"deviceMisc\"''"
  "quoted ''controllerSetting'' = ''\"controllerSetting\"''" "quoted ''needUsername'' = ''\"needUsername\"''"
  "quoted ''rebuild'' = ''\"rebuild\"''" "quoted ''secureCap'' = ''\"secureCap\"''"
  "quoted ''auth'' = ''\"auth\"''"
  "quoted ''randomKeyForSystemVerify'' = ''\"randomKeyForSystemVerify\"''"
  "quoted ''cipherType'' = ''\"cipherType\"''" "quoted ''configVersion'' = ''\"configVersion\"''"
  "quoted ''devCap'' = ''\"devCap\"''" "quoted ''components'' = ''\"components\"''"
  "quoted ''components_v2'' = ''\"components_v2\"''" "quoted ''channelInfo'' = ''\"channelInfo\"''"
  "quoted ''radioCap'' = ''\"radioCap\"''"
  by (simp_all add: quoted_plain plain_def code_def)

lemma dec_int_5: "dec_int 5 = ''5''"
  by (simp add: dec_int_def dec.simps digit_char_def char_of_eq_iff)

lemma build_via_render:
  "body = render v \<Longrightarrow> printable v \<Longrightarrow>
   build_message_json h body True = render (message_value h (Some v)) \<and>
   json_text (message_value h (Some v)) (build_message_json h body True)"
  by (simp add: build_message_json_render(1) json_text_render printable_message)

lemma build_discovery_json_value:
  "build_discovery_json s (make_profile p) seq r t = render (discovery_message s (make_profile p) seq r t) \<and>
   json_text (discovery_message s (make_profile p) seq r t) (build_discovery_json s (make_profile p) seq r t)"
  unfolding build_discovery_json_def discovery_message_def Let_def
  by (rule build_via_render)
    (simp_all add: render_JObject render_members_Cons plain_builder_keys plain_profile_keys profile_render
      del: render.simps(7))

lemma build_preconnect_json_value:
  "build_preconnect_json s (make_profile p) seq c r t =
     render (preconnect_message s (make_profile p) seq c r t) \<and>
   json_text (preconnect_message s (make_profile p) seq c r t)
     (build_preconnect_json s (make_profile p) seq c r t)"
  unfolding build_preconnect_json_def preconnect_message_def Let_def
  by (rule build_via_render)
    (simp_all add: render_JObject render_members_Cons plain_builder_keys plain_profile_keys profile_render
      del: render.simps(7))

lemma build_device_verify_json_value:
  "build_device_verify_json s seq c a k t = render (device_verify_message s seq c a k t) \<and>
   json_text (device_verify_message s seq c a k t) (build_device_verify_json s seq c a k t)"
  unfolding build_device_verify_json_def device_verify_message_def Let_def
  by (rule build_via_render)
    (simp_all add: render_JObject render_members_Cons plain_builder_keys dec_int_5
      quoted_def [of a] quoted_def [of k] del: render.simps(7))

lemma build_system_verify_result_json_value:
  "build_system_verify_result_json s seq c t = render (system_verify_message s seq c t) \<and>
   json_text (system_verify_message s seq c t) (build_system_verify_result_json s seq c t)"
  unfolding build_system_verify_result_json_def system_verify_message_def
  by (rule build_via_render) simp_all

lemma build_device_negotiation_json_value:
  "build_device_negotiation_json s (make_profile p) seq c v t =
     render (device_negotiation_message s (make_profile p) seq c v t) \<and>
   json_text (device_negotiation_message s (make_profile p) seq c v t)
     (build_device_negotiation_json s (make_profile p) seq c v t)"
  unfolding build_device_negotiation_json_def device_negotiation_message_def Let_def
  by (rule build_via_render)
    (simp_all add: render_JObject render_members_Cons plain_builder_keys plain_misc_keys profile_render
      adoption_device_info_json_def channel_info_json_def radio_cap_json_def quoted_def [of c]
      del: render.simps(7))

lemma build_init_sync_result_json_value:
  "build_init_sync_result_json s seq c t = render (init_sync_result_message s seq c t) \<and>
   json_text (init_sync_result_message s seq c t) (build_init_sync_result_json s seq c t)"
  unfolding build_init_sync_result_json_def init_sync_result_message_def
  by (simp add: build_message_json_render(2) json_text_render printable_message)

section \<open>Property\<close>

text \<open>
  C17. Every message of discovery and adoption is a JSON text of the value it is meant to be, for
  all settings and all strings the controller supplies: nothing an attacker puts into a name, an id
  or a key can add a member or break the document.
\<close>

theorem builders_print_messages:
  "json_text (discovery_message s (make_profile p) seq r t) (build_discovery_json s (make_profile p) seq r t) \<and>
   json_text (preconnect_message s (make_profile p) seq c r t)
     (build_preconnect_json s (make_profile p) seq c r t) \<and>
   json_text (device_verify_message s seq c a k t) (build_device_verify_json s seq c a k t) \<and>
   json_text (system_verify_message s seq c t) (build_system_verify_result_json s seq c t) \<and>
   json_text (device_negotiation_message s (make_profile p) seq c v t)
     (build_device_negotiation_json s (make_profile p) seq c v t) \<and>
   json_text (init_sync_result_message s seq c t) (build_init_sync_result_json s seq c t)"
  by (intro conjI build_discovery_json_value [THEN conjunct2] build_preconnect_json_value [THEN conjunct2]
      build_device_verify_json_value [THEN conjunct2] build_system_verify_result_json_value [THEN conjunct2]
      build_device_negotiation_json_value [THEN conjunct2] build_init_sync_result_json_value [THEN conjunct2])

end
