(* ===== verification/Crypto_Auth.thy ===== *)
theory Crypto_Auth
  imports Mac_Address
begin

unbundle bit_operations_syntax

text \<open>
  \<open>src/src/crypto\<close>: hexadecimal digests (\<open>hash.cpp\<close>), the ECSP proof of a password
  (\<open>ecsp_auth.cpp\<close>) and random UUIDs (\<open>random.cpp\<close>).  The digests themselves are OpenSSL's
  (or CommonCrypto's) and a parameter: \<open>EVP_Digest\<close> with a digest gives bytes or fails.
\<close>

record digests =
  md5_digest :: "string \<Rightarrow> u8 list option"
  sha256_digest :: "string \<Rightarrow> u8 list option"

definition upper_hex_bytes :: "u8 list \<Rightarrow> string" where
  "upper_hex_bytes bytes = concat (map (\<lambda>b. [upper_hex (drop_bit 4 b), upper_hex b]) bytes)"

text \<open>\<open>digest_evp\<close> of the OpenSSL build: the empty string when \<open>EVP_Digest\<close> fails.\<close>

definition digest_evp :: "(string \<Rightarrow> u8 list option) \<Rightarrow> string \<Rightarrow> string" where
  "digest_evp md data =
     (case md data of None \<Rightarrow> [] | Some digest \<Rightarrow> upper_hex_bytes digest)"

definition upper_md5 :: "digests \<Rightarrow> string \<Rightarrow> string" where
  "upper_md5 H s = digest_evp (md5_digest H) s"

definition upper_sha256 :: "digests \<Rightarrow> string \<Rightarrow> string" where
  "upper_sha256 H s = digest_evp (sha256_digest H) s"

definition calculate_ecsp2_auth :: "digests \<Rightarrow> string \<Rightarrow> string \<Rightarrow> string \<Rightarrow> string" where
  "calculate_ecsp2_auth H username encrypted_password random_key =
    (let original = username @ encrypted_password;
         first_hash = upper_sha256 H original;
         proof_input = first_hash @ random_key
     in upper_sha256 H proof_input)"

definition calculate_md5_mode_auth :: "digests \<Rightarrow> string \<Rightarrow> string \<Rightarrow> string \<Rightarrow> string" where
  "calculate_md5_mode_auth H username plain_password random_key =
     calculate_ecsp2_auth H username (upper_md5 H plain_password) random_key"

text \<open>\<open>random_uuid_v4\<close> on the sixteen bytes \<open>RAND_bytes\<close> produced, or \<open>None\<close> when it failed.\<close>

fun uuid_digits :: "nat \<Rightarrow> u8 list \<Rightarrow> string" where
  "uuid_digits i [] = []"
| "uuid_digits i (b # bytes) =
     (if i = 4 \<or> i = 6 \<or> i = 8 \<or> i = 10 then ''-'' else [])
     @ [lower_hex (drop_bit 4 b), lower_hex b] @ uuid_digits (i + 1) bytes"

definition random_uuid_v4 :: "u8 list option \<Rightarrow> string" where
  "random_uuid_v4 random_bytes =
     (case random_bytes of
        None \<Rightarrow> []
      | Some bytes \<Rightarrow>
          (let bytes = bytes[6 := (bytes ! 6 AND 0x0F) OR 0x40];
               bytes = bytes[8 := (bytes ! 8 AND 0x3F) OR 0x80]
           in uuid_digits 0 bytes))"

section \<open>Lemmas\<close>

lemma upper_hex_bytes_hex: "list_all is_hex (upper_hex_bytes bs)"
  by (simp add: upper_hex_bytes_def list_all_iff)

lemma length_upper_hex_bytes: "length (upper_hex_bytes bs) = 2 * length bs"
  by (induction bs) (simp_all add: upper_hex_bytes_def)

lemma digest_evp_hex: "list_all is_hex (digest_evp md s)"
  by (simp add: digest_evp_def upper_hex_bytes_hex split: option.splits)

text \<open>The digest text determines the digest.\<close>

lemma upper_hex_bytes_inject: "upper_hex_bytes bs = upper_hex_bytes cs \<longleftrightarrow> bs = cs"
proof
  have byte: "b = c" if "upper_hex (drop_bit 4 b) = upper_hex (drop_bit 4 c)" "upper_hex b = upper_hex c"
    for b c :: u8
  proof -
    have "unat b div 16 = unat c div 16" "unat b mod 16 = unat c mod 16"
      using that [THEN arg_cong [where f = hex_value]]
      by (simp_all add: hex_value_upper unat_high_nibble high_nibble_lt)
    then have "unat b = unat c" by (metis div_mult_mod_eq)
    then show ?thesis by (metis of_nat_unat ucast_id)
  qed
  show "upper_hex_bytes bs = upper_hex_bytes cs \<Longrightarrow> bs = cs"
  proof (induction bs arbitrary: cs)
    case Nil
    then show ?case by (cases cs) (simp_all add: upper_hex_bytes_def)
  next
    case (Cons b bs)
    then show ?case by (cases cs) (auto simp: upper_hex_bytes_def intro: byte)
  qed
qed simp

lemma lower_hex_version: "lower_hex (drop_bit 4 ((b AND 0x0F) OR 0x40)) = CHR ''4''"
proof -
  have "drop_bit 4 ((b AND 0x0F) OR 0x40) = (4 :: u8)"
  proof (rule bit_word_eqI)
    fix n
    have "bit (0x0F :: u8) k \<longleftrightarrow> k < 4" for k
    proof -
      have "(0x0F :: u8) = mask 4" by (simp add: mask_eq_exp_minus_1)
      then show ?thesis by (simp only: bit_mask_iff) auto
    qed
    moreover have "drop_bit 4 (0x40 :: u8) = 4" by simp
    then have "bit (0x40 :: u8) (4 + n) = bit (4 :: u8) n"
      by (metis bit_drop_bit_eq comp_apply)
    ultimately show "bit (drop_bit 4 ((b AND 0x0F) OR 0x40)) n = bit (4 :: u8) n"
      by (simp only: bit_drop_bit_eq o_apply bit_or_iff bit_and_iff) simp
  qed
  then show ?thesis by (simp add: lower_hex_def)
qed

end
