(* ===== verification/Frame_Transport.thy ===== *)
theory Frame_Transport
  imports Cpp_Prelude
begin

text \<open>
  \<open>src/include/openomada/transport/frame_transport.hpp\<close>: the interface every protocol routine is
  written against.  A \<open>FrameTransport\<close> is a record of the two virtual functions on a world type
  \<open>'w\<close>, which is whatever the implementation changes (a socket, the peer, a script).

  \<open>recording T\<close> is the specification's instrument: the same transport, which also keeps the list of
  its calls and answers.  The locale \<open>frame_log\<close> is the contract the protocol proofs use: there is
  a trace that every \<open>send_payload\<close> and \<open>receive_payload\<close> extends by its own event and nothing else.
\<close>

record transport_status =
  ts_ok :: bool
  ts_error :: string

definition status_success :: transport_status where
  "status_success = \<lparr>ts_ok = True, ts_error = []\<rparr>"

definition status_failure :: "string \<Rightarrow> transport_status" where
  "status_failure message = \<lparr>ts_ok = False, ts_error = message\<rparr>"

record receive_result =
  rr_ok :: bool
  rr_timeout :: bool
  rr_payload :: string
  rr_error :: string

definition default_receive_result :: receive_result where
  "default_receive_result = \<lparr>rr_ok = False, rr_timeout = False, rr_payload = [], rr_error = []\<rparr>"

record 'w frame_transport =
  tp_send :: "string \<Rightarrow> 'w \<Rightarrow> transport_status \<times> 'w"
  tp_receive :: "'w \<Rightarrow> receive_result \<times> 'w"

section \<open>Traces\<close>

datatype event = Sent string transport_status | Received receive_result

definition recording :: "'w frame_transport \<Rightarrow> ('w \<times> event list) frame_transport" where
  "recording T =
     \<lparr>tp_send = (\<lambda>payload (w, log).
        let (status, w') = tp_send T payload w in (status, w', log @ [Sent payload status])),
      tp_receive = (\<lambda>(w, log).
        let (received, w') = tp_receive T w in (received, w', log @ [Received received]))\<rparr>"

definition sent_payloads :: "event list \<Rightarrow> string list" where
  "sent_payloads log = concat (map (\<lambda>e. case e of Sent p _ \<Rightarrow> [p] | Received _ \<Rightarrow> []) log)"

definition receipts :: "event list \<Rightarrow> receive_result list" where
  "receipts log = concat (map (\<lambda>e. case e of Sent _ _ \<Rightarrow> [] | Received r \<Rightarrow> [r]) log)"

lemma sent_payloads_simps [simp]:
  "sent_payloads [] = []" "sent_payloads (Sent p s # es) = p # sent_payloads es"
  "sent_payloads (Received r # es) = sent_payloads es"
  "sent_payloads (xs @ ys) = sent_payloads xs @ sent_payloads ys"
  by (simp_all add: sent_payloads_def)

lemma receipts_simps [simp]:
  "receipts [] = []" "receipts (Sent p s # es) = receipts es"
  "receipts (Received r # es) = r # receipts es"
  "receipts (xs @ ys) = receipts xs @ receipts ys"
  by (simp_all add: receipts_def)

lemma sent_payloads_Received [simp]: "sent_payloads (map Received rs) = []"
  by (induction rs) simp_all

lemma receipts_Received [simp]: "receipts (map Received rs) = rs"
  by (induction rs) simp_all

section \<open>The contract\<close>

locale frame_log =
  fixes transport :: "'w frame_transport" and trace :: "'w \<Rightarrow> event list"
  assumes send_trace:
    "tp_send transport p w = (st, w') \<Longrightarrow> trace w' = trace w @ [Sent p st]"
    and receive_trace:
    "tp_receive transport w = (r, w') \<Longrightarrow> trace w' = trace w @ [Received r]"

interpretation recording_log: frame_log "recording T" snd for T
  by unfold_locales (auto simp: recording_def split: prod.splits)

text \<open>Recording changes neither the answers nor the world.\<close>

lemma recording_send:
  "tp_send (recording T) p (w, log) =
     (fst (tp_send T p w), snd (tp_send T p w), log @ [Sent p (fst (tp_send T p w))])"
  by (simp add: recording_def split: prod.splits)

lemma recording_receive:
  "tp_receive (recording T) (w, log) =
     (fst (tp_receive T w), snd (tp_receive T w), log @ [Received (fst (tp_receive T w))])"
  by (simp add: recording_def split: prod.splits)

text \<open>An operation that does not use the transport, over a recorded world.\<close>

definition quiet :: "('w \<Rightarrow> 'a \<times> 'w) \<Rightarrow> 'w \<times> event list \<Rightarrow> 'a \<times> ('w \<times> event list)" where
  "quiet f = (\<lambda>(w, log). let (a, w') = f w in (a, (w', log)))"

lemma quiet_log: "quiet f w = (a, w') \<Longrightarrow> snd w' = snd w"
  by (auto simp: quiet_def split: prod.splits)

section \<open>Early return\<close>

text \<open>
  Routines that return early are written as stages: a stage ends the routine with its result
  (\<open>Inl\<close>) or goes on with a value (\<open>Inr\<close>); \<open>next\<close> chains them.
\<close>

type_synonym ('w, 'r, 'a) stage = "'w \<Rightarrow> ('r + 'a) \<times> 'w"

definition and_then :: "('w, 'r, 'a) stage \<Rightarrow> ('a \<Rightarrow> ('w, 'r, 'b) stage) \<Rightarrow> ('w, 'r, 'b) stage" where
  "and_then m k w = (case m w of (Inl r, w') \<Rightarrow> (Inl r, w') | (Inr a, w') \<Rightarrow> k a w')"

definition proceed :: "'a \<Rightarrow> ('w, 'r, 'a) stage" where
  "proceed a w = (Inr a, w)"

definition give_up :: "'r \<Rightarrow> ('w, 'r, 'a) stage" where
  "give_up r w = (Inl r, w)"

definition outcome :: "'r + 'r \<Rightarrow> 'r" where
  "outcome s = (case s of Inl r \<Rightarrow> r | Inr r \<Rightarrow> r)"

lemma and_then_Inr:
  "and_then m k w = (Inr b, w') \<longleftrightarrow> (\<exists>a w1. m w = (Inr a, w1) \<and> k a w1 = (Inr b, w'))"
  by (auto simp: and_then_def split: prod.splits sum.splits)

lemma and_then_Inl:
  "and_then m k w = (Inl r, w') \<longleftrightarrow>
     m w = (Inl r, w') \<or> (\<exists>a w1. m w = (Inr a, w1) \<and> k a w1 = (Inl r, w'))"
  by (auto simp: and_then_def split: prod.splits sum.splits)

lemma proceed_eq [simp]: "proceed a w = (x, w') \<longleftrightarrow> x = Inr a \<and> w' = w"
  by (auto simp: proceed_def)

lemma give_up_eq [simp]: "give_up r w = (x, w') \<longleftrightarrow> x = Inl r \<and> w' = w"
  by (auto simp: give_up_def)

lemma outcome_simps [simp]: "outcome (Inl r) = r" "outcome (Inr r) = r"
  by (simp_all add: outcome_def)

section \<open>A scripted peer\<close>

text \<open>For concrete runs: every send succeeds, receptions are read from a list of payloads.\<close>

definition scripted :: "string list frame_transport" where
  "scripted =
     \<lparr>tp_send = (\<lambda>payload w. (status_success, w)),
      tp_receive = (\<lambda>w. case w of
          [] \<Rightarrow> (default_receive_result\<lparr>rr_timeout := True, rr_error := ''timeout''\<rparr>, [])
        | p # ps \<Rightarrow> (default_receive_result\<lparr>rr_ok := True, rr_payload := p\<rparr>, ps))\<rparr>"

lemma scripted_simps [simp]:
  "tp_send scripted p w = (status_success, w)"
  "tp_receive scripted (q # qs) = (default_receive_result\<lparr>rr_ok := True, rr_payload := q\<rparr>, qs)"
  by (simp_all add: scripted_def)

end
