(* ===== verification/Adoption.thy ===== *)
theory Adoption
  imports Ecsp_Builders Crypto_Auth Frame_Transport Json_Boundary
begin

text \<open>
  \<open>src/src/lifecycle/adoption.cpp\<close>: the ECSP V2 adoption handshake.  \<open>run_v2_initial_sync\<close> sends
  five numbered messages and waits for the answer to each.  It is split into one stage per exchange,
  in the order of the code, chained by \<open>and_then\<close>.
\<close>

section \<open>Results and options\<close>

datatype adoption_error =
    NoAdoptionError | MissingControllerId | SendFailed | ReceiveFailed | InvalidJson
  | UnexpectedMessage | ControllerRejectedPreConnect | MissingRandomKey | MissingUsername
  | MissingPassword | UnsupportedCipher | ControllerRejectedDeviceVerify | MissingControllerAuth
  | ControllerAuthMismatch | ControllerRejectedSystemVerify | ControllerRejectedNegotiation
  | ControllerRejectedInitSync

fun adoption_error_to_string :: "adoption_error \<Rightarrow> string" where
  "adoption_error_to_string NoAdoptionError = ''none''"
| "adoption_error_to_string MissingControllerId = ''missing-controller-id''"
| "adoption_error_to_string SendFailed = ''send-failed''"
| "adoption_error_to_string ReceiveFailed = ''receive-failed''"
| "adoption_error_to_string InvalidJson = ''invalid-json''"
| "adoption_error_to_string UnexpectedMessage = ''unexpected-message''"
| "adoption_error_to_string ControllerRejectedPreConnect = ''controller-rejected-preconnect''"
| "adoption_error_to_string MissingRandomKey = ''missing-random-key''"
| "adoption_error_to_string MissingUsername = ''missing-username''"
| "adoption_error_to_string MissingPassword = ''missing-password''"
| "adoption_error_to_string UnsupportedCipher = ''unsupported-cipher''"
| "adoption_error_to_string ControllerRejectedDeviceVerify = ''controller-rejected-device-verify''"
| "adoption_error_to_string MissingControllerAuth = ''missing-controller-auth''"
| "adoption_error_to_string ControllerAuthMismatch = ''controller-auth-mismatch''"
| "adoption_error_to_string ControllerRejectedSystemVerify = ''controller-rejected-system-verify''"
| "adoption_error_to_string ControllerRejectedNegotiation = ''controller-rejected-negotiation''"
| "adoption_error_to_string ControllerRejectedInitSync = ''controller-rejected-init-sync''"

record 'w adoption_options =
  managed_reconnect :: bool
  known_config_version :: "u32 option"
  random_system_key :: "('w \<Rightarrow> string \<times> 'w) option"
  opt_timestamp_ms :: u64

record adoption_result =
  ar_ok :: bool
  reached_system_verify :: bool
  initial_sync_complete :: bool
  ar_error :: adoption_error
  ar_detail :: string
  ar_controller_id :: string
  ar_username :: string
  ar_config_version :: "u32 option"
  ar_sequence_id :: "u32 option"
  last_seq :: u32

definition default_adoption_result :: adoption_result where
  "default_adoption_result =
     \<lparr>ar_ok = False, reached_system_verify = False, initial_sync_complete = False,
      ar_error = NoAdoptionError, ar_detail = [], ar_controller_id = [], ar_username = [],
      ar_config_version = None, ar_sequence_id = None, last_seq = 0\<rparr>"

definition failure :: "adoption_error \<Rightarrow> string \<Rightarrow> string \<Rightarrow> string \<Rightarrow> adoption_result" where
  "failure error detail controller username =
     default_adoption_result\<lparr>ar_error := error, ar_detail := detail, ar_controller_id := controller,
       ar_username := username\<rparr>"

section \<open>Receiving and sending\<close>

record received_message =
  rm_ok :: bool
  rm_error :: adoption_error
  rm_detail :: string
  rm_document :: json

definition received_failure :: "adoption_error \<Rightarrow> string \<Rightarrow> received_message" where
  "received_failure error detail = \<lparr>rm_ok = False, rm_error = error, rm_detail = detail, rm_document = JNull\<rparr>"

text \<open>The loop of \<open>receive_until\<close> with the number of rounds left.\<close>

fun receive_rounds ::
  "jsonc \<Rightarrow> 'w frame_transport \<Rightarrow> message_type \<Rightarrow> nat \<Rightarrow> 'w \<Rightarrow> received_message \<times> 'w" where
  "receive_rounds J T expected 0 w =
     (received_failure UnexpectedMessage ''expected ECSP message was not received'', w)"
| "receive_rounds J T expected (Suc n) w =
    (let (received, w) = tp_receive T w
     in if \<not> rr_ok received then (received_failure ReceiveFailed (rr_error received), w)
        else
          (let document = json_document_parse J (rr_payload received)
           in if \<not> valid document
              then (received_failure InvalidJson ''controller sent invalid ECSP JSON'', w)
              else
                (case ecsp_header_type J document of
                   None \<Rightarrow> (received_failure InvalidJson ''controller message has no header.type'', w)
                 | Some type \<Rightarrow>
                     if type = to_underlying expected
                     then (\<lparr>rm_ok = True, rm_error = NoAdoptionError, rm_detail = [], rm_document = document\<rparr>, w)
                     else receive_rounds J T expected n w)))"

definition receive_until ::
  "jsonc \<Rightarrow> 'w frame_transport \<Rightarrow> message_type \<Rightarrow> 'w \<Rightarrow> received_message \<times> 'w" where
  "receive_until J T expected w =
     (let max_skipped_messages = 8 in receive_rounds J T expected (max_skipped_messages + 1) w)"

definition send_or_fail ::
  "'w frame_transport \<Rightarrow> string \<Rightarrow> u32 \<Rightarrow> adoption_result \<Rightarrow> 'w \<Rightarrow> (bool \<times> adoption_result) \<times> 'w" where
  "send_or_fail T payload seq result w =
    (let (status, w) = tp_send T payload w
     in if ts_ok status then ((True, result\<lparr>last_seq := seq\<rparr>), w)
        else ((False, result\<lparr>ar_error := SendFailed, ar_detail := ts_error status\<rparr>), w))"

definition uint_body_field :: "jsonc \<Rightarrow> json \<Rightarrow> string \<Rightarrow> u32 option" where
  "uint_body_field J body name =
     (case json_int J (object_member body name) of
        None \<Rightarrow> None
      | Some value \<Rightarrow> (if sint value < 0 then None else Some (ucast value)))"

text \<open>\<open>if (!send_or_fail(...)) return result;\<close>\<close>

definition send_stage ::
  "'w frame_transport \<Rightarrow> string \<Rightarrow> u32 \<Rightarrow> adoption_result \<Rightarrow> ('w, adoption_result, adoption_result) stage" where
  "send_stage T payload seq result w =
     (case send_or_fail T payload seq result w of
        ((sent, result'), w') \<Rightarrow> (if sent then Inr result' else Inl result', w'))"

text \<open>
  \<open>receive_until\<close> followed by the two guards every exchange has: the failure of the reception is
  passed on, and an error code in the header is the controller's rejection.
\<close>

definition receive_stage ::
  "jsonc \<Rightarrow> 'w frame_transport \<Rightarrow> message_type \<Rightarrow> adoption_error \<Rightarrow> string \<Rightarrow> string \<Rightarrow> string \<Rightarrow>
   ('w, adoption_result, json) stage" where
  "receive_stage J T expected rejection detail controller username w =
    (let (received, w') = receive_until J T expected w
     in if \<not> rm_ok received
        then (Inl (failure (rm_error received) (rm_detail received) controller username), w')
        else if ecsp_header_error J (rm_document received) \<noteq> 0
        then (Inl (failure rejection detail controller username), w')
        else (Inr (rm_document received), w'))"

section \<open>The handshake\<close>

text \<open>The library functions the handshake calls: json-c, the digests, \<open>RAND_bytes\<close>.\<close>

record 'w backend =
  bk_json :: jsonc
  bk_digests :: digests
  bk_random_bytes :: "'w \<Rightarrow> u8 list option \<times> 'w"

definition preconnect_stage ::
  "'w backend \<Rightarrow> 'w frame_transport \<Rightarrow> agent_settings \<Rightarrow> access_point_profile \<Rightarrow> string \<Rightarrow>
   'w adoption_options \<Rightarrow> adoption_result \<Rightarrow> ('w, adoption_result, adoption_result \<times> json) stage" where
  "preconnect_stage B T s profile controller options result =
     and_then
       (send_stage T (build_preconnect_json s profile 1 controller (managed_reconnect options)
          (opt_timestamp_ms options)) 1 result)
       (\<lambda>result. and_then
          (receive_stage (bk_json B) T PreConnectInfoResponse ControllerRejectedPreConnect
             ''controller rejected PRE_CONNECT_INFO'' controller [])
          (\<lambda>document. proceed (result, document)))"

definition credentials_stage ::
  "'w backend \<Rightarrow> agent_settings \<Rightarrow> string \<Rightarrow> 'w adoption_options \<Rightarrow> adoption_result \<Rightarrow> json \<Rightarrow>
   ('w, adoption_result, adoption_result \<times> string \<times> string \<times> string) stage" where
  "credentials_stage B s controller options result document w =
    (let J = bk_json B;
         body = ecsp_body document
     in case json_string J (object_member body ''randomKeyForDeviceVerify'') of
          None \<Rightarrow> (Inl (failure MissingRandomKey
              ''PRE_CONNECT_INFO_RESPONSE has no usable randomKeyForDeviceVerify'' controller []), w)
        | Some random_device_key \<Rightarrow>
            if length random_device_key < 36
            then (Inl (failure MissingRandomKey
              ''PRE_CONNECT_INFO_RESPONSE has no usable randomKeyForDeviceVerify'' controller []), w)
            else
              (let username = device_username s;
                   username =
                     (if username = []
                      then (case json_string J (object_member body ''username'') of
                              Some response_username \<Rightarrow> response_username | None \<Rightarrow> username)
                      else username)
               in if username = []
                  then (Inl (failure MissingUsername
                    ''controller did not return a Device Account username'' controller []), w)
                  else
                    (let result = result\<lparr>ar_username := username\<rparr>
                     in if device_password s = []
                        then (Inl (failure MissingPassword ''Device Account password is empty''
                          controller username), w)
                        else if device_cipher_type s \<noteq> 5
                        then (Inl (failure UnsupportedCipher ''only ECSP V2 cipherType=5 is implemented''
                          controller username), w)
                        else
                          (let (random_key, w) =
                                 (case random_system_key options of
                                    Some f \<Rightarrow> f w
                                  | None \<Rightarrow> (let (bytes, w) = bk_random_bytes B w in (random_uuid_v4 bytes, w)))
                           in if random_key = []
                              then (Inl (failure MissingRandomKey
                                ''could not generate randomKeyForSystemVerify'' controller username), w)
                              else (Inr (result, username, random_device_key, random_key), w)))))"

definition device_verify_stage ::
  "'w backend \<Rightarrow> 'w frame_transport \<Rightarrow> agent_settings \<Rightarrow> string \<Rightarrow> 'w adoption_options \<Rightarrow>
   adoption_result \<times> string \<times> string \<times> string \<Rightarrow> ('w, adoption_result, adoption_result) stage" where
  "device_verify_stage B T s controller options =
     (\<lambda>(result, username, random_device_key, random_key).
       let device_auth = calculate_md5_mode_auth (bk_digests B) username (device_password s) random_device_key
       in and_then
         (send_stage T (build_device_verify_json s 2 controller device_auth random_key
            (opt_timestamp_ms options)) 2 result)
         (\<lambda>result. and_then
           (receive_stage (bk_json B) T DeviceVerifyResponse ControllerRejectedDeviceVerify
              ''controller rejected DEVICE_VERIFY_INFO'' controller username)
           (\<lambda>document.
             case json_string (bk_json B) (object_member (ecsp_body document) ''auth'') of
               None \<Rightarrow> give_up (failure MissingControllerAuth
                 ''DEVICE_VERIFY_RESPONSE has no auth field'' controller username)
             | Some controller_auth \<Rightarrow>
                 (let expected_controller_auth =
                        calculate_md5_mode_auth (bk_digests B) username (device_password s) random_key
                  in if ascii_upper controller_auth \<noteq> ascii_upper expected_controller_auth
                     then give_up (failure ControllerAuthMismatch
                       ''controller system-auth did not verify'' controller username)
                     else proceed result))))"

definition system_verify_stage ::
  "'w backend \<Rightarrow> 'w frame_transport \<Rightarrow> agent_settings \<Rightarrow> string \<Rightarrow> 'w adoption_options \<Rightarrow>
   adoption_result \<Rightarrow> ('w, adoption_result, adoption_result) stage" where
  "system_verify_stage B T s controller options result =
     and_then
       (send_stage T (build_system_verify_result_json s 3 controller (opt_timestamp_ms options)) 3 result)
       (\<lambda>result. and_then
          (receive_stage (bk_json B) T VerifyResultAck ControllerRejectedSystemVerify
             ''controller rejected SYSTEM_VERIFY_RESULT'' controller (ar_username result))
          (\<lambda>document. proceed (result\<lparr>reached_system_verify := True\<rparr>)))"

definition negotiation_stage ::
  "'w backend \<Rightarrow> 'w frame_transport \<Rightarrow> agent_settings \<Rightarrow> access_point_profile \<Rightarrow> string \<Rightarrow>
   'w adoption_options \<Rightarrow> adoption_result \<Rightarrow> ('w, adoption_result, adoption_result) stage" where
  "negotiation_stage B T s profile controller options result =
    (let negotiation_config_version =
           (case known_config_version options of
              Some version \<Rightarrow> (if managed_reconnect options then version else 0)
            | None \<Rightarrow> 0)
     in and_then
       (send_stage T (build_device_negotiation_json s profile 4 controller negotiation_config_version
          (opt_timestamp_ms options)) 4 result)
       (\<lambda>result. and_then
          (receive_stage (bk_json B) T SystemNegotiation ControllerRejectedNegotiation
             ''controller rejected DEVICE_NEGOTIATION'' controller (ar_username result))
          (\<lambda>document.
             let body = ecsp_body document
             in proceed (result\<lparr>ar_config_version := uint_body_field (bk_json B) body ''configVersion'',
                                ar_sequence_id := uint_body_field (bk_json B) body ''sequenceId''\<rparr>))))"

definition init_sync_stage ::
  "'w backend \<Rightarrow> 'w frame_transport \<Rightarrow> agent_settings \<Rightarrow> string \<Rightarrow> 'w adoption_options \<Rightarrow>
   adoption_result \<Rightarrow> ('w, adoption_result, adoption_result) stage" where
  "init_sync_stage B T s controller options result =
     and_then
       (send_stage T (build_init_sync_result_json s 5 controller (opt_timestamp_ms options)) 5 result)
       (\<lambda>result. and_then
          (receive_stage (bk_json B) T InitSyncResultAck ControllerRejectedInitSync
             ''controller rejected INIT_SYNC_RESULT'' controller (ar_username result))
          (\<lambda>document. proceed (result\<lparr>ar_ok := True, initial_sync_complete := True,
             ar_error := NoAdoptionError, ar_detail := []\<rparr>)))"

definition handshake_stages ::
  "'w backend \<Rightarrow> 'w frame_transport \<Rightarrow> agent_settings \<Rightarrow> access_point_profile \<Rightarrow> string \<Rightarrow>
   'w adoption_options \<Rightarrow> adoption_result \<Rightarrow> ('w, adoption_result, adoption_result) stage" where
  "handshake_stages B T s profile controller options result =
     and_then (preconnect_stage B T s profile controller options result)
       (\<lambda>(result, document).
        and_then (credentials_stage B s controller options result document)
          (\<lambda>credentials.
           and_then (device_verify_stage B T s controller options credentials)
             (\<lambda>result.
              and_then (system_verify_stage B T s controller options result)
                (\<lambda>result.
                 and_then (negotiation_stage B T s profile controller options result)
                   (init_sync_stage B T s controller options)))))"

definition run_v2_initial_sync ::
  "'w backend \<Rightarrow> 'w frame_transport \<Rightarrow> agent_settings \<Rightarrow> access_point_profile \<Rightarrow> string \<Rightarrow>
   'w adoption_options \<Rightarrow> 'w \<Rightarrow> adoption_result \<times> 'w" where
  "run_v2_initial_sync B T s profile controller options w =
    (if controller = []
     then (failure MissingControllerId
       ''PRE_ADOPT_REQUEST did not provide header.dest and controller_id is empty'' controller [], w)
     else
       (let result = default_adoption_result\<lparr>ar_controller_id := controller\<rparr>;
            (final, w) = handshake_stages B T s profile controller options result w
        in (outcome final, w)))"

section \<open>What an exchange leaves in the trace\<close>

definition pending :: "adoption_result \<Rightarrow> bool" where
  "pending r \<longleftrightarrow> \<not> ar_ok r \<and> \<not> initial_sync_complete r \<and> ar_error r = NoAdoptionError"

definition failed :: "adoption_result \<Rightarrow> bool" where
  "failed r \<longleftrightarrow> \<not> ar_ok r \<and> \<not> initial_sync_complete r \<and> ar_error r \<noteq> NoAdoptionError"

definition exchange_events :: "string \<Rightarrow> event list \<Rightarrow> bool" where
  "exchange_events p ev \<longleftrightarrow> (\<exists>st rs. ev = Sent p st # map Received rs \<and> length rs \<le> 9)"

text \<open>The exchange was answered: the message went out and the last reception is the expected reply.\<close>

definition accepted_reply :: "jsonc \<Rightarrow> message_type \<Rightarrow> receive_result \<Rightarrow> json \<Rightarrow> bool" where
  "accepted_reply J ty r doc \<longleftrightarrow>
     rr_ok r \<and> doc = json_document_parse J (rr_payload r) \<and> valid doc \<and>
     ecsp_header_type J doc = Some (to_underlying ty) \<and> ecsp_header_error J doc = 0"

definition answered :: "jsonc \<Rightarrow> string \<Rightarrow> message_type \<Rightarrow> event list \<Rightarrow> json \<Rightarrow> bool" where
  "answered J p ty ev doc \<longleftrightarrow>
     (\<exists>st rs r. ev = Sent p st # map Received (rs @ [r]) \<and> ts_ok st \<and> length rs \<le> 8 \<and>
        accepted_reply J ty r doc)"

lemma failed_failure: "e \<noteq> NoAdoptionError \<Longrightarrow> failed (failure e d c u)"
  by (simp add: failed_def failure_def default_adoption_result_def)

lemma answered_events: "answered J p ty ev doc \<Longrightarrow> exchange_events p ev"
  unfolding answered_def exchange_events_def by (metis length_append_singleton Suc_le_mono numeral_nat(7) Suc_eq_plus1 eval_nat_numeral(3))

lemma exchange_counts:
  "exchange_events p ev \<Longrightarrow> sent_payloads ev = [p] \<and> length (receipts ev) \<le> 9"
  by (auto simp: exchange_events_def)

context frame_log
begin

lemma receive_rounds_trace:
  "receive_rounds J transport ty n w = (rm, w') \<Longrightarrow>
   \<exists>rs. trace w' = trace w @ map Received rs \<and> length rs \<le> n \<and>
     (if rm_ok rm
      then \<exists>rs' r. rs = rs' @ [r] \<and> rr_ok r \<and> rm_document rm = json_document_parse J (rr_payload r) \<and>
        valid (rm_document rm) \<and> ecsp_header_type J (rm_document rm) = Some (to_underlying ty)
      else rm_error rm \<noteq> NoAdoptionError)"
proof (induction n arbitrary: w)
  case 0
  then show ?case by (auto simp: received_failure_def)
next
  case (Suc n)
  obtain r w1 where r: "tp_receive transport w = (r, w1)" by (cases "tp_receive transport w")
  note t1 = receive_trace [OF r]
  let ?doc = "json_document_parse J (rr_payload r)"
  show ?case
  proof (cases "rr_ok r \<and> valid ?doc \<and> ecsp_header_type J ?doc \<noteq> None \<and>
      ecsp_header_type J ?doc \<noteq> Some (to_underlying ty)")
    case True
    with Suc.prems r have "receive_rounds J transport ty n w1 = (rm, w')"
      by auto
    from Suc.IH [OF this] obtain rs where "trace w' = trace w1 @ map Received rs" "length rs \<le> n"
      "if rm_ok rm
       then \<exists>rs' r. rs = rs' @ [r] \<and> rr_ok r \<and> rm_document rm = json_document_parse J (rr_payload r) \<and>
         valid (rm_document rm) \<and> ecsp_header_type J (rm_document rm) = Some (to_underlying ty)
       else rm_error rm \<noteq> NoAdoptionError"
      by blast
    then show ?thesis using t1 by (intro exI [of _ "r # rs"]) (auto split: if_splits)
  next
    case False
    with Suc.prems r t1 show ?thesis
      by (intro exI [of _ "[r]"]) (auto simp: received_failure_def Let_def split: if_splits option.splits)
  qed
qed

text \<open>One exchange: sending, receiving until the reply, the two guards.\<close>

lemma exchange_cases:
  assumes "and_then (send_stage transport p seq result)
      (\<lambda>result. and_then (receive_stage J transport ty rej det c (u result)) (k result)) w = (x, w')"
    and "pending result" "rej \<noteq> NoAdoptionError"
  obtains (stopped) r ev where "x = Inl r" "failed r" "trace w' = trace w @ ev" "exchange_events p ev"
  | (answered) doc ev w1 where "trace w1 = trace w @ ev" "answered J p ty ev doc"
      "k (result\<lparr>last_seq := seq\<rparr>) doc w1 = (x, w')"
proof -
  obtain st w1 where send: "tp_send transport p w = (st, w1)" by (cases "tp_send transport p w")
  note t1 = send_trace [OF send]
  show thesis
  proof (cases "ts_ok st")
    case False
    with assms send have "x = Inl (result\<lparr>ar_error := SendFailed, ar_detail := ts_error st\<rparr>)" "w' = w1"
      by (auto simp: and_then_def send_stage_def send_or_fail_def)
    moreover have "exchange_events p [Sent p st]" by (auto simp: exchange_events_def)
    ultimately show thesis using t1 assms(2) by (intro stopped) (auto simp: failed_def pending_def)
  next
    case True
    let ?result = "result\<lparr>last_seq := seq\<rparr>"
    obtain rm w2 where rm: "receive_rounds J transport ty 9 w1 = (rm, w2)"
      by (cases "receive_rounds J transport ty 9 w1")
    then have until: "receive_until J transport ty w1 = (rm, w2)"
      by (simp add: receive_until_def del: receive_rounds.simps)
    from receive_rounds_trace [OF rm] obtain rs where rs: "trace w2 = trace w1 @ map Received rs" "length rs \<le> 9"
      "if rm_ok rm
       then \<exists>rs' r. rs = rs' @ [r] \<and> rr_ok r \<and> rm_document rm = json_document_parse J (rr_payload r) \<and>
         valid (rm_document rm) \<and> ecsp_header_type J (rm_document rm) = Some (to_underlying ty)
       else rm_error rm \<noteq> NoAdoptionError"
      by blast
    have ev: "exchange_events p (Sent p st # map Received rs)" using rs(2) by (auto simp: exchange_events_def)
    have stage: "(if \<not> rm_ok rm then (Inl (failure (rm_error rm) (rm_detail rm) c (u ?result)), w2)
        else if ecsp_header_error J (rm_document rm) \<noteq> 0 then (Inl (failure rej det c (u ?result)), w2)
        else k ?result (rm_document rm) w2) = (x, w')"
      using assms(1) send True until
      by (auto simp: and_then_def send_stage_def send_or_fail_def receive_stage_def Let_def split: if_splits)
    show thesis
    proof (cases "rm_ok rm \<and> ecsp_header_error J (rm_document rm) = 0")
      case True
      with rs(3) obtain rs' r where "rs = rs' @ [r]" "accepted_reply J ty r (rm_document rm)"
        by (auto simp: accepted_reply_def)
      with rs(2) \<open>ts_ok st\<close> have "answered J p ty (Sent p st # map Received rs) (rm_document rm)"
        by (auto simp: answered_def)
      with True stage t1 rs(1) show thesis by (intro answered) auto
    next
      case False
      with stage rs(3) assms(3) have "\<exists>r. x = Inl r \<and> failed r" "w' = w2"
        by (auto simp: failed_failure split: if_splits)
      with t1 rs(1) ev show thesis by (auto intro: stopped)
    qed
  qed
qed

end

section \<open>The stages\<close>

text \<open>
  The random sources of the handshake do not use the transport: the contract of an agent whose
  traffic is traced.
\<close>

locale logged_agent = frame_log transport trace
  for transport :: "'w frame_transport" and trace :: "'w \<Rightarrow> event list" +
  fixes backend :: "'w backend" and options :: "'w adoption_options"
  assumes random_trace: "bk_random_bytes backend w = (bytes, w') \<Longrightarrow> trace w' = trace w"
    and key_trace: "random_system_key options = Some f \<Longrightarrow> f w = (key, w') \<Longrightarrow> trace w' = trace w"

text \<open>The proof of the device account the controller has to give.\<close>

definition controller_proved ::
  "'w backend \<Rightarrow> agent_settings \<Rightarrow> string \<Rightarrow> string \<Rightarrow> event list \<Rightarrow> bool" where
  "controller_proved B s username key ev \<longleftrightarrow>
     (\<exists>r doc auth. r \<in> set (receipts ev) \<and> accepted_reply (bk_json B) DeviceVerifyResponse r doc \<and>
        json_string (bk_json B) (object_member (ecsp_body doc) ''auth'') = Some auth \<and>
        ascii_upper auth =
          ascii_upper (calculate_md5_mode_auth (bk_digests B) username (device_password s) key))"

definition chosen_username :: "jsonc \<Rightarrow> agent_settings \<Rightarrow> json \<Rightarrow> string" where
  "chosen_username J s document =
     (if device_username s \<noteq> [] then device_username s
      else case json_string J (object_member (ecsp_body document) ''username'') of
             Some name \<Rightarrow> name | None \<Rightarrow> [])"

definition verify_message :: "'w backend \<Rightarrow> agent_settings \<Rightarrow> string \<Rightarrow> u64 \<Rightarrow> string \<Rightarrow> string \<Rightarrow> string \<Rightarrow> string" where
  "verify_message B s controller t username device_key key =
     build_device_verify_json s 2 controller
       (calculate_md5_mode_auth (bk_digests B) username (device_password s) device_key) key t"

lemma answered_proved:
  "answered (bk_json B) p DeviceVerifyResponse ev doc \<Longrightarrow>
   json_string (bk_json B) (object_member (ecsp_body doc) ''auth'') = Some auth \<Longrightarrow>
   ascii_upper auth =
     ascii_upper (calculate_md5_mode_auth (bk_digests B) u (device_password s) key) \<Longrightarrow>
   controller_proved B s u key ev"
  unfolding answered_def controller_proved_def by (auto intro!: exI [of _ doc] exI [of _ auth])

lemma controller_proved_append: "controller_proved B s u key ev \<Longrightarrow> controller_proved B s u key (ev' @ ev)"
  by (auto simp: controller_proved_def)

definition negotiated_version :: "'w adoption_options \<Rightarrow> u32" where
  "negotiated_version options =
     (case known_config_version options of
        Some version \<Rightarrow> (if managed_reconnect options then version else 0) | None \<Rightarrow> 0)"

context logged_agent
begin

lemma credentials_trace:
  assumes "credentials_stage backend s c options result doc w = (x, w')"
  shows "trace w' = trace w \<and>
    (case x of Inl r \<Rightarrow> failed r
     | Inr (result', u, dk, key) \<Rightarrow>
         result' = result\<lparr>ar_username := u\<rparr> \<and> u = chosen_username (bk_json backend) s doc \<and> u \<noteq> [] \<and>
         json_string (bk_json backend) (object_member (ecsp_body doc) ''randomKeyForDeviceVerify'') = Some dk \<and>
         36 \<le> length dk \<and> key \<noteq> [] \<and> device_password s \<noteq> [] \<and> device_cipher_type s = 5)"
  using assms
  by (auto simp: credentials_stage_def Let_def failed_failure chosen_username_def
      split: option.splits if_splits prod.splits dest: random_trace key_trace)

lemma preconnect_cases:
  assumes "preconnect_stage backend transport s profile c options result w = (x, w')" "pending result"
  obtains (stopped) r ev p where "x = Inl r" "failed r" "trace w' = trace w @ ev" "exchange_events p ev"
  | (answered) doc ev where "x = Inr (result\<lparr>last_seq := 1\<rparr>, doc)" "trace w' = trace w @ ev"
      "answered (bk_json backend) (build_preconnect_json s profile 1 c (managed_reconnect options)
         (opt_timestamp_ms options)) PreConnectInfoResponse ev doc"
  using assms(1) unfolding preconnect_stage_def
  by (rule exchange_cases [OF _ assms(2)]) (auto intro: stopped answered)

lemma device_verify_cases:
  assumes "device_verify_stage backend transport s c options (result, u, dk, key) w = (x, w')" "pending result"
  obtains (stopped) r ev where "x = Inl r" "failed r" "trace w' = trace w @ ev"
      "exchange_events (verify_message backend s c (opt_timestamp_ms options) u dk key) ev"
  | (answered) doc ev where "x = Inr (result\<lparr>last_seq := 2\<rparr>)" "trace w' = trace w @ ev"
      "answered (bk_json backend) (verify_message backend s c (opt_timestamp_ms options) u dk key)
         DeviceVerifyResponse ev doc"
      "controller_proved backend s u key ev"
  using assms(1) unfolding device_verify_stage_def Let_def prod.case
proof (rule exchange_cases [OF _ assms(2)], goal_cases)
  case 2
  then show ?case by (auto simp: verify_message_def intro: stopped)
next
  case (3 doc ev w1)
  note t = 3(3) and ans = 3(4) [folded verify_message_def] and k = 3(5)
  show ?case
  proof (cases "\<exists>r. x = Inl r")
    case True
    then show ?thesis
      using k t answered_events [OF ans]
      by (auto split: option.splits if_splits simp: failed_failure intro!: stopped)
  next
    case False
    then obtain auth where
      auth: "json_string (bk_json backend) (object_member (ecsp_body doc) ''auth'') = Some auth"
      "ascii_upper auth =
         ascii_upper (calculate_md5_mode_auth (bk_digests backend) u (device_password s) key)"
      and "x = Inr (result\<lparr>last_seq := 2\<rparr>)" "w' = w1"
      using k by (auto split: option.splits if_splits)
    then show ?thesis using t ans answered_proved [OF ans auth] by (intro answered) auto
  qed
qed simp

lemma system_verify_cases:
  assumes "system_verify_stage backend transport s c options result w = (x, w')" "pending result"
  obtains (stopped) r ev p where "x = Inl r" "failed r" "trace w' = trace w @ ev" "exchange_events p ev"
  | (answered) doc ev where "x = Inr (result\<lparr>last_seq := 3, reached_system_verify := True\<rparr>)"
      "trace w' = trace w @ ev"
      "answered (bk_json backend) (build_system_verify_result_json s 3 c (opt_timestamp_ms options))
         VerifyResultAck ev doc"
  using assms(1) unfolding system_verify_stage_def
  by (rule exchange_cases [OF _ assms(2)]) (auto intro: stopped answered)

lemma negotiation_cases:
  assumes "negotiation_stage backend transport s profile c options result w = (x, w')" "pending result"
  obtains (stopped) r ev p where "x = Inl r" "failed r" "trace w' = trace w @ ev" "exchange_events p ev"
  | (answered) doc ev where
      "x = Inr (result\<lparr>last_seq := 4,
         ar_config_version := uint_body_field (bk_json backend) (ecsp_body doc) ''configVersion'',
         ar_sequence_id := uint_body_field (bk_json backend) (ecsp_body doc) ''sequenceId''\<rparr>)"
      "trace w' = trace w @ ev"
      "answered (bk_json backend) (build_device_negotiation_json s profile 4 c (negotiated_version options)
         (opt_timestamp_ms options)) SystemNegotiation ev doc"
  using assms(1) unfolding negotiation_stage_def Let_def negotiated_version_def [symmetric]
  by (rule exchange_cases [OF _ assms(2)]) (auto intro: stopped answered)

lemma init_sync_cases:
  assumes "init_sync_stage backend transport s c options result w = (x, w')" "pending result"
  obtains (stopped) r ev p where "x = Inl r" "failed r" "trace w' = trace w @ ev" "exchange_events p ev"
  | (answered) doc ev where
      "x = Inr (result\<lparr>last_seq := 5, ar_ok := True, initial_sync_complete := True,
         ar_error := NoAdoptionError, ar_detail := []\<rparr>)"
      "trace w' = trace w @ ev"
      "answered (bk_json backend) (build_init_sync_result_json s 5 c (opt_timestamp_ms options))
         InitSyncResultAck ev doc"
  using assms(1) unfolding init_sync_stage_def
  by (rule exchange_cases [OF _ assms(2)]) (auto intro: stopped answered)

end

section \<open>The whole handshake\<close>

lemma pending_start [simp]: "pending (default_adoption_result\<lparr>ar_controller_id := c\<rparr>)"
  by (simp add: pending_def default_adoption_result_def)

lemma pending_updates [simp]:
  "pending (r\<lparr>last_seq := n\<rparr>) = pending r" "pending (r\<lparr>ar_username := u\<rparr>) = pending r"
  "pending (r\<lparr>last_seq := n, reached_system_verify := b\<rparr>) = pending r"
  "pending (r\<lparr>last_seq := n, ar_config_version := cv, ar_sequence_id := si\<rparr>) = pending r"
  by (simp_all add: pending_def)

text \<open>The traffic up to a point is bounded and nothing follows the second message without proof.\<close>

definition guarded ::
  "'w backend \<Rightarrow> agent_settings \<Rightarrow> string \<Rightarrow> 'w adoption_options \<Rightarrow> event list \<Rightarrow> bool" where
  "guarded B s c options ev \<longleftrightarrow>
     length (sent_payloads ev) \<le> 5 \<and> length (receipts ev) \<le> 9 * length (sent_payloads ev) \<and>
     (2 < length (sent_payloads ev) \<longrightarrow>
        (\<exists>ev1 ev2 u dk key. ev = ev1 @ ev2 \<and> length (sent_payloads ev1) = 2 \<and> key \<noteq> [] \<and>
           sent_payloads ev1 ! 1 = verify_message B s c (opt_timestamp_ms options) u dk key \<and>
           controller_proved B s u key ev1))"

definition finished :: "adoption_result \<Rightarrow> bool" where
  "finished r \<longleftrightarrow> ar_ok r \<and> initial_sync_complete r \<and> ar_error r = NoAdoptionError"

lemma guarded_exchange1: "exchange_events p ev \<Longrightarrow> guarded B s c options ev"
  by (auto simp: guarded_def dest!: exchange_counts)

lemma guarded_exchange2: "exchange_events p ev \<Longrightarrow> exchange_events p' ev' \<Longrightarrow> guarded B s c options (ev @ ev')"
  by (auto simp: guarded_def dest!: exchange_counts)

lemma guarded_exchanges:
  assumes "exchange_events p ev" "exchange_events (verify_message B s c (opt_timestamp_ms options) u dk key) ev'"
    "controller_proved B s u key ev'" "key \<noteq> []"
    "length (sent_payloads tail) \<le> 3" "length (receipts tail) \<le> 9 * length (sent_payloads tail)"
  shows "guarded B s c options (ev @ ev' @ tail)"
proof -
  note counts = exchange_counts [OF assms(1)] exchange_counts [OF assms(2)]
  have "controller_proved B s u key (ev @ ev')"
    using assms(3) by (rule controller_proved_append)
  with counts assms(4-6) show ?thesis
    unfolding guarded_def
    by (intro conjI impI exI [of _ "ev @ ev'"] exI [of _ tail] exI [of _ u] exI [of _ dk] exI [of _ key])
      auto
qed

context logged_agent
begin

lemma tail_trace:
  assumes "and_then (system_verify_stage backend transport s c options result)
      (\<lambda>result. and_then (negotiation_stage backend transport s profile c options result)
         (init_sync_stage backend transport s c options)) w = (x, w')" "pending result"
  shows "\<exists>ev. trace w' = trace w @ ev \<and> length (sent_payloads ev) \<le> 3 \<and>
      length (receipts ev) \<le> 9 * length (sent_payloads ev) \<and>
      (case x of Inl r \<Rightarrow> failed r | Inr r \<Rightarrow> finished r)"
proof -
  obtain x1 w1 where s1: "system_verify_stage backend transport s c options result w = (x1, w1)"
    by (cases "system_verify_stage backend transport s c options result w")
  show ?thesis
  proof (rule system_verify_cases [OF s1 assms(2)])
    fix r ev p
    assume "x1 = Inl r" "failed r" "trace w1 = trace w @ ev" "exchange_events p ev"
    with assms s1 show ?thesis by (auto simp: and_then_def dest!: exchange_counts)
  next
    fix doc1 ev1
    let ?r1 = "result\<lparr>last_seq := 3, reached_system_verify := True\<rparr>"
    assume x1: "x1 = Inr ?r1" and t1: "trace w1 = trace w @ ev1"
      and "answered (bk_json backend) (build_system_verify_result_json s 3 c (opt_timestamp_ms options))
        VerifyResultAck ev1 doc1"
    then have e1: "length (sent_payloads ev1) = 1" "length (receipts ev1) \<le> 9"
      by (auto dest!: answered_events exchange_counts)
    obtain x2 w2 where s2: "negotiation_stage backend transport s profile c options ?r1 w1 = (x2, w2)"
      by (cases "negotiation_stage backend transport s profile c options ?r1 w1")
    have p1: "pending ?r1" using assms(2) by simp
    show ?thesis
    proof (rule negotiation_cases [OF s2 p1])
      fix r ev p
      assume "x2 = Inl r" "failed r" "trace w2 = trace w1 @ ev" "exchange_events p ev"
      with assms s1 s2 x1 t1 e1 show ?thesis
        by (intro exI [of _ "ev1 @ ev"]) (auto simp: and_then_def dest!: exchange_counts)
    next
      fix doc2 ev2
      let ?r2 = "?r1\<lparr>last_seq := 4,
         ar_config_version := uint_body_field (bk_json backend) (ecsp_body doc2) ''configVersion'',
         ar_sequence_id := uint_body_field (bk_json backend) (ecsp_body doc2) ''sequenceId''\<rparr>"
      assume x2: "x2 = Inr ?r2" and t2: "trace w2 = trace w1 @ ev2"
        and "answered (bk_json backend) (build_device_negotiation_json s profile 4 c
          (negotiated_version options) (opt_timestamp_ms options)) SystemNegotiation ev2 doc2"
      then have e2: "length (sent_payloads ev2) = 1" "length (receipts ev2) \<le> 9"
        by (auto dest!: answered_events exchange_counts)
      have s3: "init_sync_stage backend transport s c options ?r2 w2 = (x, w')"
        using assms(1) s1 s2 x1 x2 by (simp add: and_then_def)
      have p2: "pending ?r2" using assms(2) by (simp add: pending_def)
      show ?thesis
        by (rule init_sync_cases [OF s3 p2])
          (use e1 e2 in \<open>auto simp: t1 t2 finished_def intro!: exI [of _ "ev1 @ ev2 @ ev" for ev]
            dest!: answered_events exchange_counts\<close>)
    qed
  qed
qed

lemma handshake_guarded:
  assumes "handshake_stages backend transport s profile c options
      (default_adoption_result\<lparr>ar_controller_id := c\<rparr>) w = (x, w')"
  shows "(case x of Inl r \<Rightarrow> failed r | Inr r \<Rightarrow> finished r) \<and>
    (\<exists>ev. trace w' = trace w @ ev \<and> guarded backend s c options ev)"
proof -
  let ?r0 = "default_adoption_result\<lparr>ar_controller_id := c\<rparr>"
  obtain x1 w1 where s1: "preconnect_stage backend transport s profile c options ?r0 w = (x1, w1)"
    by (cases "preconnect_stage backend transport s profile c options ?r0 w")
  show ?thesis
  proof (rule preconnect_cases [OF s1 pending_start])
    fix r' ev p
    assume "x1 = Inl r'" "failed r'" "trace w1 = trace w @ ev" "exchange_events p ev"
    with assms s1 show ?thesis
      by (auto simp: handshake_stages_def and_then_def intro: guarded_exchange1)
  next
    fix doc1 ev1
    let ?r1 = "?r0\<lparr>last_seq := 1\<rparr>"
    assume x1: "x1 = Inr (?r1, doc1)" and t1: "trace w1 = trace w @ ev1"
      and a1: "answered (bk_json backend) (build_preconnect_json s profile 1 c (managed_reconnect options)
         (opt_timestamp_ms options)) PreConnectInfoResponse ev1 doc1"
    obtain x2 w2 where s2: "credentials_stage backend s c options ?r1 doc1 w1 = (x2, w2)"
      by (cases "credentials_stage backend s c options ?r1 doc1 w1")
    note c2 = credentials_trace [OF s2]
    show ?thesis
    proof (cases x2)
      case (Inl r')
      with assms s1 s2 x1 t1 c2 a1 show ?thesis
        by (auto simp: handshake_stages_def and_then_def
            intro: guarded_exchange1 answered_events)
    next
      case (Inr creds)
      then obtain u dk key where x2: "x2 = Inr (?r1\<lparr>ar_username := u\<rparr>, u, dk, key)" and key: "key \<noteq> []"
        using c2 by (cases creds) auto
      let ?r2 = "?r1\<lparr>ar_username := u\<rparr>"
      obtain x3 w3 where s3: "device_verify_stage backend transport s c options (?r2, u, dk, key) w2 = (x3, w3)"
        by (cases "device_verify_stage backend transport s c options (?r2, u, dk, key) w2")
      have t2: "trace w2 = trace w1" using c2 by simp
      have p2: "pending ?r2" by simp
      show ?thesis
      proof (rule device_verify_cases [OF s3 p2])
        fix r' ev
        assume "x3 = Inl r'" "failed r'" "trace w3 = trace w2 @ ev"
          "exchange_events (verify_message backend s c (opt_timestamp_ms options) u dk key) ev"
        with assms s1 s2 s3 x1 x2 t1 t2 a1 show ?thesis
          by (auto simp: handshake_stages_def and_then_def
              intro: guarded_exchange2 answered_events)
      next
        fix doc3 ev3
        let ?r3 = "?r2\<lparr>last_seq := 2\<rparr>"
        assume x3: "x3 = Inr ?r3" and t3: "trace w3 = trace w2 @ ev3"
          and a3: "answered (bk_json backend) (verify_message backend s c (opt_timestamp_ms options) u dk key)
            DeviceVerifyResponse ev3 doc3"
          and proved: "controller_proved backend s u key ev3"
        define tail where "tail = and_then (system_verify_stage backend transport s c options ?r3)
          (\<lambda>result. and_then (negotiation_stage backend transport s profile c options result)
             (init_sync_stage backend transport s c options))"
        have s4: "tail w3 = (x, w')"
          using assms s1 s2 s3 x1 x2 x3 by (auto simp: handshake_stages_def and_then_def tail_def)
        have p3: "pending ?r3" by simp
        obtain ev where ev: "trace w' = trace w3 @ ev" "length (sent_payloads ev) \<le> 3"
          "length (receipts ev) \<le> 9 * length (sent_payloads ev)"
          "case x of Inl r \<Rightarrow> failed r | Inr r \<Rightarrow> finished r"
          using tail_trace [OF s4 [unfolded tail_def] p3] by blast
        have "guarded backend s c options (ev1 @ ev3 @ ev)"
          using ev(2,3) key by (intro guarded_exchanges [OF answered_events [OF a1] answered_events [OF a3] proved])
        then show ?thesis
          using ev(1,4) t1 t2 t3 by auto
      qed
    qed
  qed
qed

lemma run_guarded:
  assumes "run_v2_initial_sync backend transport s profile c options w = (r, w')"
  shows "(failed r \<or> finished r) \<and> (\<exists>ev. trace w' = trace w @ ev \<and> guarded backend s c options ev)"
  using assms
  by (auto simp: run_v2_initial_sync_def failed_failure guarded_def Let_def
      split: if_splits prod.splits sum.splits dest!: handshake_guarded)

text \<open>The complete exchange of a successful handshake.\<close>

lemma run_success:
  assumes "run_v2_initial_sync backend transport s profile c options w = (r, w')" "ar_ok r"
  obtains ev1 ev2 ev3 ev4 ev5 doc1 doc2 doc3 doc4 doc5 u dk key where
    "trace w' = trace w @ ev1 @ ev2 @ ev3 @ ev4 @ ev5"
    "answered (bk_json backend) (build_preconnect_json s profile 1 c (managed_reconnect options)
       (opt_timestamp_ms options)) PreConnectInfoResponse ev1 doc1"
    "json_string (bk_json backend) (object_member (ecsp_body doc1) ''randomKeyForDeviceVerify'') = Some dk"
    "36 \<le> length dk" "u = chosen_username (bk_json backend) s doc1" "u \<noteq> []" "key \<noteq> []"
    "answered (bk_json backend) (verify_message backend s c (opt_timestamp_ms options) u dk key)
       DeviceVerifyResponse ev2 doc2"
    "controller_proved backend s u key ev2"
    "answered (bk_json backend) (build_system_verify_result_json s 3 c (opt_timestamp_ms options))
       VerifyResultAck ev3 doc3"
    "answered (bk_json backend) (build_device_negotiation_json s profile 4 c (negotiated_version options)
       (opt_timestamp_ms options)) SystemNegotiation ev4 doc4"
    "answered (bk_json backend) (build_init_sync_result_json s 5 c (opt_timestamp_ms options))
       InitSyncResultAck ev5 doc5"
    "r = \<lparr>ar_ok = True, reached_system_verify = True, initial_sync_complete = True,
       ar_error = NoAdoptionError, ar_detail = [], ar_controller_id = c, ar_username = u,
       ar_config_version = uint_body_field (bk_json backend) (ecsp_body doc4) ''configVersion'',
       ar_sequence_id = uint_body_field (bk_json backend) (ecsp_body doc4) ''sequenceId'', last_seq = 5\<rparr>"
proof -
  let ?r0 = "default_adoption_result\<lparr>ar_controller_id := c\<rparr>"
  from assms have "c \<noteq> []"
    by (auto simp: run_v2_initial_sync_def failure_def default_adoption_result_def)
  with assms have chain: "handshake_stages backend transport s profile c options ?r0 w = (Inr r, w')"
    using handshake_guarded [of s profile c w]
    by (fastforce simp: run_v2_initial_sync_def failed_def Let_def split: prod.splits sum.splits)
  from chain [unfolded handshake_stages_def] obtain r1 doc1 w1 creds w2 r3 w3 r4 w4 r5 w5 where
    s1: "preconnect_stage backend transport s profile c options ?r0 w = (Inr (r1, doc1), w1)"
    and s2: "credentials_stage backend s c options r1 doc1 w1 = (Inr creds, w2)"
    and s3: "device_verify_stage backend transport s c options creds w2 = (Inr r3, w3)"
    and s4: "system_verify_stage backend transport s c options r3 w3 = (Inr r4, w4)"
    and s5: "negotiation_stage backend transport s profile c options r4 w4 = (Inr r5, w5)"
    and s6: "init_sync_stage backend transport s c options r5 w5 = (Inr r, w')"
    by (auto simp: and_then_Inr split: prod.splits)
  obtain r2 u dk key where creds: "creds = (r2, u, dk, key)" by (cases creds)
  obtain ev1 where e1: "r1 = ?r0\<lparr>last_seq := 1\<rparr>" "trace w1 = trace w @ ev1"
    "answered (bk_json backend) (build_preconnect_json s profile 1 c (managed_reconnect options)
       (opt_timestamp_ms options)) PreConnectInfoResponse ev1 doc1"
    by (rule preconnect_cases [OF s1 pending_start]) auto
  have e2: "r2 = r1\<lparr>ar_username := u\<rparr>" "u = chosen_username (bk_json backend) s doc1" "u \<noteq> []"
    "json_string (bk_json backend) (object_member (ecsp_body doc1) ''randomKeyForDeviceVerify'') = Some dk"
    "36 \<le> length dk" "key \<noteq> []" "trace w2 = trace w1"
    using credentials_trace [OF s2] by (auto simp: creds)
  have p2: "pending r2" by (simp add: e1 e2)
  obtain ev3 doc3 where e3: "r3 = r2\<lparr>last_seq := 2\<rparr>" "trace w3 = trace w2 @ ev3"
    "answered (bk_json backend) (verify_message backend s c (opt_timestamp_ms options) u dk key)
       DeviceVerifyResponse ev3 doc3" "controller_proved backend s u key ev3"
    by (rule device_verify_cases [OF s3 [unfolded creds] p2]) auto
  have p3: "pending r3" using p2 by (simp add: e3)
  obtain ev4 doc4 where e4: "r4 = r3\<lparr>last_seq := 3, reached_system_verify := True\<rparr>"
    "trace w4 = trace w3 @ ev4"
    "answered (bk_json backend) (build_system_verify_result_json s 3 c (opt_timestamp_ms options))
       VerifyResultAck ev4 doc4"
    by (rule system_verify_cases [OF s4 p3]) auto
  have p4: "pending r4" using p3 by (simp add: e4)
  obtain ev5 doc5 where e5: "r5 = r4\<lparr>last_seq := 4,
       ar_config_version := uint_body_field (bk_json backend) (ecsp_body doc5) ''configVersion'',
       ar_sequence_id := uint_body_field (bk_json backend) (ecsp_body doc5) ''sequenceId''\<rparr>"
    "trace w5 = trace w4 @ ev5"
    "answered (bk_json backend) (build_device_negotiation_json s profile 4 c (negotiated_version options)
       (opt_timestamp_ms options)) SystemNegotiation ev5 doc5"
    by (rule negotiation_cases [OF s5 p4]) auto
  have p5: "pending r5" using p4 by (simp add: e5)
  obtain ev6 doc6 where e6: "r = r5\<lparr>last_seq := 5, ar_ok := True, initial_sync_complete := True,
       ar_error := NoAdoptionError, ar_detail := []\<rparr>" "trace w' = trace w5 @ ev6"
    "answered (bk_json backend) (build_init_sync_result_json s 5 c (opt_timestamp_ms options))
       InitSyncResultAck ev6 doc6"
    by (rule init_sync_cases [OF s6 p5]) auto
  show thesis
    by (rule that [OF _ e1(3) e2(4,5,2,3,6) e3(3,4) e4(3) e5(3) e6(3)])
      (simp_all add: e1 e2 e3 e4 e5 e6 default_adoption_result_def)
qed

end

section \<open>The controller of a run\<close>

text \<open>Every result of a run, success or failure, names the controller the run was made for.\<close>

definition stage_keeps :: "string \<Rightarrow> ('w, adoption_result, 'x) stage \<Rightarrow> ('x \<Rightarrow> bool) \<Rightarrow> bool" where
  "stage_keeps c st Q \<longleftrightarrow>
     (\<forall>w x w'. st w = (x, w') \<longrightarrow> (case x of Inl r \<Rightarrow> ar_controller_id r = c | Inr y \<Rightarrow> Q y))"

lemma stage_keeps_and_then:
  assumes "stage_keeps c st Q" "\<And>y. Q y \<Longrightarrow> stage_keeps c (f y) R"
  shows "stage_keeps c (and_then st f) R"
  unfolding stage_keeps_def
proof (intro allI impI)
  fix w x w'
  assume run: "and_then st f w = (x, w')"
  obtain y w1 where first: "st w = (y, w1)" by fastforce
  with assms(1) have y: "case y of Inl r \<Rightarrow> ar_controller_id r = c | Inr y \<Rightarrow> Q y" unfolding stage_keeps_def by blast
  show "case x of Inl r \<Rightarrow> ar_controller_id r = c | Inr y \<Rightarrow> R y"
  proof (cases y)
    case Inl
    with run first y show ?thesis by (auto simp: and_then_def)
  next
    case (Inr a)
    with run first have "f a w1 = (x, w')" by (simp add: and_then_def)
    with assms(2) [of a] y Inr show ?thesis unfolding stage_keeps_def by auto
  qed
qed

lemma stage_keeps_basic:
  "ar_controller_id r = c \<Longrightarrow> stage_keeps c (send_stage T p n r) (\<lambda>r. ar_controller_id r = c)"
  "stage_keeps c (receive_stage J T ty e d c u) (\<lambda>_. True)"
  "Q y \<Longrightarrow> stage_keeps c (proceed y) Q"
  "ar_controller_id r = c \<Longrightarrow> stage_keeps c (give_up r) Q"
  by (auto simp: stage_keeps_def send_stage_def send_or_fail_def receive_stage_def failure_def proceed_def give_up_def
      Let_def split: prod.splits if_splits)

lemma exchange_keeps:
  assumes "ar_controller_id r = c" "\<And>r d. ar_controller_id r = c \<Longrightarrow> stage_keeps c (g r d) Q"
  shows "stage_keeps c (and_then (send_stage T p n r) (\<lambda>r. and_then (receive_stage J T ty e d c (u r)) (g r))) Q"
  by (rule stage_keeps_and_then [OF stage_keeps_basic(1) [OF assms(1)] stage_keeps_and_then [OF stage_keeps_basic(2)]])
    (rule assms(2))

lemma credentials_keeps:
  "ar_controller_id r = c \<Longrightarrow> stage_keeps c (credentials_stage B s c opts r d) (\<lambda>x. ar_controller_id (fst x) = c)"
  by (auto simp: stage_keeps_def credentials_stage_def failure_def Let_def split: prod.splits option.splits if_splits)

lemma verify_keeps:
  "ar_controller_id (fst x) = c \<Longrightarrow> stage_keeps c (device_verify_stage B T s c opts x) (\<lambda>r. ar_controller_id r = c)"
  unfolding device_verify_stage_def Let_def
  by (auto intro!: exchange_keeps stage_keeps_basic simp: failure_def split: prod.split option.split)

lemma later_keep:
  assumes "ar_controller_id r = c"
  shows "stage_keeps c (system_verify_stage B T s c opts r) (\<lambda>r. ar_controller_id r = c)"
    "stage_keeps c (negotiation_stage B T s profile c opts r) (\<lambda>r. ar_controller_id r = c)"
    "stage_keeps c (init_sync_stage B T s c opts r) (\<lambda>r. ar_controller_id r = c)"
    "stage_keeps c (preconnect_stage B T s profile c opts r) (\<lambda>x. ar_controller_id (fst x) = c)"
  unfolding system_verify_stage_def negotiation_stage_def init_sync_stage_def preconnect_stage_def Let_def
  by (intro exchange_keeps assms stage_keeps_basic; simp)+

lemma run_v2_initial_sync_controller:
  assumes "run_v2_initial_sync B T s profile c opts w = (r, w')"
  shows "ar_controller_id r = c"
proof -
  let ?keeps = "\<lambda>st. stage_keeps c st (\<lambda>r. ar_controller_id r = c)"
  let ?negotiate = "\<lambda>r. and_then (negotiation_stage B T s profile c opts r) (init_sync_stage B T s c opts)"
  let ?system = "\<lambda>r. and_then (system_verify_stage B T s c opts r) ?negotiate"
  let ?device = "\<lambda>x. and_then (device_verify_stage B T s c opts x) ?system"
  have negotiate: "?keeps (?negotiate r)" if "ar_controller_id r = c" for r
    by (rule stage_keeps_and_then [OF later_keep(2) [OF that] later_keep(3)])
  have system: "?keeps (?system r)" if "ar_controller_id r = c" for r
    by (rule stage_keeps_and_then [OF later_keep(1) [OF that] negotiate])
  have device: "?keeps (?device x)" if "ar_controller_id (fst x) = c" for x
    by (rule stage_keeps_and_then [OF verify_keeps [OF that] system])
  have credentials: "?keeps ((\<lambda>(r, d). and_then (credentials_stage B s c opts r d) ?device) x)"
    if "ar_controller_id (fst x) = c" for x
    using stage_keeps_and_then [OF credentials_keeps [OF that] device] by (simp add: case_prod_beta)
  have "?keeps (handshake_stages B T s profile c opts (default_adoption_result\<lparr>ar_controller_id := c\<rparr>))"
    unfolding handshake_stages_def by (rule stage_keeps_and_then [OF later_keep(4) credentials]) simp_all
  then have "case x of Inl r \<Rightarrow> ar_controller_id r = c | Inr r \<Rightarrow> ar_controller_id r = c"
    if "handshake_stages B T s profile c opts (default_adoption_result\<lparr>ar_controller_id := c\<rparr>) w = (x, w1)" for x w1
    using that unfolding stage_keeps_def by blast
  moreover obtain x w1 where
    "handshake_stages B T s profile c opts (default_adoption_result\<lparr>ar_controller_id := c\<rparr>) w = (x, w1)" by fastforce
  ultimately show ?thesis
    using assms by (cases "c = []"; cases x) (auto simp: run_v2_initial_sync_def failure_def outcome_def Let_def)
qed

section \<open>The handshake over a recorded transport\<close>

definition recorded_backend :: "'w backend \<Rightarrow> ('w \<times> event list) backend" where
  "recorded_backend B = \<lparr>bk_json = bk_json B, bk_digests = bk_digests B,
     bk_random_bytes = quiet (bk_random_bytes B)\<rparr>"

definition recorded_options :: "'w adoption_options \<Rightarrow> ('w \<times> event list) adoption_options" where
  "recorded_options opts =
     \<lparr>managed_reconnect = managed_reconnect opts, known_config_version = known_config_version opts,
      random_system_key = map_option quiet (random_system_key opts),
      opt_timestamp_ms = opt_timestamp_ms opts\<rparr>"

interpretation recorded_agent:
  logged_agent "recording T" snd "recorded_backend B" "recorded_options opts" for T B opts
  by unfold_locales
    (auto simp: recorded_backend_def recorded_options_def quiet_def split: prod.splits)

lemma recorded_simps [simp]:
  "bk_json (recorded_backend B) = bk_json B" "bk_digests (recorded_backend B) = bk_digests B"
  "managed_reconnect (recorded_options opts) = managed_reconnect opts"
  "known_config_version (recorded_options opts) = known_config_version opts"
  "opt_timestamp_ms (recorded_options opts) = opt_timestamp_ms opts"
  "negotiated_version (recorded_options opts) = negotiated_version opts"
  by (auto simp: recorded_backend_def recorded_options_def negotiated_version_def split: option.splits)

lemma recorded_verify [simp]: "verify_message (recorded_backend B) = verify_message B"
  by (simp add: verify_message_def fun_eq_iff)

lemma recorded_proved [simp]: "controller_proved (recorded_backend B) = controller_proved B"
  by (simp add: controller_proved_def fun_eq_iff)

lemma recorded_guarded [simp]:
  "guarded (recorded_backend B) s c (recorded_options opts) = guarded B s c opts"
  by (simp add: guarded_def fun_eq_iff)

lemma answered_payload: "answered J p ty ev doc \<Longrightarrow> sent_payloads ev = [p]"
  by (simp add: answered_events exchange_counts)

lemma answered_receipt:
  "answered J p ty ev doc \<Longrightarrow> \<exists>r. r \<in> set (receipts ev) \<and> accepted_reply J ty r doc"
  by (auto simp: answered_def)

section \<open>Properties\<close>

text \<open>
  C1. A handshake that reports success has sent exactly the five messages of the protocol, numbered
  1 to 5, and the controller has proved that it knows the device account: among the receptions is a
  DEVICE_VERIFY_RESPONSE without error whose \<open>auth\<close> is the proof of the agent's fresh random key.
  The configuration version reported is the one of the controller's SYSTEM_NEGOTIATION.
\<close>

theorem adoption_success:
  assumes "run_v2_initial_sync (recorded_backend B) (recording T) s profile c (recorded_options opts) (w, []) =
      (r, w', log)" and "ar_ok r"
  shows "\<exists>u dk key.
    sent_payloads log =
      [build_preconnect_json s profile 1 c (managed_reconnect opts) (opt_timestamp_ms opts),
       verify_message B s c (opt_timestamp_ms opts) u dk key,
       build_system_verify_result_json s 3 c (opt_timestamp_ms opts),
       build_device_negotiation_json s profile 4 c (negotiated_version opts) (opt_timestamp_ms opts),
       build_init_sync_result_json s 5 c (opt_timestamp_ms opts)] \<and>
    u \<noteq> [] \<and> key \<noteq> [] \<and> 36 \<le> length dk \<and> controller_proved B s u key log \<and>
    ar_username r = u \<and> initial_sync_complete r \<and> last_seq r = 5 \<and>
    (\<exists>rr doc. rr \<in> set (receipts log) \<and> accepted_reply (bk_json B) SystemNegotiation rr doc \<and>
       ar_config_version r = uint_body_field (bk_json B) (ecsp_body doc) ''configVersion'')"
  using assms
proof (rule recorded_agent.run_success, goal_cases)
  case (1 ev1 ev2 ev3 ev4 ev5 doc1 doc2 doc3 doc4 doc5 u dk key)
  note sent = answered_payload [OF 1(2)] answered_payload [OF 1(8)] answered_payload [OF 1(10)]
    answered_payload [OF 1(11)] answered_payload [OF 1(12)]
  have "controller_proved B s u key log"
    using 1(1,9) by (auto simp: controller_proved_def)
  moreover from answered_receipt [OF 1(11)] obtain rr where
    "rr \<in> set (receipts ev4)" "accepted_reply (bk_json B) SystemNegotiation rr doc4" by auto
  ultimately show ?case
    using 1 sent by (intro exI [of _ u] exI [of _ dk] exI [of _ key]) auto
qed

text \<open>
  C2. In every run of the handshake, whatever the controller answers: the result is either a
  complete success or a failure with an error code, at most five messages are sent and at most nine
  receptions follow each, and the third message, SYSTEM_VERIFY_RESULT, and all later ones are sent
  only after the controller has proved that it knows the device account (\<open>guarded\<close>).
\<close>

theorem adoption_guarded:
  "case run_v2_initial_sync (recorded_backend B) (recording T) s profile c (recorded_options opts) (w, []) of
     (r, w', log) \<Rightarrow> (failed r \<or> finished r) \<and> guarded B s c opts log"
  by (auto dest: recorded_agent.run_guarded split: prod.splits)

lemma builders_ignore_password:
  "build_preconnect_json (s\<lparr>device_password := q\<rparr>) = build_preconnect_json s"
  "build_device_verify_json (s\<lparr>device_password := q\<rparr>) = build_device_verify_json s"
  "build_system_verify_result_json (s\<lparr>device_password := q\<rparr>) = build_system_verify_result_json s"
  "build_device_negotiation_json (s\<lparr>device_password := q\<rparr>) = build_device_negotiation_json s"
  "build_init_sync_result_json (s\<lparr>device_password := q\<rparr>) = build_init_sync_result_json s"
  by (simp_all add: fun_eq_iff build_preconnect_json_def build_device_verify_json_def
      build_system_verify_result_json_def build_device_negotiation_json_def
      build_init_sync_result_json_def base_header_def)

lemma md5_auth_password:
  "upper_md5 H q = upper_md5 H q' \<Longrightarrow> calculate_md5_mode_auth H u q k = calculate_md5_mode_auth H u q' k"
  by (simp add: calculate_md5_mode_auth_def)

lemma stages_password:
  fixes s :: agent_settings
  assumes "upper_md5 (bk_digests B) q = upper_md5 (bk_digests B) q'" "q \<noteq> []" "q' \<noteq> []"
  defines "s1 \<equiv> s\<lparr>device_password := q\<rparr>" and "s2 \<equiv> s\<lparr>device_password := q'\<rparr>"
  shows "preconnect_stage B T s1 = preconnect_stage B T s2"
    "credentials_stage B s1 = credentials_stage B s2"
    "device_verify_stage B T s1 = device_verify_stage B T s2"
    "system_verify_stage B T s1 = system_verify_stage B T s2"
    "negotiation_stage B T s1 = negotiation_stage B T s2"
    "init_sync_stage B T s1 = init_sync_stage B T s2"
  unfolding s1_def s2_def
  using assms(2,3) md5_auth_password [OF assms(1)]
  by (simp_all add: fun_eq_iff preconnect_stage_def credentials_stage_def device_verify_stage_def
      system_verify_stage_def negotiation_stage_def init_sync_stage_def builders_ignore_password
      cong: option.case_cong if_cong)

text \<open>
  C15. The device password enters the handshake only through its MD5 digest: two non-empty
  passwords with the same digest give the same result, the same traffic and the same final world.
\<close>

theorem adoption_password_digest:
  assumes "upper_md5 (bk_digests B) q = upper_md5 (bk_digests B) q'" "q \<noteq> []" "q' \<noteq> []"
  shows "run_v2_initial_sync B T (s\<lparr>device_password := q\<rparr>) profile c options w =
         run_v2_initial_sync B T (s\<lparr>device_password := q'\<rparr>) profile c options w"
  by (simp add: run_v2_initial_sync_def handshake_stages_def stages_password [OF assms])

section \<open>A concrete handshake\<close>

definition sample_reply :: "message_type \<Rightarrow> (string \<times> json) list \<Rightarrow> json" where
  "sample_reply type body =
     JObject [(''header'', JObject [(''type'', JInt (uint (to_underlying type))), (''error'', JInt 0)]),
              (''body'', JObject body)]"

definition sample_texts :: "(string \<times> json) list" where
  "sample_texts =
     [(''1'', sample_reply PreConnectInfoResponse
         [(''randomKeyForDeviceVerify'', JString (replicate 36 CHR ''k'')), (''username'', JString ''admin'')]),
      (''0'', sample_reply InformResponse []),
      (''2'', sample_reply DeviceVerifyResponse [(''auth'', JString ''2b'')]),
      (''3'', sample_reply VerifyResultAck []),
      (''4'', sample_reply SystemNegotiation [(''configVersion'', JInt 7), (''sequenceId'', JInt 3)]),
      (''5'', sample_reply InitSyncResultAck [])]"

definition sample_backend :: "string list backend" where
  "sample_backend =
     \<lparr>bk_json = table_jsonc sample_texts,
      bk_digests = \<lparr>md5_digest = (\<lambda>_. Some [0x1A]), sha256_digest = (\<lambda>_. Some [0x2B])\<rparr>,
      bk_random_bytes = (\<lambda>w. (None, w))\<rparr>"

definition sample_options :: "string list adoption_options" where
  "sample_options =
     \<lparr>managed_reconnect = False, known_config_version = None,
      random_system_key = Some (\<lambda>w. (''fresh'', w)), opt_timestamp_ms = 0\<rparr>"

definition sample_settings :: agent_settings where
  "sample_settings = default_settings\<lparr>device_password := ''secret''\<rparr>"

text \<open>The controller interleaves an unrelated message; the handshake skips it.\<close>

definition sample_script :: "string list" where
  "sample_script = [''1'', ''0'', ''2'', ''3'', ''4'', ''5'']"

definition sample_run :: "adoption_result \<times> string list \<times> event list" where
  "sample_run = run_v2_initial_sync (recorded_backend sample_backend) (recording scripted)
     sample_settings (make_profile sample_settings) ''ctrl'' (recorded_options sample_options)
     (sample_script, [])"

lemma sample_parse [simp]:
  "json_document_parse (table_jsonc sample_texts) ''1'' = sample_reply PreConnectInfoResponse
     [(''randomKeyForDeviceVerify'', JString (replicate 36 CHR ''k'')), (''username'', JString ''admin'')]"
  "json_document_parse (table_jsonc sample_texts) ''0'' = sample_reply InformResponse []"
  "json_document_parse (table_jsonc sample_texts) ''2'' =
     sample_reply DeviceVerifyResponse [(''auth'', JString ''2b'')]"
  "json_document_parse (table_jsonc sample_texts) ''3'' = sample_reply VerifyResultAck []"
  "json_document_parse (table_jsonc sample_texts) ''4'' =
     sample_reply SystemNegotiation [(''configVersion'', JInt 7), (''sequenceId'', JInt 3)]"
  "json_document_parse (table_jsonc sample_texts) ''5'' = sample_reply InitSyncResultAck []"
  by (simp_all add: json_document_parse_def sample_texts_def sample_reply_def)

lemma to_underlying_range: "uint (to_underlying type) < 2 ^ 31"
  by (cases type) simp_all

lemma sample_reply_simps [simp]:
  "valid (sample_reply type body)"
  "ecsp_header_type (table_jsonc t) (sample_reply type body) = Some (to_underlying type)"
  "ecsp_header_error (table_jsonc t) (sample_reply type body) = 0"
  "ecsp_body (sample_reply type body) = JObject body"
proof -
  have low: "i64_min \<le> uint (to_underlying type)"
    by (rule order_trans [OF _ uint_nonnegative]) (simp add: i64_min_def)
  have high: "uint (to_underlying type) \<le> i64_max"
    using to_underlying_range [of type] by (simp add: i64_max_def)
  have int: "jc_get_int64 (table_jsonc t) (JInt (uint (to_underlying type))) =
      word_of_int (uint (to_underlying type))"
    by (simp add: table_jsonc_def low high min_absorb2 max_absorb2)
  have "sint (word_of_int (uint (to_underlying type)) :: i64) = uint (to_underlying type)"
    using low high
    by (simp only: sint_sbintrunc' signed_take_bit_int_eq_self_iff) (simp add: i64_min_def i64_max_def)
  moreover have "(ucast (ucast (w :: u32) :: i64) :: u32) = w" for w
    by (rule bit_word_eqI) (simp add: bit_ucast_iff)
  ultimately show "ecsp_header_type (table_jsonc t) (sample_reply type body) = Some (to_underlying type)"
    by (simp add: sample_reply_def ecsp_header_type_def json_int_def int)
qed (simp_all add: valid_def sample_reply_def ecsp_header_error_def ecsp_body_def json_int_def
       table_jsonc_def i64_min_def i64_max_def)

lemma receive_rounds_positive:
  "0 < n \<Longrightarrow> receive_rounds J T expected n w =
    (let (received, w) = tp_receive T w
     in if \<not> rr_ok received then (received_failure ReceiveFailed (rr_error received), w)
        else
          (let document = json_document_parse J (rr_payload received)
           in if \<not> valid document
              then (received_failure InvalidJson ''controller sent invalid ECSP JSON'', w)
              else
                (case ecsp_header_type J document of
                   None \<Rightarrow> (received_failure InvalidJson ''controller message has no header.type'', w)
                 | Some type \<Rightarrow>
                     if type = to_underlying expected
                     then (\<lparr>rm_ok = True, rm_error = NoAdoptionError, rm_detail = [], rm_document = document\<rparr>, w)
                     else receive_rounds J T expected (n - 1) w)))"
proof -
  assume "0 < n"
  then obtain m where "n = Suc m" "n - 1 = m" by (cases n) simp_all
  then show ?thesis by (simp only: receive_rounds.simps)
qed

lemma sample_facts:
  "bk_json sample_backend = table_jsonc sample_texts" "device_username sample_settings = []"
  "device_password sample_settings = ''secret''" "device_cipher_type sample_settings = 5"
  "random_system_key (recorded_options sample_options) = Some (\<lambda>w. (''fresh'', w))"
  "length (c_string (replicate 36 CHR ''k'')) = 36" "c_string ''admin'' = ''admin''" "c_string ''2b'' = ''2b''"
  "ascii_upper ''2b'' = ''2B''" "ascii_upper ''2B'' = ''2B''"
  "calculate_md5_mode_auth (bk_digests sample_backend) u q k = ''2B''"
  by (simp_all add: sample_backend_def sample_settings_def default_settings_def sample_options_def
      recorded_options_def quiet_def c_string_def ascii_upper_def to_upper_def code_def char_of_eq_iff
      fun_eq_iff) code_simp+

lemmas stage_defs = preconnect_stage_def credentials_stage_def device_verify_stage_def
  system_verify_stage_def negotiation_stage_def init_sync_stage_def and_then_def send_stage_def
  send_or_fail_def receive_stage_def receive_until_def receive_rounds_positive recording_send recording_receive

lemma sample_run_ok: "ar_ok (fst sample_run)"
  unfolding sample_run_def sample_script_def
  by (simp add: run_v2_initial_sync_def handshake_stages_def stage_defs proceed_def give_up_def
      sample_facts status_success_def default_receive_result_def default_adoption_result_def
      del: receive_rounds.simps add:
      json_string_def Let_def)

theorem adoption_success_witness:
  "\<exists>u dk key log. snd (snd sample_run) = log \<and> length (sent_payloads log) = 5 \<and>
     controller_proved sample_backend sample_settings u key log"
proof -
  obtain r w log where run: "sample_run = (r, w, log)" by (cases sample_run)
  have "ar_ok r" using sample_run_ok unfolding run by simp
  from adoption_success [OF run [unfolded sample_run_def] this] show ?thesis
    unfolding run by auto
qed

theorem adoption_password_digest_witness:
  "run_v2_initial_sync sample_backend scripted (default_settings\<lparr>device_password := ''a''\<rparr>)
     (make_profile default_settings) ''ctrl'' sample_options sample_script =
   run_v2_initial_sync sample_backend scripted (default_settings\<lparr>device_password := ''b''\<rparr>)
     (make_profile default_settings) ''ctrl'' sample_options sample_script"
  by (rule adoption_password_digest) (simp_all add: sample_backend_def upper_md5_def digest_evp_def)

end
