(* ===== verification/Frame_Codec.thy ===== *)
theory Frame_Codec
  imports Cpp_Prelude
begin

unbundle bit_operations_syntax

text \<open>
  \<open>src/src/protocol/frame_codec.cpp\<close>: the length-prefixed frames of the ECSP connection and of the
  discovery datagrams.  Bytes are characters, as payloads are \<open>std::string\<close>s; \<open>byte_char\<close> and
  \<open>char_byte\<close> convert.  \<open>std::size_t\<close> is \<open>nat\<close>: sizes of buffers in memory; the 32-bit length
  field is a word, so that the truncation of an oversized payload is visible.
\<close>

definition kLengthSize :: nat where "kLengthSize = 4"
definition kMaxDiscoveryPayload :: nat where "kMaxDiscoveryPayload = 2000"
definition kMaxTcpPayload :: nat where "kMaxTcpPayload = 8 * 1024 * 1024"

datatype frame_error = FrameNone | TooShort | EmptyPayload | PayloadTooLarge | LengthMismatch

record decode_result =
  dr_error :: frame_error
  declared_length :: u32
  actual_length :: nat
  dr_payload :: string

definition empty_decode_result :: decode_result where
  "empty_decode_result = \<lparr>dr_error = FrameNone, declared_length = 0, actual_length = 0, dr_payload = []\<rparr>"

definition decode_ok :: "decode_result \<Rightarrow> bool" where
  "decode_ok r \<longleftrightarrow> dr_error r = FrameNone"

definition byte_char :: "u8 \<Rightarrow> char" where
  "byte_char b = char_of (unat b)"

definition char_u32 :: "char \<Rightarrow> u32" where
  "char_u32 c = of_nat (code c)"

definition encode_frame :: "string \<Rightarrow> string" where
  "encode_frame payload =
    (let len = (of_nat (length payload) :: u32)
     in [byte_char (ucast (drop_bit 24 len AND 0xFF)),
         byte_char (ucast (drop_bit 16 len AND 0xFF)),
         byte_char (ucast (drop_bit 8 len AND 0xFF)),
         byte_char (ucast (len AND 0xFF))] @ payload)"

definition frame_length :: "string \<Rightarrow> u32" where
  "frame_length bytes =
     push_bit 24 (char_u32 (bytes ! 0)) OR push_bit 16 (char_u32 (bytes ! 1)) OR
     push_bit 8 (char_u32 (bytes ! 2)) OR char_u32 (bytes ! 3)"

text \<open>\<open>data == nullptr\<close> is \<open>None\<close>.\<close>

definition decode_frame :: "string option \<Rightarrow> nat \<Rightarrow> decode_result" where
  "decode_frame bytes max_payload =
    (let result = empty_decode_result
     in case bytes of
          None \<Rightarrow> result\<lparr>dr_error := TooShort\<rparr>
        | Some frame \<Rightarrow>
            if length frame < kLengthSize then result\<lparr>dr_error := TooShort\<rparr>
            else
              (let declared = frame_length frame;
                   result = result\<lparr>declared_length := declared,
                                   actual_length := length frame - kLengthSize\<rparr>
               in if declared = 0 then result\<lparr>dr_error := EmptyPayload\<rparr>
                  else if max_payload < unat declared then result\<lparr>dr_error := PayloadTooLarge\<rparr>
                  else if unat declared \<noteq> actual_length result then result\<lparr>dr_error := LengthMismatch\<rparr>
                  else result\<lparr>dr_payload := take (unat declared) (drop kLengthSize frame)\<rparr>))"

section \<open>Lemmas\<close>

lemma char_u32_byte_char: "char_u32 (byte_char b) = ucast b"
proof -
  have "unat b < 256" using unsigned_less [of b, where ?'a = nat] by simp
  then show ?thesis by (simp add: char_u32_def byte_char_def)
qed

lemma bit_char_u32: "bit (char_u32 (byte_char b)) n = bit b n"
  by (auto simp: char_u32_byte_char bit_ucast_iff dest: bit_imp_le_length)

lemma bit_255: "bit (0xFF :: u32) k \<longleftrightarrow> k < 8"
proof -
  have "(0xFF :: u32) = mask 8" by (simp add: mask_eq_exp_minus_1)
  then have "bit (0xFF :: u32) k \<longleftrightarrow> bit (mask 8 :: u32) k" by (simp only:)
  then show ?thesis by (simp only: bit_mask_iff) auto
qed

lemma frame_length_Cons:
  "frame_length (a # b # c # d # rest) =
     push_bit 24 (char_u32 a) OR push_bit 16 (char_u32 b) OR push_bit 8 (char_u32 c) OR char_u32 d"
  by (simp add: frame_length_def)

lemma frame_length_of_bytes:
  "frame_length (byte_char (ucast (drop_bit 24 w AND 0xFF)) # byte_char (ucast (drop_bit 16 w AND 0xFF)) #
     byte_char (ucast (drop_bit 8 w AND 0xFF)) # byte_char (ucast (w AND 0xFF)) # rest) = (w :: u32)"
  (is "?l = w")
proof (rule bit_word_eqI)
  fix n
  assume n: "n < LENGTH(32)"
  have l: "bit ?l n \<longleftrightarrow>
      24 \<le> n \<and> n - 24 < 8 \<and> bit w (n - 24 + 24) \<or> 16 \<le> n \<and> n - 16 < 8 \<and> bit w (n - 16 + 16) \<or>
      8 \<le> n \<and> n - 8 < 8 \<and> bit w (n - 8 + 8) \<or> n < 8 \<and> bit w n"
    using n
    unfolding frame_length_Cons bit_or_iff bit_push_bit_iff bit_char_u32 bit_ucast_iff bit_and_iff
      bit_drop_bit_eq bit_255
    by (auto simp: add.commute)
  consider "n < 8" | "8 \<le> n" "n < 16" | "16 \<le> n" "n < 24" | "24 \<le> n" by linarith
  then show "bit ?l n = bit w n"
    unfolding l using n by cases auto
qed

lemma length_encode_frame [simp]: "length (encode_frame p) = length p + 4"
  by (simp add: encode_frame_def Let_def)

lemma frame_length_encode: "length p < 2 ^ 32 \<Longrightarrow> unat (frame_length (encode_frame p @ rest)) = length p"
  unfolding encode_frame_def Let_def append_assoc append_Cons append_Nil frame_length_of_bytes
  by (simp add: unsigned_of_nat take_bit_nat_eq_self)

lemma drop_encode_frame [simp]: "drop 4 (encode_frame p) = p"
  by (simp add: encode_frame_def Let_def)

lemma bit_code: "bit (code c) k \<Longrightarrow> k < 8"
proof -
  have "take_bit 8 (code c) = code c" by (simp add: take_bit_nat_eq_self)
  then show "bit (code c) k \<Longrightarrow> k < 8" by (metis bit_take_bit_iff)
qed

lemma code_char_u32: "bit (char_u32 c) k \<longleftrightarrow> k < 8 \<and> bit (code c) k"
  using bit_code [of c k] by (auto simp: char_u32_def bit_of_nat_iff possible_bit_def)

lemma byte_char_eqI:
  assumes "\<And>k. k < 8 \<Longrightarrow> bit b k = bit (char_u32 c) k"
  shows "byte_char b = c"
proof -
  have "bit (char_u32 (byte_char b)) n = bit (char_u32 c) n" for n
    using assms [of n] unfolding bit_char_u32
    by (cases "n < 8") (auto simp: code_char_u32 dest: bit_imp_le_length)
  then have "char_u32 (byte_char b) = char_u32 c"
    by (intro bit_word_eqI) blast
  then have "unat (char_u32 (byte_char b)) = unat (char_u32 c)" by simp
  then have "code (byte_char b) = code c"
    using code_lt_256 [of c] code_lt_256 [of "byte_char b"]
    by (simp add: char_u32_def unsigned_of_nat take_bit_nat_eq_self)
  then show ?thesis by (simp add: code_inject)
qed

lemma bytes_of_frame_length:
  "byte_char (ucast (drop_bit 24 (frame_length (a # b # c # d # r)) AND 0xFF)) = a"
  "byte_char (ucast (drop_bit 16 (frame_length (a # b # c # d # r)) AND 0xFF)) = b"
  "byte_char (ucast (drop_bit 8 (frame_length (a # b # c # d # r)) AND 0xFF)) = c"
  "byte_char (ucast (frame_length (a # b # c # d # r) AND 0xFF)) = d"
  by (rule byte_char_eqI,
      simp only: frame_length_Cons bit_ucast_iff bit_and_iff bit_drop_bit_eq o_apply bit_255 bit_or_iff
        bit_push_bit_iff code_char_u32,
      auto)+

lemma frame_is_encoding:
  assumes "4 \<le> length f" "unat (frame_length f) = length f - 4"
  shows "f = encode_frame (drop 4 f)"
proof -
  obtain a b c d r where f: "f = a # b # c # d # r"
    using assms(1) by (auto simp: Suc_le_length_iff numeral_eq_Suc)
  have "unat (frame_length f) = length r" using assms(2) by (simp add: f)
  then have "(of_nat (length r) :: u32) = frame_length f"
    by (metis of_nat_unat ucast_id)
  then show ?thesis
    by (simp add: encode_frame_def Let_def f bytes_of_frame_length)
qed

lemma decode_ok_iff:
  "decode_ok (decode_frame (Some f) m) \<longleftrightarrow>
     4 \<le> length f \<and> frame_length f \<noteq> 0 \<and> unat (frame_length f) \<le> m \<and>
     unat (frame_length f) = length f - 4"
  by (auto simp: decode_ok_def decode_frame_def empty_decode_result_def Let_def kLengthSize_def)

lemma decode_ok_payload:
  "decode_ok (decode_frame (Some f) m) \<Longrightarrow> dr_payload (decode_frame (Some f) m) = drop 4 f"
  by (auto simp: decode_ok_def decode_frame_def empty_decode_result_def Let_def kLengthSize_def
      split: if_splits)

section \<open>Properties\<close>

text \<open>
  C16. \<open>decode_frame\<close> accepts exactly the frames \<open>encode_frame\<close> makes of a non-empty payload within
  the limit (a payload of 4 GiB or more, whose length field wraps, is never accepted), and gives
  that payload back.
\<close>

theorem frame_decode_exact:
  "decode_ok (decode_frame (Some f) m) \<and> dr_payload (decode_frame (Some f) m) = p \<longleftrightarrow>
     p \<noteq> [] \<and> length p \<le> m \<and> length p < 2 ^ 32 \<and> f = encode_frame p"
proof
  assume l: "decode_ok (decode_frame (Some f) m) \<and> dr_payload (decode_frame (Some f) m) = p"
  then have ok: "4 \<le> length f" "frame_length f \<noteq> 0" "unat (frame_length f) \<le> m"
    "unat (frame_length f) = length f - 4" and p: "p = drop 4 f"
    using decode_ok_payload by (auto simp: decode_ok_iff)
  have "unat (frame_length f) < 2 ^ 32" 
    using unsigned_less [of "frame_length f", where ?'a = nat] by simp
  moreover have "0 < length f - 4" using ok(2,4) by (metis neq0_conv unat_eq_zero)
  ultimately show "p \<noteq> [] \<and> length p \<le> m \<and> length p < 2 ^ 32 \<and> f = encode_frame p"
    using ok frame_is_encoding by (auto simp: p)
next
  assume r: "p \<noteq> [] \<and> length p \<le> m \<and> length p < 2 ^ 32 \<and> f = encode_frame p"
  then have len: "unat (frame_length f) = length p"
    using frame_length_encode [of p "[]"] by simp
  then have "frame_length f \<noteq> 0" using r by (auto simp: unsigned_eq_0_iff)
  with r len have "decode_ok (decode_frame (Some f) m)"
    by (simp add: decode_ok_iff)
  with r decode_ok_payload show "decode_ok (decode_frame (Some f) m) \<and> dr_payload (decode_frame (Some f) m) = p"
    by auto
qed

end
