(* ===== verification/Configuration.thy ===== *)
theory Configuration
  imports Json_Boundary Mac_Address
begin

text \<open>
  \<open>src/src/application/configuration.cpp\<close>: configuration updates.  The records are the structs of
  \<open>configuration.hpp\<close>; the parsers turn the body of a SET_REQUEST (or the users of an
  EVENT_PORTAL_AUTH) into an \<open>AccessPointConfigUpdate\<close>.  The code reports errors through a
  \<open>std::string*\<close> that is empty as long as there is none; the parsers here take and return that
  string, so that stale errors and forgotten checks behave as in the code.
\<close>

section \<open>Data\<close>

datatype radio_band = TwoG | FiveG | FiveG2 | SixG

fun band_wire_string :: "radio_band \<Rightarrow> string" where
  "band_wire_string TwoG = ''2g''"
| "band_wire_string FiveG = ''5g''"
| "band_wire_string FiveG2 = ''5g2''"
| "band_wire_string SixG = ''6g''"

record dhcp_option82_intent =
  o82_enabled :: bool
  o82_format :: "i64 option"
  o82_delimiter :: string
  o82_circuit_id :: "i64 list"
  o82_remote_id :: "i64 list"
  o82_site_name :: string

record wireless_vlan_intent =
  vlan_id :: "u16 option"
  vlan_pool_ids :: "string list"
  dynamic_vlan_mode :: "i64 option"
  dhcp_option82 :: "dhcp_option82_intent option"

record wireless_security =
  security_mode :: "i64 option"
  auth_type :: "i64 option"
  wpa_version :: "i64 option"
  wpa_cipher :: "i64 option"
  psk_version :: "i64 option"
  psk_cipher :: "i64 option"
  psk_configured :: bool
  psk_key :: string
  radius_profile_id :: string
  radius_auth :: bool
  radius_accounting :: bool
  radius_mac_auth :: bool
  pmf_mode :: "i64 option"
  fast_roaming :: "bool option"

record captive_portal_intent =
  cp_enabled :: bool
  cp_https_redirect :: "bool option"
  hotspot_v2_present :: bool

record radio_config =
  rc_band :: radio_band
  rc_radio_id :: "i64 option"
  rc_enabled :: "bool option"
  rc_channel_width :: "i64 option"
  rc_channel :: "i64 option"
  rc_tx_power :: "i64 option"
  rc_channel_limit :: "bool option"
  rc_wireless_mode :: "i64 option"

record wireless_network =
  wn_band :: radio_band
  wn_radio_id :: "i64 option"
  wn_ssid_id :: "i64 option"
  wn_index :: "i64 option"
  wn_operation :: "i64 option"
  wn_name :: string
  wn_broadcast :: "bool option"
  wn_client_isolation :: "bool option"
  wn_vlan :: wireless_vlan_intent
  wn_security :: wireless_security
  wn_portal :: captive_portal_intent

record management_vlan_config =
  mv_enabled :: bool
  mv_vlan_id :: "u16 option"

record portal_layer2_rule =
  l2_value :: string
  l2_dst_ip :: string
  l2_ip :: string
  l2_ip_address :: string
  l2_address :: string
  l2_dst :: string
  l2_dst_mask :: "i64 option"
  l2_mask :: "i64 option"

record portal_url_rule =
  ur_url :: string
  ur_host :: string
  ur_value :: string

record portal_free_policy_config =
  layer2_rule_count :: nat
  url_rule_count :: nat
  layer2_rules :: "portal_layer2_rule list"
  url_rules :: "portal_url_rule list"

record portal_configuration =
  pc_auth_type :: "i64 option"
  pc_auth_timeout :: "i64 option"
  pc_portal_day :: "i64 option"
  pc_portal_hour :: "i64 option"
  pc_portal_min :: "i64 option"
  pc_https_redirect_enable :: "bool option"
  pc_redirect :: "bool option"
  pc_redirect_url :: string
  pc_auth_server_type :: "i64 option"
  pc_ext_auth_server :: string
  pc_external_portal_server :: string
  pc_site_id :: string
  pc_site_name :: string
  pc_portal_title :: string
  pc_portal_accept :: "bool option"
  pc_ssid_list :: "string list"

record led_config =
  led_enabled :: "bool option"
  led_locate :: "bool option"

record wifi_control_led_config =
  wcl_enabled :: "bool option"
  wcl_is_pressed :: "bool option"

record client_auth_config =
  ca_client_mac :: mac_address
  ca_unauthenticated :: "bool option"

record client_control_operation =
  co_client_mac :: mac_address
  co_operation :: "i64 option"
  co_ssid :: string
  co_radio_id :: "i64 option"
  co_vid :: "i64 option"
  co_port :: "i64 option"
  co_wireless :: "bool option"
  co_source_key :: string

record client_rate_limit =
  rl_mac :: mac_address
  rl_down :: "i64 option"
  rl_up :: "i64 option"

record client_rate_config_update =
  cr_action :: "i64 option"
  cr_limits :: "client_rate_limit list"

record config_update =
  sequence_id :: "i64 option"
  config_version :: "i64 option"
  config_version_inc :: "i64 option"
  radios :: "radio_config list"
  wlans :: "wireless_network list"
  management_vlan :: "management_vlan_config option"
  portal_free_policy :: "portal_free_policy_config option"
  portal_configs :: "portal_configuration list"
  led :: "led_config option"
  wifi_control_led :: "wifi_control_led_config option"
  client_configs :: "client_auth_config list"
  client_operations :: "client_control_operation list"
  client_rate_config :: "client_rate_config_update option"
  passive_keys :: "string list"
  ack_only_keys :: "string list"
  unhandled_keys :: "string list"

record config_parse_result =
  cpr_ok :: bool
  cpr_update :: config_update
  cpr_error :: string

definition empty_update :: config_update where
  "empty_update =
     \<lparr>sequence_id = None, config_version = None, config_version_inc = None, radios = [], wlans = [],
      management_vlan = None, portal_free_policy = None, portal_configs = [], led = None,
      wifi_control_led = None, client_configs = [], client_operations = [], client_rate_config = None,
      passive_keys = [], ack_only_keys = [], unhandled_keys = []\<rparr>"

definition fail :: "string \<Rightarrow> config_parse_result" where
  "fail message = \<lparr>cpr_ok = False, cpr_update = empty_update, cpr_error = message\<rparr>"

section \<open>The key tables\<close>

definition kCommonKeys :: "string list" where
  "kCommonKeys = [''sequenceId'', ''configVersion'', ''configVersionInc'']"

definition kPassiveKeys :: "string list" where
  "kPassiveKeys =
     [''ipGroup'', ''ipv6Group'', ''lanSetting'', ''lldp'', ''logSetting'', ''macFilterGlobal'',
      ''schedulerGlobal'', ''schedulerAssoc'', ''snmp'', ''ssh'', ''wirelessAdv_2G'',
      ''wirelessAdv_5G'', ''wirelessAdv_5G2'', ''wirelessAdv_6G'']"

definition kKnownKeys :: "string list" where
  "kKnownKeys =
     [''clientConfig'', ''clientOperation'', ''clientOperation_cmd'', ''clientRateConfig'', ''led'',
      ''managementVlan'', ''portalConfigList'', ''portalFreePolicyConfig'', ''ssid_2G'', ''ssid_5G'',
      ''ssid_5G2'', ''ssid_6G'', ''wifiControlLed'', ''wirelessBasic_2G'', ''wirelessBasic_5G'',
      ''wirelessBasic_5G2'', ''wirelessBasic_6G'']"

section \<open>Field readers\<close>

definition enabled_string :: "jsonc \<Rightarrow> json \<Rightarrow> bool" where
  "enabled_string J value = (case optional_bool J value of Some b \<Rightarrow> b | None \<Rightarrow> False)"

definition string_or_empty :: "jsonc \<Rightarrow> json \<Rightarrow> string" where
  "string_or_empty J value = (case optional_string J value of Some s \<Rightarrow> s | None \<Rightarrow> [])"

definition optional_vlan_id :: "jsonc \<Rightarrow> json \<Rightarrow> string \<Rightarrow> u16 option \<times> string" where
  "optional_vlan_id J value error =
     (case optional_int J value of
        None \<Rightarrow> (None, error)
      | Some parsed \<Rightarrow>
          if parsed = 0 then (None, error)
          else if sint parsed < 1 \<or> sint parsed > 4094
          then (None, ''VLAN ID must be between 1 and 4094'')
          else (Some (ucast parsed), error))"

definition validate_ssid_name :: "string \<Rightarrow> string \<Rightarrow> bool \<times> string" where
  "validate_ssid_name name error =
     (if CHR 0x00 \<in> set name then (False, ''SSID cannot contain NUL bytes'')
      else if length name > 32 then (False, ''SSID must fit in 32 UTF-8 bytes'')
      else (True, error))"

definition active_mapping :: "jsonc \<Rightarrow> json \<Rightarrow> bool" where
  "active_mapping J value =
     (is_object value \<and>
      list_all (\<lambda>key. let raw = object_member value key in raw = JNull \<or> enabled_string J raw)
        [''enable'', ''enabled'', ''radiusEnable'', ''authEnable'', ''accountingEnable''])"

definition iter_items :: "json \<Rightarrow> string \<Rightarrow> string \<Rightarrow> json list \<times> string" where
  "iter_items raw label error =
     (if raw = JNull then ([], error)
      else if is_object raw then ([raw], error)
      else if is_array raw then (array_items raw, error)
      else ([], label @ '' must be an object or array''))"

definition require_object :: "json \<Rightarrow> string \<Rightarrow> string \<Rightarrow> bool \<times> string" where
  "require_object raw label error =
     (if is_object raw then (True, error) else (False, label @ '' must be a JSON object''))"

section \<open>Radios and wireless networks\<close>

definition parse_radio_config :: "jsonc \<Rightarrow> radio_band \<Rightarrow> json \<Rightarrow> radio_config" where
  "parse_radio_config J band raw =
     \<lparr>rc_band = band,
      rc_radio_id = optional_int J (object_member raw ''radioId''),
      rc_enabled = optional_bool J (object_member raw ''radioEnable''),
      rc_channel_width = optional_int J (object_member raw ''chanWidth''),
      rc_channel = optional_int J (object_member raw ''channel''),
      rc_tx_power = optional_int J (object_member raw ''txPower''),
      rc_channel_limit = optional_bool J (object_member raw ''channelLimit''),
      rc_wireless_mode = optional_int J (object_member raw ''wirelessMode'')\<rparr>"

definition int_items :: "jsonc \<Rightarrow> json \<Rightarrow> i64 list" where
  "int_items J array = (if is_array array then List.map_filter (optional_int J) (array_items array) else [])"

definition parse_dhcp_option82 :: "jsonc \<Rightarrow> json \<Rightarrow> dhcp_option82_intent" where
  "parse_dhcp_option82 J raw =
     \<lparr>o82_enabled = enabled_string J (object_member raw ''option82En''),
      o82_format = optional_int J (object_member raw ''option82Format''),
      o82_delimiter = string_or_empty J (object_member raw ''delimiter''),
      o82_circuit_id = int_items J (object_member raw ''circuitId''),
      o82_remote_id = int_items J (object_member raw ''remoteId''),
      o82_site_name = string_or_empty J (object_member raw ''siteName'')\<rparr>"

definition default_vlan :: wireless_vlan_intent where
  "default_vlan = \<lparr>vlan_id = None, vlan_pool_ids = [], dynamic_vlan_mode = None, dhcp_option82 = None\<rparr>"

definition default_security :: wireless_security where
  "default_security =
     \<lparr>security_mode = None, auth_type = None, wpa_version = None, wpa_cipher = None, psk_version = None,
      psk_cipher = None, psk_configured = False, psk_key = [], radius_profile_id = [],
      radius_auth = False, radius_accounting = False, radius_mac_auth = False, pmf_mode = None,
      fast_roaming = None\<rparr>"

definition default_portal :: captive_portal_intent where
  "default_portal = \<lparr>cp_enabled = False, cp_https_redirect = None, hotspot_v2_present = False\<rparr>"

definition default_network :: "radio_band \<Rightarrow> wireless_network" where
  "default_network band =
     \<lparr>wn_band = band, wn_radio_id = None, wn_ssid_id = None, wn_index = None, wn_operation = None,
      wn_name = [], wn_broadcast = None, wn_client_isolation = None, wn_vlan = default_vlan,
      wn_security = default_security, wn_portal = default_portal\<rparr>"

definition parse_security :: "jsonc \<Rightarrow> json \<Rightarrow> wireless_security" where
  "parse_security J raw =
     \<lparr>security_mode = optional_int J (object_member raw ''securityMode''),
      auth_type = optional_int J (object_member raw ''authType''),
      wpa_version = optional_int J (object_member raw ''wpaVer''),
      wpa_cipher = optional_int J (object_member raw ''wpaCipher''),
      psk_version = optional_int J (object_member raw ''pskVer''),
      psk_cipher = optional_int J (object_member raw ''pskCipher''),
      psk_configured = object_member raw ''pskKey'' \<noteq> JNull,
      psk_key = string_or_empty J (object_member raw ''pskKey''),
      radius_profile_id = string_or_empty J (object_member raw ''wpaRadiusProfileId''),
      radius_auth = active_mapping J (object_member raw ''radiusAuth''),
      radius_accounting = active_mapping J (object_member raw ''radiusAccounting''),
      radius_mac_auth = active_mapping J (object_member raw ''macAuth''),
      pmf_mode = optional_int J (object_member raw ''pmfMode''),
      fast_roaming =
        (let fast = object_member raw ''fastTransition''
         in if is_object fast then optional_bool J (object_member fast ''enable11r'') else None)\<rparr>"

definition parse_ssid_item ::
  "jsonc \<Rightarrow> radio_band \<Rightarrow> i64 option \<Rightarrow> json \<Rightarrow> string \<Rightarrow> wireless_network \<times> string" where
  "parse_ssid_item J band radio_id raw error =
    (let wlan = (default_network band)
           \<lparr>wn_radio_id := radio_id,
            wn_ssid_id := optional_int J (object_member raw ''id''),
            wn_index := optional_int J (object_member raw ''index''),
            wn_operation := optional_int J (object_member raw ''operation''),
            wn_name := string_or_empty J (object_member raw ''ssidName'')\<rparr>;
         (valid_name, error) = validate_ssid_name (wn_name wlan) error
     in if \<not> valid_name then (wlan, error)
        else
          (let wlan = wlan
                 \<lparr>wn_broadcast := optional_bool J (object_member raw ''ssidBcast''),
                  wn_client_isolation := optional_bool J (object_member raw ''ssidIsolation'')\<rparr>;
               (vlan, error) = optional_vlan_id J (object_member raw ''vlanId'') error;
               wlan = wlan\<lparr>wn_vlan := (wn_vlan wlan)\<lparr>vlan_id := vlan\<rparr>\<rparr>
           in if error \<noteq> [] then (wlan, error)
              else
                (let pools = object_member raw ''vlanPoolIds'';
                     wlan = wlan\<lparr>wn_vlan := (wn_vlan wlan)
                       \<lparr>vlan_pool_ids :=
                          (if is_array pools then map (string_or_empty J) (array_items pools) else []),
                        dynamic_vlan_mode := optional_int J (object_member raw ''dyVlanMode'')\<rparr>\<rparr>;
                     dhcp = object_member raw ''dhcpOp82'';
                     (good, error) =
                       (if dhcp \<noteq> JNull then require_object dhcp ''DHCP option 82 config'' error
                        else (True, error))
                 in if \<not> good then (wlan, error)
                    else
                      (let wlan =
                             (if dhcp \<noteq> JNull
                              then wlan\<lparr>wn_vlan := (wn_vlan wlan)
                                \<lparr>dhcp_option82 := Some (parse_dhcp_option82 J dhcp)\<rparr>\<rparr>
                              else wlan)
                       in (wlan
                            \<lparr>wn_security := parse_security J raw,
                             wn_portal :=
                               \<lparr>cp_enabled = enabled_string J (object_member raw ''portal''),
                                cp_https_redirect = optional_bool J (object_member raw ''httpsRedirectEnable''),
                                hotspot_v2_present = is_object (object_member raw ''hotspotV2'')\<rparr>\<rparr>,
                           error)))))"

fun parse_ssid_items ::
  "jsonc \<Rightarrow> radio_band \<Rightarrow> i64 option \<Rightarrow> json list \<Rightarrow> config_update \<times> string \<Rightarrow> config_update \<times> string" where
  "parse_ssid_items J band radio_id [] (update, error) = (update, error)"
| "parse_ssid_items J band radio_id (item # items) (update, error) =
    (if error \<noteq> [] then (update, error)
     else
       (let (is_obj, error) = require_object item ''SSID item'' error
        in if \<not> is_obj then (update, error)
           else
             (let (wlan, error) = parse_ssid_item J band radio_id item error
              in if error \<noteq> [] then (update, error)
                 else parse_ssid_items J band radio_id items
                        (update\<lparr>wlans := wlans update @ [wlan]\<rparr>, error))))"

definition parse_ssid_config ::
  "jsonc \<Rightarrow> radio_band \<Rightarrow> json \<Rightarrow> config_update \<times> string \<Rightarrow> config_update \<times> string" where
  "parse_ssid_config J band raw =
     (\<lambda>(update, error).
       let (is_obj, error) = require_object raw ''SSID config'' error
       in if \<not> is_obj then (update, error)
          else
            (let radio_id = optional_int J (object_member raw ''radioId'');
                 (items, error) = iter_items (object_member raw ''ssid'') ''SSID list'' error
             in parse_ssid_items J band radio_id items (update, error)))"

section \<open>Management VLAN, portals, LEDs\<close>

definition parse_management_vlan :: "jsonc \<Rightarrow> json \<Rightarrow> string \<Rightarrow> management_vlan_config option \<times> string" where
  "parse_management_vlan J raw error =
    (let (is_obj, error) = require_object raw ''management VLAN config'' error
     in if \<not> is_obj then (None, error)
        else
          (let enabled = enabled_string J (object_member raw ''managementVlanEnable'');
               (vlan, error) = optional_vlan_id J (object_member raw ''managementVlanId'') error
           in (Some \<lparr>mv_enabled = enabled, mv_vlan_id = vlan\<rparr>, error)))"

definition parse_layer2_rule :: "jsonc \<Rightarrow> json \<Rightarrow> portal_layer2_rule" where
  "parse_layer2_rule J item =
     \<lparr>l2_value = string_or_empty J (object_member item ''value''),
      l2_dst_ip = string_or_empty J (object_member item ''dstIp''),
      l2_ip = string_or_empty J (object_member item ''ip''),
      l2_ip_address = string_or_empty J (object_member item ''ipAddress''),
      l2_address = string_or_empty J (object_member item ''address''),
      l2_dst = string_or_empty J (object_member item ''dst''),
      l2_dst_mask = optional_int J (object_member item ''dstMask''),
      l2_mask = optional_int J (object_member item ''mask'')\<rparr>"

definition parse_url_rule :: "jsonc \<Rightarrow> json \<Rightarrow> portal_url_rule" where
  "parse_url_rule J item =
     \<lparr>ur_url = string_or_empty J (object_member item ''url''),
      ur_host = string_or_empty J (object_member item ''host''),
      ur_value = string_or_empty J (object_member item ''value'')\<rparr>"

text \<open>
  The loop over the children of a rule: an error that is already set ends the whole parser
  (\<open>True\<close>), children that are no objects are skipped.
\<close>

fun child_rules :: "(json \<Rightarrow> 'r) \<Rightarrow> json list \<Rightarrow> 'r list \<Rightarrow> string \<Rightarrow> 'r list \<times> bool" where
  "child_rules parse [] rules error = (rules, False)"
| "child_rules parse (child # children) rules error =
     (if error \<noteq> [] then (rules, True)
      else child_rules parse children (if is_object child then rules @ [parse child] else rules) error)"

fun child_keys :: "(json \<Rightarrow> 'r) \<Rightarrow> json \<Rightarrow> string list \<Rightarrow> 'r list \<Rightarrow> string \<Rightarrow> 'r list \<times> string \<times> bool" where
  "child_keys parse item [] rules error = (rules, error, False)"
| "child_keys parse item (key # keys) rules error =
    (let (children, error) = iter_items (object_member item key) key error;
         (rules, stop) = child_rules parse children rules error
     in if stop then (rules, error, True) else child_keys parse item keys rules error)"

fun policy_rules :: "(json \<Rightarrow> 'r) \<Rightarrow> string \<Rightarrow> json list \<Rightarrow> 'r list \<Rightarrow> string \<Rightarrow> 'r list \<times> string \<times> bool" where
  "policy_rules parse message [] rules error = (rules, error, False)"
| "policy_rules parse message (item # items) rules error =
     (if \<not> is_object item then (rules, message, True)
      else
        (let (rules, error, stop) =
               child_keys parse item [''children'', ''entries''] (rules @ [parse item]) error
         in if stop then (rules, error, True) else policy_rules parse message items rules error))"

definition parse_portal_free_policy :: "jsonc \<Rightarrow> json \<Rightarrow> string \<Rightarrow> portal_free_policy_config \<times> string" where
  "parse_portal_free_policy J raw error =
    (let policy = \<lparr>layer2_rule_count = 0, url_rule_count = 0, layer2_rules = [], url_rules = []\<rparr>;
         (is_obj, error) = require_object raw ''portal free policy config'' error
     in if \<not> is_obj then (policy, error)
        else
          (let (layer2_items, error) =
                 iter_items (object_member raw ''portalFreePolicy'') ''portal free policy item'' error;
               policy = policy\<lparr>layer2_rule_count := length layer2_items\<rparr>
           in if error \<noteq> [] then (policy, error)
              else
                (let (rules, error, stop) = policy_rules (parse_layer2_rule J)
                       ''portal free policy item must be a JSON object'' layer2_items [] error;
                     policy = policy\<lparr>layer2_rules := rules\<rparr>
                 in if stop then (policy, error)
                    else
                      (let (url_items, error) = iter_items (object_member raw ''urlPortalFreePolicy'')
                             ''portal URL free policy item'' error;
                           policy = policy\<lparr>url_rule_count := length url_items\<rparr>
                       in if error \<noteq> [] then (policy, error)
                          else
                            (let (rules, error, stop) = policy_rules (parse_url_rule J)
                                   ''portal URL free policy item must be a JSON object'' url_items [] error
                             in (policy\<lparr>url_rules := rules\<rparr>, error))))))"

definition parse_portal_config :: "jsonc \<Rightarrow> json \<Rightarrow> portal_configuration" where
  "parse_portal_config J raw =
     \<lparr>pc_auth_type = optional_int J (object_member raw ''authType''),
      pc_auth_timeout = optional_int J (object_member raw ''authTimeout''),
      pc_portal_day = optional_int J (object_member raw ''portalDay''),
      pc_portal_hour = optional_int J (object_member raw ''portalHour''),
      pc_portal_min = optional_int J (object_member raw ''portalMin''),
      pc_https_redirect_enable = optional_bool J (object_member raw ''httpsRedirectEnable''),
      pc_redirect = optional_bool J (object_member raw ''redirect''),
      pc_redirect_url = string_or_empty J (object_member raw ''redirectUrl''),
      pc_auth_server_type = optional_int J (object_member raw ''authServerType''),
      pc_ext_auth_server = string_or_empty J (object_member raw ''extAuthServer''),
      pc_external_portal_server = string_or_empty J (object_member raw ''externalPortalServer''),
      pc_site_id = string_or_empty J (object_member raw ''siteId''),
      pc_site_name =
        (case optional_string J (object_member raw ''siteName'') of
           Some name \<Rightarrow> name | None \<Rightarrow> string_or_empty J (object_member raw ''site'')),
      pc_portal_title = string_or_empty J (object_member raw ''portalTitle''),
      pc_portal_accept = optional_bool J (object_member raw ''portalAccept''),
      pc_ssid_list =
        (let ssid_list = object_member raw ''ssidList''
         in if is_array ssid_list then map (string_or_empty J) (array_items ssid_list) else [])\<rparr>"

definition parse_led :: "jsonc \<Rightarrow> json \<Rightarrow> led_config" where
  "parse_led J raw =
     \<lparr>led_enabled = optional_bool J (object_member raw ''enable''),
      led_locate = optional_bool J (object_member raw ''locate'')\<rparr>"

definition parse_wifi_control_led :: "jsonc \<Rightarrow> json \<Rightarrow> wifi_control_led_config" where
  "parse_wifi_control_led J raw =
     \<lparr>wcl_enabled = optional_bool J (object_member raw ''enable''),
      wcl_is_pressed = optional_bool J (object_member raw ''isPressed'')\<rparr>"

section \<open>Clients\<close>

definition required_mac :: "jsonc \<Rightarrow> json \<Rightarrow> string \<Rightarrow> string \<Rightarrow> mac_address option \<times> string" where
  "required_mac J raw label error =
     (case optional_string J raw of
        None \<Rightarrow> (None, label @ '' is required'')
      | Some text \<Rightarrow>
          if text = [] then (None, label @ '' is required'')
          else (case parse_mac text of
                  None \<Rightarrow> (None, label @ '' is invalid'')
                | Some parsed \<Rightarrow> (Some parsed, error)))"

fun parse_client_config_items ::
  "jsonc \<Rightarrow> json list \<Rightarrow> config_update \<times> string \<Rightarrow> config_update \<times> string" where
  "parse_client_config_items J [] (update, error) = (update, error)"
| "parse_client_config_items J (item # items) (update, error) =
    (if error \<noteq> [] then (update, error)
     else
       (let (is_obj, error) = require_object item ''clientConfig item'' error
        in if \<not> is_obj then (update, error)
           else
             (case required_mac J (object_member item ''clientMac'') ''clientConfig.clientMac'' error of
                (None, error) \<Rightarrow> (update, error)
              | (Some mac, error) \<Rightarrow>
                  parse_client_config_items J items
                    (update\<lparr>client_configs := client_configs update @
                       [\<lparr>ca_client_mac = mac,
                         ca_unauthenticated = optional_bool J (object_member item ''unauth'')\<rparr>]\<rparr>, error))))"

definition parse_client_config ::
  "jsonc \<Rightarrow> json \<Rightarrow> config_update \<times> string \<Rightarrow> config_update \<times> string" where
  "parse_client_config J raw =
     (\<lambda>(update, error).
       let (items, error) = iter_items raw ''clientConfig'' error
       in parse_client_config_items J items (update, error))"

fun parse_portal_authed_items ::
  "jsonc \<Rightarrow> json list \<Rightarrow> config_update \<times> string \<Rightarrow> config_update \<times> string" where
  "parse_portal_authed_items J [] (update, error) = (update, error)"
| "parse_portal_authed_items J (item # items) (update, error) =
    (if error \<noteq> [] then (update, error)
     else
       (let (is_obj, error) = require_object item ''EVENT_PORTAL_AUTH authedUsers item'' error
        in if \<not> is_obj then (update, error)
           else
             (case optional_int J (object_member item ''rst'') of
                None \<Rightarrow> parse_portal_authed_items J items (update, error)
              | Some result \<Rightarrow>
                  if result \<noteq> 0 \<and> result \<noteq> 1
                  then parse_portal_authed_items J items (update, error)
                  else
                    (let raw_mac = object_member item ''mac'';
                         raw_mac = (if raw_mac = JNull then object_member item ''clientMac'' else raw_mac)
                     in case required_mac J raw_mac ''EVENT_PORTAL_AUTH.authedUsers.mac'' error of
                          (None, error) \<Rightarrow> (update, error)
                        | (Some mac, error) \<Rightarrow>
                            parse_portal_authed_items J items
                              (update\<lparr>client_configs := client_configs update @
                                 [\<lparr>ca_client_mac = mac, ca_unauthenticated = Some (result = 0)\<rparr>]\<rparr>, error)))))"

definition parse_portal_authed_users ::
  "jsonc \<Rightarrow> json \<Rightarrow> config_update \<times> string \<Rightarrow> config_update \<times> string" where
  "parse_portal_authed_users J raw =
     (\<lambda>(update, error).
       let (items, error) = iter_items raw ''EVENT_PORTAL_AUTH authedUsers'' error
       in parse_portal_authed_items J items (update, error))"

fun parse_client_operation_items ::
  "jsonc \<Rightarrow> string \<Rightarrow> json list \<Rightarrow> config_update \<times> string \<Rightarrow> config_update \<times> string" where
  "parse_client_operation_items J source_key [] (update, error) = (update, error)"
| "parse_client_operation_items J source_key (item # items) (update, error) =
    (if error \<noteq> [] then (update, error)
     else
       (let (is_obj, error) = require_object item ''clientOperation item'' error
        in if \<not> is_obj then (update, error)
           else
             (case required_mac J (object_member item ''clientMac'') (source_key @ ''.clientMac'') error of
                (None, error) \<Rightarrow> (update, error)
              | (Some mac, error) \<Rightarrow>
                  parse_client_operation_items J source_key items
                    (update\<lparr>client_operations := client_operations update @
                       [\<lparr>co_client_mac = mac,
                         co_operation = optional_int J (object_member item ''operation''),
                         co_ssid = string_or_empty J (object_member item ''ssid''),
                         co_radio_id = optional_int J (object_member item ''radioId''),
                         co_vid = optional_int J (object_member item ''vid''),
                         co_port = optional_int J (object_member item ''port''),
                         co_wireless = optional_bool J (object_member item ''wireless''),
                         co_source_key = source_key\<rparr>]\<rparr>, error))))"

definition parse_client_operations ::
  "jsonc \<Rightarrow> json \<Rightarrow> string \<Rightarrow> config_update \<times> string \<Rightarrow> config_update \<times> string" where
  "parse_client_operations J raw source_key =
     (\<lambda>(update, error).
       let (items, error) = iter_items raw source_key error
       in parse_client_operation_items J source_key items (update, error))"

text \<open>The \<open>bool\<close> tells that the parser returned before storing the rates.\<close>

fun parse_client_rate_items ::
  "jsonc \<Rightarrow> json list \<Rightarrow> client_rate_limit list \<Rightarrow> string \<Rightarrow> client_rate_limit list \<times> string \<times> bool" where
  "parse_client_rate_items J [] limits error = (limits, error, False)"
| "parse_client_rate_items J (item # items) limits error =
    (if error \<noteq> [] then (limits, error, True)
     else
       (let (is_obj, error) = require_object item ''clientRateLimit item'' error
        in if \<not> is_obj then (limits, error, True)
           else
             (case required_mac J (object_member item ''mac'') ''clientRateLimit.mac'' error of
                (None, error) \<Rightarrow> (limits, error, True)
              | (Some m, error) \<Rightarrow>
                  parse_client_rate_items J items
                    (limits @ [\<lparr>rl_mac = m,
                       rl_down = optional_int J (object_member item ''down''),
                       rl_up = optional_int J (object_member item ''up'')\<rparr>]) error)))"

definition parse_client_rate_config ::
  "jsonc \<Rightarrow> json \<Rightarrow> config_update \<times> string \<Rightarrow> config_update \<times> string" where
  "parse_client_rate_config J raw =
     (\<lambda>(update, error).
       let (is_obj, error) = require_object raw ''clientRateConfig'' error
       in if \<not> is_obj then (update, error)
          else
            (let action = optional_int J (object_member raw ''action'');
                 (items, error) = iter_items (object_member raw ''clientRateLimit'') ''clientRateLimit'' error;
                 (limits, error, stop) = parse_client_rate_items J items [] error
             in if stop then (update, error)
                else (update\<lparr>client_rate_config := Some \<lparr>cr_action = action, cr_limits = limits\<rparr>\<rparr>, error)))"

section \<open>The body of a SET_REQUEST\<close>

text \<open>
  The sections of \<open>parse_body_object\<close>, each from an update and the error string to the next
  update (\<open>Inr\<close>) or to the message the parser fails with (\<open>Inl\<close>).
\<close>

type_synonym body_step = "config_update \<times> string \<Rightarrow> string + config_update \<times> string"

definition then_step :: "body_step \<Rightarrow> body_step \<Rightarrow> body_step" where
  "then_step f g s = (case f s of Inl message \<Rightarrow> Inl message | Inr s' \<Rightarrow> g s')"

definition check_error :: "config_update \<times> string \<Rightarrow> string + config_update \<times> string" where
  "check_error s = (if snd s \<noteq> [] then Inl (snd s) else Inr s)"

definition radio_step :: "jsonc \<Rightarrow> json \<Rightarrow> string \<times> radio_band \<Rightarrow> body_step" where
  "radio_step J body key_band =
     (\<lambda>(update, error).
       let raw = object_member body (fst key_band)
       in if raw = JNull then Inr (update, error)
          else
            (let (is_obj, error) = require_object raw ''radio config'' error
             in if \<not> is_obj then Inl error
                else Inr (update\<lparr>radios := radios update @ [parse_radio_config J (snd key_band) raw]\<rparr>, error)))"

definition ssid_step :: "jsonc \<Rightarrow> json \<Rightarrow> string \<times> radio_band \<Rightarrow> body_step" where
  "ssid_step J body key_band s =
     (let raw = object_member body (fst key_band)
      in if raw = JNull then Inr s
         else check_error (parse_ssid_config J (snd key_band) raw s))"

definition management_step :: "jsonc \<Rightarrow> json \<Rightarrow> body_step" where
  "management_step J body =
     (\<lambda>(update, error).
       let raw = object_member body ''managementVlan''
       in if raw = JNull then Inr (update, error)
          else
            (let (vlan, error) = parse_management_vlan J raw error
             in check_error (update\<lparr>management_vlan := vlan\<rparr>, error)))"

definition free_policy_step :: "jsonc \<Rightarrow> json \<Rightarrow> body_step" where
  "free_policy_step J body =
     (\<lambda>(update, error).
       let raw = object_member body ''portalFreePolicyConfig''
       in if raw = JNull then Inr (update, error)
          else
            (let (policy, error) = parse_portal_free_policy J raw error
             in check_error (update\<lparr>portal_free_policy := Some policy\<rparr>, error)))"

fun portal_items :: "jsonc \<Rightarrow> json list \<Rightarrow> body_step" where
  "portal_items J [] (update, error) = Inr (update, error)"
| "portal_items J (item # items) (update, error) =
    (if error \<noteq> [] then Inl error
     else
       (let (is_obj, error) = require_object item ''portalConfigList item'' error
        in if \<not> is_obj then Inl error
           else portal_items J items
                  (update\<lparr>portal_configs := portal_configs update @ [parse_portal_config J item]\<rparr>, error)))"

definition portal_step :: "jsonc \<Rightarrow> json \<Rightarrow> body_step" where
  "portal_step J body =
     (\<lambda>(update, error).
       let raw = object_member body ''portalConfigList''
       in if raw = JNull then Inr (update, error)
          else
            (let (items, error) = iter_items raw ''portalConfigList'' error
             in portal_items J items (update, error)))"

definition led_step :: "jsonc \<Rightarrow> json \<Rightarrow> body_step" where
  "led_step J body =
     (\<lambda>(update, error).
       let raw = object_member body ''led''
       in if raw = JNull then Inr (update, error)
          else
            (let (is_obj, error) = require_object raw ''LED config'' error
             in if \<not> is_obj then Inl error
                else Inr (update\<lparr>led := Some (parse_led J raw)\<rparr>, error)))"

definition wifi_led_step :: "jsonc \<Rightarrow> json \<Rightarrow> body_step" where
  "wifi_led_step J body =
     (\<lambda>(update, error).
       let raw = object_member body ''wifiControlLed''
       in if raw = JNull then Inr (update, error)
          else
            (let (is_obj, error) = require_object raw ''WiFi control LED config'' error
             in if \<not> is_obj then Inl error
                else Inr (update\<lparr>wifi_control_led := Some (parse_wifi_control_led J raw)\<rparr>, error)))"

definition clients_step ::
  "(json \<Rightarrow> config_update \<times> string \<Rightarrow> config_update \<times> string) \<Rightarrow> json \<Rightarrow> string \<Rightarrow> body_step" where
  "clients_step parse body key s =
     (let raw = object_member body key
      in if raw = JNull then Inr s else check_error (parse raw s))"

definition body_steps :: "jsonc \<Rightarrow> json \<Rightarrow> body_step list" where
  "body_steps J body =
     map (radio_step J body)
       [(''wirelessBasic_2G'', TwoG), (''wirelessBasic_5G'', FiveG), (''wirelessBasic_5G2'', FiveG2),
        (''wirelessBasic_6G'', SixG)] @
     map (ssid_step J body)
       [(''ssid_2G'', TwoG), (''ssid_5G'', FiveG), (''ssid_5G2'', FiveG2), (''ssid_6G'', SixG)] @
     [management_step J body,
      free_policy_step J body,
      portal_step J body,
      led_step J body,
      wifi_led_step J body,
      clients_step (parse_client_config J) body ''clientConfig'',
      clients_step (\<lambda>raw. parse_client_operations J raw ''clientOperation'') body ''clientOperation'',
      clients_step (\<lambda>raw. parse_client_operations J raw ''clientOperation_cmd'') body ''clientOperation_cmd'',
      clients_step (parse_client_rate_config J) body ''clientRateConfig'']"

definition body_keys :: "json \<Rightarrow> string list" where
  "body_keys body = map (\<lambda>kv. c_string (fst kv)) (object_entries body)"

definition parse_body_object :: "jsonc \<Rightarrow> json \<Rightarrow> config_parse_result" where
  "parse_body_object J body =
    (if \<not> is_object body then fail ''SET_REQUEST body must be a JSON object''
     else
       (let update = empty_update
              \<lparr>sequence_id := optional_int J (object_member body ''sequenceId''),
               config_version := optional_int J (object_member body ''configVersion''),
               config_version_inc := optional_int J (object_member body ''configVersionInc'')\<rparr>
        in case foldr then_step (body_steps J body) Inr (update, []) of
             Inl message \<Rightarrow> fail message
           | Inr (update, error) \<Rightarrow>
               (let update = update
                      \<lparr>passive_keys := sort (filter (\<lambda>k. k \<in> set kPassiveKeys) (body_keys body)),
                       unhandled_keys := sort (filter (\<lambda>k. k \<notin> set kCommonKeys \<and>
                         k \<notin> set kKnownKeys \<and> k \<notin> set kPassiveKeys) (body_keys body))\<rparr>
                in \<lparr>cpr_ok = True, cpr_update = update, cpr_error = []\<rparr>)))"

definition parse_config_body_json :: "jsonc \<Rightarrow> string \<Rightarrow> config_parse_result" where
  "parse_config_body_json J body_json =
    (let document = json_document_parse J body_json
     in if \<not> valid document then fail ''SET_REQUEST body must be a JSON object''
        else parse_body_object J document)"

definition parse_set_request_json :: "jsonc \<Rightarrow> string \<Rightarrow> config_parse_result" where
  "parse_set_request_json J message_json =
    (let document = json_document_parse J message_json
     in if \<not> valid document then fail ''SET_REQUEST must be a JSON object''
        else
          (let body = ecsp_body document
           in if \<not> is_object body then fail ''SET_REQUEST body must be a JSON object''
              else parse_body_object J body))"

definition parse_portal_auth_request_json :: "jsonc \<Rightarrow> string \<Rightarrow> config_parse_result" where
  "parse_portal_auth_request_json J message_json =
    (let document = json_document_parse J message_json
     in if \<not> valid document then fail ''EVENT_PORTAL_AUTH must be a JSON object''
        else
          (let body = ecsp_body document
           in if \<not> is_object body then fail ''EVENT_PORTAL_AUTH body must be a JSON object''
              else
                (let update = empty_update;
                     header = object_member document ''header'';
                     update = (if is_object header
                       then update\<lparr>sequence_id := optional_int J (object_member header ''seq'')\<rparr> else update);
                     (update, error) =
                       parse_portal_authed_users J (object_member body ''authedUsers'') (update, [])
                 in if error \<noteq> [] then fail error
                    else \<lparr>cpr_ok = True, cpr_update = update, cpr_error = []\<rparr>)))"

section \<open>Classification and description\<close>

definition is_actionable_config :: "config_update \<Rightarrow> bool" where
  "is_actionable_config u \<longleftrightarrow>
     radios u \<noteq> [] \<or> wlans u \<noteq> [] \<or> management_vlan u \<noteq> None \<or> portal_free_policy u \<noteq> None \<or>
     portal_configs u \<noteq> [] \<or> led u \<noteq> None \<or> wifi_control_led u \<noteq> None \<or> client_configs u \<noteq> [] \<or>
     client_operations u \<noteq> [] \<or> client_rate_config u \<noteq> None"

definition is_supported_config_update :: "config_update \<Rightarrow> bool" where
  "is_supported_config_update u \<longleftrightarrow> unhandled_keys u = []"

definition append_optional :: "string \<Rightarrow> i64 option \<Rightarrow> string" where
  "append_optional label value =
     label @ ''='' @ (case value of Some v \<Rightarrow> to_string_i v | None \<Rightarrow> ''None'')"

definition optional_bool_word :: "bool option \<Rightarrow> string" where
  "optional_bool_word value =
     (case value of None \<Rightarrow> ''unset'' | Some b \<Rightarrow> if b then ''True'' else ''False'')"

definition describe_config_update :: "config_update \<Rightarrow> string" where
  "describe_config_update u =
     append_optional ''sequenceId'' (sequence_id u) @ '' '' @
     append_optional ''configVersion'' (config_version u) @ '' '' @
     append_optional ''configVersionInc'' (config_version_inc u) @
     (if radios u \<noteq> []
      then '' radios='' @ dec (length (radios u)) @ ''['' @
        join_with '','' (map (\<lambda>r. band_wire_string (rc_band r)) (radios u)) @ '']'' else []) @
     (if wlans u \<noteq> []
      then '' wlans='' @ dec (length (wlans u)) @ ''['' @
        join_with '','' (map (\<lambda>w. band_wire_string (wn_band w)) (wlans u)) @ '']'' else []) @
     (case management_vlan u of None \<Rightarrow> []
      | Some vlan \<Rightarrow> '' managementVlan='' @ (if mv_enabled vlan then ''on:'' else ''off:'') @
          (case mv_vlan_id vlan of Some v \<Rightarrow> to_string_u v | None \<Rightarrow> ''None'')) @
     (case led u of None \<Rightarrow> []
      | Some l \<Rightarrow> '' led=enable:'' @ optional_bool_word (led_enabled l) @ '',locate:'' @
          optional_bool_word (led_locate l)) @
     (if wifi_control_led u \<noteq> None then '' wifiControlLed=present'' else []) @
     (case portal_free_policy u of None \<Rightarrow> []
      | Some policy \<Rightarrow> '' portalFreePolicy=l2:'' @ dec (layer2_rule_count policy) @ '',url:'' @
          dec (url_rule_count policy)) @
     (if portal_configs u \<noteq> [] then '' portalConfigList='' @ dec (length (portal_configs u)) else []) @
     (if client_configs u \<noteq> [] then '' clientConfig='' @ dec (length (client_configs u)) else []) @
     (if client_operations u \<noteq> []
      then '' clientOperation='' @ dec (length (client_operations u)) @ ''['' @
        join_with '','' (map (\<lambda>c. case co_operation c of Some v \<Rightarrow> to_string_i v | None \<Rightarrow> ''unknown'')
          (client_operations u)) @ '']'' else []) @
     (case client_rate_config u of None \<Rightarrow> []
      | Some rates \<Rightarrow> '' clientRateConfig=action:'' @
          (case cr_action rates of Some v \<Rightarrow> to_string_i v | None \<Rightarrow> ''None'') @
          '',limits:'' @ dec (length (cr_limits rates))) @
     (if passive_keys u \<noteq> [] then '' passive='' @ join_with '','' (passive_keys u) else []) @
     (if ack_only_keys u \<noteq> [] then '' ackOnly='' @ join_with '','' (ack_only_keys u) else []) @
     (if unhandled_keys u \<noteq> [] then '' unhandled='' @ join_with '','' (unhandled_keys u) else [])"

section \<open>Sequences of sections\<close>

lemma foldr_then_step_append:
  "foldr then_step (fs @ gs) Inr s =
     (case foldr then_step fs Inr s of Inl m \<Rightarrow> Inl m | Inr s' \<Rightarrow> foldr then_step gs Inr s')"
  by (induction fs arbitrary: s) (auto simp: then_step_def split: sum.splits)

lemma then_step_Inr: "then_step f g s = Inr s' \<longleftrightarrow> (\<exists>t. f s = Inr t \<and> g t = Inr s')"
  by (auto simp: then_step_def split: sum.splits)

lemma foldr_then_step_invariant:
  assumes "foldr then_step fs Inr s = Inr s'" "P s"
    and "\<And>f t t'. f \<in> set fs \<Longrightarrow> P t \<Longrightarrow> f t = Inr t' \<Longrightarrow> P t'"
  shows "P s'"
  using assms
proof (induction fs arbitrary: s)
  case (Cons f fs)
  then obtain t where t: "f s = Inr t" "foldr then_step fs Inr t = Inr s'"
    by (auto simp: then_step_Inr simp del: split_paired_Ex)
  have "P t" using Cons.prems(3) [of f s t] Cons.prems(2) t(1) by simp
  with t(2) show ?case using Cons.IH [of t] Cons.prems(3) by (meson list.set_intros(2))
qed simp

lemma check_error_Inr [simp]: "check_error s = Inr s' \<longleftrightarrow> s' = s \<and> snd s = []"
  by (auto simp: check_error_def)

section \<open>Validity of what is parsed\<close>

definition valid_vlan :: "u16 option \<Rightarrow> bool" where
  "valid_vlan v = (case v of None \<Rightarrow> True | Some n \<Rightarrow> 1 \<le> unat n \<and> unat n \<le> 4094)"

definition valid_network :: "wireless_network \<Rightarrow> bool" where
  "valid_network w \<longleftrightarrow>
     length (wn_name w) \<le> 32 \<and> CHR 0x00 \<notin> set (wn_name w) \<and> valid_vlan (vlan_id (wn_vlan w))"

definition valid_update :: "config_update \<Rightarrow> bool" where
  "valid_update u \<longleftrightarrow>
     list_all valid_network (wlans u) \<and>
     (case management_vlan u of None \<Rightarrow> True | Some m \<Rightarrow> valid_vlan (mv_vlan_id m))"

lemma valid_update_empty [simp]: "valid_update empty_update"
  by (simp add: valid_update_def empty_update_def)

lemma small_ucast_u16:
  assumes "1 \<le> sint (w :: i64)" "sint w \<le> 4094"
  shows "int (unat (ucast w :: u16)) = sint w"
proof -
  have "int (unat (ucast (word_of_int i :: i64) :: u16)) = i" if "0 \<le> i" "i \<le> 4094" for i
    using that
    by (simp add: ucast_eq uint_word_of_int unsigned_of_int) (simp add: take_bit_int_eq_self)
  from this [of "sint w"] assms show ?thesis by simp
qed

lemma optional_vlan_id_valid:
  assumes "optional_vlan_id J value error = (v, error')"
  shows "valid_vlan v \<and> (error \<noteq> [] \<longrightarrow> error' \<noteq> [])"
proof (cases "optional_int J value")
  case (Some w)
  show ?thesis
  proof (cases "w = 0 \<or> sint w < 1 \<or> 4094 < sint w")
    case False
    then have "int (unat (ucast w :: u16)) = sint w" by (intro small_ucast_u16) auto
    with False have "1 \<le> unat (ucast w :: u16)" "unat (ucast w :: u16) \<le> 4094" by linarith+
    with False assms Some show ?thesis
      by (auto simp: optional_vlan_id_def valid_vlan_def)
  qed (use assms Some in \<open>auto simp: optional_vlan_id_def valid_vlan_def split: if_splits\<close>)
qed (use assms in \<open>auto simp: optional_vlan_id_def valid_vlan_def\<close>)

lemma string_or_empty_no_nul: "CHR 0x00 \<notin> set (string_or_empty J v)"
  by (auto simp: string_or_empty_def optional_string_no_nul split: option.splits)

lemma parse_ssid_item_valid:
  assumes "parse_ssid_item J band rid raw error = (w, [])"
  shows "valid_network w \<and> error = []"
proof -
  obtain v e where vlan: "optional_vlan_id J (object_member raw ''vlanId'') error = (v, e)"
    by (cases "optional_vlan_id J (object_member raw ''vlanId'') error")
  from assms optional_vlan_id_valid [OF vlan] string_or_empty_no_nul [of J "object_member raw ''ssidName''"] vlan
  show ?thesis
    by (auto simp: parse_ssid_item_def validate_ssid_name_def require_object_def valid_network_def
        default_network_def Let_def split: if_splits)
qed

lemma valid_update_append: "valid_update u \<Longrightarrow> valid_network w \<Longrightarrow> valid_update (u\<lparr>wlans := wlans u @ [w]\<rparr>)"
  by (simp add: valid_update_def)

lemma parse_ssid_items_valid:
  "valid_update (fst s) \<Longrightarrow> valid_update (fst (parse_ssid_items J band rid items s))"
proof (induction J band rid items s rule: parse_ssid_items.induct)
  case (2 J band rid item items update error)
  obtain w e where w: "parse_ssid_item J band rid item error = (w, e)"
    by (cases "parse_ssid_item J band rid item error")
  show ?case
  proof (cases "error = [] \<and> is_object item \<and> e = []")
    case True
    with parse_ssid_item_valid w 2 have "valid_update (update\<lparr>wlans := wlans update @ [w]\<rparr>)"
      by (intro valid_update_append) auto
    with True w 2 show ?thesis by (auto simp: require_object_def)
  next
    case False
    with w 2 show ?thesis by (auto simp: require_object_def split: if_splits)
  qed
qed simp

lemma parse_ssid_config_valid:
  "valid_update (fst s) \<Longrightarrow> valid_update (fst (parse_ssid_config J band raw s))"
  by (auto simp: parse_ssid_config_def Let_def parse_ssid_items_valid split: prod.splits)

lemma parse_client_config_frame [frame_rules]:
  "wlans (fst (parse_client_config J raw s)) = wlans (fst s) \<and>
   radios (fst (parse_client_config J raw s)) = radios (fst s) \<and>
   management_vlan (fst (parse_client_config J raw s)) = management_vlan (fst s)"
proof -
  have "wlans (fst (parse_client_config_items J items s)) = wlans (fst s) \<and>
    radios (fst (parse_client_config_items J items s)) = radios (fst s) \<and>
    management_vlan (fst (parse_client_config_items J items s)) = management_vlan (fst s)" for items s
    by (induction J items s rule: parse_client_config_items.induct)
      (auto simp: require_object_def split: prod.splits option.splits)
  then show ?thesis by (auto simp: parse_client_config_def split: prod.splits)
qed

lemma parse_client_operations_frame [frame_rules]:
  "wlans (fst (parse_client_operations J raw key s)) = wlans (fst s) \<and>
   radios (fst (parse_client_operations J raw key s)) = radios (fst s) \<and>
   management_vlan (fst (parse_client_operations J raw key s)) = management_vlan (fst s)"
proof -
  have "wlans (fst (parse_client_operation_items J key items s)) = wlans (fst s) \<and>
    radios (fst (parse_client_operation_items J key items s)) = radios (fst s) \<and>
    management_vlan (fst (parse_client_operation_items J key items s)) = management_vlan (fst s)" for items s
    by (induction J key items s rule: parse_client_operation_items.induct)
      (auto simp: require_object_def split: prod.splits option.splits)
  then show ?thesis by (auto simp: parse_client_operations_def split: prod.splits)
qed

lemma parse_client_rate_config_frame [frame_rules]:
  "wlans (fst (parse_client_rate_config J raw s)) = wlans (fst s) \<and>
   radios (fst (parse_client_rate_config J raw s)) = radios (fst s) \<and>
   management_vlan (fst (parse_client_rate_config J raw s)) = management_vlan (fst s)"
  by (auto simp: parse_client_rate_config_def require_object_def Let_def split: prod.splits)

text \<open>A section that leaves radios, networks and the management VLAN alone.\<close>

definition framed_step :: "body_step \<Rightarrow> bool" where
  "framed_step f \<longleftrightarrow>
     (\<forall>s s'. f s = Inr s' \<longrightarrow> wlans (fst s') = wlans (fst s) \<and> radios (fst s') = radios (fst s) \<and>
        management_vlan (fst s') = management_vlan (fst s))"

lemma portal_items_frame:
  "portal_items J items s = Inr s' \<Longrightarrow> wlans (fst s') = wlans (fst s) \<and> radios (fst s') = radios (fst s) \<and>
     management_vlan (fst s') = management_vlan (fst s)"
  by (induction J items s rule: portal_items.induct)
    (auto simp: require_object_def split: if_splits)

lemma framed_clients_step:
  "(\<And>raw s. wlans (fst (parse raw s)) = wlans (fst s) \<and> radios (fst (parse raw s)) = radios (fst s) \<and>
     management_vlan (fst (parse raw s)) = management_vlan (fst s)) \<Longrightarrow>
   framed_step (clients_step parse body k)"
  unfolding framed_step_def clients_step_def Let_def by (simp del: split_paired_All)

lemma framed_steps:
  "framed_step (free_policy_step J body)" "framed_step (portal_step J body)"
  "framed_step (led_step J body)" "framed_step (wifi_led_step J body)"
  by (auto simp: framed_step_def free_policy_step_def portal_step_def led_step_def wifi_led_step_def
      require_object_def Let_def dest!: portal_items_frame split: if_splits prod.splits)

lemma framed_client_steps:
  "framed_step (clients_step (parse_client_config J) body k)"
  "framed_step (clients_step (\<lambda>raw. parse_client_operations J raw k) body k)"
  "framed_step (clients_step (parse_client_rate_config J) body k)"
  by (rule framed_clients_step, rule frame_rules)+

lemma framed_step_valid:
  "framed_step f \<Longrightarrow> f s = Inr s' \<Longrightarrow> valid_update (fst s) \<Longrightarrow> valid_update (fst s')"
  unfolding framed_step_def valid_update_def by metis

lemma body_steps_valid:
  assumes "f \<in> set (body_steps J body)" "f s = Inr s'" "valid_update (fst s)"
  shows "valid_update (fst s')"
proof -
  consider (radio) kb where "f = radio_step J body kb" | (ssid) kb where "f = ssid_step J body kb"
    | (management) "f = management_step J body" | (framed) "framed_step f"
    using assms(1) framed_steps framed_client_steps unfolding body_steps_def by auto
  then show ?thesis
  proof cases
    case radio
    with assms(2,3) show ?thesis
      by (cases s) (auto simp: radio_step_def require_object_def valid_update_def Let_def split: if_splits)
  next
    case ssid
    with assms(2,3) show ?thesis
      by (auto simp: ssid_step_def parse_ssid_config_valid Let_def split: if_splits)
  next
    case management
    with assms(2,3) show ?thesis
      by (cases s) (auto simp: management_step_def parse_management_vlan_def require_object_def valid_update_def
          Let_def dest!: optional_vlan_id_valid split: if_splits prod.splits)
  next
    case framed
    from framed_step_valid [OF this assms(2,3)] show ?thesis .
  qed
qed

lemma parse_body_object_ok:
  assumes "cpr_ok (parse_body_object J body)"
  obtains update error where "is_object body"
    "foldr then_step (body_steps J body) Inr
       (empty_update\<lparr>sequence_id := optional_int J (object_member body ''sequenceId''),
          config_version := optional_int J (object_member body ''configVersion''),
          config_version_inc := optional_int J (object_member body ''configVersionInc'')\<rparr>, []) =
     Inr (update, error)"
    "cpr_update (parse_body_object J body) = update
      \<lparr>passive_keys := sort (filter (\<lambda>k. k \<in> set kPassiveKeys) (body_keys body)),
       unhandled_keys := sort (filter (\<lambda>k. k \<notin> set kCommonKeys \<and>
         k \<notin> set kKnownKeys \<and> k \<notin> set kPassiveKeys) (body_keys body))\<rparr>"
  using assms
  by (auto simp: parse_body_object_def fail_def Let_def split: if_splits sum.splits)

lemma valid_update_numbers [simp]:
  "valid_update (u\<lparr>sequence_id := a, config_version := b, config_version_inc := c\<rparr>) = valid_update u"
  "valid_update (u\<lparr>passive_keys := p, unhandled_keys := q\<rparr>) = valid_update u"
  by (simp_all add: valid_update_def)

section \<open>The sections in order\<close>

definition section_radios :: "jsonc \<Rightarrow> json \<Rightarrow> string \<times> radio_band \<Rightarrow> radio_config list" where
  "section_radios J body kb =
    (let raw = object_member body (fst kb)
     in if raw = JNull then [] else [parse_radio_config J (snd kb) raw])"

lemma foldr_radio_steps:
  "foldr then_step (map (radio_step J body) kbs) Inr s = Inr s' \<Longrightarrow>
   s' = ((fst s)\<lparr>radios := radios (fst s) @ concat (map (section_radios J body) kbs)\<rparr>, snd s)"
proof (induction kbs arbitrary: s)
  case (Cons kb kbs)
  then obtain t where t: "radio_step J body kb s = Inr t"
    "foldr then_step (map (radio_step J body) kbs) Inr t = Inr s'"
    by (auto simp: then_step_Inr simp del: split_paired_Ex)
  have "t = ((fst s)\<lparr>radios := radios (fst s) @ section_radios J body kb\<rparr>, snd s)"
    using t(1) by (cases s) (auto simp: radio_step_def section_radios_def require_object_def Let_def split: if_splits)
  with Cons.IH [OF t(2)] show ?case by simp
qed simp

text \<open>The networks a section \<open>ssid_*\<close> stands for.\<close>

definition ssid_networks :: "jsonc \<Rightarrow> json \<Rightarrow> string \<times> radio_band \<Rightarrow> wireless_network list" where
  "ssid_networks J body kb =
    (let raw = object_member body (fst kb)
     in if raw = JNull then []
        else map (\<lambda>item. fst (parse_ssid_item J (snd kb) (optional_int J (object_member raw ''radioId'')) item []))
               (fst (iter_items (object_member raw ''ssid'') ''SSID list'' [])))"

lemma parse_ssid_items_result:
  "snd (parse_ssid_items J band rid items s) = [] \<Longrightarrow>
   parse_ssid_items J band rid items s =
     ((fst s)\<lparr>wlans := wlans (fst s) @ map (\<lambda>item. fst (parse_ssid_item J band rid item [])) items\<rparr>, []) \<and>
   snd s = []"
proof (induction items arbitrary: s)
  case (Cons item items)
  obtain u e where s: "s = (u, e)" by (cases s)
  obtain w e' where w: "parse_ssid_item J band rid item [] = (w, e')"
    by (cases "parse_ssid_item J band rid item []")
  from Cons.prems w s have "e = [] \<and> is_object item \<and> e' = []"
    by (auto simp: require_object_def split: if_splits)
  with Cons.IH [of "(u\<lparr>wlans := wlans u @ [w]\<rparr>, [])"] Cons.prems w s show ?case
    by (simp add: require_object_def)
next
  case Nil
  then show ?case by (cases s) simp
qed

lemma foldr_ssid_steps:
  "foldr then_step (map (ssid_step J body) kbs) Inr s = Inr s' \<Longrightarrow> snd s = [] \<Longrightarrow>
   s' = ((fst s)\<lparr>wlans := wlans (fst s) @ concat (map (ssid_networks J body) kbs)\<rparr>, [])"
proof (induction kbs arbitrary: s)
  case (Cons kb kbs)
  then obtain t where t: "ssid_step J body kb s = Inr t"
    "foldr then_step (map (ssid_step J body) kbs) Inr t = Inr s'"
    by (auto simp: then_step_Inr simp del: split_paired_Ex)
  have "t = ((fst s)\<lparr>wlans := wlans (fst s) @ ssid_networks J body kb\<rparr>, [])"
    using t(1) Cons.prems(2)
    by (cases s)
      (auto simp: ssid_step_def ssid_networks_def parse_ssid_config_def require_object_def iter_items_def
        Let_def dest!: parse_ssid_items_result split: if_splits prod.splits)
  with Cons.IH [OF t(2)] show ?case by simp
qed (cases s', simp)

lemma foldr_frame:
  assumes "foldr then_step fs Inr s = Inr s'"
    and "\<And>f t t'. f \<in> set fs \<Longrightarrow> f t = Inr t' \<Longrightarrow>
      wlans (fst t') = wlans (fst t) \<and> radios (fst t') = radios (fst t)"
  shows "wlans (fst s') = wlans (fst s) \<and> radios (fst s') = radios (fst s)"
  by (rule foldr_then_step_invariant [OF assms(1)]) (use assms(2) in auto)

definition radio_keys :: "(string \<times> radio_band) list" where
  "radio_keys = [(''wirelessBasic_2G'', TwoG), (''wirelessBasic_5G'', FiveG),
     (''wirelessBasic_5G2'', FiveG2), (''wirelessBasic_6G'', SixG)]"

definition ssid_keys :: "(string \<times> radio_band) list" where
  "ssid_keys = [(''ssid_2G'', TwoG), (''ssid_5G'', FiveG), (''ssid_5G2'', FiveG2), (''ssid_6G'', SixG)]"

definition rest_steps :: "jsonc \<Rightarrow> json \<Rightarrow> body_step list" where
  "rest_steps J body =
     [management_step J body, free_policy_step J body, portal_step J body, led_step J body,
      wifi_led_step J body,
      clients_step (parse_client_config J) body ''clientConfig'',
      clients_step (\<lambda>raw. parse_client_operations J raw ''clientOperation'') body ''clientOperation'',
      clients_step (\<lambda>raw. parse_client_operations J raw ''clientOperation_cmd'') body ''clientOperation_cmd'',
      clients_step (parse_client_rate_config J) body ''clientRateConfig'']"

lemma body_steps_split:
  "body_steps J body = map (radio_step J body) radio_keys @ map (ssid_step J body) ssid_keys @ rest_steps J body"
  by (simp add: body_steps_def radio_keys_def ssid_keys_def rest_steps_def)

lemma management_step_frame:
  "management_step J body s = Inr s' \<Longrightarrow> wlans (fst s') = wlans (fst s) \<and> radios (fst s') = radios (fst s)"
  by (cases s) (auto simp: management_step_def Let_def split: if_splits prod.splits)

lemma rest_steps_frame:
  assumes "foldr then_step (rest_steps J body) Inr s = Inr s'"
  shows "wlans (fst s') = wlans (fst s) \<and> radios (fst s') = radios (fst s)"
proof (rule foldr_frame [OF assms])
  fix f t t'
  assume "f \<in> set (rest_steps J body)" and f: "f t = Inr t'"
  then consider "f = management_step J body" | "framed_step f"
    using framed_steps framed_client_steps unfolding rest_steps_def by auto
  then show "wlans (fst t') = wlans (fst t) \<and> radios (fst t') = radios (fst t)"
  proof cases
    case 1
    with f show ?thesis by (simp add: management_step_frame)
  next
    case 2
    with f show ?thesis unfolding framed_step_def by blast
  qed
qed

lemma body_steps_networks:
  assumes "foldr then_step (body_steps J body) Inr (u, []) = Inr (u', e)"
  shows "radios u' = radios u @ concat (map (section_radios J body) radio_keys) \<and>
    wlans u' = wlans u @ concat (map (ssid_networks J body) ssid_keys)"
proof -
  obtain s1 s2 where s1: "foldr then_step (map (radio_step J body) radio_keys) Inr (u, []) = Inr s1"
    and s2: "foldr then_step (map (ssid_step J body) ssid_keys) Inr s1 = Inr s2"
    and s3: "foldr then_step (rest_steps J body) Inr s2 = Inr (u', e)"
    using assms unfolding body_steps_split foldr_then_step_append by (auto split: sum.splits)
  note r1 = foldr_radio_steps [OF s1]
  then have "snd s1 = []" by simp
  from foldr_ssid_steps [OF s2 this] rest_steps_frame [OF s3] r1 show ?thesis by simp
qed

lemma parse_body_object_valid: "valid_update (cpr_update (parse_body_object J body))"
proof (cases "cpr_ok (parse_body_object J body)")
  case False
  then show ?thesis by (auto simp: parse_body_object_def fail_def Let_def split: sum.splits)
next
  case True
  then show ?thesis
  proof (rule parse_body_object_ok)
    fix update error
    assume run: "foldr then_step (body_steps J body) Inr
       (empty_update\<lparr>sequence_id := optional_int J (object_member body ''sequenceId''),
          config_version := optional_int J (object_member body ''configVersion''),
          config_version_inc := optional_int J (object_member body ''configVersionInc'')\<rparr>, []) =
       Inr (update, error)"
      and result: "cpr_update (parse_body_object J body) = update
        \<lparr>passive_keys := sort (filter (\<lambda>k. k \<in> set kPassiveKeys) (body_keys body)),
         unhandled_keys := sort (filter (\<lambda>k. k \<notin> set kCommonKeys \<and>
           k \<notin> set kKnownKeys \<and> k \<notin> set kPassiveKeys) (body_keys body))\<rparr>"
    have "valid_update (fst (update, error))"
      by (rule foldr_then_step_invariant [OF run]) (auto intro: body_steps_valid)
    with result show ?thesis by simp
  qed
qed

lemma parse_set_request_valid: "valid_update (cpr_update (parse_set_request_json J message))"
  by (simp add: parse_set_request_json_def parse_body_object_valid fail_def Let_def)

section \<open>Properties\<close>

text \<open>
  C8. Whatever the controller sends, every network of a parsed SET_REQUEST has a name of at most
  32 bytes without NUL, and every VLAN id that reaches the agent, of a network or of management, is
  between 1 and 4094.
\<close>

theorem set_request_valid:
  "valid_update (cpr_update (parse_set_request_json J message)) \<and>
   valid_update (cpr_update (parse_config_body_json J message))"
  by (simp add: parse_set_request_json_def parse_config_body_json_def parse_body_object_valid fail_def Let_def)

text \<open>
  C9. A SET_REQUEST body that is accepted is parsed completely and in the order of the bands: the
  radios are those of the four \<open>wirelessBasic\<close> sections, the networks all items of the four \<open>ssid\<close>
  sections, and the update counts as supported exactly when every key of the body is one the agent
  knows.
\<close>

theorem set_request_networks:
  assumes "cpr_ok (parse_body_object J body)"
  shows "radios (cpr_update (parse_body_object J body)) = concat (map (section_radios J body) radio_keys) \<and>
    wlans (cpr_update (parse_body_object J body)) = concat (map (ssid_networks J body) ssid_keys) \<and>
    (is_supported_config_update (cpr_update (parse_body_object J body)) \<longleftrightarrow>
       set (body_keys body) \<subseteq> set kCommonKeys \<union> set kKnownKeys \<union> set kPassiveKeys)"
  using assms
proof (rule parse_body_object_ok)
  fix update error
  assume run: "foldr then_step (body_steps J body) Inr
     (empty_update\<lparr>sequence_id := optional_int J (object_member body ''sequenceId''),
        config_version := optional_int J (object_member body ''configVersion''),
        config_version_inc := optional_int J (object_member body ''configVersionInc'')\<rparr>, []) =
     Inr (update, error)"
    and result: "cpr_update (parse_body_object J body) = update
      \<lparr>passive_keys := sort (filter (\<lambda>k. k \<in> set kPassiveKeys) (body_keys body)),
       unhandled_keys := sort (filter (\<lambda>k. k \<notin> set kCommonKeys \<and>
         k \<notin> set kKnownKeys \<and> k \<notin> set kPassiveKeys) (body_keys body))\<rparr>"
  have empty: "sort ks = [] \<longleftrightarrow> ks = []" for ks :: "string list"
    by (metis length_0_conv length_sort)
  have "is_supported_config_update (cpr_update (parse_body_object J body)) \<longleftrightarrow>
      set (body_keys body) \<subseteq> set kCommonKeys \<union> set kKnownKeys \<union> set kPassiveKeys"
    unfolding result is_supported_config_update_def
    by (simp add: empty filter_empty_conv) blast
  then show ?thesis
    using body_steps_networks [OF run] unfolding result by (simp add: empty_update_def)
qed

text \<open>
  The check of \<open>portalConfigList\<close> is incomplete: a list that is neither an object nor an array sets
  the error string but nobody looks at it, so the section is dropped without a trace and the
  request succeeds; with a later section that does look, the same request fails.
\<close>

lemma portal_list_steps:
  "foldr then_step (body_steps J (JObject [(''portalConfigList'', JInt n)])) Inr (u, []) =
     Inr (u, ''portalConfigList must be an object or array'')"
  by (simp add: body_steps_def then_step_def radio_step_def ssid_step_def management_step_def
      free_policy_step_def portal_step_def led_step_def wifi_led_step_def clients_step_def iter_items_def)

lemma portal_list_clients_steps:
  "foldr then_step (body_steps J (JObject [(''portalConfigList'', JInt n), (''clientConfig'', JArray [])]))
     Inr (u, []) = Inl ''portalConfigList must be an object or array''"
  by (simp add: body_steps_def then_step_def radio_step_def ssid_step_def management_step_def
      free_policy_step_def portal_step_def led_step_def wifi_led_step_def clients_step_def iter_items_def
      check_error_def parse_client_config_def)

lemma portal_list_known: "c_string ''portalConfigList'' = ''portalConfigList''"
  "''portalConfigList'' \<in> set kKnownKeys" "''portalConfigList'' \<notin> set kPassiveKeys"
  by (code_simp, simp_all add: kKnownKeys_def kPassiveKeys_def)

text \<open>
  A \<open>portalConfigList\<close> that is neither an array nor an object is silently accepted: the parser
  notes the error, but only a later section that checks it refuses the update.  Alone, the update
  is accepted and supported, and asks for nothing.
\<close>

theorem portal_list_scalar_accepted:
  "cpr_ok (parse_body_object J (JObject [(''portalConfigList'', JInt n)])) \<and>
   \<not> is_actionable_config (cpr_update (parse_body_object J (JObject [(''portalConfigList'', JInt n)]))) \<and>
   is_supported_config_update (cpr_update (parse_body_object J (JObject [(''portalConfigList'', JInt n)]))) \<and>
   \<not> cpr_ok (parse_body_object J (JObject [(''portalConfigList'', JInt n), (''clientConfig'', JArray [])]))"
  by (simp add: parse_body_object_def portal_list_steps portal_list_clients_steps portal_list_known
      fail_def body_keys_def is_actionable_config_def is_supported_config_update_def empty_update_def)

text \<open>An update with one network.\<close>

definition cafe_body :: json where
  "cafe_body = JObject [(''ssid_2G'', JObject [(''ssid'', JArray [JObject [(''ssidName'', JString ''Cafe'')]])])]"

lemma cafe_ok: "cpr_ok (parse_body_object (table_jsonc []) cafe_body)"
  by code_simp

lemma cafe_net: "map wn_name (concat (map (ssid_networks (table_jsonc []) cafe_body) ssid_keys)) = [''Cafe'']"
  by code_simp

theorem set_request_networks_witness:
  "map wn_name (wlans (cpr_update (parse_body_object (table_jsonc []) cafe_body))) = [''Cafe'']"
  using set_request_networks [OF cafe_ok] cafe_net by simp

end
