(* ===== verification/Configuration_Exchange.thy ===== *)
theory Configuration_Exchange
  imports Configuration Ecsp_Builders
begin

text \<open>
  \<open>src/src/application/configuration_exchange.cpp\<close>: the answers to the requests of the controller.
  Every answer is printed by hand from the request; the \<open>*_value\<close> definitions are the values the
  bodies are meant to be, and the lemmas show that the texts print them.
\<close>

definition kConfigOk :: i64 where "kConfigOk = 0"
definition kConfigError :: i64 where "kConfigError = 1"

record request_fields =
  rf_ok :: bool
  rf_header_seq :: "u32 option"
  rf_header_type :: u32
  rf_sequence_id :: "i64 option"
  rf_config_version :: "i64 option"
  rf_config_version_inc :: "i64 option"
  rf_error :: string
  rf_document :: json

record header_fields =
  hf_ok :: bool
  hf_header_seq :: "u32 option"
  hf_header_type :: u32
  hf_error :: string
  hf_document :: json

record set_request_evaluation =
  ev_parsed :: bool
  ev_update :: config_update
  ev_errcode :: i64
  ev_error :: string

record set_response_body_result =
  sr_ok :: bool
  sr_sequence_id :: i64
  sr_config_version :: i64
  sr_errcode :: i64
  sr_body_json :: string
  sr_error :: string

record get_response_body_result =
  gr_ok :: bool
  gr_sequence_id :: i64
  gr_body_json :: string
  gr_error :: string

record notify_reply_result =
  nr_ok :: bool
  nr_should_reply :: bool
  nr_response_type :: message_type
  nr_body_json :: string
  nr_error :: string

record portal_auth_reply_result =
  pr_ok :: bool
  pr_should_reply :: bool
  pr_sequence_id :: "i64 option"
  pr_errcode :: i64
  pr_body_json :: string
  pr_error :: string

record forget_response_result =
  fr_ok :: bool
  fr_response_type :: message_type
  fr_message_json :: string
  fr_error :: string

section \<open>Reading the request\<close>

definition parse_request :: "jsonc \<Rightarrow> string \<Rightarrow> request_fields" where
  "parse_request J request_json =
    (let document = json_document_parse J request_json;
         fields = \<lparr>rf_ok = False, rf_header_seq = None, rf_header_type = 0, rf_sequence_id = None,
           rf_config_version = None, rf_config_version_inc = None, rf_error = [], rf_document = document\<rparr>
     in if \<not> valid document then fields\<lparr>rf_error := ''request must be a JSON object''\<rparr>
        else
          (let fields = fields
                 \<lparr>rf_header_seq := ecsp_header_seq J document,
                  rf_header_type := (case ecsp_header_type J document of Some t \<Rightarrow> t | None \<Rightarrow> 0)\<rparr>;
               body = ecsp_body document
           in if \<not> is_object body then fields\<lparr>rf_error := ''request body must be a JSON object''\<rparr>
              else fields
                \<lparr>rf_sequence_id := optional_int_exchange J (object_member body ''sequenceId''),
                 rf_config_version := optional_int_exchange J (object_member body ''configVersion''),
                 rf_config_version_inc := optional_int_exchange J (object_member body ''configVersionInc''),
                 rf_ok := True\<rparr>))"

definition parse_header :: "jsonc \<Rightarrow> string \<Rightarrow> header_fields" where
  "parse_header J request_json =
    (let document = json_document_parse J request_json;
         fields = \<lparr>hf_ok = False, hf_header_seq = None, hf_header_type = 0, hf_error = [],
           hf_document = document\<rparr>
     in if \<not> valid document then fields\<lparr>hf_error := ''request must be a JSON object''\<rparr>
        else fields
          \<lparr>hf_header_seq := ecsp_header_seq J document,
           hf_header_type := (case ecsp_header_type J document of Some t \<Rightarrow> t | None \<Rightarrow> 0),
           hf_ok := True\<rparr>)"

definition response_header ::
  "agent_settings \<Rightarrow> message_type \<Rightarrow> u32 option \<Rightarrow> string \<Rightarrow> u64 \<Rightarrow> ecsp_header" where
  "response_header s type seq controller timestamp_ms =
    (let header =
           \<lparr>hd_seq = seq, hd_version = ecsp_version s, hd_ver_cap = ecsp_ver_cap s, hd_device = ''ap'',
            hd_mac = mac s, hd_type = type, hd_error = 0, hd_dest = controller, hd_timestamp = None\<rparr>
     in if timestamp_ms \<noteq> 0 then header\<lparr>hd_timestamp := Some timestamp_ms\<rparr> else header)"

section \<open>Bodies\<close>

definition unsupported_keys :: "json \<Rightarrow> string list" where
  "unsupported_keys body =
     sort (filter (\<lambda>k. k \<noteq> ''sequenceId'') (map (\<lambda>kv. c_string (fst kv)) (object_entries body)))"

definition get_body_json :: "json \<Rightarrow> i64 \<Rightarrow> i64 \<Rightarrow> string" where
  "get_body_json body sequence errcode =
    (let keys = unsupported_keys body
     in ''{\"sequenceId\":'' @ to_string_i sequence @ '',\"errcode\":'' @ to_string_i errcode
        @ (if keys \<noteq> []
           then '',\"unsupportedKeys\":['' @ join_with '','' (map quoted keys) @ '']'' else [])
        @ ''}'')"

definition body_has_no_reply :: "jsonc \<Rightarrow> json \<Rightarrow> bool" where
  "body_has_no_reply J body =
     ((case optional_int_exchange J (object_member body ''nre'') of Some v \<Rightarrow> v | None \<Rightarrow> 0) = 1)"

definition notify_body_json :: "jsonc \<Rightarrow> json \<Rightarrow> i64 \<Rightarrow> string" where
  "notify_body_json J body errcode =
     ''{\"err\":'' @ to_string_i errcode
     @ (case optional_int_exchange J (object_member body ''nid'') of
          Some nid \<Rightarrow> '',\"nid\":'' @ to_string_i nid | None \<Rightarrow> [])
     @ (case optional_int_exchange J (object_member body ''sub'') of
          Some sub \<Rightarrow> '',\"sub\":'' @ to_string_i sub | None \<Rightarrow> [])
     @ (if errcode \<noteq> kConfigOk then '',\"rst\":{\"error\":\"unsupported notify request\"}'' else [])
     @ ''}''"

definition set_response_error :: "string \<Rightarrow> set_response_body_result" where
  "set_response_error message =
     \<lparr>sr_ok = False, sr_sequence_id = 0, sr_config_version = 0, sr_errcode = kConfigError, sr_body_json = [],
      sr_error = message\<rparr>"

definition get_response_error :: "string \<Rightarrow> get_response_body_result" where
  "get_response_error message = \<lparr>gr_ok = False, gr_sequence_id = 0, gr_body_json = [], gr_error = message\<rparr>"

definition notify_error :: "string \<Rightarrow> notify_reply_result" where
  "notify_error message =
     \<lparr>nr_ok = False, nr_should_reply = False, nr_response_type = NotifyReply, nr_body_json = [],
      nr_error = message\<rparr>"

definition portal_auth_error :: "string \<Rightarrow> portal_auth_reply_result" where
  "portal_auth_error message =
     \<lparr>pr_ok = False, pr_should_reply = False, pr_sequence_id = None, pr_errcode = kConfigError,
      pr_body_json = [], pr_error = message\<rparr>"

definition default_evaluation :: set_request_evaluation where
  "default_evaluation = \<lparr>ev_parsed = False, ev_update = empty_update, ev_errcode = kConfigError, ev_error = []\<rparr>"

definition evaluate_set_request :: "jsonc \<Rightarrow> string \<Rightarrow> set_request_evaluation" where
  "evaluate_set_request J message_json =
    (let parsed = parse_set_request_json J message_json;
         evaluation = default_evaluation\<lparr>ev_parsed := cpr_ok parsed, ev_update := cpr_update parsed\<rparr>
     in if \<not> cpr_ok parsed
        then evaluation\<lparr>ev_errcode := kConfigError, ev_error := cpr_error parsed\<rparr>
        else if unhandled_keys (ev_update evaluation) \<noteq> []
        then evaluation\<lparr>ev_errcode := kConfigError,
               ev_error := ''unsupported keys: '' @ join_with '','' (unhandled_keys (ev_update evaluation))\<rparr>
        else if is_actionable_config (ev_update evaluation)
        then evaluation\<lparr>ev_errcode := kConfigError,
               ev_error := ''actionable AP configuration requires a platform applier''\<rparr>
        else evaluation\<lparr>ev_errcode := kConfigOk\<rparr>)"

definition build_set_response_body_json ::
  "jsonc \<Rightarrow> string \<Rightarrow> i64 option \<Rightarrow> i64 \<Rightarrow> set_response_body_result" where
  "build_set_response_body_json J request_json current_config_version errcode =
    (let fields = parse_request J request_json
     in if \<not> rf_ok fields then set_response_error (rf_error fields)
        else
          (case rf_sequence_id fields of
             None \<Rightarrow> set_response_error ''SET_REQUEST is missing sequenceId''
           | Some sequence \<Rightarrow>
               (let applied =
                      (case rf_config_version fields of
                         Some version \<Rightarrow> Inr version
                       | None \<Rightarrow>
                           (case rf_config_version_inc fields of
                              Some inc \<Rightarrow>
                                (case current_config_version of
                                   None \<Rightarrow> Inl ''SET_REQUEST uses configVersionInc but the local config version is unknown''
                                 | Some current \<Rightarrow>
                                     if sint inc < 0 then Inl ''SET_REQUEST has invalid negative configVersionInc''
                                     else Inr (current + inc))
                            | None \<Rightarrow> Inl ''SET_REQUEST has neither configVersion nor configVersionInc''))
                in case applied of
                     Inl message \<Rightarrow> set_response_error message
                   | Inr applied_version \<Rightarrow>
                       (let response_version =
                              (case current_config_version of
                                 Some current \<Rightarrow> (if errcode \<noteq> kConfigOk then current else applied_version)
                               | None \<Rightarrow> applied_version)
                        in \<lparr>sr_ok = True, sr_sequence_id = sequence, sr_config_version = response_version,
                            sr_errcode = errcode,
                            sr_body_json =
                              ''{\"sequenceId\":'' @ to_string_i sequence
                              @ '',\"errcode\":'' @ to_string_i errcode
                              @ '',\"configVersion\":'' @ to_string_i response_version @ ''}'',
                            sr_error = []\<rparr>))))"

section \<open>Messages\<close>

definition build_set_response_json ::
  "jsonc \<Rightarrow> agent_settings \<Rightarrow> string \<Rightarrow> string \<Rightarrow> set_response_body_result \<Rightarrow> u64 \<Rightarrow> string" where
  "build_set_response_json J s request_json controller body timestamp_ms =
    (let fields = parse_request J request_json
     in build_message_json (response_header s SetResponse (rf_header_seq fields) controller timestamp_ms)
          (sr_body_json body) True)"

definition build_get_response_body_json :: "jsonc \<Rightarrow> string \<Rightarrow> i64 \<Rightarrow> get_response_body_result" where
  "build_get_response_body_json J request_json errcode =
    (let fields = parse_request J request_json
     in if \<not> rf_ok fields then get_response_error (rf_error fields)
        else
          (case rf_sequence_id fields of
             None \<Rightarrow> get_response_error ''GET_REQUEST is missing sequenceId''
           | Some sequence \<Rightarrow>
               \<lparr>gr_ok = True, gr_sequence_id = sequence,
                gr_body_json = get_body_json (ecsp_body (rf_document fields)) sequence errcode,
                gr_error = []\<rparr>))"

definition build_get_response_json ::
  "jsonc \<Rightarrow> agent_settings \<Rightarrow> string \<Rightarrow> string \<Rightarrow> get_response_body_result \<Rightarrow> u64 \<Rightarrow> string" where
  "build_get_response_json J s request_json controller body timestamp_ms =
    (let fields = parse_request J request_json
     in build_message_json (response_header s GetResponse (rf_header_seq fields) controller timestamp_ms)
          (gr_body_json body) True)"

definition build_notify_reply_body_json :: "jsonc \<Rightarrow> string \<Rightarrow> i64 \<Rightarrow> notify_reply_result" where
  "build_notify_reply_body_json J request_json errcode =
    (let fields = parse_header J request_json
     in if \<not> hf_ok fields then notify_error (hf_error fields)
        else
          (let body = ecsp_body (hf_document fields);
               body = (if body = JNull then JObject [] else body);
               should_reply = \<not> body_has_no_reply J body
           in \<lparr>nr_ok = True, nr_should_reply = should_reply,
               nr_response_type =
                 (if hf_header_type fields = to_underlying NotifyRequestV2 then NotifyReplyV2 else NotifyReply),
               nr_body_json = (if should_reply then notify_body_json J body errcode else []),
               nr_error = []\<rparr>))"

definition build_notify_reply_json ::
  "jsonc \<Rightarrow> agent_settings \<Rightarrow> string \<Rightarrow> string \<Rightarrow> notify_reply_result \<Rightarrow> u64 \<Rightarrow> string" where
  "build_notify_reply_json J s request_json controller reply timestamp_ms =
    (let fields = parse_header J request_json
     in build_message_json (response_header s (nr_response_type reply) (hf_header_seq fields) controller timestamp_ms)
          (nr_body_json reply) True)"

definition build_portal_auth_reply_body_json :: "jsonc \<Rightarrow> string \<Rightarrow> i64 \<Rightarrow> portal_auth_reply_result" where
  "build_portal_auth_reply_body_json J request_json errcode =
    (let fields = parse_header J request_json
     in if \<not> hf_ok fields then portal_auth_error (hf_error fields)
        else
          \<lparr>pr_ok = True, pr_should_reply = (hf_header_seq fields \<noteq> None),
           pr_sequence_id = map_option ucast (hf_header_seq fields), pr_errcode = errcode,
           pr_body_json = ''{\"err\":'' @ to_string_i errcode @ ''}'', pr_error = []\<rparr>)"

definition build_portal_auth_reply_json ::
  "jsonc \<Rightarrow> agent_settings \<Rightarrow> string \<Rightarrow> string \<Rightarrow> portal_auth_reply_result \<Rightarrow> u64 \<Rightarrow> string" where
  "build_portal_auth_reply_json J s request_json controller reply timestamp_ms =
    (let fields = parse_header J request_json
     in build_message_json
          (response_header s EventPortalAuthResponse (hf_header_seq fields) controller timestamp_ms)
          (pr_body_json reply) True)"

definition build_forget_response_json ::
  "jsonc \<Rightarrow> agent_settings \<Rightarrow> string \<Rightarrow> string \<Rightarrow> u64 \<Rightarrow> forget_response_result" where
  "build_forget_response_json J s request_json controller timestamp_ms =
    (let fields = parse_header J request_json;
         result = \<lparr>fr_ok = False, fr_response_type = ForgetResponse, fr_message_json = [], fr_error = []\<rparr>
     in if \<not> hf_ok fields then result\<lparr>fr_error := hf_error fields\<rparr>
        else
          (let response =
                 (if hf_header_type fields = to_underlying ForgetRequestNoReset then Some ForgetResponseNoReset
                  else if hf_header_type fields = to_underlying ForgetRequest then Some ForgetResponse
                  else None)
           in case response of
                None \<Rightarrow> result\<lparr>fr_error := ''cannot build forget response for message type''\<rparr>
              | Some type \<Rightarrow>
                  result
                  \<lparr>fr_ok := True, fr_response_type := type,
                   fr_message_json :=
                     build_message_json (response_header s type None controller timestamp_ms) ''{}'' True\<rparr>))"

section \<open>The values of the bodies\<close>

definition set_response_value :: "i64 \<Rightarrow> i64 \<Rightarrow> i64 \<Rightarrow> json" where
  "set_response_value sequence errcode version =
     JObject [(''sequenceId'', JInt (sint sequence)), (''errcode'', JInt (sint errcode)),
       (''configVersion'', JInt (sint version))]"

definition get_response_value :: "json \<Rightarrow> i64 \<Rightarrow> i64 \<Rightarrow> json" where
  "get_response_value body sequence errcode =
     JObject ([(''sequenceId'', JInt (sint sequence)), (''errcode'', JInt (sint errcode))] @
       (if unsupported_keys body = [] then []
        else [(''unsupportedKeys'', JArray (map JString (unsupported_keys body)))]))"

definition notify_value :: "jsonc \<Rightarrow> json \<Rightarrow> i64 \<Rightarrow> json" where
  "notify_value J body errcode =
     JObject ([(''err'', JInt (sint errcode))] @
       (case optional_int_exchange J (object_member body ''nid'') of
          Some nid \<Rightarrow> [(''nid'', JInt (sint nid))] | None \<Rightarrow> []) @
       (case optional_int_exchange J (object_member body ''sub'') of
          Some sub \<Rightarrow> [(''sub'', JInt (sint sub))] | None \<Rightarrow> []) @
       (if errcode \<noteq> kConfigOk then [(''rst'', JObject [(''error'', JString ''unsupported notify request'')])]
        else []))"

definition portal_auth_value :: "i64 \<Rightarrow> json" where
  "portal_auth_value errcode = JObject [(''err'', JInt (sint errcode))]"

section \<open>Lemmas\<close>

lemma plain_exchange_keys:
  "quoted ''sequenceId'' = ''\"sequenceId\"''" "quoted ''errcode'' = ''\"errcode\"''"
  "quoted ''unsupportedKeys'' = ''\"unsupportedKeys\"''" "quoted ''err'' = ''\"err\"''"
  "quoted ''nid'' = ''\"nid\"''" "quoted ''sub'' = ''\"sub\"''" "quoted ''rst'' = ''\"rst\"''"
  "quoted ''unsupported notify request'' = ''\"unsupported notify request\"''"
  by (simp_all add: quoted_plain plain_def code_def)

lemmas exchange_render = render_JObject render_members_Cons plain_exchange_keys plain_builder_keys
  plain_header_keys to_string_i_def

lemma render_set_response:
  "render (set_response_value sequence errcode version) =
     ''{\"sequenceId\":'' @ to_string_i sequence @ '',\"errcode\":'' @ to_string_i errcode @
     '',\"configVersion\":'' @ to_string_i version @ ''}''"
  by (simp add: set_response_value_def exchange_render del: render.simps(7))

lemma map_render_JString [simp]: "map (render \<circ> JString) xs = map quoted xs"
  by simp

lemma get_body_json_render: "get_body_json body sequence errcode = render (get_response_value body sequence errcode)"
  by (simp add: get_response_value_def get_body_json_def exchange_render Let_def o_def del: render.simps(7))

lemma notify_body_json_render: "notify_body_json J body errcode = render (notify_value J body errcode)"
  by (simp add: notify_value_def notify_body_json_def exchange_render del: render.simps(7) split: option.splits)

lemma render_portal_auth: "render (portal_auth_value errcode) = ''{\"err\":'' @ to_string_i errcode @ ''}''"
  by (simp add: portal_auth_value_def exchange_render del: render.simps(7))

lemma printable_exchange [simp]:
  "printable (set_response_value a b c)" "printable (get_response_value body a b)"
  "printable (notify_value J body a)" "printable (portal_auth_value a)"
  by (auto simp: set_response_value_def get_response_value_def notify_value_def portal_auth_value_def
      list_all_iff split: option.splits)

lemma message_of_value:
  "printable v \<Longrightarrow> json_text (message_value h (Some v)) (build_message_json h (render v) True)"
  using build_via_render by blast

end
