(* ===== verification/Configuration_Applier.thy ===== *)
theory Configuration_Applier
  imports Configuration
begin

text \<open>
  \<open>src/src/application/configuration_applier.cpp\<close>: the interface of everything that can apply a
  configuration update to the platform, and the composite that runs several appliers in order.  An
  applier changes the world \<open>'w\<close> and answers with an \<open>apply_result\<close>.
\<close>

record apply_result =
  apply_ok :: bool
  apply_changed :: bool
  apply_error :: string

type_synonym 'w applier = "config_update \<Rightarrow> 'w \<Rightarrow> apply_result \<times> 'w"

text \<open>The vector of pointers; \<open>nullptr\<close> is \<open>None\<close>.\<close>

type_synonym 'w composite = "'w applier option list"

definition add :: "'w applier \<Rightarrow> 'w composite \<Rightarrow> 'w composite" where
  "add applier appliers = appliers @ [Some applier]"

fun composite_rounds :: "'w composite \<Rightarrow> config_update \<Rightarrow> bool \<Rightarrow> 'w \<Rightarrow> apply_result \<times> 'w" where
  "composite_rounds [] update changed w = (\<lparr>apply_ok = True, apply_changed = changed, apply_error = []\<rparr>, w)"
| "composite_rounds (None # appliers) update changed w = composite_rounds appliers update changed w"
| "composite_rounds (Some applier # appliers) update changed w =
    (let (result, w) = applier update w
     in if \<not> apply_ok result then (result, w)
        else composite_rounds appliers update (changed \<or> apply_changed result) w)"

definition composite_apply :: "'w composite \<Rightarrow> 'w applier" where
  "composite_apply appliers update w = composite_rounds appliers update False w"

section \<open>Sequential application\<close>

text \<open>The specification: all appliers of a list succeed one after the other.\<close>

fun all_apply :: "'w applier list \<Rightarrow> config_update \<Rightarrow> 'w \<Rightarrow> (bool \<times> 'w) option" where
  "all_apply [] update w = Some (False, w)"
| "all_apply (a # as) update w =
    (let (r, w') = a update w
     in if apply_ok r then map_option (\<lambda>(c, w''). (apply_changed r \<or> c, w'')) (all_apply as update w')
        else None)"

definition installed :: "'w composite \<Rightarrow> 'w applier list" where
  "installed appliers = List.map_filter id appliers"

lemma installed_simps [simp]:
  "installed [] = []" "installed (None # as) = installed as" "installed (Some a # as) = a # installed as"
  "installed (as @ bs) = installed as @ installed bs"
  by (simp_all add: installed_def List.map_filter_def)

lemma composite_rounds_cases:
  "(\<exists>c w'. all_apply (installed as) update w = Some (c, w') \<and>
      composite_rounds as update changed w =
        (\<lparr>apply_ok = True, apply_changed = (changed \<or> c), apply_error = []\<rparr>, w')) \<or>
   (\<exists>pre a post c w1 r w'. installed as = pre @ a # post \<and> all_apply pre update w = Some (c, w1) \<and>
      a update w1 = (r, w') \<and> \<not> apply_ok r \<and> composite_rounds as update changed w = (r, w'))"
proof (induction as update changed w rule: composite_rounds.induct)
  case (3 a as update changed w)
  obtain r w1 where r: "a update w = (r, w1)" by (cases "a update w")
  show ?case
  proof (cases "apply_ok r")
    case False
    with r show ?thesis
      by (intro disjI2 exI [of _ "[]"] exI [of _ a] exI [of _ "installed as"]) auto
  next
    case True
    from 3 [OF r [symmetric] refl] True consider
        (all) c w' where "all_apply (installed as) update w1 = Some (c, w')"
          "composite_rounds as update (changed \<or> apply_changed r) w1 =
            (\<lparr>apply_ok = True, apply_changed = ((changed \<or> apply_changed r) \<or> c), apply_error = []\<rparr>, w')"
      | (stop) pre b post c w2 r' w' where "installed as = pre @ b # post"
          "all_apply pre update w1 = Some (c, w2)" "b update w2 = (r', w')" "\<not> apply_ok r'"
          "composite_rounds as update (changed \<or> apply_changed r) w1 = (r', w')"
      by blast
    then show ?thesis
    proof cases
      case all
      with r True show ?thesis by (intro disjI1) (simp add: disj_assoc)
    next
      case stop
      with r True show ?thesis
        by (intro disjI2 exI [of _ "a # pre"] exI [of _ b] exI [of _ post]) auto
    qed
  qed
qed (simp, metis, simp)

section \<open>Property\<close>

text \<open>
  C13. The composite applier runs the installed appliers in order.  Either all of them succeed, and
  it reports success and whether any of them changed something; or it stops at the first that
  rejects the update, with that applier's answer, and the later ones are never run.
\<close>

theorem composite_stops_at_first_failure:
  "(\<exists>c w'. all_apply (installed as) update w = Some (c, w') \<and>
      composite_apply as update w = (\<lparr>apply_ok = True, apply_changed = c, apply_error = []\<rparr>, w')) \<or>
   (\<exists>pre a post c w1 r w'. installed as = pre @ a # post \<and> all_apply pre update w = Some (c, w1) \<and>
      a update w1 = (r, w') \<and> \<not> apply_ok r \<and> composite_apply as update w = (r, w'))"
  unfolding composite_apply_def using composite_rounds_cases [of as update w False] by simp

end
