(* ===== verification/Lifecycle_Session.thy ===== *)
theory Lifecycle_Session
  imports Cpp_Prelude
begin

text \<open>
  \<open>src/src/lifecycle/session.cpp\<close> and its header: the lifecycle of a controller session, a state
  machine guarded by \<open>can_transition\<close>, and the state of a managed access point.  Its runs are the
  inductive relation \<open>lifecycle_trace\<close>.
\<close>

datatype lifecycle_state =
    Discovering | Adopting | Verifying | Negotiating | Managed | Rebuilding | Disconnected

fun lifecycle_to_string :: "lifecycle_state \<Rightarrow> string" where
  "lifecycle_to_string Discovering = ''discovering''"
| "lifecycle_to_string Adopting = ''adopting''"
| "lifecycle_to_string Verifying = ''verifying''"
| "lifecycle_to_string Negotiating = ''negotiating''"
| "lifecycle_to_string Managed = ''managed''"
| "lifecycle_to_string Rebuilding = ''rebuilding''"
| "lifecycle_to_string Disconnected = ''disconnected''"

fun can_transition :: "lifecycle_state \<Rightarrow> lifecycle_state \<Rightarrow> bool" where
  "can_transition Disconnected to = (to = Discovering \<or> to = Rebuilding)"
| "can_transition Discovering to = (to = Adopting \<or> to = Disconnected)"
| "can_transition Adopting to = (to = Verifying \<or> to = Disconnected)"
| "can_transition Verifying to = (to = Negotiating \<or> to = Disconnected)"
| "can_transition Negotiating to = (to = Managed \<or> to = Disconnected)"
| "can_transition Managed to = (to = Rebuilding \<or> to = Disconnected)"
| "can_transition Rebuilding to = (to = Verifying \<or> to = Discovering \<or> to = Disconnected)"

record controller_session =
  session_state :: lifecycle_state
  session_config_version :: "u32 option"
  session_sequence_id :: "u32 option"

definition default_session :: controller_session where
  "default_session =
     \<lparr>session_state = Disconnected, session_config_version = None, session_sequence_id = None\<rparr>"

definition transition :: "lifecycle_state \<Rightarrow> controller_session \<Rightarrow> bool \<times> controller_session" where
  "transition target session =
     (if \<not> can_transition (session_state session) target then (False, session)
      else (True, session\<lparr>session_state := target\<rparr>))"

record managed_state =
  ms_version :: u32
  ms_mac :: string
  ms_controller_host :: string
  ms_controller_id :: string
  ms_manage_port :: u16
  ms_site_id :: string
  ms_username :: string
  ms_config_version :: "u32 option"
  ms_sequence_id :: "u32 option"
  ms_updated_at :: u64

definition default_managed_state :: managed_state where
  "default_managed_state =
     \<lparr>ms_version = 1, ms_mac = [], ms_controller_host = [], ms_controller_id = [], ms_manage_port = 29814,
      ms_site_id = [], ms_username = [], ms_config_version = None, ms_sequence_id = None, ms_updated_at = 0\<rparr>"

section \<open>Runs\<close>

text \<open>
  The states a session goes through, latest first, when \<open>transition\<close> is called with any targets;
  a refused call leaves the state and adds nothing.
\<close>

fun session_history :: "lifecycle_state list \<Rightarrow> controller_session \<Rightarrow> lifecycle_state list \<Rightarrow> lifecycle_state list" where
  "session_history [] session seen = seen"
| "session_history (target # targets) session seen =
     (case transition target session of
        (accepted, session') \<Rightarrow>
          session_history targets session' (if accepted then target # seen else seen))"

inductive lifecycle_trace :: "lifecycle_state list \<Rightarrow> bool" where
  start: "lifecycle_trace [Disconnected]"
| step: "lifecycle_trace (s # seen) \<Longrightarrow> can_transition s s' \<Longrightarrow> lifecycle_trace (s' # s # seen)"

inductive_cases lifecycle_trace_ConsE: "lifecycle_trace (s # seen)"

lemma session_history_trace:
  "lifecycle_trace (session_state session # seen) \<Longrightarrow>
   lifecycle_trace (session_history targets session (session_state session # seen))"
proof (induction targets arbitrary: session seen)
  case (Cons target targets)
  show ?case
  proof (cases "can_transition (session_state session) target")
    case True
    with Cons.prems have "lifecycle_trace (target # session_state session # seen)"
      by (rule lifecycle_trace.step)
    with True Cons.IH [of "session\<lparr>session_state := target\<rparr>" "session_state session # seen"] show ?thesis
      by (simp add: transition_def)
  qed (use Cons in \<open>simp add: transition_def\<close>)
qed simp

lemma enter_managed: "can_transition s Managed \<Longrightarrow> s = Negotiating"
  by (cases s) auto

lemma enter_negotiating: "can_transition s Negotiating \<Longrightarrow> s = Verifying"
  by (cases s) auto

lemma enter_verifying: "can_transition s Verifying \<Longrightarrow> s = Adopting \<or> s = Rebuilding"
  by (cases s) auto

lemma managed_trace:
  "lifecycle_trace tr \<Longrightarrow> tr = older @ Managed # rest \<Longrightarrow>
   \<exists>origin rest'. rest = Negotiating # Verifying # origin # rest' \<and> origin \<in> {Adopting, Rebuilding}"
proof (induction arbitrary: older rest rule: lifecycle_trace.induct)
  case start
  then show ?case by (auto simp: Cons_eq_append_conv)
next
  case (step s seen s')
  show ?case
  proof (cases older)
    case Nil
    with step.prems have "s' = Managed" "rest = s # seen" by auto
    with step.hyps enter_managed have s: "s = Negotiating" by auto
    with step.hyps(1) obtain s2 seen2 where 2: "seen = s2 # seen2" "can_transition s2 Negotiating"
      "lifecycle_trace (s2 # seen2)"
      by (auto elim: lifecycle_trace_ConsE)
    with enter_negotiating have "s2 = Verifying" by auto
    with 2(3) obtain s3 seen3 where "seen2 = s3 # seen3" "can_transition s3 Verifying"
      by (auto elim: lifecycle_trace_ConsE)
    with \<open>rest = s # seen\<close> s 2 \<open>s2 = Verifying\<close> enter_verifying show ?thesis by auto
  next
    case (Cons _ older')
    with step show ?thesis by auto
  qed
qed

section \<open>Property\<close>

text \<open>
  Whatever transitions are requested, a session is Managed only directly after Verifying and
  Negotiating, which it entered from an adoption or a rebuild.
\<close>

theorem managed_only_after_verification:
  assumes "session_history targets default_session [Disconnected] = older @ Managed # rest"
  shows "\<exists>origin rest'. rest = Negotiating # Verifying # origin # rest' \<and> origin \<in> {Adopting, Rebuilding}"
proof -
  have "lifecycle_trace (session_history targets default_session [session_state default_session])"
    by (rule session_history_trace) (simp add: default_session_def lifecycle_trace.start)
  then show ?thesis
    using assms by (intro managed_trace) (simp_all add: default_session_def)
qed

theorem managed_only_after_verification_witness:
  "session_history [Managed, Rebuilding, Verifying, Managed, Negotiating, Managed] default_session [Disconnected] =
     [] @ Managed # [Negotiating, Verifying, Rebuilding, Disconnected] \<and>
   (\<exists>origin rest'. [Negotiating, Verifying, Rebuilding, Disconnected] =
      Negotiating # Verifying # origin # rest' \<and> origin \<in> {Adopting, Rebuilding})"
proof -
  have run: "session_history [Managed, Rebuilding, Verifying, Managed, Negotiating, Managed]
      default_session [Disconnected] = [] @ Managed # [Negotiating, Verifying, Rebuilding, Disconnected]"
    by (simp add: default_session_def transition_def)
  from run managed_only_after_verification [OF run] show ?thesis by blast
qed

end
