(* ===== verification/Request_Handler.thy ===== *)
theory Request_Handler
  imports Configuration_Exchange Configuration_Applier Lifecycle_Session Frame_Transport
begin

text \<open>
  \<open>src/src/lifecycle/managed_request_handler.cpp\<close>: the requests of the controller to a managed
  access point.  The handler evaluates the request, runs the applier where there is something to
  apply, sends at most one answer and updates the managed state.  The transport and the applier act
  on the same world \<open>'w\<close>; the pointers \<open>state\<close> and \<open>applier\<close> are options.
\<close>

section \<open>Results\<close>

datatype managed_request_action =
    Ignored | SetResponseAction | GetResponseAction | NotifyReplyAction | NotifyNoReply
  | ForgetResponseAction | PortalAuthResponse

fun request_action_to_string :: "managed_request_action \<Rightarrow> string" where
  "request_action_to_string Ignored = ''ignored''"
| "request_action_to_string SetResponseAction = ''set-response''"
| "request_action_to_string GetResponseAction = ''get-response''"
| "request_action_to_string NotifyReplyAction = ''notify-reply''"
| "request_action_to_string NotifyNoReply = ''notify-no-reply''"
| "request_action_to_string ForgetResponseAction = ''forget-response''"
| "request_action_to_string PortalAuthResponse = ''portal-auth-response''"

record managed_request_result =
  mr_ok :: bool
  mr_action :: managed_request_action
  mr_request_type :: message_type
  mr_response_type :: "message_type option"
  mr_response_sent :: bool
  mr_should_clear_state :: bool
  mr_should_end_session :: bool
  mr_configuration_applied :: bool
  mr_configuration_changed :: bool
  mr_config_version :: "i64 option"
  mr_sequence_id :: "i64 option"
  mr_error :: string

definition default_request_result :: managed_request_result where
  "default_request_result =
     \<lparr>mr_ok = False, mr_action = Ignored, mr_request_type = Discovery, mr_response_type = None,
      mr_response_sent = False, mr_should_clear_state = False, mr_should_end_session = False,
      mr_configuration_applied = False, mr_configuration_changed = False, mr_config_version = None,
      mr_sequence_id = None, mr_error = []\<rparr>"

definition request_failed :: "message_type \<Rightarrow> string \<Rightarrow> managed_request_result" where
  "request_failed request_type error =
     default_request_result\<lparr>mr_request_type := request_type, mr_error := error\<rparr>"

definition message_type_from_value :: "u32 \<Rightarrow> message_type option" where
  "message_type_from_value value =
     (if value = to_underlying SetRequest then Some SetRequest
      else if value = to_underlying GetRequest then Some GetRequest
      else if value = to_underlying NotifyRequest then Some NotifyRequest
      else if value = to_underlying NotifyRequestV2 then Some NotifyRequestV2
      else if value = to_underlying EventPortalAuth then Some EventPortalAuth
      else if value = to_underlying ForgetRequest then Some ForgetRequest
      else if value = to_underlying ForgetRequestNoReset then Some ForgetRequestNoReset
      else None)"

section \<open>The handlers\<close>

definition evaluate_set_request_with_optional_applier ::
  "jsonc \<Rightarrow> string \<Rightarrow> 'w applier option \<Rightarrow> 'w \<Rightarrow> set_request_evaluation \<times> 'w" where
  "evaluate_set_request_with_optional_applier J payload applier w =
     (case applier of
        None \<Rightarrow> (evaluate_set_request J payload, w)
      | Some apply \<Rightarrow>
          (let parsed = parse_set_request_json J payload;
               evaluation = default_evaluation\<lparr>ev_parsed := cpr_ok parsed, ev_update := cpr_update parsed\<rparr>
           in if \<not> cpr_ok parsed
              then (evaluation\<lparr>ev_errcode := kConfigError, ev_error := cpr_error parsed\<rparr>, w)
              else if unhandled_keys (ev_update evaluation) \<noteq> []
              then (evaluation\<lparr>ev_errcode := kConfigError, ev_error :=
                      ''unsupported keys: '' @ join_with '','' (unhandled_keys (ev_update evaluation))\<rparr>, w)
              else if is_actionable_config (ev_update evaluation)
              then
                (let (applied, w) = apply (ev_update evaluation) w
                 in if \<not> apply_ok applied
                    then (evaluation\<lparr>ev_errcode := kConfigError, ev_error :=
                            (if apply_error applied = [] then ''configuration applier rejected update''
                             else apply_error applied)\<rparr>, w)
                    else (evaluation\<lparr>ev_errcode := kConfigOk\<rparr>, w))
              else (evaluation\<lparr>ev_errcode := kConfigOk\<rparr>, w)))"

text \<open>\<open>if (v >= 0 && v <= UINT32_MAX) field = v;\<close>\<close>

definition store_u32 :: "i64 \<Rightarrow> u32 option \<Rightarrow> u32 option" where
  "store_u32 v old = (if 0 \<le> sint v \<and> sint v \<le> 2 ^ 32 - 1 then Some (ucast v) else old)"

definition handle_set ::
  "jsonc \<Rightarrow> 'w frame_transport \<Rightarrow> agent_settings \<Rightarrow> managed_state \<Rightarrow> string \<Rightarrow> 'w applier option \<Rightarrow> u64 \<Rightarrow>
   'w \<Rightarrow> (managed_request_result \<times> managed_state) \<times> 'w" where
  "handle_set J T s st payload applier timestamp_ms w =
    (let (evaluation, w) = evaluate_set_request_with_optional_applier J payload applier w;
         body = build_set_response_body_json J payload (map_option ucast (ms_config_version st))
                  (ev_errcode evaluation)
     in if \<not> sr_ok body then ((request_failed SetRequest (sr_error body), st), w)
        else
          (let response = build_set_response_json J s payload (ms_controller_id st) body timestamp_ms;
               (status, w) = tp_send T response w
           in if \<not> ts_ok status then ((request_failed SetRequest (ts_error status), st), w)
              else
                (let result = default_request_result
                       \<lparr>mr_request_type := SetRequest, mr_ok := True, mr_action := SetResponseAction,
                        mr_response_type := Some SetResponse, mr_response_sent := True,
                        mr_sequence_id := Some (sr_sequence_id body),
                        mr_config_version := Some (sr_config_version body),
                        mr_error := ev_error evaluation\<rparr>
                 in if ev_errcode evaluation = kConfigOk
                    then
                      (let applied = is_actionable_config (ev_update evaluation)
                       in ((result\<lparr>mr_configuration_applied := applied, mr_configuration_changed := applied\<rparr>,
                            st\<lparr>ms_config_version := store_u32 (sr_config_version body) (ms_config_version st),
                               ms_sequence_id := store_u32 (sr_sequence_id body) (ms_sequence_id st)\<rparr>), w))
                    else ((result, st), w))))"

definition handle_get ::
  "jsonc \<Rightarrow> 'w frame_transport \<Rightarrow> agent_settings \<Rightarrow> managed_state \<Rightarrow> string \<Rightarrow> u64 \<Rightarrow> 'w \<Rightarrow>
   (managed_request_result \<times> managed_state) \<times> 'w" where
  "handle_get J T s st payload timestamp_ms w =
    (let body = build_get_response_body_json J payload kConfigError
     in if \<not> gr_ok body then ((request_failed GetRequest (gr_error body), st), w)
        else
          (let response = build_get_response_json J s payload (ms_controller_id st) body timestamp_ms;
               (status, w) = tp_send T response w
           in if \<not> ts_ok status then ((request_failed GetRequest (ts_error status), st), w)
              else
                ((default_request_result
                   \<lparr>mr_request_type := GetRequest, mr_ok := True, mr_action := GetResponseAction,
                    mr_response_type := Some GetResponse, mr_response_sent := True,
                    mr_sequence_id := Some (gr_sequence_id body)\<rparr>, st), w)))"

definition handle_notify ::
  "jsonc \<Rightarrow> 'w frame_transport \<Rightarrow> agent_settings \<Rightarrow> managed_state \<Rightarrow> message_type \<Rightarrow> string \<Rightarrow> u64 \<Rightarrow> 'w \<Rightarrow>
   (managed_request_result \<times> managed_state) \<times> 'w" where
  "handle_notify J T s st request_type payload timestamp_ms w =
    (let reply = build_notify_reply_body_json J payload kConfigError
     in if \<not> nr_ok reply then ((request_failed request_type (nr_error reply), st), w)
        else
          (let result = default_request_result
                 \<lparr>mr_request_type := request_type, mr_ok := True,
                  mr_action := (if nr_should_reply reply then NotifyReplyAction else NotifyNoReply),
                  mr_response_type := Some (nr_response_type reply)\<rparr>
           in if \<not> nr_should_reply reply then ((result, st), w)
              else
                (let response = build_notify_reply_json J s payload (ms_controller_id st) reply timestamp_ms;
                     (status, w) = tp_send T response w
                 in if \<not> ts_ok status then ((request_failed request_type (ts_error status), st), w)
                    else ((result\<lparr>mr_response_sent := True\<rparr>, st), w))))"

text \<open>The decision of an EVENT_PORTAL_AUTH: error code, error text, whether users were applied, changed.\<close>

definition apply_portal_auth ::
  "jsonc \<Rightarrow> string \<Rightarrow> 'w applier option \<Rightarrow> 'w \<Rightarrow> (i64 \<times> string \<times> config_parse_result \<times> apply_result) \<times> 'w" where
  "apply_portal_auth J payload applier w =
    (let parsed = parse_portal_auth_request_json J payload;
         applied = \<lparr>apply_ok = True, apply_changed = False, apply_error = []\<rparr>
     in if \<not> cpr_ok parsed then ((kConfigError, cpr_error parsed, parsed, applied), w)
        else if client_configs (cpr_update parsed) \<noteq> []
        then
          (case applier of
             None \<Rightarrow> ((kConfigError, ''EVENT_PORTAL_AUTH requires a platform applier'', parsed, applied), w)
           | Some apply \<Rightarrow>
               (let (applied, w) = apply (cpr_update parsed) w
                in if \<not> apply_ok applied
                   then ((kConfigError,
                          (if apply_error applied = [] then ''portal auth applier rejected update''
                           else apply_error applied), parsed, applied), w)
                   else ((kConfigOk, [], parsed, applied), w)))
        else ((kConfigOk, [], parsed, applied), w))"

definition handle_portal_auth ::
  "jsonc \<Rightarrow> 'w frame_transport \<Rightarrow> agent_settings \<Rightarrow> managed_state \<Rightarrow> string \<Rightarrow> 'w applier option \<Rightarrow> u64 \<Rightarrow>
   'w \<Rightarrow> (managed_request_result \<times> managed_state) \<times> 'w" where
  "handle_portal_auth J T s st payload applier timestamp_ms w =
    (let ((errcode, error, parsed, applied), w) = apply_portal_auth J payload applier w;
         reply = build_portal_auth_reply_body_json J payload errcode
     in if \<not> pr_ok reply then ((request_failed EventPortalAuth (pr_error reply), st), w)
        else
          (let configuration_applied =
                 (errcode = kConfigOk \<and> cpr_ok parsed \<and> client_configs (cpr_update parsed) \<noteq> []);
               result = default_request_result
                 \<lparr>mr_request_type := EventPortalAuth, mr_ok := True, mr_action := PortalAuthResponse,
                  mr_response_type := Some EventPortalAuthResponse, mr_sequence_id := pr_sequence_id reply,
                  mr_error := error, mr_configuration_applied := configuration_applied,
                  mr_configuration_changed := (configuration_applied \<and> apply_changed applied)\<rparr>
           in if \<not> pr_should_reply reply then ((result, st), w)
              else
                (let response = build_portal_auth_reply_json J s payload (ms_controller_id st) reply timestamp_ms;
                     (status, w) = tp_send T response w
                 in if \<not> ts_ok status then ((request_failed EventPortalAuth (ts_error status), st), w)
                    else ((result\<lparr>mr_response_sent := True\<rparr>, st), w))))"

definition handle_forget ::
  "jsonc \<Rightarrow> 'w frame_transport \<Rightarrow> agent_settings \<Rightarrow> managed_state \<Rightarrow> message_type \<Rightarrow> string \<Rightarrow> u64 \<Rightarrow> 'w \<Rightarrow>
   (managed_request_result \<times> managed_state) \<times> 'w" where
  "handle_forget J T s st request_type payload timestamp_ms w =
    (let response = build_forget_response_json J s payload (ms_controller_id st) timestamp_ms
     in if \<not> fr_ok response then ((request_failed request_type (fr_error response), st), w)
        else
          (let (status, w) = tp_send T (fr_message_json response) w
           in if \<not> ts_ok status then ((request_failed request_type (ts_error status), st), w)
              else
                ((default_request_result
                   \<lparr>mr_request_type := request_type, mr_ok := True, mr_action := ForgetResponseAction,
                    mr_response_type := Some (fr_response_type response), mr_response_sent := True,
                    mr_should_clear_state := True, mr_should_end_session := True\<rparr>, st), w)))"

definition dispatch_request ::
  "jsonc \<Rightarrow> 'w frame_transport \<Rightarrow> agent_settings \<Rightarrow> managed_state \<Rightarrow> message_type \<Rightarrow> string \<Rightarrow>
   'w applier option \<Rightarrow> u64 \<Rightarrow> 'w \<Rightarrow> (managed_request_result \<times> managed_state) \<times> 'w" where
  "dispatch_request J T s st request_type payload applier timestamp_ms w =
    (if request_type = SetRequest then handle_set J T s st payload applier timestamp_ms w
     else if request_type = GetRequest then handle_get J T s st payload timestamp_ms w
     else if request_type = NotifyRequest \<or> request_type = NotifyRequestV2
     then handle_notify J T s st request_type payload timestamp_ms w
     else if request_type = EventPortalAuth
     then handle_portal_auth J T s st payload applier timestamp_ms w
     else if request_type = ForgetRequest \<or> request_type = ForgetRequestNoReset
     then handle_forget J T s st request_type payload timestamp_ms w
     else ((default_request_result
             \<lparr>mr_request_type := request_type, mr_ok := True, mr_action := Ignored\<rparr>, st), w))"

definition handle_managed_request ::
  "jsonc \<Rightarrow> 'w frame_transport \<Rightarrow> agent_settings \<Rightarrow> managed_state option \<Rightarrow> string \<Rightarrow> 'w applier option \<Rightarrow>
   u64 \<Rightarrow> 'w \<Rightarrow> (managed_request_result \<times> managed_state option) \<times> 'w" where
  "handle_managed_request J T s state payload applier timestamp_ms w =
    (case state of
       None \<Rightarrow> ((request_failed Discovery ''managed state is required'', None), w)
     | Some st \<Rightarrow>
         (let document = json_document_parse J payload
          in if \<not> valid document
             then ((request_failed Discovery ''managed request must be a JSON object'', state), w)
             else
               (case ecsp_header_type J document of
                  None \<Rightarrow> ((request_failed Discovery ''managed request is missing header.type'', state), w)
                | Some type_value \<Rightarrow>
                    (case message_type_from_value type_value of
                       None \<Rightarrow> ((default_request_result\<lparr>mr_ok := True, mr_action := Ignored\<rparr>, state), w)
                     | Some request_type \<Rightarrow>
                         (let ((result, st'), w') =
                                dispatch_request J T s st request_type payload applier timestamp_ms w
                          in ((result, Some st'), w'))))))"

section \<open>The contract of the appliers\<close>

text \<open>
  Appliers change the platform, not the controller connection: what a traced agent may rely on.
\<close>

locale managed_agent = frame_log transport trace
  for transport :: "'w frame_transport" and trace :: "'w \<Rightarrow> event list" +
  fixes applier :: "'w applier option"
  assumes applier_trace: "applier = Some apply \<Longrightarrow> apply u w = (r, w') \<Longrightarrow> trace w' = trace w"

definition recorded_applier :: "'w applier option \<Rightarrow> ('w \<times> event list) applier option" where
  "recorded_applier = map_option (\<lambda>apply u. quiet (apply u))"

interpretation recorded_managed: managed_agent "recording T" snd "recorded_applier ap" for T ap
  by unfold_locales (auto simp: recorded_applier_def dest: quiet_log)

section \<open>Answers\<close>

text \<open>
  A payload is an answer of type \<open>ty\<close>: a JSON text of a message with the settings' identity, the
  sequence number of the request (none for a FORGET) and the controller the state names.
\<close>

definition is_answer ::
  "jsonc \<Rightarrow> agent_settings \<Rightarrow> managed_state \<Rightarrow> string \<Rightarrow> u64 \<Rightarrow> string \<Rightarrow> message_type \<Rightarrow> bool" where
  "is_answer J s st payload t p ty \<longleftrightarrow>
     (\<exists>v seq. json_text (message_value (response_header s ty seq (ms_controller_id st) t) (Some v)) p \<and>
        (seq = ecsp_header_seq J (json_document_parse J payload) \<or>
         seq = None \<and> ty \<in> {ForgetResponse, ForgetResponseNoReset}))"

text \<open>What a handler did: at most one message, an answer, and what the result says about it.\<close>

definition answered_once ::
  "jsonc \<Rightarrow> agent_settings \<Rightarrow> managed_state \<Rightarrow> string \<Rightarrow> u64 \<Rightarrow> managed_request_result \<Rightarrow> event list \<Rightarrow> bool" where
  "answered_once J s st payload t r ev \<longleftrightarrow>
     (ev = [] \<and> \<not> mr_response_sent r \<or>
      (\<exists>p status ty. ev = [Sent p status] \<and> is_answer J s st payload t p ty \<and>
         (mr_response_sent r \<longleftrightarrow> ts_ok status) \<and> (mr_ok r \<longleftrightarrow> ts_ok status) \<and>
         (if ts_ok status then mr_response_type r = Some ty else True))) \<and>
     (mr_should_clear_state r \<longleftrightarrow> mr_action r = ForgetResponseAction) \<and>
     (mr_should_end_session r \<longleftrightarrow> mr_action r = ForgetResponseAction) \<and>
     (mr_action r = ForgetResponseAction \<longrightarrow> mr_response_sent r)"

lemma parse_request_seq:
  "rf_ok (parse_request J payload) \<Longrightarrow>
   rf_header_seq (parse_request J payload) = ecsp_header_seq J (json_document_parse J payload)"
  by (auto simp: parse_request_def Let_def split: if_splits)

lemma parse_header_seq:
  "hf_ok (parse_header J payload) \<Longrightarrow>
   hf_header_seq (parse_header J payload) = ecsp_header_seq J (json_document_parse J payload)"
  by (auto simp: parse_header_def Let_def split: if_splits)

lemma set_answer:
  assumes "sr_ok (build_set_response_body_json J payload cur e)"
  shows "is_answer J s st payload t
    (build_set_response_json J s payload (ms_controller_id st) (build_set_response_body_json J payload cur e) t)
    SetResponse"
proof -
  have ok: "rf_ok (parse_request J payload)"
    using assms by (auto simp: build_set_response_body_json_def set_response_error_def Let_def split: if_splits)
  obtain a b c where "sr_body_json (build_set_response_body_json J payload cur e) =
      render (set_response_value a b c)"
    using assms
    by (auto simp: build_set_response_body_json_def set_response_error_def render_set_response Let_def
        split: if_splits option.splits sum.splits)
  then show ?thesis
    unfolding is_answer_def build_set_response_json_def Let_def
    using parse_request_seq [OF ok] message_of_value printable_exchange(1) by metis
qed

lemma get_answer:
  assumes "gr_ok (build_get_response_body_json J payload e)"
  shows "is_answer J s st payload t
    (build_get_response_json J s payload (ms_controller_id st) (build_get_response_body_json J payload e) t)
    GetResponse"
proof -
  have ok: "rf_ok (parse_request J payload)"
    using assms by (auto simp: build_get_response_body_json_def get_response_error_def Let_def split: if_splits)
  obtain a b c where "gr_body_json (build_get_response_body_json J payload e) = render (get_response_value a b c)"
    using assms
    by (auto simp: build_get_response_body_json_def get_response_error_def get_body_json_render Let_def
        split: if_splits option.splits)
  then show ?thesis
    unfolding is_answer_def build_get_response_json_def Let_def
    using parse_request_seq [OF ok] message_of_value printable_exchange(2) by metis
qed

lemma notify_answer:
  assumes "nr_ok (build_notify_reply_body_json J payload e)"
    "nr_should_reply (build_notify_reply_body_json J payload e)"
  shows "is_answer J s st payload t
    (build_notify_reply_json J s payload (ms_controller_id st) (build_notify_reply_body_json J payload e) t)
    (nr_response_type (build_notify_reply_body_json J payload e))"
proof -
  have ok: "hf_ok (parse_header J payload)"
    using assms by (auto simp: build_notify_reply_body_json_def notify_error_def Let_def split: if_splits)
  obtain b where "nr_body_json (build_notify_reply_body_json J payload e) = render (notify_value J b e)"
    using assms
    by (auto simp: build_notify_reply_body_json_def notify_error_def notify_body_json_render Let_def
        split: if_splits)
  then show ?thesis
    unfolding is_answer_def build_notify_reply_json_def Let_def
    using parse_header_seq [OF ok] message_of_value printable_exchange(3) by metis
qed

lemma portal_answer:
  assumes "pr_ok (build_portal_auth_reply_body_json J payload e)"
  shows "is_answer J s st payload t
    (build_portal_auth_reply_json J s payload (ms_controller_id st) (build_portal_auth_reply_body_json J payload e) t)
    EventPortalAuthResponse"
proof -
  have ok: "hf_ok (parse_header J payload)"
    using assms by (auto simp: build_portal_auth_reply_body_json_def portal_auth_error_def Let_def split: if_splits)
  have "pr_body_json (build_portal_auth_reply_body_json J payload e) = render (portal_auth_value e)"
    using assms
    by (auto simp: build_portal_auth_reply_body_json_def portal_auth_error_def render_portal_auth Let_def
        split: if_splits)
  then show ?thesis
    unfolding is_answer_def build_portal_auth_reply_json_def Let_def
    using parse_header_seq [OF ok] message_of_value printable_exchange(4) by metis
qed

lemma forget_answer:
  assumes "fr_ok (build_forget_response_json J s payload (ms_controller_id st) t)"
  shows "is_answer J s st payload t
    (fr_message_json (build_forget_response_json J s payload (ms_controller_id st) t))
    (fr_response_type (build_forget_response_json J s payload (ms_controller_id st) t))"
proof -
  have "fr_message_json (build_forget_response_json J s payload (ms_controller_id st) t) =
    build_message_json (response_header s
      (fr_response_type (build_forget_response_json J s payload (ms_controller_id st) t)) None
      (ms_controller_id st) t) (render (JObject [])) True \<and>
    fr_response_type (build_forget_response_json J s payload (ms_controller_id st) t)
      \<in> {ForgetResponse, ForgetResponseNoReset}"
    using assms by (auto simp: build_forget_response_json_def Let_def split: if_splits)
  moreover have "printable (JObject [])" by simp
  ultimately show ?thesis unfolding is_answer_def using message_of_value by metis
qed

section \<open>Every handler\<close>

lemma evaluate_trace:
  "(\<And>apply u w r w'. applier = Some apply \<Longrightarrow> apply u w = (r, w') \<Longrightarrow> tr w' = tr w) \<Longrightarrow>
   evaluate_set_request_with_optional_applier J payload applier w = (e, w') \<Longrightarrow> tr w' = tr w"
  by (fastforce simp: evaluate_set_request_with_optional_applier_def Let_def
      split: option.splits if_splits prod.splits)

lemma portal_trace:
  "(\<And>apply u w r w'. applier = Some apply \<Longrightarrow> apply u w = (r, w') \<Longrightarrow> tr w' = tr w) \<Longrightarrow>
   apply_portal_auth J payload applier w = (e, w') \<Longrightarrow> tr w' = tr w"
  by (fastforce simp: apply_portal_auth_def Let_def split: option.splits if_splits prod.splits)

lemma answered_failed: "answered_once J s st payload t (request_failed ty e) []"
  by (simp add: answered_once_def request_failed_def default_request_result_def)

lemma answered_unsent:
  "is_answer J s st payload t p ty \<Longrightarrow> \<not> ts_ok status \<Longrightarrow>
   answered_once J s st payload t (request_failed ty' e) [Sent p status]"
  by (auto simp: answered_once_def request_failed_def default_request_result_def)

context managed_agent
begin

lemma handle_set_answered:
  assumes "handle_set J transport s st payload applier t w = ((r, st'), w')"
  shows "\<exists>ev. trace w' = trace w @ ev \<and> answered_once J s st payload t r ev"
proof -
  obtain e w1 where e: "evaluate_set_request_with_optional_applier J payload applier w = (e, w1)"
    by (cases "evaluate_set_request_with_optional_applier J payload applier w")
  have t1: "trace w1 = trace w" by (rule evaluate_trace [OF _ e]) (rule applier_trace)
  let ?body = "build_set_response_body_json J payload (map_option ucast (ms_config_version st)) (ev_errcode e)"
  let ?p = "build_set_response_json J s payload (ms_controller_id st) ?body t"
  show ?thesis
  proof (cases "sr_ok ?body")
    case False
    with assms e t1 show ?thesis by (auto simp: handle_set_def answered_failed)
  next
    case True
    obtain status w2 where send: "tp_send transport ?p w1 = (status, w2)"
      by (cases "tp_send transport ?p w1")
    note answer = set_answer [OF True, of s st t]
    show ?thesis
      using assms e True send send_trace [OF send] t1 answer
      by (cases "ts_ok status")
        (auto simp: handle_set_def Let_def answered_unsent answered_once_def [of _ _ _ _ _ "_ :: managed_request_result"]
          default_request_result_def request_failed_def split: if_splits)
  qed
qed

lemma handle_get_answered:
  assumes "handle_get J transport s st payload t w = ((r, st'), w')"
  shows "\<exists>ev. trace w' = trace w @ ev \<and> answered_once J s st payload t r ev"
proof -
  let ?body = "build_get_response_body_json J payload kConfigError"
  let ?p = "build_get_response_json J s payload (ms_controller_id st) ?body t"
  obtain status w2 where send: "tp_send transport ?p w = (status, w2)" by (cases "tp_send transport ?p w")
  show ?thesis
    using assms send send_trace [OF send] get_answer [of J payload kConfigError s st t]
    by (cases "gr_ok ?body"; cases "ts_ok status")
      (auto simp: handle_get_def Let_def answered_failed answered_once_def
        default_request_result_def request_failed_def)
qed

lemma handle_notify_answered:
  assumes "handle_notify J transport s st ty payload t w = ((r, st'), w')"
  shows "\<exists>ev. trace w' = trace w @ ev \<and> answered_once J s st payload t r ev"
proof -
  let ?body = "build_notify_reply_body_json J payload kConfigError"
  let ?p = "build_notify_reply_json J s payload (ms_controller_id st) ?body t"
  obtain status w2 where send: "tp_send transport ?p w = (status, w2)" by (cases "tp_send transport ?p w")
  show ?thesis
    using assms send send_trace [OF send] notify_answer [of J payload kConfigError s st t]
    by (cases "nr_ok ?body"; cases "nr_should_reply ?body"; cases "ts_ok status")
      (auto simp: handle_notify_def Let_def answered_failed answered_once_def
        default_request_result_def request_failed_def)
qed

lemma handle_portal_auth_answered:
  assumes "handle_portal_auth J transport s st payload applier t w = ((r, st'), w')"
  shows "\<exists>ev. trace w' = trace w @ ev \<and> answered_once J s st payload t r ev"
proof -
  obtain e m parsed applied w1 where
    e: "apply_portal_auth J payload applier w = ((e, m, parsed, applied), w1)"
    by (cases "apply_portal_auth J payload applier w") auto
  have t1: "trace w1 = trace w" by (rule portal_trace [OF _ e]) (rule applier_trace)
  let ?body = "build_portal_auth_reply_body_json J payload e"
  let ?p = "build_portal_auth_reply_json J s payload (ms_controller_id st) ?body t"
  obtain status w2 where send: "tp_send transport ?p w1 = (status, w2)" by (cases "tp_send transport ?p w1")
  show ?thesis
    using assms e send send_trace [OF send] t1 portal_answer [of J payload e s st t]
    by (cases "pr_ok ?body"; cases "pr_should_reply ?body"; cases "ts_ok status")
      (auto simp: handle_portal_auth_def Let_def answered_failed answered_once_def
        default_request_result_def request_failed_def)
qed

lemma handle_forget_answered:
  assumes "handle_forget J transport s st ty payload t w = ((r, st'), w')"
  shows "\<exists>ev. trace w' = trace w @ ev \<and> answered_once J s st payload t r ev"
proof -
  let ?body = "build_forget_response_json J s payload (ms_controller_id st) t"
  obtain status w2 where send: "tp_send transport (fr_message_json ?body) w = (status, w2)"
    by (cases "tp_send transport (fr_message_json ?body) w")
  show ?thesis
    using assms send send_trace [OF send] forget_answer [of J s payload st t]
    by (cases "fr_ok ?body"; cases "ts_ok status")
      (auto simp: handle_forget_def Let_def answered_failed answered_once_def
        default_request_result_def request_failed_def)
qed

lemma dispatch_answered:
  assumes "dispatch_request J transport s st ty payload applier t w = ((r, st'), w')"
  shows "\<exists>ev. trace w' = trace w @ ev \<and> answered_once J s st payload t r ev"
  using assms
  by (auto simp: dispatch_request_def answered_once_def [of _ _ _ _ _ _ "[]"] default_request_result_def
      split: if_splits
      dest: handle_set_answered handle_get_answered handle_notify_answered handle_portal_auth_answered
        handle_forget_answered)

lemma handle_managed_request_answered:
  assumes "handle_managed_request J transport s (Some st) payload applier t w = ((r, st'), w')"
  shows "\<exists>ev. trace w' = trace w @ ev \<and> answered_once J s st payload t r ev"
  using assms
  by (auto simp: handle_managed_request_def Let_def answered_once_def [of _ _ _ _ _ _ "[]"]
      default_request_result_def request_failed_def
      split: if_splits option.splits prod.splits dest: dispatch_answered)

end

section \<open>The managed state\<close>

lemma evaluate_ok_no_error:
  "evaluate_set_request_with_optional_applier J payload applier w = (e, w') \<Longrightarrow>
   ev_errcode e = kConfigOk \<Longrightarrow> ev_error e = []"
  by (auto simp: evaluate_set_request_with_optional_applier_def evaluate_set_request_def default_evaluation_def
      kConfigOk_def kConfigError_def Let_def split: option.splits if_splits prod.splits)

lemma handle_set_state:
  assumes "handle_set J T s st payload applier t w = ((r, st'), w')"
  shows "st' = st \<or>
    mr_ok r \<and> mr_action r = SetResponseAction \<and> mr_response_sent r \<and> mr_error r = [] \<and>
    (\<exists>v q. mr_config_version r = Some v \<and> mr_sequence_id r = Some q \<and>
       st' = st\<lparr>ms_config_version := store_u32 v (ms_config_version st),
                ms_sequence_id := store_u32 q (ms_sequence_id st)\<rparr>)"
  using assms
  by (auto simp: handle_set_def Let_def default_request_result_def split: if_splits prod.splits
      dest: evaluate_ok_no_error)

lemma other_handlers_state:
  "handle_get J T s st payload t w = ((r, st'), w') \<Longrightarrow> st' = st"
  "handle_notify J T s st ty payload t w = ((r, st'), w') \<Longrightarrow> st' = st"
  "handle_portal_auth J T s st payload applier t w = ((r, st'), w') \<Longrightarrow> st' = st"
  "handle_forget J T s st ty payload t w = ((r, st'), w') \<Longrightarrow> st' = st"
  by (auto simp: handle_get_def handle_notify_def handle_portal_auth_def handle_forget_def Let_def
      split: if_splits prod.splits)

lemma message_type_from_value_Some:
  "message_type_from_value v = Some ty \<Longrightarrow> v = to_underlying ty"
  by (auto simp: message_type_from_value_def split: if_splits)

lemma handle_managed_request_cases:
  assumes "handle_managed_request J T s (Some st) payload applier t w = ((r, state'), w')"
  obtains (rejected) "r = request_failed Discovery (mr_error r) \<or> r = default_request_result\<lparr>mr_ok := True\<rparr>"
      "state' = Some st" "w' = w"
  | (set) st' where "ecsp_header_type J (json_document_parse J payload) = Some (to_underlying SetRequest)"
      "handle_set J T s st payload applier t w = ((r, st'), w')" "state' = Some st'"
  | (get) "handle_get J T s st payload t w = ((r, st), w')" "state' = Some st"
  | (notify) ty where "handle_notify J T s st ty payload t w = ((r, st), w')" "state' = Some st"
  | (portal) "ecsp_header_type J (json_document_parse J payload) = Some (to_underlying EventPortalAuth)"
      "handle_portal_auth J T s st payload applier t w = ((r, st), w')" "state' = Some st"
  | (forget) ty where "handle_forget J T s st ty payload t w = ((r, st), w')" "state' = Some st"
proof (cases "ecsp_header_type J (json_document_parse J payload)")
  case None
  with assms show ?thesis
    by (intro rejected)
      (auto simp: handle_managed_request_def request_failed_def default_request_result_def Let_def
        split: if_splits)
next
  case (Some v)
  show ?thesis
  proof (cases "valid (json_document_parse J payload) \<and> message_type_from_value v \<noteq> None")
    case False
    with assms Some show ?thesis
      by (intro rejected)
        (auto simp: handle_managed_request_def request_failed_def default_request_result_def Let_def
          split: if_splits)
  next
    case True
    then obtain ty where ty: "message_type_from_value v = Some ty" by auto
    then have v: "v = to_underlying ty" by (rule message_type_from_value_Some)
    have ty_cases: "ty \<in> {SetRequest, GetRequest, NotifyRequest, NotifyRequestV2, EventPortalAuth,
        ForgetRequest, ForgetRequestNoReset}"
      using ty by (auto simp: message_type_from_value_def split: if_splits)
    obtain r0 st0 w0 where d: "dispatch_request J T s st ty payload applier t w = ((r0, st0), w0)"
      by (cases "dispatch_request J T s st ty payload applier t w") auto
    have res: "r0 = r" "state' = Some st0" "w0 = w'"
      using assms True Some ty d by (auto simp: handle_managed_request_def)
    note d = d [unfolded res dispatch_request_def]
    show ?thesis
    proof (cases "ty = SetRequest")
      case True
      with d Some v res show ?thesis by (intro set) auto
    next
      case False
      with d have "st0 = st" by (auto split: if_splits dest: other_handlers_state)
      with d False ty_cases Some v res show ?thesis
        by (auto intro: get notify portal forget split: if_splits)
    qed
  qed
qed

section \<open>Applier calls\<close>

text \<open>The instrument: an applier that records its calls and answers.\<close>

type_synonym calls = "(config_update \<times> apply_result) list"

definition unlogged :: "'w frame_transport \<Rightarrow> ('w \<times> calls) frame_transport" where
  "unlogged T =
     \<lparr>tp_send = (\<lambda>p (w, calls). let (st, w') = tp_send T p w in (st, (w', calls))),
      tp_receive = (\<lambda>(w, calls). let (r, w') = tp_receive T w in (r, (w', calls)))\<rparr>"

definition logging :: "'w applier \<Rightarrow> ('w \<times> calls) applier" where
  "logging apply u = (\<lambda>(w, calls). let (r, w') = apply u w in (r, (w', calls @ [(u, r)])))"

lemma unlogged_calls: "tp_send (unlogged T) p w = (st, w') \<Longrightarrow> snd w' = snd w"
  by (auto simp: unlogged_def split: prod.splits)

lemma logging_calls: "logging apply u w = (r, w') \<Longrightarrow> snd w' = snd w @ [(u, r)]"
  by (auto simp: logging_def split: prod.splits)

lemma evaluate_calls:
  assumes "evaluate_set_request_with_optional_applier J payload (Some (logging apply)) w = (e, w')"
  shows "snd w' = snd w \<or>
    (\<exists>u r. snd w' = snd w @ [(u, r)] \<and> u = cpr_update (parse_set_request_json J payload) \<and>
       is_supported_config_update u \<and> is_actionable_config u \<and>
       (ev_errcode e = kConfigOk \<longleftrightarrow> apply_ok r))"
  using assms
  by (auto simp: evaluate_set_request_with_optional_applier_def is_supported_config_update_def
      default_evaluation_def kConfigOk_def kConfigError_def Let_def
      split: if_splits prod.splits dest!: logging_calls)

lemma portal_calls:
  assumes "apply_portal_auth J payload (Some (logging apply)) w = (e, w')"
  shows "snd w' = snd w \<or>
    (\<exists>u r. snd w' = snd w @ [(u, r)] \<and> u = cpr_update (parse_portal_auth_request_json J payload) \<and>
       client_configs u \<noteq> [])"
  using assms
  by (auto simp: apply_portal_auth_def Let_def split: if_splits prod.splits dest!: logging_calls)

lemma handle_set_calls:
  assumes "handle_set J (unlogged T) s st payload (Some (logging apply)) t w = ((r, st'), w')"
  shows "snd w' = snd w \<or>
    (\<exists>u a. snd w' = snd w @ [(u, a)] \<and> u = cpr_update (parse_set_request_json J payload) \<and>
       is_supported_config_update u \<and> is_actionable_config u \<and> (\<not> apply_ok a \<longrightarrow> st' = st))"
proof -
  obtain e w1 where e: "evaluate_set_request_with_optional_applier J payload (Some (logging apply)) w = (e, w1)"
    by (cases "evaluate_set_request_with_optional_applier J payload (Some (logging apply)) w")
  have "snd w' = snd w1 \<and> (ev_errcode e \<noteq> kConfigOk \<longrightarrow> st' = st)"
    using assms e
    by (auto simp: handle_set_def Let_def split: if_splits prod.splits dest: unlogged_calls)
  with evaluate_calls [OF e] show ?thesis by auto
qed

lemma other_handlers_calls:
  "handle_get J (unlogged T) s st payload t w = ((r, st'), w') \<Longrightarrow> snd w' = snd w"
  "handle_notify J (unlogged T) s st ty payload t w = ((r, st'), w') \<Longrightarrow> snd w' = snd w"
  "handle_forget J (unlogged T) s st ty payload t w = ((r, st'), w') \<Longrightarrow> snd w' = snd w"
  by (auto simp: handle_get_def handle_notify_def handle_forget_def Let_def
      split: if_splits prod.splits dest: unlogged_calls)

lemma handle_portal_auth_calls:
  assumes "handle_portal_auth J (unlogged T) s st payload (Some (logging apply)) t w = ((r, st'), w')"
  shows "snd w' = snd w \<or>
    (\<exists>u a. snd w' = snd w @ [(u, a)] \<and> u = cpr_update (parse_portal_auth_request_json J payload) \<and>
       client_configs u \<noteq> [])"
proof -
  obtain e w1 where e: "apply_portal_auth J payload (Some (logging apply)) w = (e, w1)"
    by (cases "apply_portal_auth J payload (Some (logging apply)) w")
  have "snd w' = snd w1"
    using assms e
    by (auto simp: handle_portal_auth_def Let_def split: if_splits prod.splits dest: unlogged_calls)
  with portal_calls [OF e] show ?thesis by auto
qed

lemma handle_managed_request_calls:
  assumes "handle_managed_request J (unlogged T) s (Some st) payload (Some (logging apply)) t (w, []) =
      ((r, state'), w', calls)"
  shows "calls = [] \<or>
    (\<exists>u a. calls = [(u, a)] \<and>
       (ecsp_header_type J (json_document_parse J payload) = Some (to_underlying SetRequest) \<and>
        u = cpr_update (parse_set_request_json J payload) \<and> is_supported_config_update u \<and>
        is_actionable_config u \<and> valid_update u \<and> (apply_ok a \<or> state' = Some st) \<or>
        ecsp_header_type J (json_document_parse J payload) = Some (to_underlying EventPortalAuth) \<and>
        u = cpr_update (parse_portal_auth_request_json J payload) \<and> client_configs u \<noteq> [] \<and>
        state' = Some st))"
  using assms
proof (rule handle_managed_request_cases)
  fix st'
  assume "ecsp_header_type J (json_document_parse J payload) = Some (to_underlying SetRequest)"
    and set: "handle_set J (unlogged T) s st payload (Some (logging apply)) t (w, []) = ((r, st'), w', calls)"
    and "state' = Some st'"
  with handle_set_calls [OF set] parse_set_request_valid [of J payload] show ?thesis by auto
next
  assume "ecsp_header_type J (json_document_parse J payload) = Some (to_underlying EventPortalAuth)"
    and portal: "handle_portal_auth J (unlogged T) s st payload (Some (logging apply)) t (w, []) =
      ((r, st), w', calls)" and "state' = Some st"
  with handle_portal_auth_calls [OF portal] show ?thesis by auto
qed (auto dest: other_handlers_calls)

lemma handle_managed_request_state:
  assumes "handle_managed_request J T s (Some st) payload applier t w = ((r, state'), w')"
  shows "state' = Some st \<or>
    mr_ok r \<and> mr_action r = SetResponseAction \<and> mr_response_sent r \<and> mr_error r = [] \<and>
    (\<exists>v q. mr_config_version r = Some v \<and> mr_sequence_id r = Some q \<and>
       state' = Some (st\<lparr>ms_config_version := store_u32 v (ms_config_version st),
                         ms_sequence_id := store_u32 q (ms_sequence_id st)\<rparr>))"
  using assms by (rule handle_managed_request_cases) (auto dest: handle_set_state)

section \<open>The version a SET request leads to\<close>

lemma sum_overflow:
  assumes "0 \<le> sint (a :: i64)" "0 \<le> sint b"
  shows "sint (a + b) =
    (if sint a + sint b \<le> i64_max then sint a + sint b else sint a + sint b - 2 ^ 64)"
proof -
  have bounds: "sint a \<le> 2 ^ 63 - 1" "sint b \<le> 2 ^ 63 - 1"
    using i64_range [of a] i64_range [of b] by (simp_all add: i64_max_def)
  have "sint (a + b) = signed_take_bit 63 (sint a + sint b)"
    by (simp add: sint_word_ariths(1))
  also have "\<dots> = (sint a + sint b + 2 ^ 63) mod 2 ^ 64 - 2 ^ 63"
    by (simp add: signed_take_bit_eq_take_bit_shift take_bit_eq_mod)
  also have "\<dots> = (if sint a + sint b \<le> i64_max then sint a + sint b else sint a + sint b - 2 ^ 64)"
  proof (cases "sint a + sint b \<le> i64_max")
    case True
    with assms show ?thesis by (simp add: i64_max_def)
  next
    case False
    then have "(sint a + sint b + 2 ^ 63 - 2 ^ 64) mod 2 ^ 64 = sint a + sint b + 2 ^ 63 - 2 ^ 64"
      using bounds by (intro mod_pos_pos_trivial) (simp_all add: i64_max_def)
    then have "(sint a + sint b + 2 ^ 63) mod 2 ^ 64 = sint a + sint b + 2 ^ 63 - 2 ^ 64"
      by (metis minus_mod_self2)
    with False show ?thesis by simp
  qed
  finally show ?thesis .
qed

section \<open>Properties\<close>

text \<open>
  C7. A request of the controller to a managed access point gets at most one answer.  If one is sent
  it is a JSON text of the response message, with the sequence number of the request and the
  controller of the state, and the result says success exactly when it went out; without an answer
  no success of sending is claimed.  Only an answered FORGET asks to clear the state and end the
  session.
\<close>

theorem request_answered_once:
  "case handle_managed_request J (recording T) s (Some st) payload (recorded_applier ap) t (w, []) of
     ((r, state'), w', log) \<Rightarrow> answered_once J s st payload t r log"
  by (auto split: prod.splits dest: recorded_managed.handle_managed_request_answered)

text \<open>
  C10. The managed state changes only in its configuration version and sequence id, and only by a SET
  request that was carried out without error and whose answer went out; the values stored are those
  of the answer, when they fit 32 bits.
\<close>

theorem managed_state_updates:
  "case handle_managed_request J T s (Some st) payload applier t w of ((r, state'), w') \<Rightarrow>
     state' = Some st \<or>
     mr_ok r \<and> mr_action r = SetResponseAction \<and> mr_response_sent r \<and> mr_error r = [] \<and>
     (\<exists>v q. mr_config_version r = Some v \<and> mr_sequence_id r = Some q \<and>
        state' = Some (st\<lparr>ms_config_version := store_u32 v (ms_config_version st),
                          ms_sequence_id := store_u32 q (ms_sequence_id st)\<rparr>))"
proof -
  obtain r state' w' where run: "handle_managed_request J T s (Some st) payload applier t w = ((r, state'), w')"
    by (cases "handle_managed_request J T s (Some st) payload applier t w") auto
  from handle_managed_request_state [OF run] show ?thesis by (simp add: run)
qed

text \<open>
  C11. The platform is touched at most once per request: with the update of a SET request whose keys
  are all known, that has something to apply and whose names and VLAN ids are valid, and then a
  rejection leaves the managed state as it is; or with the users of an EVENT_PORTAL_AUTH.
\<close>

theorem applier_called_once:
  "case handle_managed_request J (unlogged T) s (Some st) payload (Some (logging apply)) t (w, []) of
     ((r, state'), w', calls) \<Rightarrow>
       calls = [] \<or>
       (\<exists>u a. calls = [(u, a)] \<and>
          (ecsp_header_type J (json_document_parse J payload) = Some (to_underlying SetRequest) \<and>
           u = cpr_update (parse_set_request_json J payload) \<and> is_supported_config_update u \<and>
           is_actionable_config u \<and> valid_update u \<and> (apply_ok a \<or> state' = Some st) \<or>
           ecsp_header_type J (json_document_parse J payload) = Some (to_underlying EventPortalAuth) \<and>
           u = cpr_update (parse_portal_auth_request_json J payload) \<and> client_configs u \<noteq> [] \<and>
           state' = Some st))"
proof -
  obtain r state' w' calls where
    run: "handle_managed_request J (unlogged T) s (Some st) payload (Some (logging apply)) t (w, []) =
      ((r, state'), w', calls)"
    by (cases "handle_managed_request J (unlogged T) s (Some st) payload (Some (logging apply)) t (w, [])") auto
  from handle_managed_request_calls [OF run] show ?thesis by (simp add: run)
qed

text \<open>
  C12. The configuration version a SET answer reports: the current one when the request was refused;
  else the version the request names, or the current one plus its increment.  The increment must
  not be negative, and the sum is exact up to the largest 64-bit integer, beyond which it wraps to a
  negative number.
\<close>

theorem set_response_version:
  fixes J payload cur e
  defines "b \<equiv> build_set_response_body_json J payload (map_option ucast (cur :: u32 option)) e"
    and "f \<equiv> parse_request J payload"
  assumes "sr_ok b"
  shows "if e \<noteq> kConfigOk \<and> cur \<noteq> None then sr_config_version b = ucast (the cur)
    else case rf_config_version f of
        Some v \<Rightarrow> sr_config_version b = v
      | None \<Rightarrow>
          (case (cur, rf_config_version_inc f) of
             (Some c, Some i) \<Rightarrow>
               0 \<le> sint i \<and>
               sint (sr_config_version b) =
                 (if uint c + sint i \<le> i64_max then uint c + sint i else uint c + sint i - 2 ^ 64)
           | _ \<Rightarrow> False)"
proof -
  have wide: "sint (ucast c :: i64) = uint c" for c :: u32
  proof -
    have "uint c < 2 ^ 32" using uint_lt2p [of c] by simp
    moreover have "- (2 ^ 63) \<le> uint c" by (rule order_trans [OF _ uint_nonnegative]) simp
    ultimately have "signed_take_bit 63 (uint c) = uint c"
      by (intro signed_take_bit_int_eq_self) simp_all
    then show ?thesis by (simp add: signed_ucast_eq)
  qed
  from assms(3) show ?thesis
    unfolding b_def f_def build_set_response_body_json_def set_response_error_def Let_def
    by (auto simp: wide sum_overflow split: option.splits if_splits sum.splits)
qed

text \<open>A request of the controller with an increment, and one without a sequence id.\<close>

definition sample_set :: jsonc where
  "sample_set = table_jsonc
     [(''inc'', JObject [(''header'', JObject [(''type'', JInt 4096), (''seq'', JInt 9)]),
        (''body'', JObject [(''sequenceId'', JInt 5), (''configVersionInc'', JInt 2)])]),
      (''led'', JObject [(''header'', JObject [(''type'', JInt 4096), (''seq'', JInt 9)]),
        (''body'', JObject [(''configVersion'', JInt 5), (''led'', JObject [])])])]"

lemma sample_int [simp]: "jc_get_int64 sample_set (JInt (numeral n)) = word_of_int (max i64_min (min i64_max (numeral n)))"
  by (simp add: sample_set_def table_jsonc_def)

lemma sample_set_fields:
  "rf_ok (parse_request sample_set ''inc'')" "rf_sequence_id (parse_request sample_set ''inc'') = Some 5"
  "rf_config_version (parse_request sample_set ''inc'') = None"
  "rf_config_version_inc (parse_request sample_set ''inc'') = Some 2"
  by (simp_all add: parse_request_def json_document_parse_def valid_def ecsp_body_def
      optional_int_exchange_def i64_min_def i64_max_def Let_def)
    (simp_all add: sample_set_def table_jsonc_def i64_min_def i64_max_def)

theorem set_response_version_witness:
  "sint (sr_config_version (build_set_response_body_json sample_set ''inc'' (map_option ucast (Some (40 :: u32))) 0)) = 42"
proof -
  have ok: "sr_ok (build_set_response_body_json sample_set ''inc'' (map_option ucast (Some (40 :: u32))) 0)"
    by (simp add: build_set_response_body_json_def sample_set_fields Let_def)
  from set_response_version [OF ok] show ?thesis
    by (simp add: sample_set_fields kConfigOk_def i64_max_def)
qed

section \<open>Applied, but refused\<close>

lemma led_steps:
  "foldr then_step (body_steps J (JObject [(''configVersion'', v), (''led'', JObject [])])) Inr (u, []) =
     Inr (u\<lparr>led := Some \<lparr>led_enabled = None, led_locate = None\<rparr>\<rparr>, [])"
  by (simp add: body_steps_def then_step_def radio_step_def ssid_step_def management_step_def
      free_policy_step_def portal_step_def led_step_def wifi_led_step_def clients_step_def
      require_object_def parse_led_def optional_bool_def)

lemma led_keys: "c_string ''led'' = ''led''" "c_string ''configVersion'' = ''configVersion''"
  by code_simp+

lemma led_document:
  "json_document_parse sample_set ''led'' =
     JObject [(''header'', JObject [(''type'', JInt 4096), (''seq'', JInt 9)]),
       (''body'', JObject [(''configVersion'', JInt 5), (''led'', JObject [])])]"
  by (simp add: json_document_parse_def sample_set_def)

lemma led_update:
  "cpr_ok (parse_set_request_json sample_set ''led'') \<and>
   is_supported_config_update (cpr_update (parse_set_request_json sample_set ''led'')) \<and>
   is_actionable_config (cpr_update (parse_set_request_json sample_set ''led''))"
proof -
  have "parse_set_request_json sample_set ''led'' =
      parse_body_object sample_set (JObject [(''configVersion'', JInt 5), (''led'', JObject [])])"
    by (simp add: parse_set_request_json_def led_document ecsp_body_def valid_def object_member_def)
  then show ?thesis
    by (simp add: parse_body_object_def led_steps led_keys body_keys_def kCommonKeys_def kKnownKeys_def
        kPassiveKeys_def is_supported_config_update_def is_actionable_config_def Let_def)
qed

lemma led_header: "ecsp_header_type sample_set (json_document_parse sample_set ''led'') = Some (to_underlying SetRequest)"
  "valid (json_document_parse sample_set ''led'')" "rf_sequence_id (parse_request sample_set ''led'') = None"
  by (simp_all add: sample_set_def table_jsonc_def ecsp_header_type_def json_document_parse_def json_int_def
      valid_def parse_request_def ecsp_body_def optional_int_exchange_def i64_min_def i64_max_def Let_def)

definition accepting :: "nat applier" where
  "accepting u w = (\<lparr>apply_ok = True, apply_changed = True, apply_error = []\<rparr>, w + 1)"

definition silent_transport :: "nat frame_transport" where
  "silent_transport = \<lparr>tp_send = (\<lambda>p w. (status_failure ''closed'', w)), tp_receive = (\<lambda>w. (default_receive_result, w))\<rparr>"


end
