(* ===== verification/Inform.thy ===== *)
theory Inform
  imports Adoption Lifecycle_Session
begin

text \<open>
  \<open>src/src/application/inform.cpp\<close> and \<open>src/src/lifecycle/managed_session.cpp\<close>: the periodic report
  of a managed access point, its contents, its schedule and the state kept after an adoption.  The
  locale \<open>inform_source\<close> is what the session expects of an \<open>InformProvider\<close>.
\<close>

section \<open>Snapshots and providers\<close>

record lan_observation =
  lan_rate :: string
  lan_duplex :: i32
  lan_port :: string

definition default_lan :: lan_observation where
  "default_lan = \<lparr>lan_rate = ''100.0'', lan_duplex = 1, lan_port = ''LAN''\<rparr>"

record json_body_member =
  member_key :: string
  member_json :: string

record inform_snapshot =
  sn_need_reply :: bool
  sn_uptime_seconds :: u64
  sn_lan :: lan_observation
  sn_extra_body_members :: "json_body_member list"

definition default_snapshot :: inform_snapshot where
  "default_snapshot =
     \<lparr>sn_need_reply = False, sn_uptime_seconds = 0, sn_lan = default_lan, sn_extra_body_members = []\<rparr>"

type_synonym 'w inform_provider = "bool \<Rightarrow> u64 \<Rightarrow> 'w \<Rightarrow> inform_snapshot \<times> 'w"

definition static_inform_build :: "lan_observation \<Rightarrow> 'w inform_provider" where
  "static_inform_build lan need_reply uptime_seconds w =
     (default_snapshot
        \<lparr>sn_need_reply := need_reply, sn_uptime_seconds := uptime_seconds, sn_lan := lan\<rparr>, w)"

section \<open>The report\<close>

definition inform_header :: "agent_settings \<Rightarrow> u32 \<Rightarrow> string \<Rightarrow> u64 \<Rightarrow> ecsp_header" where
  "inform_header s seq controller timestamp_ms =
    (let header =
           \<lparr>hd_seq = Some seq, hd_version = ecsp_version s, hd_ver_cap = ecsp_ver_cap s, hd_device = ''ap'',
            hd_mac = mac s, hd_type = InformRequest, hd_error = 0, hd_dest = controller, hd_timestamp = None\<rparr>
     in if timestamp_ms \<noteq> 0 then header\<lparr>hd_timestamp := Some timestamp_ms\<rparr> else header)"

definition reported_member :: "json_body_member \<Rightarrow> bool" where
  "reported_member m \<longleftrightarrow> \<not> (member_key m = [] \<or> member_json m = [])"

definition build_inform_body_json :: "access_point_profile \<Rightarrow> inform_snapshot \<Rightarrow> string" where
  "build_inform_body_json profile snapshot =
     ''{\"needReply\":''
     @ (if sn_need_reply snapshot then ''1'' else ''0'')
     @ '',\"deviceInfo\":''
     @ inform_device_info_json profile (sn_uptime_seconds snapshot)
     @ '',\"lanInfo\":{\"rate\":''
     @ quoted (lan_rate (sn_lan snapshot))
     @ '',\"duplex\":''
     @ to_string_i (lan_duplex (sn_lan snapshot))
     @ '',\"port\":''
     @ quoted (lan_port (sn_lan snapshot))
     @ ''}''
     @ concat (map (\<lambda>m. if \<not> reported_member m then []
                     else '','' @ quoted (member_key m) @ '':'' @ member_json m)
                 (sn_extra_body_members snapshot))
     @ ''}''"

definition build_inform_request_json ::
  "agent_settings \<Rightarrow> access_point_profile \<Rightarrow> u32 \<Rightarrow> string \<Rightarrow> inform_snapshot \<Rightarrow> u64 \<Rightarrow> string" where
  "build_inform_request_json s profile seq controller snapshot timestamp_ms =
     build_message_json (inform_header s seq controller timestamp_ms)
       (build_inform_body_json profile snapshot) True"

section \<open>The schedule\<close>

record scheduled_inform =
  si_due :: bool
  si_need_reply :: bool
  si_seq :: u32
  si_uptime_seconds :: u64
  si_next_due_ms :: u64

definition default_scheduled :: scheduled_inform where
  "default_scheduled =
     \<lparr>si_due = False, si_need_reply = False, si_seq = 0, si_uptime_seconds = 0, si_next_due_ms = 0\<rparr>"

record inform_scheduler =
  sched_interval_ms :: u32
  sched_started :: bool
  sched_initial_sent :: bool
  sched_next_seq :: u32
  sched_started_at_ms :: u64
  sched_next_due_ms :: u64

definition make_scheduler :: "u32 \<Rightarrow> inform_scheduler" where
  "make_scheduler interval_ms =
     \<lparr>sched_interval_ms = max 500 interval_ms, sched_started = False, sched_initial_sent = False,
      sched_next_seq = 1, sched_started_at_ms = 0, sched_next_due_ms = 0\<rparr>"

definition scheduler_start :: "u32 \<Rightarrow> u64 \<Rightarrow> inform_scheduler \<Rightarrow> inform_scheduler" where
  "scheduler_start last_seq0 started_at_ms s =
     s\<lparr>sched_started := True, sched_initial_sent := False, sched_next_seq := last_seq0 + 1,
       sched_started_at_ms := started_at_ms, sched_next_due_ms := started_at_ms\<rparr>"

definition scheduler_poll :: "u64 \<Rightarrow> inform_scheduler \<Rightarrow> scheduled_inform \<times> inform_scheduler" where
  "scheduler_poll now_ms s =
     (if \<not> sched_started s \<or> now_ms < sched_next_due_ms s then (default_scheduled, s)
      else
        (let scheduled = default_scheduled
               \<lparr>si_due := True, si_need_reply := \<not> sched_initial_sent s, si_seq := sched_next_seq s,
                si_uptime_seconds :=
                  (if sched_started_at_ms s < now_ms then (now_ms - sched_started_at_ms s) div 1000 else 0)\<rparr>;
             s = s\<lparr>sched_next_seq := sched_next_seq s + 1, sched_initial_sent := True,
                   sched_next_due_ms := now_ms + ucast (sched_interval_ms s)\<rparr>
         in (scheduled\<lparr>si_next_due_ms := sched_next_due_ms s\<rparr>, s)))"

definition send_inform ::
  "'w frame_transport \<Rightarrow> agent_settings \<Rightarrow> access_point_profile \<Rightarrow> 'w inform_provider \<Rightarrow> string \<Rightarrow>
   scheduled_inform \<Rightarrow> u64 \<Rightarrow> 'w \<Rightarrow> transport_status \<times> 'w" where
  "send_inform T s profile provider controller scheduled timestamp_ms w =
     (if \<not> si_due scheduled then (status_success, w)
      else
        (let (snapshot, w) = provider (si_need_reply scheduled) (si_uptime_seconds scheduled) w
         in tp_send T (build_inform_request_json s profile (si_seq scheduled) controller snapshot timestamp_ms) w))"

section \<open>The state after an adoption\<close>

definition managed_state_from_adoption ::
  "agent_settings \<Rightarrow> u16 \<Rightarrow> adoption_result \<Rightarrow> u64 \<Rightarrow> managed_state" where
  "managed_state_from_adoption s port result updated_at =
     default_managed_state
       \<lparr>ms_version := 1, ms_mac := normalized (mac s), ms_controller_host := controller_host s,
        ms_controller_id := ar_controller_id result, ms_manage_port := port, ms_site_id := site_id s,
        ms_username := ar_username result, ms_config_version := ar_config_version result,
        ms_sequence_id := ar_sequence_id result, ms_updated_at := updated_at\<rparr>"

section \<open>The value of a report\<close>

definition lan_value :: "lan_observation \<Rightarrow> json" where
  "lan_value lan =
     JObject [(''rate'', JString (lan_rate lan)), (''duplex'', JInt (sint (lan_duplex lan))),
              (''port'', JString (lan_port lan))]"

definition inform_members :: "agent_settings \<Rightarrow> inform_snapshot \<Rightarrow> (string \<times> json) list" where
  "inform_members s snapshot =
     [(''needReply'', JInt (if sn_need_reply snapshot then 1 else 0)),
      (''deviceInfo'', inform_device_info_value s (sn_uptime_seconds snapshot)),
      (''lanInfo'', lan_value (sn_lan snapshot))]"

definition extra_members :: "(json_body_member \<Rightarrow> json) \<Rightarrow> inform_snapshot \<Rightarrow> (string \<times> json) list" where
  "extra_members val snapshot =
     map (\<lambda>m. (member_key m, val m)) (filter reported_member (sn_extra_body_members snapshot))"

text \<open>Every extra member is a JSON text of its value, and no key is used twice.\<close>

definition snapshot_ok :: "(json_body_member \<Rightarrow> json) \<Rightarrow> inform_snapshot \<Rightarrow> bool" where
  "snapshot_ok val snapshot \<longleftrightarrow>
     (\<forall>m \<in> set (sn_extra_body_members snapshot). reported_member m \<longrightarrow> json_text (val m) (member_json m)) \<and>
     distinct ([''needReply'', ''deviceInfo'', ''lanInfo''] @
       map member_key (filter reported_member (sn_extra_body_members snapshot)))"

lemma plain_inform_keys:
  "quoted ''needReply'' = ''\"needReply\"''" "quoted ''lanInfo'' = ''\"lanInfo\"''"
  "quoted ''rate'' = ''\"rate\"''" "quoted ''duplex'' = ''\"duplex\"''" "quoted ''port'' = ''\"port\"''"
  by (simp_all add: quoted_plain plain_def code_def)

lemma dec_int_small: "dec_int 0 = ''0''" "dec_int 1 = ''1''"
  by (simp_all add: dec_int_def dec.simps digit_char_def char_of_eq_iff)

lemma render_inform_members:
  "render_members (inform_members (settings profile) snapshot) =
     ''\"needReply\":'' @ (if sn_need_reply snapshot then ''1'' else ''0'')
     @ '',\"deviceInfo\":'' @ inform_device_info_json profile (sn_uptime_seconds snapshot)
     @ '',\"lanInfo\":{\"rate\":'' @ quoted (lan_rate (sn_lan snapshot))
     @ '',\"duplex\":'' @ to_string_i (lan_duplex (sn_lan snapshot))
     @ '',\"port\":'' @ quoted (lan_port (sn_lan snapshot)) @ ''}''"
  unfolding inform_members_def lan_value_def
  by (simp add: render_members_Cons render_JObject plain_inform_keys plain_builder_keys dec_int_small
      inform_device_info_json_render to_string_i_def del: render.simps(7))

lemma members_text_extras:
  assumes "members_text base t"
    and "\<And>m. m \<in> set ms \<Longrightarrow> reported_member m \<Longrightarrow> json_text (val m) (member_json m)"
  shows "members_text (base @ map (\<lambda>m. (member_key m, val m)) (filter reported_member ms))
    (t @ concat (map (\<lambda>m. if \<not> reported_member m then []
        else '','' @ quoted (member_key m) @ '':'' @ member_json m) ms))"
  using assms
proof (induction ms arbitrary: base t)
  case (Cons m ms)
  show ?case
  proof (cases "reported_member m")
    case True
    with Cons.prems have "json_text (val m) (member_json m)" by simp
    from members_text_append [OF Cons.prems(1) member_text [OF this]]
    have "members_text (base @ [(member_key m, val m)])
        (t @ '','' @ quoted (member_key m) @ '':'' @ member_json m)"
      by simp
    from Cons.IH [OF this] Cons.prems(2) True show ?thesis by simp
  next
    case False
    with Cons.IH [OF Cons.prems(1)] Cons.prems(2) show ?thesis by simp
  qed
qed simp

lemma build_inform_body_json_text:
  assumes "snapshot_ok val snapshot"
  shows "json_text (JObject (inform_members (settings profile) snapshot @ extra_members val snapshot))
    (build_inform_body_json profile snapshot)"
proof -
  have "members_text (inform_members (settings profile) snapshot)
      (render_members (inform_members (settings profile) snapshot))"
    by (rule members_text_render_members) (simp_all add: inform_members_def lan_value_def)
  then have "members_text (inform_members (settings profile) snapshot @ extra_members val snapshot)
      (render_members (inform_members (settings profile) snapshot) @
       concat (map (\<lambda>m. if \<not> reported_member m then []
        else '','' @ quoted (member_key m) @ '':'' @ member_json m) (sn_extra_body_members snapshot)))"
    unfolding extra_members_def by (rule members_text_extras) (use assms in \<open>simp add: snapshot_ok_def\<close>)
  moreover have "distinct (map fst (inform_members (settings profile) snapshot @ extra_members val snapshot))"
    using assms by (auto simp: snapshot_ok_def inform_members_def extra_members_def comp_def)
  ultimately show ?thesis
    using json_text_members unfolding build_inform_body_json_def render_inform_members
    by (fastforce simp: render_inform_members)
qed

section \<open>Runs of the schedule\<close>

text \<open>The polls of a session at the given times: those at which a report is due, with the report.\<close>

fun due_reports :: "u64 list \<Rightarrow> inform_scheduler \<Rightarrow> (u64 \<times> scheduled_inform) list" where
  "due_reports [] s = []"
| "due_reports (t # ts) s =
     (case scheduler_poll t s of (r, s') \<Rightarrow> (if si_due r then [(t, r)] else []) @ due_reports ts s')"

lemma scheduler_poll_early:
  "sched_started s \<Longrightarrow> t < sched_next_due_ms s \<Longrightarrow> scheduler_poll t s = (default_scheduled, s)"
  by (simp add: scheduler_poll_def)

lemma scheduler_poll_due:
  "sched_started s \<Longrightarrow> sched_next_due_ms s \<le> t \<Longrightarrow>
   scheduler_poll t s =
     (\<lparr>si_due = True, si_need_reply = \<not> sched_initial_sent s, si_seq = sched_next_seq s,
       si_uptime_seconds = (if sched_started_at_ms s < t then (t - sched_started_at_ms s) div 1000 else 0),
       si_next_due_ms = t + ucast (sched_interval_ms s)\<rparr>,
      s\<lparr>sched_next_seq := sched_next_seq s + 1, sched_initial_sent := True,
        sched_next_due_ms := t + ucast (sched_interval_ms s)\<rparr>)"
  by (simp add: scheduler_poll_def default_scheduled_def Let_def not_less)

lemma unat_next_due:
  fixes t :: u64 and i :: u32
  assumes "unat t + unat i < 2 ^ 64"
  shows "unat (t + ucast i) = unat t + unat i"
proof -
  have "unat (ucast i :: u64) = unat i"
    by (simp add: unsigned_ucast_eq take_bit_nat_eq_self [OF less_le_trans [OF unsigned_less]])
  with assms show ?thesis by (simp add: unat_word_ariths)
qed

lemma map_upt_0: "map f [0..<Suc n] = f 0 # map (\<lambda>i. f (Suc i)) [0..<n]"
  by (simp add: upt_conv_Cons map_Suc_upt [symmetric] comp_def del: upt_Suc)

text \<open>What a started scheduler does from any point on.\<close>

lemma due_reports_numbers:
  "sched_started s \<Longrightarrow>
   map (si_seq \<circ> snd) (due_reports ts s) =
     map (\<lambda>i. sched_next_seq s + of_nat i) [0..<length (due_reports ts s)] \<and>
   map (si_need_reply \<circ> snd) (due_reports ts s) =
     map (\<lambda>i. i = 0 \<and> \<not> sched_initial_sent s) [0..<length (due_reports ts s)]"
proof (induction ts arbitrary: s)
  case (Cons t ts)
  show ?case
  proof (cases "t < sched_next_due_ms s")
    case True
    with Cons show ?thesis by (simp add: scheduler_poll_early default_scheduled_def)
  next
    case False
    with Cons.prems have due: "sched_next_due_ms s \<le> t" by simp
    show ?thesis
      using Cons.IH [of "snd (scheduler_poll t s)"] Cons.prems due
      by (simp add: scheduler_poll_due map_upt_0 add_ac del: upt_Suc)
  qed
qed simp

lemma due_reports_times:
  assumes "sched_started s" "sorted ts" "0 < unat (sched_interval_ms s)"
    and "\<And>t. t \<in> set ts \<Longrightarrow> unat t + unat (sched_interval_ms s) < 2 ^ 64"
  shows "sorted_wrt (\<lambda>d d'. unat d + unat (sched_interval_ms s) \<le> unat d') (map fst (due_reports ts s)) \<and>
    (\<forall>(d, r) \<in> set (due_reports ts s). sched_next_due_ms s \<le> d \<and> d \<in> set ts \<and>
       (sched_started_at_ms s \<le> d \<longrightarrow> si_uptime_seconds r = (d - sched_started_at_ms s) div 1000)) \<and>
    (\<forall>t \<in> set ts. sched_next_due_ms s \<le> t \<longrightarrow>
       (\<exists>d \<in> set (map fst (due_reports ts s)). d \<le> t \<and> unat t < unat d + unat (sched_interval_ms s)))"
    (is "?spaced ts s \<and> ?times ts s \<and> ?covered ts s")
  using assms
proof (induction ts arbitrary: s)
  case (Cons t ts)
  show ?case
  proof (cases "t < sched_next_due_ms s")
    case True
    with Cons.prems(1) have R: "due_reports (t # ts) s = due_reports ts s"
      by (simp add: scheduler_poll_early default_scheduled_def)
    have IH: "?spaced ts s" "?times ts s" "?covered ts s"
      using Cons.IH [of s] Cons.prems by simp_all
    from IH(2) have "?times (t # ts) s" unfolding R by auto
    with IH(1,3) True show ?thesis unfolding R by auto
  next
    case False
    with Cons.prems(1) have due: "sched_next_due_ms s \<le> t" by simp
    define s' where "s' = s\<lparr>sched_next_seq := sched_next_seq s + 1, sched_initial_sent := True,
        sched_next_due_ms := t + ucast (sched_interval_ms s)\<rparr>"
    have next_due: "unat (t + ucast (sched_interval_ms s)) = unat t + unat (sched_interval_ms s)"
      using Cons.prems(4) by (intro unat_next_due) simp
    have R: "due_reports (t # ts) s = (t, fst (scheduler_poll t s)) # due_reports ts s'"
      "si_uptime_seconds (fst (scheduler_poll t s)) =
         (if sched_started_at_ms s < t then (t - sched_started_at_ms s) div 1000 else 0)"
      by (simp_all add: scheduler_poll_due [OF Cons.prems(1) due] s'_def)
    have IH: "?spaced ts s'" "?times ts s'" "?covered ts s'"
      using Cons.IH [of s'] Cons.prems by (simp_all add: s'_def)
    have s': "sched_interval_ms s' = sched_interval_ms s" "sched_started_at_ms s' = sched_started_at_ms s"
      "sched_next_due_ms s' = t + ucast (sched_interval_ms s)"
      by (simp_all add: s'_def)
    have "t \<le> t + ucast (sched_interval_ms s)" using next_due by (simp add: word_le_nat_alt)
    with due have later: "sched_next_due_ms s \<le> d" if "sched_next_due_ms s' \<le> d" for d
      using that s'(3) by order
    have "?spaced (t # ts) s"
      using IH(1,2) next_due unfolding R s' by (auto simp: word_le_nat_alt)
    moreover have "?times (t # ts) s"
      using IH(2) due later unfolding R s' by (auto simp: R(2) order_less_le)
    moreover have "?covered (t # ts) s"
    proof (intro ballI impI)
      fix u assume u: "u \<in> set (t # ts)"
      with Cons.prems(2) have "t \<le> u" by auto
      show "\<exists>d \<in> set (map fst (due_reports (t # ts) s)). d \<le> u \<and> unat u < unat d + unat (sched_interval_ms s)"
      proof (cases "sched_next_due_ms s' \<le> u")
        case True
        then have "u \<noteq> t" using next_due Cons.prems(3) s'(3) by (auto simp: word_le_nat_alt)
        with u IH(3) True show ?thesis unfolding R s' by auto
      next
        case False
        then have "unat u < unat t + unat (sched_interval_ms s)"
          using next_due s'(3) by (simp add: word_le_nat_alt)
        with R \<open>t \<le> u\<close> show ?thesis by auto
      qed
    qed
    ultimately show ?thesis by blast
  qed
qed simp

section \<open>The contract of a provider\<close>

text \<open>
  A provider reports what it was asked for (whether the controller shall reply, and the uptime) and
  adds only members that are JSON texts, each under its own key.
\<close>

locale inform_source =
  fixes build :: "'w inform_provider" and val :: "json_body_member \<Rightarrow> json"
  assumes asked: "build n u w = (sn, w') \<Longrightarrow> sn_need_reply sn = n \<and> sn_uptime_seconds sn = u"
    and well_formed: "build n u w = (sn, w') \<Longrightarrow> snapshot_ok val sn"

context inform_source
begin

definition report_value ::
  "agent_settings \<Rightarrow> string \<Rightarrow> scheduled_inform \<Rightarrow> inform_snapshot \<Rightarrow> u64 \<Rightarrow> json" where
  "report_value s controller r sn t =
     message_value (inform_header s (si_seq r) controller t)
       (Some (JObject (inform_members s sn @ extra_members val sn)))"

lemma send_inform_due:
  assumes "send_inform (recording T) s (make_profile s) (\<lambda>n u. quiet (build n u)) controller r t (w, log) = (st, w', log')"
    and "si_due r"
  shows "\<exists>sn payload. fst (build (si_need_reply r) (si_uptime_seconds r) w) = sn \<and>
    sn_need_reply sn = si_need_reply r \<and> sn_uptime_seconds sn = si_uptime_seconds r \<and>
    log' = log @ [Sent payload st] \<and> json_text (report_value s controller r sn t) payload"
proof -
  obtain sn w1 where b: "build (si_need_reply r) (si_uptime_seconds r) w = (sn, w1)"
    by (cases "build (si_need_reply r) (si_uptime_seconds r) w") auto
  have printed: "json_text (JObject (inform_members s sn @ extra_members val sn)) (build_inform_body_json (make_profile s) sn)"
    using build_inform_body_json_text [OF well_formed [OF b], of "make_profile s"]
    by (simp add: make_profile_def)
  show ?thesis
    using assms b asked [OF b] json_text_message [OF printed]
    by (auto simp: send_inform_def quiet_def recording_send report_value_def build_inform_request_json_def)
qed

lemma send_inform_idle:
  "\<not> si_due r \<Longrightarrow> send_inform T s p (\<lambda>n u. quiet (build n u)) controller r t w = (status_success, w)"
  by (simp add: send_inform_def)

end

lemma snapshot_ok_static: "snapshot_ok val (fst (static_inform_build lan n u w))"
  by (simp add: static_inform_build_def snapshot_ok_def default_snapshot_def)

interpretation static_provider: inform_source "static_inform_build lan" "\<lambda>m. JNull" for lan
  using snapshot_ok_static [of "\<lambda>m. JNull"]
  by unfold_locales (auto simp: static_inform_build_def default_snapshot_def)

section \<open>Properties\<close>

text \<open>
  C22. Whatever the times the session polls the schedule at, as long as they do not run backwards
  (and do not come within one interval of the end of the 64-bit clock): the reports are numbered
  without a gap from the number after the last one of the adoption, only the first asks for a reply,
  two reports are never closer than the interval, which is at least half a second, no poll is further
  than an interval from the last report, and each gives the full seconds since the start.
\<close>

theorem inform_schedule:
  assumes "sorted ts"
    and "\<forall>t \<in> set ts. unat t + unat (max 500 interval) < 2 ^ 64"
  shows "let s = scheduler_start n t0 (make_scheduler interval); reports = due_reports ts s;
      due = map fst reports
    in map (si_seq \<circ> snd) reports = map (\<lambda>i. n + 1 + of_nat i) [0..<length reports] \<and>
       map (si_need_reply \<circ> snd) reports = map (\<lambda>i. i = 0) [0..<length reports] \<and>
       sorted_wrt (\<lambda>d d'. unat d + unat (max 500 interval) \<le> unat d') due \<and>
       (\<forall>t \<in> set ts. t0 \<le> t \<longrightarrow> (\<exists>d \<in> set due. d \<le> t \<and> unat t < unat d + unat (max 500 interval))) \<and>
       (\<forall>(d, r) \<in> set reports. t0 \<le> d \<and> si_uptime_seconds r = (d - t0) div 1000)"
proof -
  define s where "s = scheduler_start n t0 (make_scheduler interval)"
  have s: "sched_started s" "sched_interval_ms s = max 500 interval" "sched_next_due_ms s = t0"
    "sched_started_at_ms s = t0" "sched_next_seq s = n + 1" "\<not> sched_initial_sent s"
    by (simp_all add: s_def scheduler_start_def make_scheduler_def)
  have "500 \<le> unat (max 500 interval)"
    using max.cobounded1 [of 500 interval] by (simp add: word_le_nat_alt)
  then have "0 < unat (sched_interval_ms s)" by (simp add: s)
  from due_reports_times [OF s(1) assms(1) this] due_reports_numbers [OF s(1), of ts] assms(2)
  show ?thesis unfolding s_def [symmetric] Let_def by (fastforce simp: s)
qed

theorem inform_schedule_witness:
  "map (si_seq \<circ> snd) (due_reports [1000, 1200, 1600, 1700, 2500]
      (scheduler_start 5 1000 (make_scheduler 10))) = [6, 7, 8]"
proof -
  let ?reports = "due_reports [1000, 1200, 1600, 1700, 2500] (scheduler_start 5 1000 (make_scheduler 10))"
  have count: "length ?reports = 3"
    by (simp add: scheduler_start_def make_scheduler_def scheduler_poll_def default_scheduled_def)
  have "map (si_seq \<circ> snd) ?reports = map (\<lambda>i. 5 + 1 + of_nat i) [0..<length ?reports]"
    using inform_schedule [of "[1000, 1200, 1600, 1700, 2500]" 10 5 1000]
    by (simp add: Let_def del: due_reports.simps upt_Suc)
  then show ?thesis by (simp only: count) (simp add: upt_rec)
qed

text \<open>
  A due report of the provider without platform data is sent as exactly one message, which is a
  JSON text of the report: the scheduled number, the need for a reply, the uptime and the link.  A
  report that is not due sends nothing.
\<close>

theorem static_inform_sent:
  "case send_inform (recording T) s (make_profile s) (\<lambda>n u. quiet (static_inform_build lan n u)) controller r t (w, []) of
     (st, w', log) \<Rightarrow>
       (if si_due r
        then \<exists>payload. log = [Sent payload st] \<and>
          json_text (message_value (inform_header s (si_seq r) controller t)
            (Some (JObject
               [(''needReply'', JInt (if si_need_reply r then 1 else 0)),
                (''deviceInfo'', inform_device_info_value s (si_uptime_seconds r)),
                (''lanInfo'', lan_value lan)]))) payload
        else log = [] \<and> st = status_success)"
proof -
  obtain st w' log where run: "send_inform (recording T) s (make_profile s)
      (\<lambda>n u. quiet (static_inform_build lan n u)) controller r t (w, []) = (st, w', log)"
    by (cases "send_inform (recording T) s (make_profile s) (\<lambda>n u. quiet (static_inform_build lan n u)) controller r t (w, [])")
      auto
  show ?thesis
  proof (cases "si_due r")
    case True
    from static_provider.send_inform_due [OF run this] True show ?thesis
      by (auto simp: run static_provider.report_value_def inform_members_def extra_members_def
          static_inform_build_def default_snapshot_def)
  next
    case False
    have "send_inform (recording T) s (make_profile s)
        (\<lambda>n u. quiet (static_inform_build lan n u)) controller r t (w, []) = (status_success, (w, []))"
      by (rule static_provider.send_inform_idle [OF False])
    with False run show ?thesis by simp
  qed
qed

end
