(* ===== verification/Posix_Files.thy ===== *)
theory Posix_Files
  imports Cpp_Prelude
begin

text \<open>
  The system calls on files the state repository uses.  They are not part of the repository, so they
  are a parameter: a record \<open>posix\<close> of operations on a world, where a failed call leaves its reason in
  \<open>errno\<close>.  Paths are C strings.  The locale \<open>posix_files\<close> states what POSIX documents of them and
  \<open>memory_posix\<close> is a file system in memory whose calls fail, are interrupted or move fewer bytes than
  asked wherever a script of faults says so.
\<close>

datatype errno = EINTR | ENOENT | EEXIST | EIO

record 'w posix =
  px_open_read :: "string \<Rightarrow> 'w \<Rightarrow> nat option \<times> 'w"
  px_open_create :: "string \<Rightarrow> 'w \<Rightarrow> nat option \<times> 'w"
  px_fstat_size :: "nat \<Rightarrow> 'w \<Rightarrow> int option \<times> 'w"
  px_read :: "nat \<Rightarrow> nat \<Rightarrow> 'w \<Rightarrow> string option \<times> 'w"
  px_write :: "nat \<Rightarrow> string \<Rightarrow> 'w \<Rightarrow> nat option \<times> 'w"
  px_fsync :: "nat \<Rightarrow> 'w \<Rightarrow> bool \<times> 'w"
  px_close :: "nat \<Rightarrow> 'w \<Rightarrow> 'w"
  px_rename :: "string \<Rightarrow> string \<Rightarrow> 'w \<Rightarrow> bool \<times> 'w"
  px_unlink :: "string \<Rightarrow> 'w \<Rightarrow> bool \<times> 'w"
  px_mkdir :: "string \<Rightarrow> 'w \<Rightarrow> bool \<times> 'w"
  px_errno :: "'w \<Rightarrow> errno"
  px_strerror :: "errno \<Rightarrow> string"

section \<open>The documented behaviour\<close>

text \<open>
  \<open>contents w p\<close> is the file at a path, \<open>remaining w fd\<close> what a descriptor opened for reading has not
  yet delivered, \<open>target w fd\<close> the path a descriptor opened for writing appends to, and \<open>patience w\<close>
  bounds how often calls can still be interrupted in a row.
\<close>

locale posix_files =
  fixes P :: "'w posix"
    and contents :: "'w \<Rightarrow> string \<Rightarrow> string option"
    and remaining :: "'w \<Rightarrow> nat \<Rightarrow> string option"
    and target :: "'w \<Rightarrow> nat \<Rightarrow> string option"
    and patience :: "'w \<Rightarrow> nat"
  assumes open_read_ok: "px_open_read P p w = (Some fd, w') \<Longrightarrow>
      contents w p \<noteq> None \<and> remaining w' fd = contents w p \<and> contents w' = contents w"
    and open_read_failed: "px_open_read P p w = (None, w') \<Longrightarrow>
      contents w' = contents w \<and> (px_errno P w' = ENOENT \<longleftrightarrow> contents w p = None)"
    and open_create_ok: "px_open_create P p w = (Some fd, w') \<Longrightarrow>
      contents w' = (contents w)(p := Some []) \<and> target w' fd = Some p"
    and open_create_failed: "px_open_create P p w = (None, w') \<Longrightarrow> contents w' = contents w"
    and fstat_size: "px_fstat_size P fd w = (sz, w') \<Longrightarrow> remaining w fd = Some r \<Longrightarrow>
      contents w' = contents w \<and> remaining w' fd = Some r \<and> (\<forall>z. sz = Some z \<longrightarrow> z = int (length r))"
    and read_ok: "px_read P fd k w = (Some bytes, w') \<Longrightarrow> remaining w fd = Some r \<Longrightarrow> 0 < k \<Longrightarrow>
      contents w' = contents w \<and> (bytes = [] \<longleftrightarrow> r = []) \<and>
      (\<exists>r'. r = bytes @ r' \<and> remaining w' fd = Some r')"
    and read_failed: "px_read P fd k w = (None, w') \<Longrightarrow> remaining w fd = Some r \<Longrightarrow>
      contents w' = contents w \<and> remaining w' fd = Some r \<and>
      (px_errno P w' = EINTR \<longrightarrow> patience w' < patience w)"
    and write_ok: "px_write P fd d w = (Some n, w') \<Longrightarrow> target w fd = Some p \<Longrightarrow> contents w p = Some c \<Longrightarrow>
      n \<le> length d \<and> contents w' = (contents w)(p := Some (c @ take n d)) \<and> target w' fd = Some p"
    and write_failed: "px_write P fd d w = (None, w') \<Longrightarrow> target w fd = Some p \<Longrightarrow>
      contents w' = contents w \<and> target w' fd = Some p \<and>
      (px_errno P w' = EINTR \<longrightarrow> patience w' < patience w)"
    and fsync_quiet: "px_fsync P fd w = (b, w') \<Longrightarrow> contents w' = contents w"
    and close_quiet: "contents (px_close P fd w) = contents w"
    and rename_ok: "px_rename P old new w = (True, w') \<Longrightarrow> contents w old = Some c \<Longrightarrow> old \<noteq> new \<Longrightarrow>
      contents w' = (contents w)(old := None, new := Some c)"
    and rename_failed: "px_rename P old new w = (False, w') \<Longrightarrow> contents w' = contents w"
    and unlink_ok: "px_unlink P p w = (True, w') \<Longrightarrow> contents w' = (contents w)(p := None)"
    and unlink_failed: "px_unlink P p w = (False, w') \<Longrightarrow>
      contents w' = contents w \<and> (px_errno P w' = ENOENT \<longleftrightarrow> contents w p = None)"
    and mkdir_quiet: "px_mkdir P p w = (b, w') \<Longrightarrow> contents w' = contents w"

section \<open>A file system in memory\<close>

text \<open>
  Each call takes the next entry of the script: go on, fail with a reason, or move at most so many
  bytes.  An exhausted script means no more faults.  A missing file is always reported as such, and
  nothing else is reported as a missing file.
\<close>

datatype fault = Smooth | Refuse errno | Short nat

record memory_fs =
  mem_files :: "string \<Rightarrow> string option"
  mem_remaining :: "nat \<Rightarrow> string option"
  mem_target :: "nat \<Rightarrow> string option"
  mem_next_fd :: nat
  mem_errno :: errno
  mem_script :: "fault list"

definition next_fault :: "memory_fs \<Rightarrow> fault \<times> memory_fs" where
  "next_fault w = (case mem_script w of [] \<Rightarrow> (Smooth, w) | f # fs \<Rightarrow> (f, w\<lparr>mem_script := fs\<rparr>))"

text \<open>A call that may be refused, with any reason but a missing file.\<close>

definition reason :: "errno \<Rightarrow> errno" where
  "reason e = (if e = ENOENT then EIO else e)"

definition attempt :: "'a \<Rightarrow> (nat option \<Rightarrow> memory_fs \<Rightarrow> 'a \<times> memory_fs) \<Rightarrow> memory_fs \<Rightarrow> 'a \<times> memory_fs" where
  "attempt refused body w =
     (case next_fault w of
        (Smooth, w) \<Rightarrow> body None w
      | (Short k, w) \<Rightarrow> body (Some k) w
      | (Refuse e, w) \<Rightarrow> (refused, w\<lparr>mem_errno := reason e\<rparr>))"

definition mem_open_read :: "string \<Rightarrow> memory_fs \<Rightarrow> nat option \<times> memory_fs" where
  "mem_open_read p w =
     (case mem_files w p of
        None \<Rightarrow> (None, w\<lparr>mem_errno := ENOENT\<rparr>)
      | Some c \<Rightarrow> attempt None (\<lambda>_ w. (Some (mem_next_fd w),
          w\<lparr>mem_remaining := (mem_remaining w)(mem_next_fd w := Some c), mem_next_fd := mem_next_fd w + 1\<rparr>)) w)"

definition mem_open_create :: "string \<Rightarrow> memory_fs \<Rightarrow> nat option \<times> memory_fs" where
  "mem_open_create p =
     attempt None (\<lambda>_ w. (Some (mem_next_fd w),
       w\<lparr>mem_files := (mem_files w)(p := Some []), mem_target := (mem_target w)(mem_next_fd w := Some p),
         mem_next_fd := mem_next_fd w + 1\<rparr>))"

definition mem_fstat_size :: "nat \<Rightarrow> memory_fs \<Rightarrow> int option \<times> memory_fs" where
  "mem_fstat_size fd =
     attempt None (\<lambda>_ w. (map_option (\<lambda>r. int (length r)) (mem_remaining w fd), w))"

definition mem_read :: "nat \<Rightarrow> nat \<Rightarrow> memory_fs \<Rightarrow> string option \<times> memory_fs" where
  "mem_read fd k =
     attempt None (\<lambda>limit w.
       case mem_remaining w fd of
         None \<Rightarrow> (None, w\<lparr>mem_errno := EIO\<rparr>)
       | Some r \<Rightarrow>
           (let n = (case limit of None \<Rightarrow> k | Some l \<Rightarrow> max 1 (min l k))
            in (Some (take n r), w\<lparr>mem_remaining := (mem_remaining w)(fd := Some (drop n r))\<rparr>)))"

definition mem_write :: "nat \<Rightarrow> string \<Rightarrow> memory_fs \<Rightarrow> nat option \<times> memory_fs" where
  "mem_write fd d =
     attempt None (\<lambda>limit w.
       case mem_target w fd of
         None \<Rightarrow> (None, w\<lparr>mem_errno := EIO\<rparr>)
       | Some p \<Rightarrow>
           (let n = (case limit of None \<Rightarrow> length d | Some l \<Rightarrow> min l (length d))
            in (Some n, w\<lparr>mem_files := (mem_files w)(p := map_option (\<lambda>c. c @ take n d) (mem_files w p))\<rparr>)))"

definition mem_fsync :: "nat \<Rightarrow> memory_fs \<Rightarrow> bool \<times> memory_fs" where
  "mem_fsync fd = attempt False (\<lambda>_ w. (True, w))"

definition mem_rename :: "string \<Rightarrow> string \<Rightarrow> memory_fs \<Rightarrow> bool \<times> memory_fs" where
  "mem_rename old new =
     attempt False (\<lambda>_ w.
       if mem_files w old = None then (False, w\<lparr>mem_errno := ENOENT\<rparr>)
       else (True, w\<lparr>mem_files := (mem_files w)(old := None, new := mem_files w old)\<rparr>))"

definition mem_unlink :: "string \<Rightarrow> memory_fs \<Rightarrow> bool \<times> memory_fs" where
  "mem_unlink p w =
     (if mem_files w p = None then (False, w\<lparr>mem_errno := ENOENT\<rparr>)
      else attempt False (\<lambda>_ w. (True, w\<lparr>mem_files := (mem_files w)(p := None)\<rparr>)) w)"

definition mem_mkdir :: "string \<Rightarrow> memory_fs \<Rightarrow> bool \<times> memory_fs" where
  "mem_mkdir p = attempt False (\<lambda>_ w. (True, w))"

definition memory_posix :: "memory_fs posix" where
  "memory_posix =
     \<lparr>px_open_read = mem_open_read, px_open_create = mem_open_create, px_fstat_size = mem_fstat_size,
      px_read = mem_read, px_write = mem_write, px_fsync = mem_fsync, px_close = (\<lambda>_ w. w),
      px_rename = mem_rename, px_unlink = mem_unlink, px_mkdir = mem_mkdir, px_errno = mem_errno,
      px_strerror = (\<lambda>e. case e of EINTR \<Rightarrow> ''interrupted'' | ENOENT \<Rightarrow> ''no such file''
        | EEXIST \<Rightarrow> ''file exists'' | EIO \<Rightarrow> ''input/output error'')\<rparr>"

lemmas memory_calls = memory_posix_def mem_open_read_def mem_open_create_def mem_fstat_size_def
  mem_read_def mem_write_def mem_fsync_def mem_rename_def mem_unlink_def mem_mkdir_def
  attempt_def next_fault_def

lemma reason_eq [simp]: "reason e \<noteq> ENOENT"
  by (simp add: reason_def)

interpretation memory: posix_files memory_posix mem_files mem_remaining mem_target "length \<circ> mem_script"
  by unfold_locales
    (auto simp: memory_calls Let_def fun_eq_iff neq_Nil_conv
      split: option.splits list.splits fault.splits if_splits prod.splits
      intro!: append_take_drop_id [symmetric])

end
