(* ===== verification/Session_Repository.thy ===== *)
theory Session_Repository
  imports Posix_Files Lifecycle_Session Ecsp_Message
begin

text \<open>
  \<open>src/src/persistence/session_state_repository.cpp\<close>: the managed state as a JSON file, over the system
  calls of \<open>Posix_Files\<close>.  The loops that retry interrupted calls are \<open>partial_function\<close>s: \<open>None\<close>
  would be a loop that never ends, and the theorems show there is none.  Descriptors are closed where
  the destructor of \<open>UniqueFd\<close> runs.
\<close>

section \<open>Results\<close>

record repository_status =
  rs_ok :: bool
  rs_error :: string

definition repository_success :: repository_status where
  "repository_success = \<lparr>rs_ok = True, rs_error = []\<rparr>"

definition repository_failure :: "string \<Rightarrow> repository_status" where
  "repository_failure message = \<lparr>rs_ok = False, rs_error = message\<rparr>"

record load_state_result =
  ls_ok :: bool
  ls_found :: bool
  ls_state :: managed_state
  ls_error :: string

definition kStateVersion :: u32 where "kStateVersion = 1"
definition kMaxStateFileBytes :: int where "kMaxStateFileBytes = 64 * 1024"

section \<open>Files\<close>

definition errno_message :: "'w posix \<Rightarrow> string \<Rightarrow> string \<Rightarrow> 'w \<Rightarrow> string" where
  "errno_message P operation path w = operation @ '' '' @ path @ '': '' @ px_strerror P (px_errno P w)"

definition parent_directory :: "string \<Rightarrow> string" where
  "parent_directory path =
     (if CHR ''/'' \<notin> set path then []
      else
        (let before = rev (tl (dropWhile (\<lambda>c. c \<noteq> CHR ''/'') (rev path)))
         in if before = [] then ''/'' else before))"

fun mkdir_parts :: "'w posix \<Rightarrow> string \<Rightarrow> string list \<Rightarrow> 'w \<Rightarrow> repository_status \<times> 'w" where
  "mkdir_parts P current [] w = (repository_success, w)"
| "mkdir_parts P current (part # parts) w =
     (if part = [] then mkdir_parts P current parts w
      else
        (let current = (if current \<noteq> [] \<and> last current \<noteq> CHR ''/'' then current @ ''/'' else current) @ part;
             (made, w) = px_mkdir P current w
         in if \<not> made \<and> px_errno P w \<noteq> EEXIST
            then (repository_failure (errno_message P ''mkdir'' current w), w)
            else mkdir_parts P current parts w))"

definition mkdir_p :: "'w posix \<Rightarrow> string \<Rightarrow> 'w \<Rightarrow> repository_status \<times> 'w" where
  "mkdir_p P directory w =
     (if directory = [] \<or> directory = ''.'' then (repository_success, w)
      else if hd directory = CHR ''/'' then mkdir_parts P ''/'' (split_on CHR ''/'' (tl directory)) w
      else mkdir_parts P [] (split_on CHR ''/'' directory) w)"

partial_function (option) write_all :: "'w posix \<Rightarrow> nat \<Rightarrow> string \<Rightarrow> 'w \<Rightarrow> (bool \<times> 'w) option" where
  "write_all P fd data w =
     (if data = [] then Some (True, w)
      else
        (case px_write P fd data w of
           (None, w) \<Rightarrow> (if px_errno P w = EINTR then write_all P fd data w else Some (False, w))
         | (Some written, w) \<Rightarrow>
             (if written = 0 then Some (False, w) else write_all P fd (drop written data) w)))"

text \<open>The text read, or nothing with an error, or nothing with no error for a missing file.\<close>

partial_function (option) read_rest ::
  "'w posix \<Rightarrow> string \<Rightarrow> nat \<Rightarrow> string \<Rightarrow> 'w \<Rightarrow> ((string option \<times> string) \<times> 'w) option" where
  "read_rest P path fd data w =
     (case px_read P fd 1024 w of
        (None, w) \<Rightarrow>
          (if px_errno P w = EINTR then read_rest P path fd data w
           else Some ((None, errno_message P ''read'' path w), w))
      | (Some bytes, w) \<Rightarrow>
          (if bytes = [] then Some ((Some data, []), w)
           else if kMaxStateFileBytes < int (length (data @ bytes))
           then Some ((None, ''managed-state file exceeded size limit''), w)
           else read_rest P path fd (data @ bytes) w))"

definition closing :: "'w posix \<Rightarrow> nat \<Rightarrow> ('a \<times> 'w) option \<Rightarrow> ('a \<times> 'w) option" where
  "closing P fd result = map_option (\<lambda>(a, w). (a, px_close P fd w)) result"

definition read_file_limited ::
  "'w posix \<Rightarrow> string \<Rightarrow> 'w \<Rightarrow> ((string option \<times> string) \<times> 'w) option" where
  "read_file_limited P path w =
     (case px_open_read P path w of
        (None, w) \<Rightarrow>
          (if px_errno P w = ENOENT then Some ((None, []), w)
           else Some ((None, errno_message P ''open'' path w), w))
      | (Some fd, w) \<Rightarrow>
          closing P fd
            (case px_fstat_size P fd w of
               (None, w) \<Rightarrow> Some ((None, errno_message P ''fstat'' path w), w)
             | (Some st_size, w) \<Rightarrow>
                 (if st_size < 0 \<or> kMaxStateFileBytes < st_size
                  then Some ((None, ''managed-state file is too large''), w)
                  else read_rest P path fd [] w)))"

section \<open>The state as JSON\<close>

definition required_string :: "jsonc \<Rightarrow> json \<Rightarrow> string \<Rightarrow> string option" where
  "required_string J root key = json_string J (object_member root key)"

definition optional_uint32 :: "jsonc \<Rightarrow> json \<Rightarrow> string \<Rightarrow> string \<Rightarrow> u32 option \<times> string" where
  "optional_uint32 J root key error =
     (let raw = object_member root key
      in if raw = JNull then (None, error)
         else
           (case json_int J raw of
              None \<Rightarrow> (None, ''invalid managed-state integer field: '' @ key)
            | Some value \<Rightarrow>
                (if sint value < 0 \<or> 2 ^ 32 - 1 < sint value
                 then (None, ''invalid managed-state integer field: '' @ key)
                 else (Some (ucast value), error))))"

definition append_optional_uint :: "string \<Rightarrow> u32 option \<Rightarrow> string" where
  "append_optional_uint key value =
     ''  \"'' @ key @ ''\": ''
     @ (case value of Some v \<Rightarrow> to_string_u v | None \<Rightarrow> ''null'') @ '','' @ [CHR 0x0A]"

definition state_json :: "managed_state \<Rightarrow> mac_address \<Rightarrow> string" where
  "state_json st parsed_mac =
     ''{'' @ [CHR 0x0A]
     @ append_optional_uint ''config_version'' (ms_config_version st)
     @ ''  \"controller_host\": '' @ quoted (ms_controller_host st) @ '','' @ [CHR 0x0A]
     @ ''  \"controller_id\": '' @ quoted (ms_controller_id st) @ '','' @ [CHR 0x0A]
     @ ''  \"mac\": '' @ quoted (normalized parsed_mac) @ '','' @ [CHR 0x0A]
     @ ''  \"manage_port\": '' @ to_string_u (ms_manage_port st) @ '','' @ [CHR 0x0A]
     @ append_optional_uint ''sequence_id'' (ms_sequence_id st)
     @ ''  \"site_id\": '' @ quoted (ms_site_id st) @ '','' @ [CHR 0x0A]
     @ ''  \"updated_at\": '' @ to_string_u (ms_updated_at st) @ '','' @ [CHR 0x0A]
     @ ''  \"username\": '' @ quoted (ms_username st) @ '','' @ [CHR 0x0A]
     @ ''  \"version\": '' @ to_string_u kStateVersion
     @ [CHR 0x0A] @ ''}'' @ [CHR 0x0A]"

definition ignored_state :: "string \<Rightarrow> load_state_result" where
  "ignored_state message =
     \<lparr>ls_ok = True, ls_found = False, ls_state = default_managed_state, ls_error = message\<rparr>"

section \<open>The repository\<close>

record json_repository =
  repo_path :: string
  repo_device_mac :: mac_address
  repo_controller_host :: string

text \<open>What \<open>load\<close> makes of the text of the file.\<close>

definition load_document :: "jsonc \<Rightarrow> json_repository \<Rightarrow> string \<Rightarrow> load_state_result" where
  "load_document J repo data =
    (let root = json_document_parse J data
     in if \<not> valid root then ignored_state ''managed-state root is not a JSON object''
        else if (case json_int J (object_member root ''version'') of
                   None \<Rightarrow> True | Some version \<Rightarrow> version \<noteq> ucast kStateVersion)
        then ignored_state ''unsupported managed-state version''
        else
          (case (required_string J root ''mac'', required_string J root ''controller_host'',
                 required_string J root ''controller_id'', json_int J (object_member root ''manage_port'')) of
             (Some raw_mac, Some host, Some controller, Some port) \<Rightarrow>
               (case parse_mac raw_mac of
                  None \<Rightarrow> ignored_state ''managed-state MAC is invalid''
                | Some parsed_mac \<Rightarrow>
                    (if normalized parsed_mac \<noteq> normalized (repo_device_mac repo)
                     then ignored_state ''managed-state belongs to another device MAC''
                     else if host \<noteq> repo_controller_host repo
                     then ignored_state ''managed-state belongs to another controller host''
                     else if controller = [] \<or> sint port \<le> 0 \<or> 65535 < sint port
                     then ignored_state ''managed-state is incomplete''
                     else
                       (let state = default_managed_state
                              \<lparr>ms_version := kStateVersion, ms_mac := normalized parsed_mac,
                               ms_controller_host := host, ms_controller_id := controller,
                               ms_manage_port := ucast port,
                               ms_site_id :=
                                 (case required_string J root ''site_id'' of Some s \<Rightarrow> s | None \<Rightarrow> []),
                               ms_username :=
                                 (case required_string J root ''username'' of Some s \<Rightarrow> s | None \<Rightarrow> [])\<rparr>;
                            (cv, field_error) = optional_uint32 J root ''config_version'' [];
                            state = state\<lparr>ms_config_version := cv\<rparr>
                        in if field_error \<noteq> [] then ignored_state field_error
                           else
                             (let (sid, field_error) = optional_uint32 J root ''sequence_id'' field_error;
                                  state = state\<lparr>ms_sequence_id := sid\<rparr>
                              in if field_error \<noteq> [] then ignored_state field_error
                                 else
                                   (let state =
                                          (case json_int J (object_member root ''updated_at'') of
                                             Some updated_at \<Rightarrow>
                                               (if 0 \<le> sint updated_at
                                                then state\<lparr>ms_updated_at := updated_at\<rparr> else state)
                                           | None \<Rightarrow> state)
                                    in \<lparr>ls_ok = True, ls_found = True, ls_state = state, ls_error = []\<rparr>)))))
           | _ \<Rightarrow> ignored_state ''managed-state is missing required identity fields''))"

definition repository_load ::
  "'w posix \<Rightarrow> jsonc \<Rightarrow> json_repository \<Rightarrow> 'w \<Rightarrow> (load_state_result \<times> 'w) option" where
  "repository_load P J repo w =
     (case read_file_limited P (repo_path repo) w of
        None \<Rightarrow> None
      | Some ((None, read_error), w) \<Rightarrow>
          (if read_error = []
           then Some (\<lparr>ls_ok = True, ls_found = False, ls_state = default_managed_state, ls_error = []\<rparr>, w)
           else Some (\<lparr>ls_ok = False, ls_found = False, ls_state = default_managed_state,
                       ls_error = read_error\<rparr>, w))
      | Some ((Some data, _), w) \<Rightarrow> Some (load_document J repo data, w))"

text \<open>The checks of \<open>save\<close> before it touches a file: the parsed address, or the refusal.\<close>

definition save_checks :: "json_repository \<Rightarrow> managed_state \<Rightarrow> string + mac_address" where
  "save_checks repo st =
     (if ms_version st \<noteq> kStateVersion then Inl ''managed-state version is unsupported''
      else
        (case parse_mac (ms_mac st) of
           None \<Rightarrow> Inl ''managed-state MAC is invalid''
         | Some parsed_mac \<Rightarrow>
             (if normalized parsed_mac \<noteq> normalized (repo_device_mac repo) \<or>
                 ms_controller_host st \<noteq> repo_controller_host repo
              then Inl ''managed-state identity does not match repository identity''
              else if ms_controller_id st = [] \<or> ms_manage_port st = 0
              then Inl ''managed-state is incomplete''
              else Inr parsed_mac)))"

text \<open>Opening, writing, syncing and closing the temporary file.\<close>

definition write_temporary ::
  "'w posix \<Rightarrow> string \<Rightarrow> string \<Rightarrow> 'w \<Rightarrow> (repository_status \<times> 'w) option" where
  "write_temporary P tmp_path data w =
     (case px_open_create P tmp_path w of
        (None, w) \<Rightarrow> Some (repository_failure (errno_message P ''open'' tmp_path w), w)
      | (Some fd, w) \<Rightarrow>
          closing P fd
            (case write_all P fd data w of
               None \<Rightarrow> None
             | Some (False, w) \<Rightarrow> Some (repository_failure (errno_message P ''write'' tmp_path w), w)
             | Some (True, w) \<Rightarrow>
                 (case px_fsync P fd w of
                    (False, w) \<Rightarrow> Some (repository_failure (errno_message P ''fsync'' tmp_path w), w)
                  | (True, w) \<Rightarrow> Some (repository_success, w))))"

definition sync_parent :: "'w posix \<Rightarrow> string \<Rightarrow> 'w \<Rightarrow> 'w" where
  "sync_parent P path w =
    (let parent = parent_directory path
     in if parent = [] then w
        else
          (case px_open_read P parent w of
             (None, w) \<Rightarrow> w
           | (Some fd, w) \<Rightarrow> px_close P fd (snd (px_fsync P fd w))))"

definition repository_save ::
  "'w posix \<Rightarrow> json_repository \<Rightarrow> managed_state \<Rightarrow> 'w \<Rightarrow> (repository_status \<times> 'w) option" where
  "repository_save P repo st w =
     (case save_checks repo st of
        Inl message \<Rightarrow> Some (repository_failure message, w)
      | Inr parsed_mac \<Rightarrow>
          (let path = repo_path repo;
               (mkdir_status, w) = mkdir_p P (parent_directory path) w
           in if \<not> rs_ok mkdir_status then Some (mkdir_status, w)
              else
                (let tmp_path = path @ ''.tmp''
                 in case write_temporary P tmp_path (state_json st parsed_mac) w of
                      None \<Rightarrow> None
                    | Some (status, w) \<Rightarrow>
                        (if \<not> rs_ok status then Some (status, w)
                         else
                           (case px_rename P tmp_path path w of
                              (False, w) \<Rightarrow> Some (repository_failure (errno_message P ''rename'' path w), w)
                            | (True, w) \<Rightarrow> Some (repository_success, sync_parent P path w))))))"

definition repository_clear :: "'w posix \<Rightarrow> json_repository \<Rightarrow> 'w \<Rightarrow> bool \<times> 'w" where
  "repository_clear P repo w =
     (case px_unlink P (repo_path repo) w of
        (True, w) \<Rightarrow> (True, w)
      | (False, w) \<Rightarrow> (px_errno P w = ENOENT, w))"

section \<open>Saving is all or nothing\<close>

lemma mkdir_parts_contents:
  "posix_files P contents remaining target patience \<Longrightarrow> mkdir_parts P current parts w = (st, w') \<Longrightarrow>
   contents w' = contents w"
proof (induction P current parts w rule: mkdir_parts.induct)
  case (2 P current part parts w)
  then show ?case
    using posix_files.mkdir_quiet [OF 2(3)]
    by (auto simp: Let_def split: prod.splits if_splits)
qed simp

lemma load_document_ok: "ls_ok (load_document J repo data)"
  by (simp add: load_document_def ignored_state_def Let_def split: option.splits prod.splits)

context posix_files
begin

lemma mkdir_p_contents: "mkdir_p P directory w = (st, w') \<Longrightarrow> contents w' = contents w"
  using mkdir_parts_contents [OF posix_files_axioms] by (auto simp: mkdir_p_def split: if_splits)

lemma write_all_appends:
  assumes "target w fd = Some p" "contents w p = Some c"
  shows "\<exists>b w' k. write_all P fd data w = Some (b, w') \<and> target w' fd = Some p \<and>
    contents w' = (contents w)(p := Some (c @ take k data)) \<and> (b \<longrightarrow> length data \<le> k)"
  using assms
proof (induction "(length data, patience w)" arbitrary: data w c
    rule: wf_induct_rule [OF wf_lex_prod [OF wf_less_than wf_less_than]])
  case (1 data w c)
  note IH = 1(1) and targeted = 1(2) and content = 1(3)
  show ?case
  proof (cases "data = []")
    case True
    with targeted content show ?thesis by (auto simp: write_all.simps)
  next
    case False
    obtain written w1 where call: "px_write P fd data w = (written, w1)" by (cases "px_write P fd data w") auto
    show ?thesis
    proof (cases written)
      case None
      with call write_failed [of fd data w w1 p] targeted
      have same: "contents w1 = contents w" "target w1 fd = Some p"
        and patience: "px_errno P w1 = EINTR \<longrightarrow> patience w1 < patience w" by auto
      show ?thesis
      proof (cases "px_errno P w1 = EINTR")
        case True
        with patience IH [of data w1 c] same content show ?thesis
          using \<open>data \<noteq> []\<close> call None by (subst write_all.simps) simp
      next
        case False
        then have "write_all P fd data w = Some (False, w1)"
          using \<open>data \<noteq> []\<close> call None by (subst write_all.simps) simp
        with same content show ?thesis by (intro exI [of _ False] exI [of _ w1] exI [of _ 0]) auto
      qed
    next
      case (Some n)
      with call write_ok [of fd data w n w1 p c] targeted content
      have step: "n \<le> length data" "contents w1 = (contents w)(p := Some (c @ take n data))" "target w1 fd = Some p"
        by auto
      show ?thesis
      proof (cases "n = 0")
        case True
        then have "write_all P fd data w = Some (False, w1)"
          using \<open>data \<noteq> []\<close> call Some by (subst write_all.simps) simp
        with step True content show ?thesis by (intro exI [of _ False] exI [of _ w1] exI [of _ 0]) auto
      next
        case False
        with step(1) have "length (drop n data) < length data" by simp
        with IH [of "drop n data" w1 "c @ take n data"] step
        obtain b w' k where rest: "write_all P fd (drop n data) w1 = Some (b, w')" "target w' fd = Some p"
          "contents w' = (contents w1)(p := Some ((c @ take n data) @ take k (drop n data)))"
          "b \<longrightarrow> length (drop n data) \<le> k"
          by auto
        have "write_all P fd data w = Some (b, w')"
          using \<open>data \<noteq> []\<close> call Some False rest(1) by (subst write_all.simps) simp
        moreover have "contents w' = (contents w)(p := Some (c @ take (n + k) data))"
          using rest(3) step(2) by (simp add: take_add)
        moreover have "b \<longrightarrow> length data \<le> n + k" using rest(4) by auto
        ultimately show ?thesis using rest(2) by blast
      qed
    qed
  qed
qed

lemma write_temporary_result:
  "\<exists>st w'. write_temporary P tmp data w = Some (st, w') \<and>
     (if rs_ok st then contents w' = (contents w)(tmp := Some data)
      else contents w' = (contents w)(tmp := contents w' tmp))"
proof -
  obtain fd w1 where create: "px_open_create P tmp w = (fd, w1)" by (cases "px_open_create P tmp w") auto
  show ?thesis
  proof (cases fd)
    case None
    with create open_create_failed show ?thesis
      by (simp add: write_temporary_def repository_failure_def)
  next
    case (Some n)
    with create open_create_ok have "contents w1 = (contents w)(tmp := Some [])" "target w1 n = Some tmp" by auto
    with write_all_appends [of w1 n tmp "[]" data]
    obtain b w2 k where written: "write_all P n data w1 = Some (b, w2)"
      "contents w2 = (contents w)(tmp := Some (take k data))" "b \<longrightarrow> length data \<le> k"
      by auto
    obtain s w3 where sync: "px_fsync P n w2 = (s, w3)" by (cases "px_fsync P n w2") auto
    show ?thesis
      using create Some written sync fsync_quiet [OF sync]
      by (cases b; cases s)
        (simp_all add: write_temporary_def closing_def close_quiet repository_failure_def repository_success_def)
  qed
qed

lemma sync_parent_contents: "contents (sync_parent P path w) = contents w"
proof -
  obtain fd w1 where opened: "px_open_read P (parent_directory path) w = (fd, w1)"
    by (cases "px_open_read P (parent_directory path) w") auto
  then have "contents w1 = contents w"
    using open_read_ok open_read_failed by (cases fd) blast+
  moreover have "contents (snd (px_fsync P n w1)) = contents w1" for n
    using fsync_quiet by (cases "px_fsync P n w1") auto
  ultimately show ?thesis
    using opened by (auto simp: sync_parent_def Let_def close_quiet split: option.splits)
qed

lemma repository_save_result:
  "\<exists>st w'. repository_save P repo state w = Some (st, w') \<and>
     (if rs_ok st
      then \<exists>m. save_checks repo state = Inr m \<and>
        contents w' = (contents w)(repo_path repo @ ''.tmp'' := None, repo_path repo := Some (state_json state m))
      else contents w' = (contents w)(repo_path repo @ ''.tmp'' := contents w' (repo_path repo @ ''.tmp'')))"
proof (cases "save_checks repo state")
  case (Inl message)
  then show ?thesis by (simp add: repository_save_def repository_failure_def)
next
  case (Inr m)
  let ?path = "repo_path repo"
  let ?tmp = "?path @ ''.tmp''"
  obtain ms w1 where made: "mkdir_p P (parent_directory ?path) w = (ms, w1)"
    by (cases "mkdir_p P (parent_directory ?path) w") auto
  then have same: "contents w1 = contents w" by (rule mkdir_p_contents)
  obtain ts w2 where tmp: "write_temporary P ?tmp (state_json state m) w1 = Some (ts, w2)"
    "if rs_ok ts then contents w2 = (contents w)(?tmp := Some (state_json state m))
     else contents w2 = (contents w)(?tmp := contents w2 ?tmp)"
    using write_temporary_result [of ?tmp "state_json state m" w1] unfolding same by blast
  obtain b w3 where renamed: "px_rename P ?tmp ?path w2 = (b, w3)" by (cases "px_rename P ?tmp ?path w2") auto
  show ?thesis
  proof (cases "rs_ok ms \<and> rs_ok ts")
    case False
    then show ?thesis
      using Inr made tmp same by (auto simp: repository_save_def Let_def)
  next
    case True
    then show ?thesis
      using Inr made tmp renamed rename_ok [of ?tmp ?path w2 w3 "state_json state m"] rename_failed [of ?tmp ?path w2 w3]
      by (cases b) (simp_all add: repository_save_def repository_failure_def repository_success_def
          sync_parent_contents)
  qed
qed

text \<open>Reading delivers the whole file, or an error, or nothing for a missing file.\<close>

lemma read_rest_result:
  assumes "remaining w fd = Some r" "int (length data) \<le> kMaxStateFileBytes"
  shows "\<exists>t e w'. read_rest P path fd data w = Some ((t, e), w') \<and> contents w' = contents w \<and>
    (t = Some (data @ r) \<and> int (length (data @ r)) \<le> kMaxStateFileBytes \<or> t = None \<and> e \<noteq> [])"
  using assms
proof (induction "(length r, patience w)" arbitrary: r data w
    rule: wf_induct_rule [OF wf_lex_prod [OF wf_less_than wf_less_than]])
  case (1 r w data)
  note IH = 1(1) and rest = 1(2) and bounded = 1(3)
  obtain bytes w1 where call: "px_read P fd 1024 w = (bytes, w1)" by (cases "px_read P fd 1024 w") auto
  show ?case
  proof (cases bytes)
    case None
    with call read_failed [of fd 1024 w w1 r] rest
    have same: "contents w1 = contents w" "remaining w1 fd = Some r"
      and patience: "px_errno P w1 = EINTR \<longrightarrow> patience w1 < patience w" by auto
    show ?thesis
    proof (cases "px_errno P w1 = EINTR")
      case True
      with patience IH [of r w1 data] same bounded show ?thesis
        using call None by (subst read_rest.simps) simp
    next
      case False
      with call None same show ?thesis by (subst read_rest.simps) (simp add: errno_message_def)
    qed
  next
    case (Some b)
    have "px_read P fd 1024 w = (Some b, w1)" using call Some by simp
    from read_ok [OF this rest zero_less_numeral] obtain r' where
      step: "contents w1 = contents w" "b = [] \<longleftrightarrow> r = []" "r = b @ r'" "remaining w1 fd = Some r'"
      by (elim conjE exE)
    show ?thesis
    proof (cases "b = []")
      case True
      with call Some step bounded show ?thesis by (subst read_rest.simps) simp
    next
      case False
      then have shorter: "length r' < length r" using step(3) by (cases b) auto
      show ?thesis
      proof (cases "kMaxStateFileBytes < int (length (data @ b))")
        case True
        with call Some step False show ?thesis by (subst read_rest.simps) simp
      next
        case False
        with shorter IH [of r' w1 "data @ b"] step
        obtain t e w' where "read_rest P path fd (data @ b) w1 = Some ((t, e), w')" "contents w' = contents w"
          "t = Some (data @ r) \<and> int (length (data @ r)) \<le> kMaxStateFileBytes \<or> t = None \<and> e \<noteq> []"
          by fastforce
        with \<open>b \<noteq> []\<close> False call Some show ?thesis by (subst read_rest.simps) simp
      qed
    qed
  qed
qed

lemma read_file_limited_result:
  "\<exists>t e w'. read_file_limited P path w = Some ((t, e), w') \<and> contents w' = contents w \<and>
     (case t of
        Some c \<Rightarrow> contents w path = Some c \<and> int (length c) \<le> kMaxStateFileBytes
      | None \<Rightarrow> e = [] \<longleftrightarrow> contents w path = None)"
proof -
  obtain fd w1 where opened: "px_open_read P path w = (fd, w1)" by (cases "px_open_read P path w") auto
  show ?thesis
  proof (cases fd)
    case None
    with opened open_read_failed [of path w w1] show ?thesis
      by (simp add: read_file_limited_def errno_message_def)
  next
    case (Some n)
    with opened open_read_ok [of path w n w1] obtain c where
      content: "contents w path = Some c" "contents w1 = contents w" "remaining w1 n = Some c"
      by (cases "contents w path") auto
    obtain sz w2 where stat: "px_fstat_size P n w1 = (sz, w2)" by (cases "px_fstat_size P n w1") auto
    from fstat_size [OF stat content(3)]
    have after: "contents w2 = contents w1" "remaining w2 n = Some c" by auto
    obtain t e w3 where "read_rest P path n [] w2 = Some ((t, e), w3)" "contents w3 = contents w2"
      "t = Some c \<and> int (length c) \<le> kMaxStateFileBytes \<or> t = None \<and> e \<noteq> []"
      using read_rest_result [of w2 n c "[]" path] after(2) by (auto simp: kMaxStateFileBytes_def)
    then show ?thesis
      using opened Some content stat after
      by (cases sz) (auto simp: read_file_limited_def closing_def close_quiet errno_message_def)
  qed
qed

lemma repository_load_result:
  "\<exists>r w'. repository_load P J repo w = Some (r, w') \<and> contents w' = contents w \<and>
     (case contents w (repo_path repo) of
        None \<Rightarrow> ls_ok r \<and> \<not> ls_found r
      | Some c \<Rightarrow>
          (if ls_ok r then r = load_document J repo c \<and> int (length c) \<le> kMaxStateFileBytes
           else \<not> ls_found r))"
proof -
  obtain t e w' where read: "read_file_limited P (repo_path repo) w = Some ((t, e), w')"
    "contents w' = contents w"
    "case t of Some c \<Rightarrow> contents w (repo_path repo) = Some c \<and> int (length c) \<le> kMaxStateFileBytes
       | None \<Rightarrow> e = [] \<longleftrightarrow> contents w (repo_path repo) = None"
    using read_file_limited_result by blast
  show ?thesis
    using read load_document_ok [of J repo]
    by (cases t) (auto simp: repository_load_def split: option.splits)
qed

lemma repository_clear_result:
  "repository_clear P repo w = (b, w') \<Longrightarrow>
     (if b then contents w' = (contents w)(repo_path repo := None) else contents w' = contents w)"
  using unlink_ok unlink_failed
  by (fastforce simp: repository_clear_def split: prod.splits bool.splits)

end

section \<open>The value of the file\<close>

definition optional_value :: "u32 option \<Rightarrow> json" where
  "optional_value value = (case value of Some v \<Rightarrow> unsigned_value v | None \<Rightarrow> JNull)"

definition state_value :: "managed_state \<Rightarrow> mac_address \<Rightarrow> json" where
  "state_value st m =
     JObject
       [(''config_version'', optional_value (ms_config_version st)),
        (''controller_host'', JString (ms_controller_host st)),
        (''controller_id'', JString (ms_controller_id st)),
        (''mac'', JString (normalized m)),
        (''manage_port'', unsigned_value (ms_manage_port st)),
        (''sequence_id'', optional_value (ms_sequence_id st)),
        (''site_id'', JString (ms_site_id st)),
        (''updated_at'', unsigned_value (ms_updated_at st)),
        (''username'', JString (ms_username st)),
        (''version'', unsigned_value kStateVersion)]"

lemma json_text_unsigned: "json_text (unsigned_value w) (to_string_u w)"
  using json_text_render [of "unsigned_value w"] by simp

lemma json_text_optional:
  "json_text (optional_value v) (case v of Some v \<Rightarrow> to_string_u v | None \<Rightarrow> ''null'')"
  by (cases v) (simp_all add: optional_value_def json_text_unsigned jt_null)

lemma line_text:
  assumes "json_text v t" "plain k" "white w"
  shows "members_text [(k, v)] (CHR 0x0A # ''  \"'' @ k @ ''\": '' @ t @ w)"
proof -
  have "string_text k k" using string_text_json_escape [of k] json_escape_plain [OF assms(2)] by simp
  from mt_last [OF _ this _ _ assms(1,3), of "CHR 0x0A # ''  ''" "[]" "'' ''"] show ?thesis
    by (simp add: white_def)
qed

lemma more_line_text:
  assumes "json_text v t" "plain k" "members_text kvs (CHR 0x0A # r)"
  shows "members_text ((k, v) # kvs) (CHR 0x0A # ''  \"'' @ k @ ''\": '' @ t @ '','' @ CHR 0x0A # r)"
  using members_text_append [OF line_text [OF assms(1,2), of "[]"] assms(3)] by (simp add: white_def)

lemma state_json_text:
  "\<exists>t. state_json st m = t @ [CHR 0x0A] \<and> json_text (state_value st m) t"
proof -
  have "members_text
      [(''config_version'', optional_value (ms_config_version st)),
        (''controller_host'', JString (ms_controller_host st)),
        (''controller_id'', JString (ms_controller_id st)),
        (''mac'', JString (normalized m)),
        (''manage_port'', unsigned_value (ms_manage_port st)),
        (''sequence_id'', optional_value (ms_sequence_id st)),
        (''site_id'', JString (ms_site_id st)),
        (''updated_at'', unsigned_value (ms_updated_at st)),
        (''username'', JString (ms_username st)),
        (''version'', unsigned_value kStateVersion)]
      (CHR 0x0A # ''  \"'' @ ''config_version'' @ ''\": '' @
         (case ms_config_version st of Some v \<Rightarrow> to_string_u v | None \<Rightarrow> ''null'') @ '','' @
       CHR 0x0A # ''  \"'' @ ''controller_host'' @ ''\": '' @ quoted (ms_controller_host st) @ '','' @
       CHR 0x0A # ''  \"'' @ ''controller_id'' @ ''\": '' @ quoted (ms_controller_id st) @ '','' @
       CHR 0x0A # ''  \"'' @ ''mac'' @ ''\": '' @ quoted (normalized m) @ '','' @
       CHR 0x0A # ''  \"'' @ ''manage_port'' @ ''\": '' @ to_string_u (ms_manage_port st) @ '','' @
       CHR 0x0A # ''  \"'' @ ''sequence_id'' @ ''\": '' @
         (case ms_sequence_id st of Some v \<Rightarrow> to_string_u v | None \<Rightarrow> ''null'') @ '','' @
       CHR 0x0A # ''  \"'' @ ''site_id'' @ ''\": '' @ quoted (ms_site_id st) @ '','' @
       CHR 0x0A # ''  \"'' @ ''updated_at'' @ ''\": '' @ to_string_u (ms_updated_at st) @ '','' @
       CHR 0x0A # ''  \"'' @ ''username'' @ ''\": '' @ quoted (ms_username st) @ '','' @
       CHR 0x0A # ''  \"'' @ ''version'' @ ''\": '' @ to_string_u kStateVersion @ [CHR 0x0A])"
    by (intro more_line_text line_text json_text_optional json_text_quoted json_text_unsigned)
      (simp_all add: plain_def code_def white_def)
  from json_text_members [OF this] show ?thesis
    unfolding state_value_def state_json_def append_optional_uint_def
    by (intro exI conjI) (assumption | simp)+
qed

section \<open>Round trip\<close>

lemma sint_of_uint:
  assumes "uint (w::'a::len word) \<le> i64_max"
  shows "sint (ucast w :: i64) = uint w"
proof -
  have "- (2 ^ 63) \<le> uint w" by (rule order_trans [OF _ uint_nonnegative]) simp
  moreover have "uint w < 2 ^ 63" using assms by (simp add: i64_max_def)
  ultimately show ?thesis
    by (simp add: signed_ucast_eq signed_take_bit_int_eq_self_iff)
qed

lemma json_int_unsigned:
  "jsonc_ints J \<Longrightarrow> uint (w::'a::len word) \<le> i64_max \<Longrightarrow>
   json_int J (unsigned_value w) = Some (ucast w)"
  unfolding unsigned_value_def
  by (subst json_int_JInt) (auto simp: i64_min_def intro: order_trans [OF _ uint_nonnegative])

lemma word_small:
  "uint (v::u32) \<le> i64_max" "uint (v::u32) \<le> 2 ^ 32 - 1" "uint (p::u16) \<le> i64_max" "uint (p::u16) \<le> 65535"
  using uint_lt2p [of v] uint_lt2p [of p] by (simp_all add: i64_max_def)

lemma ucast_of_uint:
  "(ucast (ucast (v::u32) :: i64) :: u32) = v"
  "(ucast (ucast (p::u16) :: i64) :: u16) = p"
  by (rule bit_word_eqI, simp add: bit_simps)+

lemma optional_uint32_value:
  assumes "jsonc_ints J" "object_member root key = optional_value v"
  shows "optional_uint32 J root key e = (v, e)"
proof (cases v)
  case None
  with assms show ?thesis by (simp add: optional_uint32_def optional_value_def)
next
  case (Some x)
  have "sint (ucast x :: i64) = uint x" by (rule sint_of_uint [OF word_small(1)])
  moreover have "\<not> uint x < 0" using uint_nonnegative [of x] by simp
  moreover have "\<not> 2 ^ 32 - 1 < uint x" using word_small(2) [of x] by simp
  moreover have "unsigned_value x \<noteq> JNull" by (simp add: unsigned_value_def)
  ultimately show ?thesis
    using assms Some by (simp add: optional_uint32_def optional_value_def json_int_unsigned word_small ucast_of_uint
        del: One_nat_def)
qed

text \<open>The states that survive a save and a load, and what they come back as.\<close>

definition durable_state :: "jsonc \<Rightarrow> json_repository \<Rightarrow> managed_state \<Rightarrow> bool" where
  "durable_state J repo st \<longleftrightarrow>
     jsonc_strings J \<and> jsonc_ints J \<and>
     (case save_checks repo st of
        Inl _ \<Rightarrow> False
      | Inr m \<Rightarrow> jc_parse J (state_json st m) = Some (state_value st m) \<and>
          int (length (state_json st m)) \<le> kMaxStateFileBytes) \<and>
     list_all (\<lambda>s. CHR 0x00 \<notin> set s)
       [ms_controller_host st, ms_controller_id st, ms_site_id st, ms_username st] \<and>
     uint (ms_updated_at st) \<le> i64_max"

definition canonical_state :: "json_repository \<Rightarrow> managed_state \<Rightarrow> managed_state" where
  "canonical_state repo st = st\<lparr>ms_mac := normalized (repo_device_mac repo)\<rparr>"

lemma normalized_no_nul: "CHR 0x00 \<notin> set (normalized m)"
proof -
  have hex: "CHR 0x00 \<noteq> lower_hex b" for b
  proof
    assume eq: "CHR 0x00 = lower_hex b"
    have "32 \<le> code (lower_hex b)" using is_hex_plain [OF is_hex_lower, of b] by simp
    then show False unfolding eq [symmetric] by (simp add: code_def)
  qed
  show ?thesis by (cases m) (simp add: normalized_def hex)
qed

lemma load_document_state_json:
  assumes "durable_state J repo st" "save_checks repo st = Inr m"
  shows "load_document J repo (state_json st m) =
    \<lparr>ls_ok = True, ls_found = True, ls_state = canonical_state repo st, ls_error = []\<rparr>"
proof -
  let ?root = "state_value st m"
  have J: "jsonc_strings J" "jsonc_ints J" "jc_parse J (state_json st m) = Some ?root"
    and small: "uint (ms_updated_at st) \<le> i64_max"
    and texts: "CHR 0x00 \<notin> set (ms_controller_host st)" "CHR 0x00 \<notin> set (ms_controller_id st)"
      "CHR 0x00 \<notin> set (ms_site_id st)" "CHR 0x00 \<notin> set (ms_username st)"
    using assms by (simp_all add: durable_state_def)
  have checks: "ms_version st = kStateVersion" "normalized m = normalized (repo_device_mac repo)"
    "ms_controller_host st = repo_controller_host repo" "ms_controller_id st \<noteq> []" "ms_manage_port st \<noteq> 0"
    using assms(2) by (auto simp: save_checks_def split: if_splits option.splits)
  have root: "json_document_parse J (state_json st m) = ?root" "valid ?root"
    using J(3) by (simp_all add: json_document_parse_def state_value_def valid_def)
  have member: "object_member ?root ''version'' = unsigned_value kStateVersion"
    "object_member ?root ''mac'' = JString (normalized m)"
    "object_member ?root ''controller_host'' = JString (ms_controller_host st)"
    "object_member ?root ''controller_id'' = JString (ms_controller_id st)"
    "object_member ?root ''manage_port'' = unsigned_value (ms_manage_port st)"
    "object_member ?root ''site_id'' = JString (ms_site_id st)"
    "object_member ?root ''username'' = JString (ms_username st)"
    "object_member ?root ''config_version'' = optional_value (ms_config_version st)"
    "object_member ?root ''sequence_id'' = optional_value (ms_sequence_id st)"
    "object_member ?root ''updated_at'' = unsigned_value (ms_updated_at st)"
    by (simp_all add: state_value_def)
  have version: "json_int J (unsigned_value kStateVersion) = Some (ucast kStateVersion)"
    using json_int_unsigned [OF J(2) word_small(1), of kStateVersion] by (simp add: kStateVersion_def)
  have port: "sint (ucast (ms_manage_port st) :: i64) = uint (ms_manage_port st)"
    "\<not> uint (ms_manage_port st) \<le> 0" "\<not> 65535 < uint (ms_manage_port st)"
    using sint_of_uint [OF word_small(3)] word_small(4) checks(5) uint_nonnegative [of "ms_manage_port st"]
    by (simp_all add: order_le_less unsigned_eq_0_iff not_less)
  have stamp: "sint (ms_updated_at st) = uint (ms_updated_at st)" "0 \<le> uint (ms_updated_at st)"
    using sint_of_uint [OF small] by (simp_all add: uint_nonnegative)
  have "parse_mac (normalized m) = Some m"
    by (simp add: parse_mac_of_nibbles nibbles_of_printed)
  with J checks root member version port stamp texts show ?thesis
    by (simp add: load_document_def required_string_def json_string_JString c_string_id normalized_no_nul
        json_int_unsigned word_small small optional_uint32_value ucast_of_uint canonical_state_def
        default_managed_state_def)
qed

section \<open>The contract of a state repository\<close>

text \<open>
  What the daemon expects of a \<open>SessionStateRepository\<close>: there is a kept state; \<open>load\<close> never reports
  another one, \<open>save\<close> replaces it or leaves it, \<open>clear\<close> drops it or leaves it, and all of them return.
\<close>

locale session_store =
  fixes load :: "'w \<Rightarrow> (load_state_result \<times> 'w) option"
    and save :: "managed_state \<Rightarrow> 'w \<Rightarrow> (repository_status \<times> 'w) option"
    and clear :: "'w \<Rightarrow> bool \<times> 'w"
    and kept :: "'w \<Rightarrow> managed_state option"
    and durable :: "managed_state \<Rightarrow> bool"
    and canonical :: "managed_state \<Rightarrow> managed_state"
  assumes load_truth: "\<exists>r w'. load w = Some (r, w') \<and> kept w' = kept w \<and>
      (if ls_ok r then (if ls_found r then kept w = Some (ls_state r) else kept w = None) else \<not> ls_found r)"
    and save_result: "\<exists>s w'. save st w = Some (s, w') \<and>
      (if rs_ok s then durable st \<longrightarrow> kept w' = Some (canonical st) else kept w' = kept w)"
    and clear_result: "clear w = (b, w') \<Longrightarrow> kept w' = (if b then None else kept w)"

context session_store
begin

lemma load_after_save:
  assumes "save st w = Some (s, w1)" "rs_ok s" "durable st"
  shows "\<exists>r w2. load w1 = Some (r, w2) \<and>
    (if ls_ok r then ls_found r \<and> ls_state r = canonical st else \<not> ls_found r)"
proof -
  from assms save_result [of st w] have kept: "kept w1 = Some (canonical st)" by auto
  obtain r w2 where "load w1 = Some (r, w2)"
    "if ls_ok r then (if ls_found r then kept w1 = Some (ls_state r) else kept w1 = None) else \<not> ls_found r"
    using load_truth [of w1] by blast
  with kept show ?thesis by (auto split: if_splits)
qed

lemma load_after_clear:
  assumes "clear w = (True, w1)"
  shows "\<exists>r w2. load w1 = Some (r, w2) \<and> \<not> ls_found r"
  using load_truth [of w1] clear_result [OF assms] by (auto split: if_splits)

lemma load_after_failed_save:
  assumes "save st w = Some (s, w1)" "\<not> rs_ok s"
  shows "kept w1 = kept w"
  using assms save_result [of st w] by auto

end

definition kept_state :: "jsonc \<Rightarrow> json_repository \<Rightarrow> string option \<Rightarrow> managed_state option" where
  "kept_state J repo file =
     (case file of
        None \<Rightarrow> None
      | Some c \<Rightarrow>
          (let r = load_document J repo c
           in if ls_found r \<and> int (length c) \<le> kMaxStateFileBytes then Some (ls_state r) else None))"

lemma posix_session_store:
  assumes "posix_files P contents remaining target patience"
  shows "session_store (repository_load P J repo) (repository_save P repo) (repository_clear P repo)
    (\<lambda>w. kept_state J repo (contents w (repo_path repo))) (durable_state J repo) (canonical_state repo)"
proof (unfold_locales, goal_cases)
  case (1 w)
  obtain r w' where "repository_load P J repo w = Some (r, w')" "contents w' = contents w"
    "case contents w (repo_path repo) of None \<Rightarrow> ls_ok r \<and> \<not> ls_found r
     | Some c \<Rightarrow> (if ls_ok r then r = load_document J repo c \<and> int (length c) \<le> kMaxStateFileBytes
                 else \<not> ls_found r)"
    using posix_files.repository_load_result [OF assms, of J repo w] by blast
  then show ?case
    by (cases "contents w (repo_path repo)") (auto simp: kept_state_def Let_def)
next
  case (2 st w)
  obtain s w' where saved: "repository_save P repo st w = Some (s, w')"
    "if rs_ok s
     then \<exists>m. save_checks repo st = Inr m \<and>
       contents w' = (contents w)(repo_path repo @ ''.tmp'' := None, repo_path repo := Some (state_json st m))
     else contents w' = (contents w)(repo_path repo @ ''.tmp'' := contents w' (repo_path repo @ ''.tmp''))"
    using posix_files.repository_save_result [OF assms, of repo st w] by blast
  show ?case
  proof (cases "rs_ok s")
    case True
    with saved obtain m where m: "save_checks repo st = Inr m"
      "contents w' (repo_path repo) = Some (state_json st m)" by auto
    have "kept_state J repo (contents w' (repo_path repo)) = Some (canonical_state repo st)"
      if "durable_state J repo st"
      using that m load_document_state_json [OF that m(1)] by (simp add: kept_state_def durable_state_def)
    with saved True show ?thesis by auto
  next
    case False
    with saved(2) have "contents w' (repo_path repo) = contents w (repo_path repo)"
      by (metis append_self_conv fun_upd_other list.distinct(1))
    with saved(1) False show ?thesis by auto
  qed
next
  case (3 w b w')
  from posix_files.repository_clear_result [OF assms 3] show ?case
    by (auto simp: kept_state_def split: if_splits)
qed

interpretation memory_store: session_store "repository_load memory_posix J repo" "repository_save memory_posix repo"
  "repository_clear memory_posix repo" "\<lambda>w. kept_state J repo (mem_files w (repo_path repo))"
  "durable_state J repo" "canonical_state repo" for J repo
  by (rule posix_session_store [OF memory.posix_files_axioms])

section \<open>Properties\<close>

text \<open>
  C20. Saving the state is all or nothing and always returns, whichever system calls fail, are
  interrupted or write only part: when it reports success the file holds exactly the printed state and
  the temporary file is gone; when it reports failure no file but the temporary one has changed.
\<close>

theorem state_save_atomic:
  assumes "posix_files P contents remaining target patience"
  shows "case repository_save P repo st w of
     None \<Rightarrow> False
   | Some (status, w') \<Rightarrow>
       (if rs_ok status
        then \<exists>m. save_checks repo st = Inr m \<and>
          contents w' = (contents w)(repo_path repo @ ''.tmp'' := None, repo_path repo := Some (state_json st m))
        else contents w' = (contents w)(repo_path repo @ ''.tmp'' := contents w' (repo_path repo @ ''.tmp'')))"
  using posix_files.repository_save_result [OF assms, of repo st w] by (elim exE conjE) simp


text \<open>A run whose first write is interrupted.\<close>

definition sample_state :: managed_state where
  "sample_state = default_managed_state
     \<lparr>ms_mac := normalized default_mac, ms_controller_id := ''c1'', ms_config_version := Some 7\<rparr>"

definition sample_repository :: json_repository where
  "sample_repository = \<lparr>repo_path = ''state'', repo_device_mac = default_mac, repo_controller_host = []\<rparr>"

definition sample_files :: memory_fs where
  "sample_files =
     \<lparr>mem_files = (\<lambda>_. None), mem_remaining = (\<lambda>_. None), mem_target = (\<lambda>_. None), mem_next_fd = 3,
      mem_errno = EIO, mem_script = [Smooth, Refuse EINTR]\<rparr>"

lemma sample_checks: "save_checks sample_repository sample_state = Inr default_mac"
  by (simp add: save_checks_def sample_repository_def sample_state_def default_managed_state_def kStateVersion_def
      parse_mac_of_nibbles nibbles_of_printed)

lemma sample_save:
  "\<exists>w. repository_save memory_posix sample_repository sample_state sample_files = Some (repository_success, w)"
proof -
  have printed: "state_json sample_state default_mac \<noteq> []" by (simp add: state_json_def)
  show ?thesis
    unfolding repository_save_def sample_checks write_temporary_def
    by (simp add: sample_repository_def sample_files_def parent_directory_def mkdir_p_def closing_def
        sync_parent_def repository_success_def memory_calls Let_def)
      (subst write_all.simps, simp add: memory_calls printed reason_def,
       subst write_all.simps, simp add: memory_calls printed, subst write_all.simps,
       simp add: memory_calls repository_success_def)
qed

lemma plain_normalized: "plain (normalized m)"
proof -
  have lower: "32 \<le> code (lower_hex b)" "lower_hex b \<noteq> CHR 0x22" "lower_hex b \<noteq> CHR 0x5C" for b
    using is_hex_plain [OF is_hex_lower] by auto
  have colon: "32 \<le> code CHR '':''" by (simp add: code_def)
  show ?thesis by (cases m) (simp add: normalized_def plain_def lower colon)
qed

lemma sample_length: "int (length (state_json sample_state default_mac)) \<le> kMaxStateFileBytes"
  by (simp add: state_json_def append_optional_uint_def sample_state_def default_managed_state_def
      quoted_plain plain_normalized to_string_u_def dec.simps kMaxStateFileBytes_def kStateVersion_def
      plain_def [of "[]"] plain_def [of "''c1''"] code_def)

theorem state_save_atomic_witness:
  "\<exists>w'. repository_save memory_posix sample_repository sample_state sample_files = Some (repository_success, w') \<and>
     mem_files w' ''state'' = Some (state_json sample_state default_mac)"
proof -
  from sample_save obtain w' where
    saved: "repository_save memory_posix sample_repository sample_state sample_files = Some (repository_success, w')"
    by blast
  from state_save_atomic [OF memory.posix_files_axioms, of sample_repository sample_state sample_files] saved
  show ?thesis
    by (auto simp: repository_success_def sample_checks) (simp add: sample_repository_def)
qed


end
