(* ===== verification/Tls_Transport.thy ===== *)
theory Tls_Transport
  imports Frame_Codec Frame_Transport
begin

text \<open>
  \<open>src/src/transport/tls_client.cpp\<close>: the framed messages over a TLS connection.  OpenSSL is a
  parameter, the record \<open>ssl_calls\<close>; the locale \<open>byte_stream\<close> states what it documents, that a
  connection is a pair of byte streams whose calls may move any number of bytes.  The object is its
  three fields and the world; the calls that set up and tear down the connection are one operation of
  the library each, \<open>tls_call\<close>, of which only the success is looked at.  Sizes are passed to OpenSSL as
  \<open>int\<close>; frames are far below its limit.
\<close>

datatype ssl_error = WantRead | WantWrite | ZeroReturn | OtherSslError

text \<open>
  \<open>ssl_read n\<close> returns the bytes read, none if the call returned zero or less; \<open>ssl_write\<close> the number
  of bytes taken, zero if the call returned zero or less.
\<close>

record 'w ssl_calls =
  ssl_read :: "nat \<Rightarrow> 'w \<Rightarrow> string \<times> 'w"
  ssl_write :: "string \<Rightarrow> 'w \<Rightarrow> nat \<times> 'w"
  ssl_get_error :: "'w \<Rightarrow> ssl_error"
  err_get_error :: "'w \<Rightarrow> u64 \<times> 'w"
  err_error_string :: "u64 \<Rightarrow> string"
  errno_text :: "'w \<Rightarrow> string"

record 'w tls_object =
  tls_socket :: bool
  tls_ctx :: bool
  tls_ssl :: bool
  tls_world :: 'w

definition openssl_error :: "'w ssl_calls \<Rightarrow> string \<Rightarrow> 'w \<Rightarrow> string \<times> 'w" where
  "openssl_error C prefix w =
    (let (code, w) = err_get_error C w
     in if code = 0 then (prefix @ '': '' @ errno_text C w, w)
        else (prefix @ '': '' @ err_error_string C code, w))"

section \<open>Exact reads and writes\<close>

text \<open>The bytes, or the flag \<open>timeout\<close> and the error text; what was read before a failure is gone.\<close>

function ssl_read_exact ::
  "'w ssl_calls \<Rightarrow> nat \<Rightarrow> 'w \<Rightarrow> ((bool \<times> string) + string) \<times> 'w" where
  "ssl_read_exact C wanted w =
     (if wanted = 0 then (Inr [], w)
      else
        (let (bytes, w) = ssl_read C wanted w
         in if bytes \<noteq> []
            then
              (case ssl_read_exact C (wanted - length bytes) w of
                 (Inr rest, w) \<Rightarrow> (Inr (bytes @ rest), w)
               | (Inl failed, w) \<Rightarrow> (Inl failed, w))
            else if ssl_get_error C w = WantRead \<or> ssl_get_error C w = WantWrite
            then (Inl (True, ''TLS read timeout''), w)
            else if ssl_get_error C w = ZeroReturn
            then (Inl (False, ''TLS peer closed connection''), w)
            else (let (text, w) = openssl_error C ''SSL_read'' w in (Inl (False, text), w))))"
  by pat_completeness auto

termination
  by (relation "measure (\<lambda>(C, wanted, w). wanted)") auto

declare ssl_read_exact.simps [simp del]

text \<open>The error text, or nothing; \<open>None\<close> would be a connection that can never write again.\<close>

partial_function (option) ssl_write_all ::
  "'w ssl_calls \<Rightarrow> string \<Rightarrow> 'w \<Rightarrow> (string option \<times> 'w) option" where
  "ssl_write_all C data w =
     (if data = [] then Some (None, w)
      else
        (case ssl_write C data w of
           (n, w) \<Rightarrow>
             (if 0 < n then ssl_write_all C (drop n data) w
              else if ssl_get_error C w = WantRead \<or> ssl_get_error C w = WantWrite
              then ssl_write_all C data w
              else (case openssl_error C ''SSL_write'' w of (text, w) \<Rightarrow> Some (Some text, w)))))"

section \<open>Frames\<close>

definition tls_send_payload ::
  "'w ssl_calls \<Rightarrow> string \<Rightarrow> 'w tls_object \<Rightarrow> (transport_status \<times> 'w tls_object) option" where
  "tls_send_payload C payload obj =
     (if \<not> tls_ssl obj then Some (status_failure ''TLS transport is not connected'', obj)
      else
        (case ssl_write_all C (encode_frame payload) (tls_world obj) of
           None \<Rightarrow> None
         | Some (Some error, w) \<Rightarrow> Some (status_failure error, obj\<lparr>tls_world := w\<rparr>)
         | Some (None, w) \<Rightarrow> Some (status_success, obj\<lparr>tls_world := w\<rparr>)))"

definition tls_receive_payload :: "'w ssl_calls \<Rightarrow> 'w tls_object \<Rightarrow> receive_result \<times> 'w tls_object" where
  "tls_receive_payload C obj =
    (let result = default_receive_result
     in if \<not> tls_ssl obj then (result\<lparr>rr_error := ''TLS transport is not connected''\<rparr>, obj)
        else
          (case ssl_read_exact C kLengthSize (tls_world obj) of
             (Inl (timeout, error), w) \<Rightarrow>
               (result\<lparr>rr_timeout := timeout, rr_error := error\<rparr>, obj\<lparr>tls_world := w\<rparr>)
           | (Inr prefix, w) \<Rightarrow>
               (let len = frame_length prefix
                in if len = 0 \<or> kMaxTcpPayload < unat len
                   then (result\<lparr>rr_error := ''invalid ECSP TCP payload length''\<rparr>, obj\<lparr>tls_world := w\<rparr>)
                   else
                     (case ssl_read_exact C (unat len) w of
                        (Inl (timeout, error), w) \<Rightarrow>
                          (result\<lparr>rr_timeout := timeout, rr_error := error\<rparr>, obj\<lparr>tls_world := w\<rparr>)
                      | (Inr body, w) \<Rightarrow>
                          (let decoded = decode_frame (Some (prefix @ body)) kMaxTcpPayload
                           in if \<not> decode_ok decoded
                              then (result\<lparr>rr_error := ''ECSP frame decode failed''\<rparr>, obj\<lparr>tls_world := w\<rparr>)
                              else (result\<lparr>rr_ok := True, rr_payload := dr_payload decoded\<rparr>,
                                    obj\<lparr>tls_world := w\<rparr>))))))"

section \<open>Connecting\<close>

record tls_client_options =
  tls_host :: string
  tls_port :: u16
  tls_timeout_seconds :: u32
  tls_verify_peer :: bool
  tls_ca :: string

datatype tls_call =
    ConnectTcp string u16 u32 | InitSsl | CtxNew | MinProtoTls12 | MaxProtoTls12 | SetVerifyPeer | SetVerifyNone
  | DefaultVerifyPaths | LoadVerifyLocations string | SslNew | SetFd | SetHostName string | SslConnect
  | SslShutdown | SslFree | CtxFree | CloseSocket

record 'w tls_setup =
  tls_do :: "tls_call \<Rightarrow> 'w \<Rightarrow> bool \<times> 'w"
  tcp_error :: "'w \<Rightarrow> string"

text \<open>A call whose result is not looked at.\<close>

definition tls_run :: "'w tls_setup \<Rightarrow> tls_call \<Rightarrow> 'w \<Rightarrow> 'w" where
  "tls_run U c w = snd (tls_do U c w)"

definition tls_close :: "'w tls_setup \<Rightarrow> 'w tls_object \<Rightarrow> 'w tls_object" where
  "tls_close U obj =
    (let w = tls_world obj;
         w = (if tls_ssl obj then tls_run U SslFree (tls_run U SslShutdown w) else w);
         w = (if tls_ctx obj then tls_run U CtxFree w else w);
         w = (if tls_socket obj then tls_run U CloseSocket w else w)
     in \<lparr>tls_socket = False, tls_ctx = False, tls_ssl = False, tls_world = w\<rparr>)"

text \<open>\<open>close(); return failure(openssl_error(prefix))\<close>.\<close>

definition close_and_fail ::
  "'w ssl_calls \<Rightarrow> 'w tls_setup \<Rightarrow> string \<Rightarrow> 'w tls_object \<Rightarrow> transport_status \<times> 'w tls_object" where
  "close_and_fail C U prefix obj =
    (let obj = tls_close U obj; (message, w) = openssl_error C prefix (tls_world obj)
     in (status_failure message, obj\<lparr>tls_world := w\<rparr>))"

text \<open>The handshake, the creation of the session, the trust anchors, and the whole.\<close>

definition tls_handshake ::
  "'w ssl_calls \<Rightarrow> 'w tls_setup \<Rightarrow> tls_client_options \<Rightarrow> 'w tls_object \<Rightarrow> transport_status \<times> 'w tls_object" where
  "tls_handshake C U options obj =
    (let w = tls_run U SetFd (tls_world obj);
         w = (if tls_host options \<noteq> [] then tls_run U (SetHostName (tls_host options)) w else w);
         (shaken, w) = tls_do U SslConnect w
     in if \<not> shaken
        then
          (let (message, w) = openssl_error C ''SSL_connect'' w
           in (status_failure message, tls_close U (obj\<lparr>tls_world := w\<rparr>)))
        else (status_success, obj\<lparr>tls_world := w\<rparr>))"

definition tls_session ::
  "'w ssl_calls \<Rightarrow> 'w tls_setup \<Rightarrow> tls_client_options \<Rightarrow> 'w tls_object \<Rightarrow> transport_status \<times> 'w tls_object" where
  "tls_session C U options obj =
    (let (created, w) = tls_do U SslNew (tls_world obj);
         obj = obj\<lparr>tls_ssl := created, tls_world := w\<rparr>
     in if \<not> created then close_and_fail C U ''SSL_new'' obj else tls_handshake C U options obj)"

definition tls_trust :: "'w tls_setup \<Rightarrow> tls_client_options \<Rightarrow> 'w \<Rightarrow> bool \<times> 'w" where
  "tls_trust U options w =
     (if tls_verify_peer options
      then tls_do U (if tls_ca options = [] then DefaultVerifyPaths else LoadVerifyLocations (tls_ca options))
             (tls_run U SetVerifyPeer w)
      else (True, tls_run U SetVerifyNone w))"

definition tls_connect ::
  "'w ssl_calls \<Rightarrow> 'w tls_setup \<Rightarrow> tls_client_options \<Rightarrow> 'w tls_object \<Rightarrow> transport_status \<times> 'w tls_object" where
  "tls_connect C U options obj =
    (let obj = tls_close U obj;
         (connected, w) = tls_do U (ConnectTcp (tls_host options) (tls_port options) (tls_timeout_seconds options))
                            (tls_world obj)
     in if \<not> connected then (status_failure (tcp_error U w), obj\<lparr>tls_world := w\<rparr>)
        else
          (let (created, w) = tls_do U CtxNew (tls_run U InitSsl w);
               obj = obj\<lparr>tls_socket := True, tls_ctx := created, tls_world := w\<rparr>
           in if \<not> created then close_and_fail C U ''SSL_CTX_new'' obj
              else
                (let (loaded, w) = tls_trust U options (tls_run U MaxProtoTls12 (tls_run U MinProtoTls12 w));
                     obj = obj\<lparr>tls_world := w\<rparr>
                 in if \<not> loaded then close_and_fail C U ''SSL_CTX_load_verify_locations'' obj
                    else tls_session C U options obj)))"

section \<open>The contract of a connection\<close>

locale byte_stream =
  fixes C :: "'w ssl_calls"
    and incoming :: "'w \<Rightarrow> string" and outgoing :: "'w \<Rightarrow> string" and patience :: "'w \<Rightarrow> nat"
  assumes read_stream: "ssl_read C n w = (bytes, w') \<Longrightarrow> 0 < n \<Longrightarrow>
      length bytes \<le> n \<and> incoming w = bytes @ incoming w' \<and> outgoing w' = outgoing w"
    and write_stream: "ssl_write C d w = (k, w') \<Longrightarrow> d \<noteq> [] \<Longrightarrow>
      k \<le> length d \<and> outgoing w' = outgoing w @ take k d \<and> incoming w' = incoming w \<and>
      (k = 0 \<longrightarrow> ssl_get_error C w' \<in> {WantRead, WantWrite} \<longrightarrow> patience w' < patience w)"
    and errors_quiet: "err_get_error C w = (e, w') \<Longrightarrow> incoming w' = incoming w \<and> outgoing w' = outgoing w"

context byte_stream
begin

lemma openssl_error_quiet:
  "openssl_error C prefix w = (e, w') \<Longrightarrow> incoming w' = incoming w \<and> outgoing w' = outgoing w"
  using errors_quiet by (auto simp: openssl_error_def Let_def split: prod.splits if_splits)

text \<open>An exact read takes its bytes off the stream; a failed one has taken fewer, which are lost.\<close>

lemma ssl_read_exact_result:
  "ssl_read_exact C n w = (r, w') \<Longrightarrow>
   outgoing w' = outgoing w \<and>
   (case r of
      Inr bytes \<Rightarrow> length bytes = n \<and> incoming w = bytes @ incoming w'
    | Inl _ \<Rightarrow> \<exists>lost. length lost < n \<and> incoming w = lost @ incoming w')"
proof (induction n arbitrary: w r w' rule: less_induct)
  case (less n)
  show ?case
  proof (cases "n = 0")
    case True
    with less.prems show ?thesis by (auto simp: ssl_read_exact.simps [of C 0])
  next
    case False
    obtain bytes w1 where call: "ssl_read C n w = (bytes, w1)" by (cases "ssl_read C n w") auto
    with read_stream [OF this] False
    have stream: "length bytes \<le> n" "incoming w = bytes @ incoming w1" "outgoing w1 = outgoing w" by auto
    show ?thesis
    proof (cases "bytes = []")
      case True
      then show ?thesis
        using less.prems call False stream openssl_error_quiet [of "''SSL_read''" w1]
        by (subst (asm) ssl_read_exact.simps) (auto simp: Let_def split: if_splits prod.splits)
    next
      case nonempty: False
      obtain r1 w2 where rest: "ssl_read_exact C (n - length bytes) w1 = (r1, w2)"
        by (cases "ssl_read_exact C (n - length bytes) w1") auto
      have "n - length bytes < n" using nonempty False by (cases bytes) auto
      from less.IH [OF this rest] have IH: "outgoing w2 = outgoing w1"
        "case r1 of Inr bs \<Rightarrow> length bs = n - length bytes \<and> incoming w1 = bs @ incoming w2
           | Inl _ \<Rightarrow> \<exists>lost. length lost < n - length bytes \<and> incoming w1 = lost @ incoming w2"
        by auto
      have result: "(r, w') = (case r1 of Inr bs \<Rightarrow> Inr (bytes @ bs) | Inl e \<Rightarrow> Inl e, w2)"
        using less.prems call False nonempty rest
        by (subst (asm) ssl_read_exact.simps) (auto simp: Let_def split: sum.splits)
      show ?thesis
      proof (cases r1)
        case (Inl e)
        with IH(2) obtain lost where "length lost < n - length bytes" "incoming w1 = lost @ incoming w2" by auto
        with Inl result stream IH(1) show ?thesis by (auto intro!: exI [of _ "bytes @ lost"])
      next
        case (Inr bs)
        with IH result stream show ?thesis by auto
      qed
    qed
  qed
qed

lemma ssl_write_all_result:
  "\<exists>e w'. ssl_write_all C data w = Some (e, w') \<and> incoming w' = incoming w \<and>
     (\<exists>k. outgoing w' = outgoing w @ take k data \<and> (e = None \<longrightarrow> length data \<le> k))"
proof (induction "(length data, patience w)" arbitrary: data w
    rule: wf_induct_rule [OF wf_lex_prod [OF wf_less_than wf_less_than]])
  case (1 data w)
  show ?case
  proof (cases "data = []")
    case True
    then show ?thesis by (simp add: ssl_write_all.simps)
  next
    case False
    obtain k w1 where call: "ssl_write C data w = (k, w1)" by (cases "ssl_write C data w") auto
    from write_stream [OF this False] have step: "k \<le> length data" "outgoing w1 = outgoing w @ take k data"
      "incoming w1 = incoming w" and retry: "k = 0 \<longrightarrow> ssl_get_error C w1 \<in> {WantRead, WantWrite} \<longrightarrow> patience w1 < patience w"
      by auto
    consider (some) "0 < k" | (want) "k = 0" "ssl_get_error C w1 \<in> {WantRead, WantWrite}"
      | (failed) "k = 0" "ssl_get_error C w1 \<notin> {WantRead, WantWrite}" by auto
    then show ?thesis
    proof cases
      case some
      with step(1) have "length (drop k data) < length data" using False by auto
      with 1 [of "drop k data" w1] obtain e w' j where
        rest: "ssl_write_all C (drop k data) w1 = Some (e, w')" "incoming w' = incoming w1"
          "outgoing w' = outgoing w1 @ take j (drop k data)" "e = None \<longrightarrow> length (drop k data) \<le> j"
        by auto
      have "ssl_write_all C data w = Some (e, w')"
        using False call some rest(1) by (subst ssl_write_all.simps) simp
      moreover have "outgoing w' = outgoing w @ take (k + j) data" using rest(3) step(2) by (simp add: take_add)
      moreover have "e = None \<longrightarrow> length data \<le> k + j" using rest(4) by auto
      ultimately show ?thesis using rest(2) step(3) by auto
    next
      case want
      with retry have "patience w1 < patience w" by blast
      with 1 [of data w1] want(1) step have "\<exists>e w'. ssl_write_all C data w1 = Some (e, w') \<and> incoming w' = incoming w \<and>
          (\<exists>k. outgoing w' = outgoing w @ take k data \<and> (e = None \<longrightarrow> length data \<le> k))" by simp
      then show ?thesis using False call want by (subst ssl_write_all.simps) auto
    next
      case failed
      obtain e w2 where "openssl_error C ''SSL_write'' w1 = (e, w2)" by (cases "openssl_error C ''SSL_write'' w1") auto
      with failed False call have "ssl_write_all C data w = Some (Some e, w2)"
        by (subst ssl_write_all.simps) simp
      with openssl_error_quiet [of "''SSL_write''" w1 e w2] \<open>openssl_error C ''SSL_write'' w1 = (e, w2)\<close> step failed(1)
      show ?thesis by (intro exI [of _ "Some e"] exI [of _ w2] conjI exI [of _ 0]) auto
    qed
  qed
qed

lemma tls_send_payload_result:
  "\<exists>st obj'. tls_send_payload C p obj = Some (st, obj') \<and> tls_ssl obj' = tls_ssl obj \<and>
     incoming (tls_world obj') = incoming (tls_world obj) \<and>
     (if ts_ok st then outgoing (tls_world obj') = outgoing (tls_world obj) @ encode_frame p
      else \<exists>k. outgoing (tls_world obj') = outgoing (tls_world obj) @ take k (encode_frame p))"
proof (cases "tls_ssl obj")
  case False
  then show ?thesis by (auto simp: tls_send_payload_def status_failure_def intro: exI [of _ 0])
next
  case True
  obtain e w' k where written: "ssl_write_all C (encode_frame p) (tls_world obj) = Some (e, w')"
    "incoming w' = incoming (tls_world obj)" "outgoing w' = outgoing (tls_world obj) @ take k (encode_frame p)"
    "e = None \<longrightarrow> length (encode_frame p) \<le> k"
    using ssl_write_all_result [of "encode_frame p" "tls_world obj"] by blast
  show ?thesis
  proof (cases e)
    case None
    with True written show ?thesis by (simp add: tls_send_payload_def status_success_def)
  next
    case (Some m)
    with True written show ?thesis by (auto simp: tls_send_payload_def status_failure_def)
  qed
qed

text \<open>A received payload is the one of the frame at the head of the stream, and the rest is left.\<close>

lemma tls_receive_payload_ok:
  assumes "tls_receive_payload C obj = (r, obj')" "rr_ok r"
  shows "rr_payload r \<noteq> [] \<and> length (rr_payload r) \<le> kMaxTcpPayload \<and>
    incoming (tls_world obj) = encode_frame (rr_payload r) @ incoming (tls_world obj') \<and>
    outgoing (tls_world obj') = outgoing (tls_world obj) \<and> tls_ssl obj'"
proof -
  obtain r1 w1 where first: "ssl_read_exact C kLengthSize (tls_world obj) = (r1, w1)"
    by (cases "ssl_read_exact C kLengthSize (tls_world obj)") auto
  have up: "tls_ssl obj"
    using assms by (intro ccontr [of "tls_ssl obj"]) (auto simp: tls_receive_payload_def default_receive_result_def Let_def)
  show ?thesis
  proof (cases r1)
    case (Inl e)
    with assms first up show ?thesis
      by (cases e) (auto simp: tls_receive_payload_def default_receive_result_def Let_def)
  next
    case (Inr prefix)
    obtain r2 w2 where second: "ssl_read_exact C (unat (frame_length prefix)) w1 = (r2, w2)"
      by (cases "ssl_read_exact C (unat (frame_length prefix)) w1") auto
    show ?thesis
    proof (cases r2)
      case (Inl e)
      with assms first Inr second up show ?thesis
        by (cases e) (auto simp: tls_receive_payload_def default_receive_result_def Let_def split: if_splits)
    next
      case body: (Inr body)
      from assms first Inr second body up
      have decoded: "decode_ok (decode_frame (Some (prefix @ body)) kMaxTcpPayload)"
        "rr_payload r = dr_payload (decode_frame (Some (prefix @ body)) kMaxTcpPayload)"
        "obj' = obj\<lparr>tls_world := w2\<rparr>"
        by (auto simp: tls_receive_payload_def default_receive_result_def Let_def split: if_splits)
      from decoded(1) have frame: "4 \<le> length (prefix @ body)" "frame_length (prefix @ body) \<noteq> 0"
        "unat (frame_length (prefix @ body)) \<le> kMaxTcpPayload"
        "unat (frame_length (prefix @ body)) = length (prefix @ body) - 4"
        by (simp_all add: decode_ok_iff)
      have payload: "rr_payload r = drop 4 (prefix @ body)"
        using decoded(1,2) decode_ok_payload by simp
      have "prefix @ body = encode_frame (rr_payload r)"
        using frame_is_encoding [OF frame(1,4)] payload by simp
      moreover have "rr_payload r \<noteq> []"
        using frame(1,2,4) payload by (auto simp: unsigned_eq_0_iff)
      ultimately show ?thesis
        using ssl_read_exact_result [OF first] ssl_read_exact_result [OF second] Inr body decoded(3) frame(3,4)
          payload up
        by (simp flip: append_assoc)
    qed
  qed
qed

text \<open>Any other reception has taken a part of the stream, perhaps the beginning of a frame.\<close>

lemma tls_receive_payload_stream:
  assumes "tls_receive_payload C obj = (r, obj')"
  shows "\<exists>taken. incoming (tls_world obj) = taken @ incoming (tls_world obj') \<and>
    outgoing (tls_world obj') = outgoing (tls_world obj) \<and> tls_ssl obj' = tls_ssl obj"
proof (cases "tls_ssl obj")
  case False
  with assms show ?thesis by (auto simp: tls_receive_payload_def)
next
  case True
  obtain r1 w1 where first: "ssl_read_exact C kLengthSize (tls_world obj) = (r1, w1)"
    by (cases "ssl_read_exact C kLengthSize (tls_world obj)") auto
  obtain r2 w2 where second: "ssl_read_exact C (unat (frame_length (projr r1))) w1 = (r2, w2)"
    by (cases "ssl_read_exact C (unat (frame_length (projr r1))) w1") auto
  have w1: "\<exists>taken. incoming (tls_world obj) = taken @ incoming w1 \<and> outgoing w1 = outgoing (tls_world obj)"
    using ssl_read_exact_result [OF first] by (auto split: sum.splits)
  have w2: "\<exists>taken. incoming w1 = taken @ incoming w2 \<and> outgoing w2 = outgoing w1"
    using ssl_read_exact_result [OF second] by (auto split: sum.splits)
  have "obj' = obj\<lparr>tls_world := w1\<rparr> \<or> obj' = obj\<lparr>tls_world := w2\<rparr>"
    using assms first second True
    by (cases r1; cases r2) (auto simp: tls_receive_payload_def Let_def split: if_splits)
  then show ?thesis
  proof
    assume "obj' = obj\<lparr>tls_world := w1\<rparr>"
    with w1 show ?thesis by simp
  next
    assume obj': "obj' = obj\<lparr>tls_world := w2\<rparr>"
    from w1 w2 obtain a b where "incoming (tls_world obj) = a @ b @ incoming w2"
      "outgoing w2 = outgoing (tls_world obj)" by auto
    then show ?thesis by (simp add: obj' exI [of _ "a @ b"])
  qed
qed

end

text \<open>A connection whose pending bytes arrive without an interruption while \<open>stalls\<close> is zero.\<close>

locale live_stream = byte_stream +
  fixes stalls :: "'a \<Rightarrow> nat"
  assumes read_live: "stalls w = 0 \<Longrightarrow> incoming w \<noteq> [] \<Longrightarrow> 0 < n \<Longrightarrow> ssl_read C n w = (bytes, w') \<Longrightarrow>
    bytes \<noteq> [] \<and> stalls w' = 0"

context live_stream
begin

lemma ssl_read_exact_live:
  "stalls w = 0 \<Longrightarrow> n \<le> length (incoming w) \<Longrightarrow>
   \<exists>w'. ssl_read_exact C n w = (Inr (take n (incoming w)), w') \<and> stalls w' = 0 \<and>
     incoming w' = drop n (incoming w)"
proof (induction n arbitrary: w rule: less_induct)
  case (less n)
  show ?case
  proof (cases "n = 0")
    case True
    with less.prems show ?thesis by (simp add: ssl_read_exact.simps [of C 0])
  next
    case False
    obtain bytes w1 where call: "ssl_read C n w = (bytes, w1)" by (cases "ssl_read C n w") auto
    from False less.prems(2) have "incoming w \<noteq> []" by auto
    with read_live [OF less.prems(1) this _ call] read_stream [OF call] False
    have step: "bytes \<noteq> []" "stalls w1 = 0" "length bytes \<le> n" "incoming w = bytes @ incoming w1" by auto
    then have "n - length bytes < n" using False by (cases bytes) auto
    moreover have "n - length bytes \<le> length (incoming w1)" using less.prems(2) step(4) by simp
    ultimately obtain w' where rest: "ssl_read_exact C (n - length bytes) w1 =
        (Inr (take (n - length bytes) (incoming w1)), w')" "stalls w' = 0"
      "incoming w' = drop (n - length bytes) (incoming w1)"
      using less.IH [of "n - length bytes" w1] step(2) by auto
    have "ssl_read_exact C n w = (Inr (bytes @ take (n - length bytes) (incoming w1)), w')"
      using call False step(1) rest(1) by (subst ssl_read_exact.simps) simp
    with rest step show ?thesis by simp
  qed
qed

lemma tls_receive_payload_live:
  assumes "tls_ssl obj" "stalls (tls_world obj) = 0"
    and "incoming (tls_world obj) = encode_frame p @ rest" "p \<noteq> []" "length p \<le> kMaxTcpPayload"
  shows "\<exists>obj'. tls_receive_payload C obj = (default_receive_result\<lparr>rr_ok := True, rr_payload := p\<rparr>, obj') \<and>
    tls_ssl obj' \<and> stalls (tls_world obj') = 0 \<and> incoming (tls_world obj') = rest"
proof -
  have small: "length p < 2 ^ 32" using assms(5) by (simp add: kMaxTcpPayload_def)
  obtain w1 where first: "ssl_read_exact C kLengthSize (tls_world obj) = (Inr (take 4 (encode_frame p)), w1)"
    "stalls w1 = 0" "incoming w1 = p @ rest"
    using ssl_read_exact_live [OF assms(2), of kLengthSize] assms(3) by (auto simp: kLengthSize_def)
  have "frame_length (take 4 (encode_frame p)) = frame_length (encode_frame p)"
    by (simp add: frame_length_def)
  then have len: "unat (frame_length (take 4 (encode_frame p))) = length p"
    using frame_length_encode [OF small, of "[]"] by simp
  then have nonzero: "frame_length (take 4 (encode_frame p)) \<noteq> 0"
    using assms(4) by (auto simp: unsigned_eq_0_iff)
  obtain w2 where second: "ssl_read_exact C (length p) w1 = (Inr p, w2)" "stalls w2 = 0" "incoming w2 = rest"
    using ssl_read_exact_live [OF first(2), of "length p"] first(3) by auto
  have whole: "take 4 (encode_frame p) @ p = encode_frame p"
    using append_take_drop_id [of 4 "encode_frame p"] by simp
  have "decode_ok (decode_frame (Some (encode_frame p)) kMaxTcpPayload)"
    using frame_length_encode [OF small, of "[]"] assms(4,5) by (auto simp: decode_ok_iff unsigned_eq_0_iff)
  then show ?thesis
    using assms(1,5) first second len nonzero whole decode_ok_payload [of "encode_frame p" kMaxTcpPayload]
    by (simp add: tls_receive_payload_def Let_def)
qed

end

section \<open>The transport\<close>

text \<open>Sending always returns (\<open>tls_send_payload_result\<close>), so \<open>the\<close> is taken of a value.\<close>

definition tls_transport :: "'w ssl_calls \<Rightarrow> 'w tls_object frame_transport" where
  "tls_transport C =
     \<lparr>tp_send = (\<lambda>payload obj. the (tls_send_payload C payload obj)), tp_receive = tls_receive_payload C\<rparr>"

fun send_all :: "'w frame_transport \<Rightarrow> string list \<Rightarrow> 'w \<Rightarrow> bool \<times> 'w" where
  "send_all T [] w = (True, w)"
| "send_all T (p # ps) w =
     (case tp_send T p w of (st, w') \<Rightarrow> if ts_ok st then send_all T ps w' else (False, w'))"

text \<open>The payloads of up to \<open>n\<close> receptions, until one fails.\<close>

fun receive_all :: "'w frame_transport \<Rightarrow> nat \<Rightarrow> 'w \<Rightarrow> string list" where
  "receive_all T 0 w = []"
| "receive_all T (Suc n) w =
     (case tp_receive T w of (r, w') \<Rightarrow> if rr_ok r then rr_payload r # receive_all T n w' else [])"

definition frame_payload :: "string \<Rightarrow> bool" where
  "frame_payload p \<longleftrightarrow> p \<noteq> [] \<and> length p \<le> kMaxTcpPayload"

lemma encode_frame_prefix_free:
  assumes "encode_frame p @ r = encode_frame q @ s" "length p < 2 ^ 32" "length q < 2 ^ 32"
  shows "p = q \<and> r = s"
proof -
  have "length p = length q"
    using frame_length_encode [OF assms(2), of r] frame_length_encode [OF assms(3), of s] assms(1) by simp
  moreover from assms(1) have "drop 4 (encode_frame p @ r) = drop 4 (encode_frame q @ s)" by simp
  ultimately show ?thesis by simp
qed

context byte_stream
begin

lemma send_all_stream:
  "send_all (tls_transport C) ps obj = (True, obj') \<Longrightarrow>
   outgoing (tls_world obj') = outgoing (tls_world obj) @ concat (map encode_frame ps)"
proof (induction ps arbitrary: obj)
  case (Cons p ps)
  from tls_send_payload_result [of p obj] obtain st obj1 where
    sent: "tls_send_payload C p obj = Some (st, obj1)"
    "ts_ok st \<Longrightarrow> outgoing (tls_world obj1) = outgoing (tls_world obj) @ encode_frame p"
    by auto
  with Cons show ?case by (auto simp: tls_transport_def split: if_splits)
qed simp

lemma receive_all_prefix:
  "incoming (tls_world obj) = concat (map encode_frame ps) \<Longrightarrow> list_all frame_payload ps \<Longrightarrow>
   \<exists>k. receive_all (tls_transport C) n obj = take k ps"
proof (induction n arbitrary: obj ps)
  case (Suc n)
  obtain r obj1 where call: "tls_receive_payload C obj = (r, obj1)" by (cases "tls_receive_payload C obj") auto
  show ?case
  proof (cases "rr_ok r")
    case False
    with call show ?thesis by (auto simp: tls_transport_def intro: exI [of _ 0])
  next
    case True
    from tls_receive_payload_ok [OF call True]
    have r: "length (rr_payload r) < 2 ^ 32"
      "incoming (tls_world obj) = encode_frame (rr_payload r) @ incoming (tls_world obj1)"
      by (simp_all add: kMaxTcpPayload_def)
    from r(2) Suc.prems(1) obtain p qs where ps: "ps = p # qs" by (cases ps) (auto simp: encode_frame_def Let_def)
    with Suc.prems(2) have small: "length p < 2 ^ 32" by (simp add: frame_payload_def kMaxTcpPayload_def)
    have "encode_frame (rr_payload r) @ incoming (tls_world obj1) = encode_frame p @ concat (map encode_frame qs)"
      using r(2) Suc.prems(1) ps by simp
    from encode_frame_prefix_free [OF this r(1) small]
    have "rr_payload r = p" "incoming (tls_world obj1) = concat (map encode_frame qs)" by simp_all
    moreover obtain k where "receive_all (tls_transport C) n obj1 = take k qs"
      using Suc.IH [of obj1 qs] calculation(2) Suc.prems(2) ps by auto
    ultimately have "receive_all (tls_transport C) (Suc n) obj = take (Suc k) ps"
      using call True ps by (simp add: tls_transport_def)
    then show ?thesis by blast
  qed
qed simp

end

context live_stream
begin

lemma receive_all_live:
  "tls_ssl obj \<Longrightarrow> stalls (tls_world obj) = 0 \<Longrightarrow>
   incoming (tls_world obj) = concat (map encode_frame ps) \<Longrightarrow> list_all frame_payload ps \<Longrightarrow>
   receive_all (tls_transport C) (length ps) obj = ps"
proof (induction ps arbitrary: obj)
  case (Cons p ps)
  from tls_receive_payload_live [OF Cons.prems(1,2), of p "concat (map encode_frame ps)"] Cons.prems(3,4)
  obtain obj1 where "tls_receive_payload C obj = (default_receive_result\<lparr>rr_ok := True, rr_payload := p\<rparr>, obj1)"
    "tls_ssl obj1" "stalls (tls_world obj1) = 0" "incoming (tls_world obj1) = concat (map encode_frame ps)"
    by (auto simp: frame_payload_def)
  with Cons.IH [of obj1] Cons.prems(4) show ?case by (simp add: tls_transport_def)
qed simp

end

section \<open>A connection in memory\<close>

text \<open>
  What the peer sent arrives in chunks, an empty chunk being a time without data; writes take as much
  as the limits say, \<open>None\<close> being a broken connection.
\<close>

record stream_world =
  sw_chunks :: "string list"
  sw_sent :: string
  sw_limits :: "nat option list"
  sw_error :: ssl_error

definition chunk_read :: "nat \<Rightarrow> stream_world \<Rightarrow> string \<times> stream_world" where
  "chunk_read n w =
     (case sw_chunks w of
        [] \<Rightarrow> ([], w\<lparr>sw_error := ZeroReturn\<rparr>)
      | c # cs \<Rightarrow>
          (if c = [] then ([], w\<lparr>sw_chunks := cs, sw_error := WantRead\<rparr>)
           else (take n c, w\<lparr>sw_chunks := (if length c \<le> n then cs else drop n c # cs)\<rparr>)))"

definition chunk_write :: "string \<Rightarrow> stream_world \<Rightarrow> nat \<times> stream_world" where
  "chunk_write d w =
     (case sw_limits w of
        [] \<Rightarrow> (length d, w\<lparr>sw_sent := sw_sent w @ d\<rparr>)
      | None # ls \<Rightarrow> (0, w\<lparr>sw_limits := ls, sw_error := OtherSslError\<rparr>)
      | Some k # ls \<Rightarrow>
          (min k (length d), w\<lparr>sw_sent := sw_sent w @ take k d, sw_limits := ls, sw_error := WantWrite\<rparr>))"

definition memory_tls :: "stream_world ssl_calls" where
  "memory_tls =
     \<lparr>ssl_read = chunk_read, ssl_write = chunk_write, ssl_get_error = sw_error, err_get_error = (\<lambda>w. (0, w)),
      err_error_string = (\<lambda>_. []), errno_text = (\<lambda>_. ''connection reset'')\<rparr>"

lemmas memory_tls_calls = memory_tls_def chunk_read_def chunk_write_def

interpretation memory_stream: byte_stream memory_tls "concat \<circ> sw_chunks" sw_sent "length \<circ> sw_limits"
  by unfold_locales
    (auto simp: memory_tls_calls min_def split: list.splits option.splits if_splits)

lemma memory_read_live:
  assumes "count_list (sw_chunks w) [] = 0" "concat (sw_chunks w) \<noteq> []" "0 < n" "chunk_read n w = (bytes, w')"
  shows "bytes \<noteq> [] \<and> count_list (sw_chunks w') [] = 0"
  using assms by (cases "sw_chunks w") (auto simp: chunk_read_def split: if_splits)

interpretation memory_live: live_stream memory_tls "concat \<circ> sw_chunks" sw_sent "length \<circ> sw_limits"
    "\<lambda>w. count_list (sw_chunks w) []"
proof
  fix w :: stream_world and n :: nat and bytes w'
  assume "count_list (sw_chunks w) [] = 0" "(concat \<circ> sw_chunks) w \<noteq> []" "0 < n"
    "ssl_read memory_tls n w = (bytes, w')"
  then show "bytes \<noteq> [] \<and> count_list (sw_chunks w') [] = 0"
    by (intro memory_read_live [of w n]) (simp_all add: memory_tls_def)
qed

section \<open>Properties\<close>

text \<open>
  C23. Messages sent over one end of a TLS connection and received at the other, however the library
  splits the writes and however the bytes arrive: as long as every reception succeeds, the payloads
  received are the payloads sent, in their order, none changed, merged or invented; and when nothing
  interrupts the arrival, all of them are received.
\<close>

theorem tls_messages_delivered:
  assumes "send_all (tls_transport memory_tls) ps a = (True, a')"
    and "sw_sent (tls_world a) = []" "list_all frame_payload ps"
    and "concat (sw_chunks (tls_world b)) = sw_sent (tls_world a')" "tls_ssl b"
  shows "(\<exists>k. receive_all (tls_transport memory_tls) n b = take k ps) \<and>
    (if count_list (sw_chunks (tls_world b)) [] = 0
     then receive_all (tls_transport memory_tls) (length ps) b = ps else True)"
proof -
  have stream: "concat (sw_chunks (tls_world b)) = concat (map encode_frame ps)"
    using memory_stream.send_all_stream [OF assms(1)] assms(2,4) by simp
  then have pending: "(concat \<circ> sw_chunks) (tls_world b) = concat (map encode_frame ps)" by simp
  have "receive_all (tls_transport memory_tls) (length ps) b = ps"
    if "count_list (sw_chunks (tls_world b)) [] = 0"
    by (rule memory_live.receive_all_live [OF assms(5) that pending assms(3)])
  with memory_stream.receive_all_prefix [OF pending assms(3)] show ?thesis by simp
qed

text \<open>Two messages, written in pieces and read in pieces.\<close>

definition sample_sender :: "stream_world tls_object" where
  "sample_sender = \<lparr>tls_socket = True, tls_ctx = True, tls_ssl = True,
     tls_world = \<lparr>sw_chunks = [], sw_sent = [], sw_limits = [Some 3, Some 0, Some 4], sw_error = OtherSslError\<rparr>\<rparr>"

definition sample_receiver :: "string list \<Rightarrow> stream_world tls_object" where
  "sample_receiver chunks = \<lparr>tls_socket = True, tls_ctx = True, tls_ssl = True,
     tls_world = \<lparr>sw_chunks = chunks, sw_sent = [], sw_limits = [], sw_error = OtherSslError\<rparr>\<rparr>"

lemma sample_frames:
  "encode_frame ''hello'' = [CHR 0x00, CHR 0x00, CHR 0x00, CHR 0x05] @ ''hello''"
  "encode_frame ''you'' = [CHR 0x00, CHR 0x00, CHR 0x00, CHR 0x03] @ ''you''"
  by code_simp+

lemma sample_sends:
  "send_all (tls_transport memory_tls) [''hello'', ''you''] sample_sender =
     (True, sample_sender\<lparr>tls_world := \<lparr>sw_chunks = [], sw_sent = encode_frame ''hello'' @ encode_frame ''you'',
        sw_limits = [], sw_error = WantWrite\<rparr>\<rparr>)"
  by (simp add: tls_transport_def tls_send_payload_def sample_frames sample_sender_def)
    ((subst ssl_write_all.simps, simp add: memory_tls_calls status_success_def sample_frames)+)

theorem tls_messages_delivered_witness:
  "receive_all (tls_transport memory_tls) 2
     (sample_receiver [take 6 (encode_frame ''hello''), drop 6 (encode_frame ''hello'') @ encode_frame ''you'']) =
   [''hello'', ''you'']"
proof -
  let ?b = "sample_receiver [take 6 (encode_frame ''hello''), drop 6 (encode_frame ''hello'') @ encode_frame ''you'']"
  have "list_all frame_payload [''hello'', ''you'']" by (simp add: frame_payload_def kMaxTcpPayload_def)
  moreover have "concat (sw_chunks (tls_world ?b)) = encode_frame ''hello'' @ encode_frame ''you''"
    by (simp add: sample_receiver_def flip: append_assoc)
  moreover have "count_list (sw_chunks (tls_world ?b)) [] = 0"
    by (simp add: sample_receiver_def sample_frames)
  moreover have "tls_ssl ?b" "sw_sent (tls_world sample_sender) = []"
    by (simp_all add: sample_receiver_def sample_sender_def)
  ultimately have "receive_all (tls_transport memory_tls) (length [''hello'', ''you'']) ?b = [''hello'', ''you'']"
    using tls_messages_delivered [OF sample_sends, of ?b 2] by (simp del: receive_all.simps)
  then show ?thesis by (simp add: numeral_2_eq_2)
qed

text \<open>
  A reception that times out within a frame loses the part already read: the next one starts in
  the middle of the frame.  Here the frame of a message arrives in two pieces with a pause between
  them; the first reception reports the timeout, which the session treats as "no message yet", the
  second takes the payload for a length.
\<close>

theorem tls_timeout_loses_frame:
  "case tls_receive_payload memory_tls
      (sample_receiver [take 4 (encode_frame ''hello''), [], drop 4 (encode_frame ''hello'')]) of
     (first, b) \<Rightarrow> rr_timeout first \<and>
       (case tls_receive_payload memory_tls b of
          (second, _) \<Rightarrow> \<not> rr_ok second \<and> \<not> rr_timeout second \<and>
            rr_error second = ''invalid ECSP TCP payload length'')"
  by (simp add: sample_frames sample_receiver_def tls_receive_payload_def kLengthSize_def ssl_read_exact.simps
      memory_tls_calls frame_length_def char_u32_def code_def kMaxTcpPayload_def default_receive_result_def Let_def)

section \<open>The calls of a connection attempt\<close>

definition recording_setup :: "'w tls_setup \<Rightarrow> ('w \<times> tls_call list) tls_setup" where
  "recording_setup U =
     \<lparr>tls_do = (\<lambda>c (w, log). let (b, w') = tls_do U c w in (b, w', log @ [c])),
      tcp_error = (\<lambda>(w, log). tcp_error U w)\<rparr>"

lemma recording_do:
  "tls_do (recording_setup U) c w = (fst (tls_do U c (fst w)), snd (tls_do U c (fst w)), snd w @ [c])"
  by (cases w) (simp add: recording_setup_def split: prod.splits)

lemma tls_close_fields [simp]:
  "tls_socket (tls_close U obj) = False" "tls_ctx (tls_close U obj) = False" "tls_ssl (tls_close U obj) = False"
  by (simp_all add: tls_close_def Let_def)

lemma close_and_fail_result:
  "close_and_fail C U prefix obj = (st, obj') \<Longrightarrow>
   \<not> ts_ok st \<and> \<not> tls_socket obj' \<and> \<not> tls_ctx obj' \<and> \<not> tls_ssl obj'"
  by (auto simp: close_and_fail_def Let_def status_failure_def split: prod.splits)

lemma recorded_call:
  "tls_do (recording_setup U) c w = (b, w') \<Longrightarrow> snd w' = snd w @ [c]"
  by (auto simp: recording_do)

lemma recorded_run [simp]: "snd (tls_run (recording_setup U) c w) = snd w @ [c]"
  by (simp add: tls_run_def recording_do)

text \<open>An attempt that either leaves a connected object after these calls, or a closed one.\<close>

definition connects ::
  "tls_call list \<Rightarrow> tls_call list \<Rightarrow> transport_status \<times> ('w \<times> tls_call list) tls_object \<Rightarrow> bool" where
  "connects before calls result =
     (case result of (st, obj') \<Rightarrow>
        if ts_ok st
        then tls_socket obj' \<and> tls_ctx obj' \<and> tls_ssl obj' \<and> snd (tls_world obj') = before @ calls
        else \<not> tls_socket obj' \<and> \<not> tls_ctx obj' \<and> \<not> tls_ssl obj')"

lemma connects_failed: "connects before calls (close_and_fail C U prefix obj)"
  using close_and_fail_result [of C U prefix obj]
  by (cases "close_and_fail C U prefix obj") (simp add: connects_def)

lemma connects_append: "connects (before @ calls) later r \<longleftrightarrow> connects before (calls @ later) r"
  by (simp add: connects_def)

lemma tls_handshake_calls:
  assumes "tls_socket obj" "tls_ctx obj" "tls_ssl obj"
  shows "connects (snd (tls_world obj))
    ([SetFd] @ (if tls_host options \<noteq> [] then [SetHostName (tls_host options)] else []) @ [SslConnect])
    (tls_handshake C (recording_setup U) options obj)"
proof -
  define w1 where "w1 = (if tls_host options \<noteq> []
      then tls_run (recording_setup U) (SetHostName (tls_host options)) (tls_run (recording_setup U) SetFd (tls_world obj))
      else tls_run (recording_setup U) SetFd (tls_world obj))"
  obtain b w2 where shaken: "tls_do (recording_setup U) SslConnect w1 = (b, w2)"
    by (cases "tls_do (recording_setup U) SslConnect w1") auto
  have "snd w1 = snd (tls_world obj) @ [SetFd] @
      (if tls_host options \<noteq> [] then [SetHostName (tls_host options)] else [])"
    by (simp add: w1_def)
  with recorded_call [OF shaken] shaken assms show ?thesis
    unfolding tls_handshake_def Let_def w1_def [symmetric]
    by (cases b) (simp_all add: connects_def status_success_def status_failure_def split: prod.split)
qed

lemma tls_session_calls:
  assumes "tls_socket obj" "tls_ctx obj"
  shows "connects (snd (tls_world obj))
    ([SslNew, SetFd] @ (if tls_host options \<noteq> [] then [SetHostName (tls_host options)] else []) @ [SslConnect])
    (tls_session C (recording_setup U) options obj)"
proof -
  obtain b w where made: "tls_do (recording_setup U) SslNew (tls_world obj) = (b, w)"
    by (cases "tls_do (recording_setup U) SslNew (tls_world obj)") auto
  show ?thesis
  proof (cases b)
    case True
    from tls_handshake_calls [of "obj\<lparr>tls_ssl := True, tls_world := w\<rparr>" options C U]
      assms made True recorded_call [OF made] show ?thesis
      by (simp add: tls_session_def connects_append del: if_split)
  next
    case False
    with made show ?thesis by (simp add: tls_session_def connects_failed)
  qed
qed

lemma tls_trust_calls:
  "tls_trust (recording_setup U) options w = (b, w') \<Longrightarrow>
   snd w' = snd w @ (if tls_verify_peer options
      then [SetVerifyPeer, if tls_ca options = [] then DefaultVerifyPaths else LoadVerifyLocations (tls_ca options)]
      else [SetVerifyNone])"
  by (auto simp: tls_trust_def dest!: recorded_call split: if_splits)

definition connection_calls :: "tls_client_options \<Rightarrow> tls_call list" where
  "connection_calls options =
     [ConnectTcp (tls_host options) (tls_port options) (tls_timeout_seconds options), InitSsl, CtxNew,
      MinProtoTls12, MaxProtoTls12] @
     (if tls_verify_peer options
      then [SetVerifyPeer, if tls_ca options = [] then DefaultVerifyPaths else LoadVerifyLocations (tls_ca options)]
      else [SetVerifyNone]) @
     [SslNew, SetFd] @ (if tls_host options \<noteq> [] then [SetHostName (tls_host options)] else []) @ [SslConnect]"


end
