(* ===== verification/Discovery.thy ===== *)
theory Discovery
  imports Frame_Codec Frame_Transport Json_Boundary Ecsp_Builders
begin

text \<open>
  \<open>src/src/lifecycle/discovery.cpp\<close> and \<open>src/src/transport/udp_discovery.cpp\<close>: the announcements over
  UDP and the reading of the controller's offers.  The socket calls are a parameter, the record
  \<open>udp_calls\<close>; a network address is a value of a type \<open>'a\<close> only the resolver makes.
\<close>

section \<open>Offers\<close>

record pre_adopt_request =
  pa_ok :: bool
  pa_is_pre_adopt :: bool
  pa_adopt_port :: u16
  pa_controller_id :: string
  pa_destination_id :: string
  pa_seq :: u32
  pa_error :: string

definition parse_pre_adopt_request :: "jsonc \<Rightarrow> string \<Rightarrow> string \<Rightarrow> u16 \<Rightarrow> pre_adopt_request" where
  "parse_pre_adopt_request J payload current_controller_id default_manage_port =
    (let result = \<lparr>pa_ok = False, pa_is_pre_adopt = False, pa_adopt_port = default_manage_port,
           pa_controller_id = current_controller_id, pa_destination_id = [], pa_seq = 0, pa_error = []\<rparr>;
         document = json_document_parse J payload
     in if \<not> valid document then result\<lparr>pa_error := ''invalid ECSP JSON''\<rparr>
        else
          (case ecsp_header_type J document of
             None \<Rightarrow> result\<lparr>pa_error := ''missing ECSP header.type''\<rparr>
           | Some type \<Rightarrow>
               (let result = result\<lparr>pa_is_pre_adopt := (type = to_underlying PreAdoptRequest)\<rparr>;
                    result = (case ecsp_header_seq J document of
                                Some seq \<Rightarrow> result\<lparr>pa_seq := seq\<rparr> | None \<Rightarrow> result);
                    header = object_member document ''header'';
                    result =
                      (case json_string J (object_member header ''dest'') of
                         Some learned_dest \<Rightarrow>
                           (if learned_dest \<noteq> []
                            then if length learned_dest = 24 then result\<lparr>pa_destination_id := learned_dest\<rparr>
                                 else if pa_controller_id result = []
                                 then result\<lparr>pa_controller_id := learned_dest\<rparr> else result
                            else result)
                       | None \<Rightarrow> result)
                in if \<not> pa_is_pre_adopt result then result\<lparr>pa_ok := True\<rparr>
                   else
                     (let body = ecsp_body document;
                          result =
                            (case json_int J (object_member body ''adoptPort'') of
                               Some port \<Rightarrow>
                                 (if 0 < sint port \<and> sint port \<le> 65535
                                  then result\<lparr>pa_adopt_port := ucast port\<rparr> else result)
                             | None \<Rightarrow> result)
                      in result\<lparr>pa_ok := True\<rparr>))))"

section \<open>The UDP transport\<close>

record udp_endpoint =
  ep_host :: string
  ep_port :: u16

record udp_options =
  uo_local_port :: u16
  uo_timeout_seconds :: u32

record ('a, 'w) udp_calls =
  ud_socket :: "'w \<Rightarrow> nat option \<times> 'w"
  ud_set_receive_timeout :: "nat \<Rightarrow> u32 \<Rightarrow> 'w \<Rightarrow> bool \<times> 'w"
  ud_set_send_timeout :: "nat \<Rightarrow> u32 \<Rightarrow> 'w \<Rightarrow> bool \<times> 'w"
  ud_bind :: "nat \<Rightarrow> u16 \<Rightarrow> 'w \<Rightarrow> bool \<times> 'w"
  ud_getaddrinfo :: "string \<Rightarrow> string \<Rightarrow> 'w \<Rightarrow> (string + 'a list) \<times> 'w"
  ud_sendto :: "nat \<Rightarrow> string \<Rightarrow> 'a \<Rightarrow> 'w \<Rightarrow> nat option \<times> 'w"
  ud_recv :: "nat \<Rightarrow> nat \<Rightarrow> 'w \<Rightarrow> string option \<times> 'w"
  ud_close :: "nat \<Rightarrow> 'w \<Rightarrow> 'w"
  ud_would_block :: "'w \<Rightarrow> bool"
  ud_strerror :: "'w \<Rightarrow> string"

record 'w udp_object =
  udp_socket :: "nat option"
  udp_timeout_seconds :: u32
  udp_world :: 'w

definition errno_failure :: "('a, 'w) udp_calls \<Rightarrow> string \<Rightarrow> 'w \<Rightarrow> transport_status" where
  "errno_failure N prefix w = status_failure (prefix @ '': '' @ ud_strerror N w)"

text \<open>\<open>set_socket_timeout\<close> of \<open>src/src/transport/socket.cpp\<close>: the error text, or nothing.\<close>

definition set_socket_timeout ::
  "('a, 'w) udp_calls \<Rightarrow> nat \<Rightarrow> u32 \<Rightarrow> 'w \<Rightarrow> string option \<times> 'w" where
  "set_socket_timeout N fd timeout_seconds w =
     (case ud_set_receive_timeout N fd timeout_seconds w of
        (False, w) \<Rightarrow> (Some (''setsockopt(SO_RCVTIMEO)'' @ '': '' @ ud_strerror N w), w)
      | (True, w) \<Rightarrow>
          (case ud_set_send_timeout N fd timeout_seconds w of
             (False, w) \<Rightarrow> (Some (''setsockopt(SO_SNDTIMEO)'' @ '': '' @ ud_strerror N w), w)
           | (True, w) \<Rightarrow> (None, w)))"

definition udp_close :: "('a, 'w) udp_calls \<Rightarrow> 'w udp_object \<Rightarrow> 'w udp_object" where
  "udp_close N obj =
     obj\<lparr>udp_socket := None,
         udp_world := (case udp_socket obj of Some fd \<Rightarrow> ud_close N fd (udp_world obj) | None \<Rightarrow> udp_world obj)\<rparr>"

definition udp_open ::
  "('a, 'w) udp_calls \<Rightarrow> udp_options \<Rightarrow> 'w udp_object \<Rightarrow> transport_status \<times> 'w udp_object" where
  "udp_open N options obj =
    (let obj = (udp_close N obj)\<lparr>udp_timeout_seconds := uo_timeout_seconds options\<rparr>
     in case ud_socket N (udp_world obj) of
          (None, w) \<Rightarrow> (errno_failure N ''socket'' w, obj\<lparr>udp_world := w\<rparr>)
        | (Some candidate, w) \<Rightarrow>
            (case set_socket_timeout N candidate (udp_timeout_seconds obj) w of
               (Some error, w) \<Rightarrow> (status_failure error, obj\<lparr>udp_world := ud_close N candidate w\<rparr>)
             | (None, w) \<Rightarrow>
                 (let (bound, w) = (if uo_local_port options \<noteq> 0 then ud_bind N candidate (uo_local_port options) w
                                    else (True, w))
                  in if \<not> bound
                     then (errno_failure N ''bind'' w, obj\<lparr>udp_world := ud_close N candidate w\<rparr>)
                     else (status_success, obj\<lparr>udp_socket := Some candidate, udp_world := w\<rparr>))))"

text \<open>The loop over the addresses: whether one took the whole frame, and the last error text.\<close>

fun send_to_first ::
  "('a, 'w) udp_calls \<Rightarrow> nat \<Rightarrow> string \<Rightarrow> 'a list \<Rightarrow> string \<Rightarrow> 'w \<Rightarrow> (bool \<times> string) \<times> 'w" where
  "send_to_first N fd frame [] last_error w = ((False, last_error), w)"
| "send_to_first N fd frame (a # as) last_error w =
     (case ud_sendto N fd frame a w of
        (rc, w) \<Rightarrow>
          (if rc = Some (length frame) then ((True, last_error), w)
           else send_to_first N fd frame as (ud_strerror N w) w))"

definition udp_send_payload_to ::
  "('a, 'w) udp_calls \<Rightarrow> udp_endpoint \<Rightarrow> string \<Rightarrow> 'w udp_object \<Rightarrow> transport_status \<times> 'w udp_object" where
  "udp_send_payload_to N endpoint payload obj =
     (case udp_socket obj of
        None \<Rightarrow> (status_failure ''UDP discovery socket is not open'', obj)
      | Some fd \<Rightarrow>
          (if kMaxDiscoveryPayload < length payload
           then (status_failure ''discovery payload exceeds ECSP UDP safety limit'', obj)
           else
             (case ud_getaddrinfo N (ep_host endpoint) (to_string_u (ep_port endpoint)) (udp_world obj) of
                (Inl gai, w) \<Rightarrow> (status_failure (''getaddrinfo: '' @ gai), obj\<lparr>udp_world := w\<rparr>)
              | (Inr addresses, w) \<Rightarrow>
                  (case send_to_first N fd (encode_frame payload) addresses [] w of
                     ((sent, last_error), w) \<Rightarrow>
                       (if \<not> sent
                        then (status_failure (if last_error = [] then ''sendto failed'' else last_error),
                              obj\<lparr>udp_world := w\<rparr>)
                        else (status_success, obj\<lparr>udp_world := w\<rparr>))))))"

definition udp_receive_payload :: "('a, 'w) udp_calls \<Rightarrow> 'w udp_object \<Rightarrow> receive_result \<times> 'w udp_object" where
  "udp_receive_payload N obj =
    (let result = default_receive_result
     in case udp_socket obj of
          None \<Rightarrow> (result\<lparr>rr_error := ''UDP discovery socket is not open''\<rparr>, obj)
        | Some fd \<Rightarrow>
            (case ud_recv N fd 65535 (udp_world obj) of
               (None, w) \<Rightarrow>
                 (if ud_would_block N w
                  then (result\<lparr>rr_timeout := True, rr_error := ''UDP receive timeout''\<rparr>, obj\<lparr>udp_world := w\<rparr>)
                  else (result\<lparr>rr_error := ud_strerror N w\<rparr>, obj\<lparr>udp_world := w\<rparr>))
             | (Some datagram, w) \<Rightarrow>
                 (let decoded = decode_frame (Some datagram) kMaxDiscoveryPayload
                  in if \<not> decode_ok decoded
                     then (result\<lparr>rr_error := ''ECSP UDP frame decode failed''\<rparr>, obj\<lparr>udp_world := w\<rparr>)
                     else (result\<lparr>rr_ok := True, rr_payload := dr_payload decoded\<rparr>, obj\<lparr>udp_world := w\<rparr>))))"

definition send_discovery_once ::
  "('a, 'w) udp_calls \<Rightarrow> udp_endpoint \<Rightarrow> agent_settings \<Rightarrow> access_point_profile \<Rightarrow> u32 \<Rightarrow> bool \<Rightarrow> u64 \<Rightarrow>
   'w udp_object \<Rightarrow> transport_status \<times> 'w udp_object" where
  "send_discovery_once N endpoint s profile seq managed_restart timestamp_ms obj =
    (let discovery = build_discovery_json s profile seq managed_restart timestamp_ms
     in udp_send_payload_to N endpoint discovery obj)"

section \<open>Lemmas\<close>

lemma uint_ucast_port:
  assumes "0 < sint (v::i64)" "sint v \<le> 65535"
  shows "uint (ucast v :: u16) = sint v"
proof -
  have "uint (ucast v :: u16) = take_bit 16 (take_bit 64 (sint v))"
    by (simp only: unsigned_ucast_eq uint_sint [of v]) simp
  also have "\<dots> = sint v"
    using assms by (simp add: take_bit_take_bit take_bit_int_eq_self)
  finally show ?thesis .
qed

text \<open>The same calls, keeping the list of the datagrams handed to \<open>sendto\<close>.\<close>

definition logging_udp :: "('a, 'w) udp_calls \<Rightarrow> ('a, 'w \<times> string list) udp_calls" where
  "logging_udp N =
     \<lparr>ud_socket = (\<lambda>(w, l). let (r, w) = ud_socket N w in (r, w, l)),
      ud_set_receive_timeout = (\<lambda>fd t (w, l). let (r, w) = ud_set_receive_timeout N fd t w in (r, w, l)),
      ud_set_send_timeout = (\<lambda>fd t (w, l). let (r, w) = ud_set_send_timeout N fd t w in (r, w, l)),
      ud_bind = (\<lambda>fd p (w, l). let (r, w) = ud_bind N fd p w in (r, w, l)),
      ud_getaddrinfo = (\<lambda>h p (w, l). let (r, w) = ud_getaddrinfo N h p w in (r, w, l)),
      ud_sendto = (\<lambda>fd d a (w, l). let (r, w) = ud_sendto N fd d a w in (r, w, l @ [d])),
      ud_recv = (\<lambda>fd n (w, l). let (r, w) = ud_recv N fd n w in (r, w, l)),
      ud_close = (\<lambda>fd (w, l). (ud_close N fd w, l)),
      ud_would_block = (\<lambda>(w, l). ud_would_block N w), ud_strerror = (\<lambda>(w, l). ud_strerror N w)\<rparr>"

lemma send_to_first_log:
  "send_to_first (logging_udp N) fd frame as e (w, l) = ((sent, e'), w', l') \<Longrightarrow>
   \<exists>k. l' = l @ replicate k frame \<and> (sent \<longrightarrow> 0 < k)"
proof (induction as arbitrary: e w l)
  case (Cons a as)
  obtain rc w1 where call: "ud_sendto N fd frame a w = (rc, w1)" by (cases "ud_sendto N fd frame a w") auto
  show ?case
  proof (cases "rc = Some (length frame)")
    case True
    with Cons.prems call show ?thesis by (auto simp: logging_udp_def intro: exI [of _ 1])
  next
    case False
    with Cons.prems call have "send_to_first (logging_udp N) fd frame as (ud_strerror N w1) (w1, l @ [frame]) =
        ((sent, e'), w', l')"
      by (simp add: logging_udp_def)
    from Cons.IH [OF this] obtain k where "l' = l @ [frame] @ replicate k frame" by auto
    then show ?thesis by (intro exI [of _ "Suc k"]) simp
  qed
qed auto

lemma udp_send_log:
  assumes "udp_send_payload_to (logging_udp N) endpoint payload obj = (st, obj')" "udp_world obj = (w, l)"
  shows "\<exists>k. snd (udp_world obj') = l @ replicate k (encode_frame payload) \<and>
    (if ts_ok st then 0 < k else True) \<and> (if kMaxDiscoveryPayload < length payload then k = 0 else True)"
proof (cases "udp_socket obj")
  case None
  with assms show ?thesis by (auto simp: udp_send_payload_to_def status_failure_def)
next
  case (Some fd)
  show ?thesis
  proof (cases "kMaxDiscoveryPayload < length payload")
    case True
    with assms Some show ?thesis by (auto simp: udp_send_payload_to_def status_failure_def)
  next
    case False
    obtain gai w1 where resolved: "ud_getaddrinfo N (ep_host endpoint) (to_string_u (ep_port endpoint)) w = (gai, w1)"
      by (cases "ud_getaddrinfo N (ep_host endpoint) (to_string_u (ep_port endpoint)) w") auto
    then have resolve: "ud_getaddrinfo (logging_udp N) (ep_host endpoint) (to_string_u (ep_port endpoint)) (w, l) =
        (gai, w1, l)"
      by (simp add: logging_udp_def)
    show ?thesis
    proof (cases gai)
      case (Inl e)
      with assms Some False resolve show ?thesis by (auto simp: udp_send_payload_to_def status_failure_def)
    next
      case (Inr as)
      obtain sent e w2 l2 where loop: "send_to_first (logging_udp N) fd (encode_frame payload) as [] (w1, l) =
          ((sent, e), w2, l2)"
        by (metis prod_cases3 prod.exhaust)
      from send_to_first_log [OF this] obtain k where "l2 = l @ replicate k (encode_frame payload)" "sent \<longrightarrow> 0 < k"
        by auto
      with assms Some False resolve Inr loop show ?thesis
        by (cases sent) (auto simp: udp_send_payload_to_def status_failure_def status_success_def)
    qed
  qed
qed

lemma discovery_not_empty: "build_discovery_json s p seq r t \<noteq> []"
  by (simp add: build_discovery_json_def Let_def build_message_json_header)

lemma datagram_decodes:
  assumes "payload \<noteq> []" "length payload \<le> kMaxDiscoveryPayload"
  shows "decode_ok (decode_frame (Some (encode_frame payload)) kMaxDiscoveryPayload) \<and>
    dr_payload (decode_frame (Some (encode_frame payload)) kMaxDiscoveryPayload) = payload"
proof -
  have small: "length payload < 2 ^ 32" using assms(2) by (simp add: kMaxDiscoveryPayload_def)
  have "decode_ok (decode_frame (Some (encode_frame payload)) kMaxDiscoveryPayload)"
    using frame_length_encode [OF small, of "[]"] assms by (auto simp: decode_ok_iff unsigned_eq_0_iff)
  then show ?thesis using decode_ok_payload by simp
qed

section \<open>Properties\<close>

text \<open>
  What an accepted offer teaches: a message that is not a PRE_ADOPT_REQUEST never names a port; the
  port is the default one or a number from 1 to 65535 the offer states; the controller id is the
  configured one whenever there is one, and only without one a destination of the message that is not
  24 characters long; a destination of exactly 24 characters is a site destination and never a
  controller id.
\<close>

theorem pre_adopt_learns:
  "case parse_pre_adopt_request J payload current port of r \<Rightarrow>
     (if pa_is_pre_adopt r \<and> pa_ok r
      then ecsp_header_type J (json_document_parse J payload) = Some (to_underlying PreAdoptRequest) \<and>
        (pa_adopt_port r = port \<or>
         (\<exists>v. json_int J (object_member (ecsp_body (json_document_parse J payload)) ''adoptPort'') = Some v \<and>
           0 < sint v \<and> sint v \<le> 65535 \<and> uint (pa_adopt_port r) = sint v))
      else pa_adopt_port r = port) \<and>
     (current \<noteq> [] \<and> pa_controller_id r = current \<or>
      current = [] \<and> length (pa_controller_id r) \<noteq> 24) \<and>
     (pa_destination_id r = [] \<or> length (pa_destination_id r) = 24)"
  by (auto simp: parse_pre_adopt_request_def Let_def uint_ucast_port split: option.splits)

text \<open>
  C32. A datagram that goes out is exactly one frame of the announcement, which decodes to it within the
  limit of the receiver, and announcements above the limit are refused without sending anything.
\<close>

theorem announcement_framed:
  "case send_discovery_once (logging_udp N) endpoint s profile seq restart t (obj\<lparr>udp_world := (w, [])\<rparr>) of
     (st, obj') \<Rightarrow>
    list_all (\<lambda>d. decode_ok (decode_frame (Some d) kMaxDiscoveryPayload) \<and>
        dr_payload (decode_frame (Some d) kMaxDiscoveryPayload) = build_discovery_json s profile seq restart t)
      (snd (udp_world obj')) \<and>
    (if ts_ok st then snd (udp_world obj') \<noteq> [] else True) \<and>
    (if kMaxDiscoveryPayload < length (build_discovery_json s profile seq restart t)
     then snd (udp_world obj') = [] else True)"
proof -
  let ?json = "build_discovery_json s profile seq restart t"
  let ?obj = "obj\<lparr>udp_world := (w, [])\<rparr>"
  obtain st obj' where run: "udp_send_payload_to (logging_udp N) endpoint ?json ?obj = (st, obj')"
    by (cases "udp_send_payload_to (logging_udp N) endpoint ?json ?obj") auto
  from udp_send_log [OF this, of w "[]"] obtain k where
    k: "snd (udp_world obj') = replicate k (encode_frame ?json)" "if ts_ok st then 0 < k else True"
      "if kMaxDiscoveryPayload < length ?json then k = 0 else True" by auto
  have "list_all (\<lambda>d. decode_ok (decode_frame (Some d) kMaxDiscoveryPayload) \<and>
      dr_payload (decode_frame (Some d) kMaxDiscoveryPayload) = ?json) (replicate k (encode_frame ?json))"
    using k(3) datagram_decodes [OF discovery_not_empty, of s profile seq restart t]
    by (auto simp: list_all_iff not_less split: if_splits)
  with k show ?thesis by (auto simp: send_discovery_once_def run split: if_splits)
qed

end
