(* ===== verification/Reconnect.thy ===== *)
theory Reconnect
  imports Session_Repository Inform
begin

text \<open>
  \<open>src/src/lifecycle/reconnect.cpp\<close>: from a stored state back to the controller.  The adoption attempt and
  the rediscovery are the callbacks of the code, operations on the world; the properties hold for every
  state repository that keeps the contract of \<open>session_store\<close>.
\<close>

datatype reconnect_outcome =
    NoState | StateLoadFailed | DirectReconnectSucceeded | DirectReconnectExhausted | RediscoverySent
  | RediscoveryFailed

fun reconnect_to_string :: "reconnect_outcome \<Rightarrow> string" where
  "reconnect_to_string NoState = ''no-state''"
| "reconnect_to_string StateLoadFailed = ''state-load-failed''"
| "reconnect_to_string DirectReconnectSucceeded = ''direct-reconnect-succeeded''"
| "reconnect_to_string DirectReconnectExhausted = ''direct-reconnect-exhausted''"
| "reconnect_to_string RediscoverySent = ''rediscovery-sent''"
| "reconnect_to_string RediscoveryFailed = ''rediscovery-failed''"

record managed_reconnect_result =
  mrr_outcome :: reconnect_outcome
  mrr_attempts :: u32
  mrr_state :: managed_state
  mrr_adoption :: adoption_result
  mrr_error :: string

definition default_reconnect_result :: managed_reconnect_result where
  "default_reconnect_result =
     \<lparr>mrr_outcome = NoState, mrr_attempts = 0, mrr_state = default_managed_state,
      mrr_adoption = default_adoption_result, mrr_error = []\<rparr>"

definition settings_for_managed_state :: "agent_settings \<Rightarrow> managed_state \<Rightarrow> agent_settings" where
  "settings_for_managed_state s state =
    (let managed = s\<lparr>controller_host := ms_controller_host state, controller_id := ms_controller_id state,
                     manage_port := ms_manage_port state\<rparr>;
         managed = (if ms_site_id state \<noteq> [] then managed\<lparr>site_id := ms_site_id state\<rparr> else managed)
     in if device_username managed = [] \<and> ms_username state \<noteq> []
        then managed\<lparr>device_username := ms_username state\<rparr> else managed)"

definition adoption_options_for_managed_state :: "managed_state \<Rightarrow> 'w adoption_options" where
  "adoption_options_for_managed_state state =
     \<lparr>managed_reconnect = True, known_config_version = ms_config_version state, random_system_key = None,
      opt_timestamp_ms = 0\<rparr>"

text \<open>One after the other, until one succeeds or none is left.\<close>

fun direct_attempts ::
  "(managed_state \<Rightarrow> 'w \<Rightarrow> adoption_result \<times> 'w) \<Rightarrow> nat \<Rightarrow> managed_reconnect_result \<Rightarrow> 'w \<Rightarrow>
   (managed_reconnect_result \<times> bool) \<times> 'w" where
  "direct_attempts attempt_adoption 0 result w = ((result, False), w)"
| "direct_attempts attempt_adoption (Suc remaining) result w =
    (let result = result\<lparr>mrr_attempts := mrr_attempts result + 1\<rparr>;
         (adoption, w) = attempt_adoption (mrr_state result) w;
         result = result\<lparr>mrr_adoption := adoption\<rparr>
     in if ar_ok adoption \<and> initial_sync_complete adoption
        then ((result\<lparr>mrr_outcome := DirectReconnectSucceeded, mrr_error := []\<rparr>, True), w)
        else
          (let result = result\<lparr>mrr_error :=
                 (if ar_detail adoption = [] then adoption_error_to_string (ar_error adoption)
                  else ar_detail adoption)\<rparr>
           in direct_attempts attempt_adoption remaining result w))"

definition run_managed_reconnect ::
  "('w \<Rightarrow> (load_state_result \<times> 'w) option) \<Rightarrow> u32 \<Rightarrow> (managed_state \<Rightarrow> 'w \<Rightarrow> adoption_result \<times> 'w) \<Rightarrow>
   (managed_state \<Rightarrow> 'w \<Rightarrow> transport_status \<times> 'w) option \<Rightarrow> 'w \<Rightarrow>
   (managed_reconnect_result \<times> 'w) option" where
  "run_managed_reconnect load max_direct_attempts attempt_adoption send_rediscovery w =
     (case load w of
        None \<Rightarrow> None
      | Some (loaded, w) \<Rightarrow>
          Some
            (let result = default_reconnect_result
             in if \<not> ls_ok loaded
                then (result\<lparr>mrr_outcome := StateLoadFailed, mrr_error := ls_error loaded\<rparr>, w)
                else if \<not> ls_found loaded
                then (result\<lparr>mrr_outcome := NoState, mrr_error := ls_error loaded\<rparr>, w)
                else
                  (let result = result\<lparr>mrr_state := ls_state loaded\<rparr>;
                       ((result, succeeded), w) =
                         direct_attempts attempt_adoption (unat max_direct_attempts) result w
                   in if succeeded then (result, w)
                      else
                        (case send_rediscovery of
                           None \<Rightarrow> (result\<lparr>mrr_outcome := DirectReconnectExhausted\<rparr>, w)
                         | Some send \<Rightarrow>
                             (let (rediscovery, w) = send (mrr_state result) w
                              in if ts_ok rediscovery
                                 then (result\<lparr>mrr_outcome := RediscoverySent, mrr_error := []\<rparr>, w)
                                 else (result\<lparr>mrr_outcome := RediscoveryFailed,
                                              mrr_error := ts_error rediscovery\<rparr>, w))))))"

section \<open>Runs\<close>

text \<open>What a reconnection does to the network, in order.\<close>

datatype reconnect_event = Attempted managed_state adoption_result | Announced managed_state transport_status

definition logged_attempt ::
  "(managed_state \<Rightarrow> 'w \<Rightarrow> adoption_result \<times> 'w) \<Rightarrow>
   managed_state \<Rightarrow> 'w \<times> reconnect_event list \<Rightarrow> adoption_result \<times> 'w \<times> reconnect_event list" where
  "logged_attempt adopt st = (\<lambda>(w, log). let (a, w) = adopt st w in (a, w, log @ [Attempted st a]))"

definition logged_rediscovery ::
  "(managed_state \<Rightarrow> 'w \<Rightarrow> transport_status \<times> 'w) \<Rightarrow>
   managed_state \<Rightarrow> 'w \<times> reconnect_event list \<Rightarrow> transport_status \<times> 'w \<times> reconnect_event list" where
  "logged_rediscovery send st = (\<lambda>(w, log). let (s, w) = send st w in (s, w, log @ [Announced st s]))"

definition unlogged_load ::
  "('w \<Rightarrow> (load_state_result \<times> 'w) option) \<Rightarrow>
   'w \<times> reconnect_event list \<Rightarrow> (load_state_result \<times> 'w \<times> reconnect_event list) option" where
  "unlogged_load load = (\<lambda>(w, log). map_option (\<lambda>(r, w). (r, w, log)) (load w))"

definition attempt_succeeded :: "adoption_result \<Rightarrow> bool" where
  "attempt_succeeded a \<longleftrightarrow> ar_ok a \<and> initial_sync_complete a"

lemma logged_attempt_apply:
  "adopt st w = (a, w1) \<Longrightarrow> logged_attempt adopt st (w, l) = (a, w1, l @ [Attempted st a])"
  by (simp add: logged_attempt_def)

lemma direct_attempts_log:
  "direct_attempts (logged_attempt adopt) k r (w, l) = ((r', s), w', l') \<Longrightarrow>
   \<exists>as. l' = l @ map (Attempted (mrr_state r)) as \<and> mrr_state r' = mrr_state r \<and>
     mrr_attempts r' = mrr_attempts r + of_nat (length as) \<and>
     (if s then \<exists>fs a. as = fs @ [a] \<and> list_all (\<lambda>a. \<not> attempt_succeeded a) fs \<and> attempt_succeeded a \<and>
          length as \<le> k \<and> mrr_outcome r' = DirectReconnectSucceeded \<and> mrr_adoption r' = a
      else length as = k \<and> list_all (\<lambda>a. \<not> attempt_succeeded a) as)"
proof (induction k arbitrary: r w l)
  case (Suc k)
  obtain a w1 where call: "adopt (mrr_state r) w = (a, w1)" by (cases "adopt (mrr_state r) w") auto
  show ?case
  proof (cases "attempt_succeeded a")
    case True
    show ?thesis
      by (rule exI [of _ "[a]"])
        (use True Suc.prems call in \<open>auto simp: logged_attempt_def attempt_succeeded_def\<close>)
  next
    case False
    define r1 where "r1 = r\<lparr>mrr_attempts := mrr_attempts r + 1, mrr_adoption := a, mrr_error :=
        (if ar_detail a = [] then adoption_error_to_string (ar_error a) else ar_detail a)\<rparr>"
    have "direct_attempts (logged_attempt adopt) k r1 (w1, l @ [Attempted (mrr_state r) a]) = ((r', s), w', l')"
      using Suc.prems False
      by (cases "ar_ok a")
        (simp_all add: logged_attempt_apply [of adopt "mrr_state r" w a w1, OF call] attempt_succeeded_def r1_def Let_def split: if_splits)
    from Suc.IH [OF this] obtain as where as:
      "l' = l @ [Attempted (mrr_state r) a] @ map (Attempted (mrr_state r)) as" "mrr_state r' = mrr_state r"
      "mrr_attempts r' = mrr_attempts r + 1 + of_nat (length as)"
      "if s then \<exists>fs a. as = fs @ [a] \<and> list_all (\<lambda>a. \<not> attempt_succeeded a) fs \<and> attempt_succeeded a \<and>
          length as \<le> k \<and> mrr_outcome r' = DirectReconnectSucceeded \<and> mrr_adoption r' = a
       else length as = k \<and> list_all (\<lambda>a. \<not> attempt_succeeded a) as"
      by (auto simp: r1_def)
    show ?thesis
    proof (cases s)
      case True
      with as(4) obtain fs b where fs: "as = fs @ [b]" "list_all (\<lambda>a. \<not> attempt_succeeded a) fs"
        "attempt_succeeded b" "length as \<le> k" "mrr_outcome r' = DirectReconnectSucceeded" "mrr_adoption r' = b"
        by auto
      show ?thesis
        by (rule exI [of _ "a # as"], intro conjI, use as True fs False in simp_all)
    next
      case no: False
      show ?thesis
        by (rule exI [of _ "a # as"]) (use as no False in simp)
    qed
  qed
qed simp

context session_store
begin

lemma run_managed_reconnect_log:
  "\<exists>r w' log. run_managed_reconnect (unlogged_load load) n (logged_attempt adopt)
      (map_option logged_rediscovery send) (w, []) = Some (r, w', log) \<and>
    (case mrr_outcome r of
       StateLoadFailed \<Rightarrow> log = []
     | NoState \<Rightarrow> log = [] \<and> kept w = None
     | DirectReconnectSucceeded \<Rightarrow> kept w = Some (mrr_state r) \<and>
         (\<exists>fs a. log = map (Attempted (mrr_state r)) (fs @ [a]) \<and> length fs < unat n \<and>
            list_all (\<lambda>a. \<not> attempt_succeeded a) fs \<and> attempt_succeeded a \<and> mrr_adoption r = a)
     | DirectReconnectExhausted \<Rightarrow> kept w = Some (mrr_state r) \<and> send = None \<and>
         (\<exists>fs. log = map (Attempted (mrr_state r)) fs \<and> length fs = unat n \<and>
            list_all (\<lambda>a. \<not> attempt_succeeded a) fs)
     | _ \<Rightarrow> kept w = Some (mrr_state r) \<and>
         (\<exists>fs s. log = map (Attempted (mrr_state r)) fs @ [Announced (mrr_state r) s] \<and> length fs = unat n \<and>
            list_all (\<lambda>a. \<not> attempt_succeeded a) fs \<and> ts_ok s = (mrr_outcome r = RediscoverySent)))"
proof -
  obtain lr w1 where loaded: "load w = Some (lr, w1)"
    "if ls_ok lr then (if ls_found lr then kept w = Some (ls_state lr) else kept w = None) else \<not> ls_found lr"
    using load_truth [of w] by blast
  show ?thesis
  proof (cases "ls_ok lr \<and> ls_found lr")
    case False
    with loaded show ?thesis
      by (cases "ls_ok lr") (auto simp: run_managed_reconnect_def unlogged_load_def)
  next
    case True
    let ?r = "default_reconnect_result\<lparr>mrr_state := ls_state lr\<rparr>"
    obtain r s w2 l where attempts:
      "direct_attempts (logged_attempt adopt) (unat n) ?r (w1, []) = ((r, s), w2, l)"
      by (metis prod_cases3 prod.exhaust)
    from direct_attempts_log [OF this] obtain as where as: "l = map (Attempted (ls_state lr)) as"
      "mrr_state r = ls_state lr"
      "if s then \<exists>fs a. as = fs @ [a] \<and> list_all (\<lambda>a. \<not> attempt_succeeded a) fs \<and> attempt_succeeded a \<and>
          length as \<le> unat n \<and> mrr_outcome r = DirectReconnectSucceeded \<and> mrr_adoption r = a
       else length as = unat n \<and> list_all (\<lambda>a. \<not> attempt_succeeded a) as"
      by auto
    have kept: "kept w = Some (mrr_state r)" using True loaded as(2) by simp
    have load: "unlogged_load load (w, []) = Some (lr, w1, [])" using loaded by (simp add: unlogged_load_def)
    show ?thesis
    proof (cases s)
      case success: True
      with as(3) obtain fs a where fs: "as = fs @ [a]" "list_all (\<lambda>a. \<not> attempt_succeeded a) fs"
        "attempt_succeeded a" "length as \<le> unat n" "mrr_outcome r = DirectReconnectSucceeded" "mrr_adoption r = a"
        by auto
      have run: "run_managed_reconnect (unlogged_load load) n (logged_attempt adopt)
          (map_option logged_rediscovery send) (w, []) = Some (r, w2, l)"
        using load True attempts success by (simp add: run_managed_reconnect_def)
      show ?thesis
        by (rule exI [of _ r], rule exI [of _ w2], rule exI [of _ l], rule conjI [OF run])
          (use fs as(1,2) kept in auto)
    next
      case failure: False
      show ?thesis
      proof (cases send)
        case None
        have run: "run_managed_reconnect (unlogged_load load) n (logged_attempt adopt)
            (map_option logged_rediscovery send) (w, []) =
            Some (r\<lparr>mrr_outcome := DirectReconnectExhausted\<rparr>, w2, l)"
          using load True attempts failure None by (simp add: run_managed_reconnect_def)
        show ?thesis
          by (rule exI, rule exI, rule exI, rule conjI [OF run]) (use as kept failure None in auto)
      next
        case (Some f)
        obtain st w3 where sent: "f (mrr_state r) w2 = (st, w3)" by (cases "f (mrr_state r) w2") auto
        have run: "run_managed_reconnect (unlogged_load load) n (logged_attempt adopt)
            (map_option logged_rediscovery send) (w, []) =
            Some (if ts_ok st then r\<lparr>mrr_outcome := RediscoverySent, mrr_error := []\<rparr>
                  else r\<lparr>mrr_outcome := RediscoveryFailed, mrr_error := ts_error st\<rparr>,
                  w3, l @ [Announced (mrr_state r) st])"
          using load True attempts failure Some sent
          by (simp add: run_managed_reconnect_def logged_rediscovery_def)
        show ?thesis
          by (rule exI, rule exI, rule exI, rule conjI [OF run]) (use as kept failure in auto)
      qed
    qed
  qed
qed

end

section \<open>Property\<close>

text \<open>
  C31. A reconnection from the state file always returns and is bounded: without a usable state nothing
  is sent; with one, at most the configured number of attempts is made, all with the kept state, the
  first success ends them and is the reported adoption; the controller is looked for again exactly
  once, after every attempt failed, and the outcome says which of these happened.
\<close>

theorem reconnect_bounded:
  assumes "posix_files P contents remaining target patience"
  shows "\<exists>r w' log. run_managed_reconnect (unlogged_load (repository_load P J repo)) n
      (logged_attempt adopt) (map_option logged_rediscovery send) (w, []) = Some (r, w', log) \<and>
    (case mrr_outcome r of
       StateLoadFailed \<Rightarrow> log = []
     | NoState \<Rightarrow> log = [] \<and> kept_state J repo (contents w (repo_path repo)) = None
     | DirectReconnectSucceeded \<Rightarrow> kept_state J repo (contents w (repo_path repo)) = Some (mrr_state r) \<and>
         (\<exists>fs a. log = map (Attempted (mrr_state r)) (fs @ [a]) \<and> length fs < unat n \<and>
            list_all (\<lambda>a. \<not> attempt_succeeded a) fs \<and> attempt_succeeded a \<and> mrr_adoption r = a)
     | DirectReconnectExhausted \<Rightarrow> kept_state J repo (contents w (repo_path repo)) = Some (mrr_state r) \<and>
         send = None \<and>
         (\<exists>fs. log = map (Attempted (mrr_state r)) fs \<and> length fs = unat n \<and>
            list_all (\<lambda>a. \<not> attempt_succeeded a) fs)
     | _ \<Rightarrow> kept_state J repo (contents w (repo_path repo)) = Some (mrr_state r) \<and>
         (\<exists>fs s. log = map (Attempted (mrr_state r)) fs @ [Announced (mrr_state r) s] \<and> length fs = unat n \<and>
            list_all (\<lambda>a. \<not> attempt_succeeded a) fs \<and> ts_ok s = (mrr_outcome r = RediscoverySent)))"
  by (rule session_store.run_managed_reconnect_log [OF posix_session_store [OF assms]])

text \<open>An empty file system: no state, so nothing is attempted.\<close>

theorem reconnect_bounded_witness:
  "\<exists>r w'. run_managed_reconnect (unlogged_load (repository_load memory_posix (table_jsonc []) sample_repository)) 2
      (logged_attempt (\<lambda>_ w. (default_adoption_result, w))) (map_option logged_rediscovery None)
      (sample_files\<lparr>mem_script := []\<rparr>, []) = Some (r, w', []) \<and> mrr_outcome r = NoState"
proof -
  let ?run = "run_managed_reconnect (unlogged_load (repository_load memory_posix (table_jsonc []) sample_repository)) 2
      (logged_attempt (\<lambda>_ w. (default_adoption_result, w))) (map_option logged_rediscovery None)
      (sample_files\<lparr>mem_script := []\<rparr>, [])"
  obtain r w' log where r: "?run = Some (r, w', log)" "mrr_outcome r = NoState \<longrightarrow> log = []"
    using reconnect_bounded [OF memory.posix_files_axioms, of "table_jsonc []" sample_repository 2
        "\<lambda>_ w. (default_adoption_result, w)" None "sample_files\<lparr>mem_script := []\<rparr>"]
    by (elim exE conjE) (simp split: reconnect_outcome.splits)
  have "\<exists>r w' log. ?run = Some (r, w', log) \<and> mrr_outcome r = NoState"
    by (simp add: run_managed_reconnect_def unlogged_load_def repository_load_def read_file_limited_def
        memory_calls sample_files_def)
  with r show ?thesis by auto
qed

end
