(* ===== verification/Capabilities.thy ===== *)
theory Capabilities
  imports Configuration
begin

text \<open>
  \<open>src/src/platform/capabilities.cpp\<close>: what the platform can do, computed from the configuration, the
  programs that are installed and the output of \<open>iw list\<close>.
\<close>

section \<open>Texts\<close>

definition lower_trim :: "string \<Rightarrow> string" where
  "lower_trim s = lowercase (trim s)"

definition has_line :: "string \<Rightarrow> string \<Rightarrow> bool" where
  "has_line s needle = list_ex (\<lambda>line. lower_trim line = needle) (split_on CHR 0x0A s)"

text \<open>\<open>std::from_chars\<close> into 32 bits, with everything read.\<close>

definition parse_uint :: "string \<Rightarrow> u32 option" where
  "parse_uint s =
     (if s \<noteq> [] \<and> list_all is_digit s \<and> digits_val s < 2 ^ 32 then Some (of_nat (digits_val s)) else None)"

definition group_has_ap :: "string \<Rightarrow> bool" where
  "group_has_ap types = list_ex (\<lambda>piece. lower_trim piece = ''ap'') (split_on CHR '','' types)"

definition contains_band :: "radio_band list \<Rightarrow> radio_band \<Rightarrow> bool" where
  "contains_band bands band = List.member bands band"

definition feature_name :: "string \<Rightarrow> string" where
  "feature_name raw = (if starts_with raw ''supports_'' then drop (length ''supports_'') raw else raw)"

definition append_feature :: "string \<Rightarrow> bool \<Rightarrow> string \<times> bool \<Rightarrow> string \<times> bool" where
  "append_feature name enabled = (\<lambda>(out, first).
     if \<not> enabled then (out, first)
     else ((if first then out else out @ '','') @ feature_name name, False))"

definition resolved :: "bool option \<Rightarrow> bool \<Rightarrow> bool" where
  "resolved override_value default_value = (case override_value of Some b \<Rightarrow> b | None \<Rightarrow> default_value)"

section \<open>Radio bands\<close>

definition radio_band_from_wire :: "string \<Rightarrow> radio_band option" where
  "radio_band_from_wire s =
    (let n = lower_trim s
     in if n = ''2g'' \<or> n = ''2g4'' then Some TwoG
        else if n = ''5g'' then Some FiveG
        else if n = ''5g2'' then Some FiveG2
        else if n = ''6g'' then Some SixG
        else None)"

text \<open>The bands and the error text.\<close>

fun radio_band_pieces :: "string list \<Rightarrow> radio_band list \<Rightarrow> radio_band list \<times> string" where
  "radio_band_pieces [] bands = (bands, [])"
| "radio_band_pieces (piece # pieces) bands =
    (let v = lower_trim piece
     in if v \<noteq> []
        then
          (case radio_band_from_wire v of
             None \<Rightarrow> ([], ''unsupported radio band: '' @ v)
           | Some band \<Rightarrow>
               radio_band_pieces pieces (if contains_band bands band then bands else bands @ [band]))
        else radio_band_pieces pieces bands)"

definition parse_radio_bands :: "string \<Rightarrow> radio_band list \<times> string" where
  "parse_radio_bands raw = radio_band_pieces (split_on CHR '','' raw) []"

section \<open>The limit of \<open>iw list\<close>\<close>

text \<open>The limits of the groups with access points, from a position of the text on.\<close>

function iw_limits :: "string \<Rightarrow> u32 list" where
  "iw_limits s =
     (case find_sub ''#{'' s of
        None \<Rightarrow> []
      | Some (_, from_group) \<Rightarrow>
          (case find_sub ''}'' from_group of
             None \<Rightarrow> []
           | Some (types, after) \<Rightarrow>
               (case find_sub ''<='' after of
                  None \<Rightarrow> iw_limits after
                | Some (_, from_number) \<Rightarrow>
                    (let number = takeWhile is_digit (dropWhile is_space from_number)
                     in (if group_has_ap types
                         then (case parse_uint number of Some n \<Rightarrow> [n] | None \<Rightarrow> [])
                         else []) @ iw_limits after))))"
  by pat_completeness auto

termination
  by (relation "measure length") (auto dest!: find_sub_Some)

declare iw_limits.simps [simp del]

definition iw_ap_interface_limit :: "string \<Rightarrow> u32 option" where
  "iw_ap_interface_limit s =
     (if contains_sub s ''interface combinations are not supported''
      then if has_line s ''* ap'' then Some 1 else None
      else
        (let limits = iw_limits s
         in case limits of [] \<Rightarrow> None | limit # rest \<Rightarrow> Some (fold max rest limit)))"

section \<open>Detection\<close>

record tool_availability =
  tool_uci :: bool
  tool_ubus :: bool
  tool_nft :: bool
  tool_hostapd :: bool
  tool_dnsmasq :: bool
  tool_opennds :: bool
  tool_ndsctl :: bool
  tool_iw :: bool

record platform_input =
  pi_platform :: string
  pi_radio_bands :: string
  pi_max_ssids :: u32
  pi_tools :: tool_availability
  pi_iw_list_output :: string
  cap_wlan :: "bool option"
  cap_wpa2_psk :: "bool option"
  cap_wpa3_psk :: "bool option"
  cap_wpa_enterprise :: "bool option"
  cap_radius :: "bool option"
  cap_ssid_vlan :: "bool option"
  cap_dynamic_vlan :: "bool option"
  cap_management_vlan :: "bool option"
  cap_portal :: "bool option"
  cap_dhcp_tracking :: "bool option"
  cap_option82 :: "bool option"
  cap_led :: "bool option"
  cap_client_operations :: "bool option"
  cap_client_rate_limits :: "bool option"

record platform_capabilities =
  pcap_platform :: string
  pcap_tools :: tool_availability
  pcap_radio_bands :: "radio_band list"
  pcap_max_ssids :: u32
  supports_wlan_config :: bool
  supports_wpa2_psk :: bool
  supports_wpa3_psk :: bool
  supports_wpa_enterprise :: bool
  supports_radius :: bool
  supports_ssid_vlan :: bool
  supports_dynamic_vlan :: bool
  supports_management_vlan :: bool
  supports_portal :: bool
  supports_dhcp_tracking :: bool
  supports_option82 :: bool
  supports_led_control :: bool
  supports_client_operations :: bool
  supports_client_rate_limits :: bool

record capability_result =
  cr_ok :: bool
  cr_capabilities :: platform_capabilities
  cr_error :: string

definition no_tools :: tool_availability where
  "no_tools =
     \<lparr>tool_uci = False, tool_ubus = False, tool_nft = False, tool_hostapd = False, tool_dnsmasq = False,
      tool_opennds = False, tool_ndsctl = False, tool_iw = False\<rparr>"

definition default_platform_input :: platform_input where
  "default_platform_input =
     \<lparr>pi_platform = ''auto'', pi_radio_bands = ''2g'', pi_max_ssids = 4, pi_tools = no_tools,
      pi_iw_list_output = [], cap_wlan = None, cap_wpa2_psk = None, cap_wpa3_psk = None,
      cap_wpa_enterprise = None, cap_radius = None, cap_ssid_vlan = None, cap_dynamic_vlan = None,
      cap_management_vlan = None, cap_portal = None, cap_dhcp_tracking = None, cap_option82 = None,
      cap_led = None, cap_client_operations = None, cap_client_rate_limits = None\<rparr>"

definition default_capabilities :: platform_capabilities where
  "default_capabilities =
     \<lparr>pcap_platform = ''generic'', pcap_tools = no_tools, pcap_radio_bands = [], pcap_max_ssids = 0,
      supports_wlan_config = False, supports_wpa2_psk = False, supports_wpa3_psk = False,
      supports_wpa_enterprise = False, supports_radius = False, supports_ssid_vlan = False,
      supports_dynamic_vlan = False, supports_management_vlan = False, supports_portal = False,
      supports_dhcp_tracking = False, supports_option82 = False, supports_led_control = False,
      supports_client_operations = False, supports_client_rate_limits = False\<rparr>"

definition detect_platform_capabilities :: "platform_input \<Rightarrow> capability_result" where
  "detect_platform_capabilities input =
    (let result = \<lparr>cr_ok = False, cr_capabilities = default_capabilities, cr_error = []\<rparr>;
         platform = lower_trim (pi_platform input)
     in if platform \<noteq> ''auto'' \<and> platform \<noteq> ''openwrt'' \<and> platform \<noteq> ''generic''
        then result\<lparr>cr_error := ''platform must be auto, openwrt or generic''\<rparr>
        else
          (let (bands, band_error) = parse_radio_bands (pi_radio_bands input)
           in if band_error \<noteq> [] then result\<lparr>cr_error := band_error\<rparr>
              else
                (let tools = pi_tools input;
                     openwrt = (platform = ''openwrt'' \<or>
                       platform = ''auto'' \<and> tool_uci tools \<and> tool_ubus tools);
                     max_ssids = pi_max_ssids input;
                     max_ssids =
                       (if openwrt \<and> tool_iw tools \<and> 1 < max_ssids
                        then (case iw_ap_interface_limit (pi_iw_list_output input) of
                                Some limit \<Rightarrow> min max_ssids limit | None \<Rightarrow> max_ssids)
                        else max_ssids);
                     wlan_possible = (openwrt \<and> tool_uci tools);
                     has_opennds = (tool_opennds tools \<and> tool_ndsctl tools)
                 in result\<lparr>cr_ok := True, cr_capabilities :=
                      \<lparr>pcap_platform = (if openwrt then ''openwrt'' else platform),
                       pcap_tools = tools\<lparr>tool_opennds := has_opennds\<rparr>,
                       pcap_radio_bands = bands,
                       pcap_max_ssids = max_ssids,
                       supports_wlan_config = resolved (cap_wlan input) wlan_possible,
                       supports_wpa2_psk = resolved (cap_wpa2_psk input) wlan_possible,
                       supports_wpa3_psk = resolved (cap_wpa3_psk input) False,
                       supports_wpa_enterprise = resolved (cap_wpa_enterprise input) False,
                       supports_radius = resolved (cap_radius input) False,
                       supports_ssid_vlan = resolved (cap_ssid_vlan input) False,
                       supports_dynamic_vlan = resolved (cap_dynamic_vlan input) False,
                       supports_management_vlan = resolved (cap_management_vlan input) False,
                       supports_portal = resolved (cap_portal input) (openwrt \<and> has_opennds),
                       supports_dhcp_tracking = resolved (cap_dhcp_tracking input) (openwrt \<and> tool_ubus tools),
                       supports_option82 = resolved (cap_option82 input) False,
                       supports_led_control = resolved (cap_led input) False,
                       supports_client_operations =
                         resolved (cap_client_operations input) (openwrt \<and> tool_ubus tools),
                       supports_client_rate_limits = resolved (cap_client_rate_limits input) False\<rparr>\<rparr>)))"

definition capability_features :: "platform_capabilities \<Rightarrow> string" where
  "capability_features c = fst
     (fold (\<lambda>(name, enabled). append_feature name enabled)
        [(''supports_wlan_config'', supports_wlan_config c),
         (''supports_wpa2_psk'', supports_wpa2_psk c),
         (''supports_wpa3_psk'', supports_wpa3_psk c),
         (''supports_wpa_enterprise'', supports_wpa_enterprise c),
         (''supports_radius'', supports_radius c),
         (''supports_ssid_vlan'', supports_ssid_vlan c),
         (''supports_dynamic_vlan'', supports_dynamic_vlan c),
         (''supports_management_vlan'', supports_management_vlan c),
         (''supports_portal'', supports_portal c),
         (''supports_dhcp_tracking'', supports_dhcp_tracking c),
         (''supports_option82'', supports_option82 c),
         (''supports_led_control'', supports_led_control c),
         (''supports_client_operations'', supports_client_operations c),
         (''supports_client_rate_limits'', supports_client_rate_limits c)] ([], True))"

definition capability_summary :: "platform_capabilities \<Rightarrow> string" where
  "capability_summary c =
    (let bands = join_with '','' (map band_wire_string (pcap_radio_bands c));
         bands = (if bands = [] then ''none'' else bands);
         features = capability_features c;
         features = (if features = [] then ''none'' else features);
         flag = (\<lambda>b. if b then ''1'' else ''0'')
     in ''platform='' @ pcap_platform c @ '' bands='' @ bands @ '' maxSsids='' @ to_string_u (pcap_max_ssids c)
        @ '' tools=uci:'' @ flag (tool_uci (pcap_tools c)) @ '',ubus:'' @ flag (tool_ubus (pcap_tools c))
        @ '',nft:'' @ flag (tool_nft (pcap_tools c)) @ '',hostapd:'' @ flag (tool_hostapd (pcap_tools c))
        @ '',dnsmasq:'' @ flag (tool_dnsmasq (pcap_tools c)) @ '',opennds:'' @ flag (tool_opennds (pcap_tools c))
        @ '' features='' @ features)"

definition supports_radio_band :: "platform_capabilities \<Rightarrow> radio_band \<Rightarrow> bool" where
  "supports_radio_band c band = contains_band (pcap_radio_bands c) band"

section \<open>Lemmas on texts\<close>

lemma is_space_to_lower [simp]: "is_space (to_lower c) = is_space c"
  by (auto simp: to_lower_def is_space_def)

lemma trim_lowercase: "trim (lowercase s) = lowercase (trim s)"
  by (simp add: trim_def lowercase_def dropWhile_map rev_map comp_def)

lemma is_space_blank [simp]: "is_space CHR '' ''"
  by (simp add: is_space_def code_def)

lemma trim_id: "s = [] \<or> \<not> is_space (hd s) \<and> \<not> is_space (last s) \<Longrightarrow> trim s = s"
  by (cases s) (auto simp: trim_def dropWhile_eq_self_iff hd_append hd_rev split: if_splits)

lemma trim_ends: "trim s = [] \<or> \<not> is_space (hd (trim s)) \<and> \<not> is_space (last (trim s))"
proof (cases "trim s = []")
  case False
  let ?t = "dropWhile is_space s"
  have ends: "\<not> is_space (last (trim s))"
    using False hd_dropWhile [of is_space "rev ?t"] by (simp add: trim_def last_rev)
  obtain u where "rev ?t = u @ rev (trim s)"
    using takeWhile_dropWhile_id [of is_space "rev ?t"] by (metis rev_rev_ident trim_def)
  then have "?t = trim s @ rev u" by (metis rev_append rev_rev_ident)
  with False have "hd (trim s) = hd ?t" "?t \<noteq> []" by auto
  with ends hd_dropWhile [of is_space s] show ?thesis by simp
qed simp

lemma trim_idem [simp]: "trim (trim s) = trim s"
  using trim_id trim_ends by blast

lemma lower_trim_idem [simp]: "lower_trim (lower_trim s) = lower_trim s"
  by (simp add: lower_trim_def trim_lowercase)

lemma trim_pad: "list_all is_space a \<Longrightarrow> list_all is_space b \<Longrightarrow> trim (a @ s @ b) = trim s"
proof -
  assume a: "list_all is_space a" and b: "list_all is_space b"
  have front: "dropWhile is_space (xs @ ys) = dropWhile is_space ys" if "list_all is_space xs" for xs ys
    using that by (induction xs) auto
  show "trim (a @ s @ b) = trim s"
  proof (cases "dropWhile is_space s = []")
    case True
    with a b have "dropWhile is_space (a @ s @ b) = []" by (auto simp: list_all_iff)
    with True show ?thesis unfolding trim_def by (simp only: rev.simps dropWhile.simps)
  next
    case False
    then have "dropWhile is_space (s @ b) = dropWhile is_space s @ b" by (auto simp: dropWhile_append)
    with a b show ?thesis by (simp add: trim_def front)
  qed
qed

section \<open>Bands\<close>

lemma radio_band_from_lower_trim [simp]: "radio_band_from_wire (lower_trim s) = radio_band_from_wire s"
  by (simp add: radio_band_from_wire_def)

lemma radio_band_pieces_cases:
  "case radio_band_pieces pieces bands of (out, error) \<Rightarrow>
     if error = []
     then set out = set bands \<union> {b. \<exists>p \<in> set pieces. radio_band_from_wire p = Some b} \<and>
       (distinct bands \<longrightarrow> distinct out) \<and>
       (\<forall>p \<in> set pieces. radio_band_from_wire p = None \<longrightarrow> lower_trim p = [])
     else out = [] \<and> (\<exists>p \<in> set pieces. lower_trim p \<noteq> [] \<and> radio_band_from_wire p = None)"
proof (induction pieces arbitrary: bands)
  case (Cons piece pieces)
  show ?case
  proof (cases "lower_trim piece = []")
    case True
    then have "radio_band_from_wire piece = None" by (simp add: radio_band_from_wire_def)
    with True Cons.IH [of bands] show ?thesis by (simp add: Let_def split: prod.splits)
  next
    case False
    show ?thesis
    proof (cases "radio_band_from_wire piece")
      case None
      with False show ?thesis by (simp add: Let_def)
    next
      case (Some band)
      define bs where "bs = (if contains_band bands band then bands else bands @ [band])"
      have bs: "set bs = insert band (set bands)" "distinct bands \<longrightarrow> distinct bs"
        by (auto simp: bs_def contains_band_def)
      have "radio_band_pieces (piece # pieces) bands = radio_band_pieces pieces bs"
        using False Some by (simp add: Let_def bs_def)
      with False Some bs Cons.IH [of bs] show ?thesis
        by (auto split: prod.splits if_splits)
    qed
  qed
qed simp

section \<open>Combinations of interfaces\<close>

lemma find_char [simp]: "c \<notin> set a \<Longrightarrow> find_sub [c] (a @ c # b) = Some (a, b)"
  by (induction a) (auto simp: starts_with_def)

lemma find_pair:
  assumes "c \<noteq> d"
  shows "\<not> contains_sub a [c, d] \<Longrightarrow> find_sub [c, d] (a @ c # d # b) = Some (a, b)"
proof (induction a)
  case (Cons x a)
  from Cons.prems have "\<not> contains_sub a [c, d]" "\<not> starts_with (x # a) [c, d]"
    by (auto simp: contains_sub_def split: if_splits)
  with Cons.IH assms show ?case by (cases a) (auto simp: starts_with_def)
qed (simp add: starts_with_def)

lemma contains_pair_skip:
  "c \<notin> set a \<Longrightarrow> contains_sub (a @ s) [c, d] = contains_sub s [c, d]"
  by (induction a) (auto simp: contains_sub_def starts_with_def)

text \<open>The way \<open>iw list\<close> prints a group of interface types with its limit, and a list of groups.\<close>

definition iw_group :: "string list \<times> nat \<Rightarrow> string" where
  "iw_group = (\<lambda>(types, n). ''#{ '' @ join_with '', '' types @ '' } <= '' @ dec n)"

definition iw_combinations :: "((string list \<times> nat) \<times> string) list \<Rightarrow> string" where
  "iw_combinations gs = concat (map (\<lambda>(g, gap). iw_group g @ gap) gs)"

definition iw_printed :: "(string list \<times> nat) \<times> string \<Rightarrow> bool" where
  "iw_printed = (\<lambda>((types, n), gap).
     list_all (\<lambda>t. CHR ''}'' \<notin> set t \<and> CHR '','' \<notin> set t) types \<and> n < 2 ^ 32 \<and>
     \<not> contains_sub gap ''#{'' \<and> (case gap of [] \<Rightarrow> True | c # _ \<Rightarrow> \<not> is_digit c))"

definition ap_limits :: "((string list \<times> nat) \<times> string) list \<Rightarrow> u32 list" where
  "ap_limits gs = map (\<lambda>((types, n), gap). of_nat n)
     (filter (\<lambda>((types, n), gap). list_ex (\<lambda>t. lower_trim t = ''ap'') types) gs)"

lemma lower_trim_pad: "list_all is_space a \<Longrightarrow> list_all is_space b \<Longrightarrow> lower_trim (a @ s @ b) = lower_trim s"
  by (simp add: lower_trim_def trim_pad)

lemma group_has_ap_printed:
  assumes "list_all (\<lambda>t. CHR '','' \<notin> set t) types" "list_all is_space a"
  shows "group_has_ap (a @ join_with '', '' types @ '' '') = list_ex (\<lambda>t. lower_trim t = ''ap'') types"
  using assms
proof (induction "'', ''" types arbitrary: a rule: join_with.induct)
  case 1
  have "lower_trim (a @ [] @ '' '') = lower_trim []"
    using 1 by (intro lower_trim_pad) (auto simp: is_space_def code_def)
  moreover have "CHR '','' \<notin> set a"
    using 1 by (auto simp: list_all_iff is_space_def code_def)
  ultimately show ?case by (simp add: group_has_ap_def string_simps lower_trim_def lowercase_def)
next
  case (2 t)
  have "lower_trim (a @ t @ '' '') = lower_trim t"
    using 2 by (intro lower_trim_pad) (auto simp: is_space_def code_def)
  moreover have "CHR '','' \<notin> set (a @ t @ '' '')"
    using 2 by (auto simp: list_all_iff is_space_def code_def)
  ultimately show ?case by (simp add: group_has_ap_def string_simps)
next
  case (3 t u ts)
  have "lower_trim (a @ t @ []) = lower_trim t"
    using 3 by (intro lower_trim_pad) (auto simp: is_space_def code_def)
  moreover have "CHR '','' \<notin> set (a @ t)"
    using 3 by (auto simp: list_all_iff is_space_def code_def)
  moreover have "group_has_ap ('' '' @ join_with '', '' (u # ts) @ '' '') =
      list_ex (\<lambda>t. lower_trim t = ''ap'') (u # ts)"
    using 3 by (intro 3(1)) (auto simp: is_space_def code_def)
  ultimately show ?case
    using split_on_append [of "CHR '',''" "a @ t" "'' '' @ join_with '', '' (u # ts) @ '' ''"]
    by (simp add: group_has_ap_def)
qed

lemma parse_uint_dec: "n < 2 ^ 32 \<Longrightarrow> parse_uint (dec n) = Some (of_nat n)"
  by (simp add: parse_uint_def dec_digits)

lemma iw_limits_stop: "\<not> contains_sub s ''#{'' \<Longrightarrow> iw_limits s = []"
  by (subst iw_limits.simps) (cases "find_sub ''#{'' s", auto simp: contains_sub_def)

lemma iw_limits_group:
  assumes "\<not> contains_sub pre ''#{''" "iw_printed ((types, n), gap)" "case rest of [] \<Rightarrow> True | c # _ \<Rightarrow> \<not> is_digit c"
  shows "iw_limits (pre @ iw_group (types, n) @ gap @ rest) =
    (if list_ex (\<lambda>t. lower_trim t = ''ap'') types then [of_nat n] else []) @
    iw_limits ('' <= '' @ dec n @ gap @ rest)"
proof -
  let ?group = "'' '' @ join_with '', '' types @ '' ''"
  let ?after = "'' <= '' @ dec n @ gap @ rest"
  have types: "CHR ''}'' \<notin> set (join_with '', '' types)"
    using assms(2) by (induction "'', ''" types rule: join_with.induct) (auto simp: iw_printed_def)
  have "find_sub ''#{'' (pre @ iw_group (types, n) @ gap @ rest) = Some (pre, ?group @ CHR ''}'' # ?after)"
    using find_pair [of "CHR ''#''" "CHR ''{''" pre "?group @ CHR ''}'' # ?after"] assms(1) by (simp add: iw_group_def)
  moreover have "find_sub ''}'' (?group @ CHR ''}'' # ?after) = Some (?group, ?after)"
    by (rule find_char) (use types in auto)
  moreover have "find_sub ''<='' ?after = Some ('' '', '' '' @ dec n @ gap @ rest)"
    using find_pair [of "CHR ''<''" "CHR ''=''" "'' ''" "'' '' @ dec n @ gap @ rest"]
    by (simp add: contains_sub_def starts_with_def)
  moreover have "takeWhile is_digit (dropWhile is_space ('' '' @ dec n @ gap @ rest)) = dec n"
  proof -
    obtain c cs where c: "dec n = c # cs" "is_digit c" using dec_set [of _ n] by (cases "dec n") auto
    have "dropWhile is_space ('' '' @ dec n @ gap @ rest) = dec n @ gap @ rest"
      using c digit_not_special(10) [OF c(2)] is_space_blank by simp
    moreover have "takeWhile is_digit (dec n @ gap @ rest) = dec n @ takeWhile is_digit (gap @ rest)"
      by (rule takeWhile_append2) (rule dec_set)
    moreover have "takeWhile is_digit (gap @ rest) = []"
      using assms(2,3) by (cases gap; cases rest) (auto simp: iw_printed_def)
    ultimately show ?thesis by simp
  qed
  moreover have "group_has_ap ?group = list_ex (\<lambda>t. lower_trim t = ''ap'') types"
    using assms(2) by (intro group_has_ap_printed) (auto simp: iw_printed_def list_all_iff is_space_def code_def)
  moreover have "parse_uint (dec n) = Some (of_nat n)"
    using assms(2) by (intro parse_uint_dec) (simp add: iw_printed_def)
  ultimately show ?thesis by (subst iw_limits.simps) (simp add: Let_def del: append_Cons append_assoc)
qed

lemma iw_combinations_start: "case iw_combinations gs of [] \<Rightarrow> True | c # _ \<Rightarrow> \<not> is_digit c"
  by (cases gs) (auto simp: iw_combinations_def iw_group_def is_digit_def code_def)

lemma iw_limits_combinations:
  "\<not> contains_sub pre ''#{'' \<Longrightarrow> list_all iw_printed gs \<Longrightarrow> iw_limits (pre @ iw_combinations gs) = ap_limits gs"
proof (induction gs arbitrary: pre)
  case Nil
  then show ?case by (simp add: iw_combinations_def ap_limits_def iw_limits_stop)
next
  case (Cons g gs)
  obtain types n gap where g: "g = ((types, n), gap)" by (metis surj_pair)
  have digits: "CHR ''#'' \<notin> set ('' <= '' @ dec n)"
    using dec_set [of "CHR ''#''" n] by (auto simp: is_digit_def code_def)
  have "\<not> contains_sub ('' <= '' @ dec n @ gap) ''#{''"
    using Cons.prems(2) contains_pair_skip [OF digits] by (simp add: g iw_printed_def)
  from Cons.IH [OF this] Cons.prems(2)
  have "iw_limits ('' <= '' @ dec n @ gap @ iw_combinations gs) = ap_limits gs" by simp
  with iw_limits_group [OF Cons.prems(1) _ iw_combinations_start, of types n gap gs] Cons.prems(2)
  show ?case by (simp add: g iw_combinations_def ap_limits_def)
qed

section \<open>Properties\<close>

text \<open>
  On the groups of interface combinations as \<open>iw list\<close> prints them, with any text around and
  between them, the limit is the largest number of a group that admits access points, and there is none
  when no group does; the limits of other groups and the totals printed between them are not taken for
  one.
\<close>

theorem iw_limit_of_combinations:
  assumes "\<not> contains_sub pre ''#{''" "list_all iw_printed gs"
    and "\<not> contains_sub (pre @ iw_combinations gs) ''interface combinations are not supported''"
  shows "iw_ap_interface_limit (pre @ iw_combinations gs) =
    (if ap_limits gs = [] then None else Some (Max (set (ap_limits gs))))"
  using assms iw_limits_combinations [OF assms(1,2)]
  by (simp add: iw_ap_interface_limit_def Max.set_eq_fold [symmetric] split: list.split del: Max.set_eq_fold)

definition sample_combinations :: "((string list \<times> nat) \<times> string) list" where
  "sample_combinations = [(([''managed''], 2), '', ''), (([''AP'', ''mesh point''], 8), '', total <= 9'')]"

theorem iw_limit_of_combinations_witness:
  "iw_ap_interface_limit (''* '' @ iw_combinations sample_combinations) = Some 8"
proof -
  have "ap_limits sample_combinations = [8]"
    by code_simp
  moreover have "\<not> contains_sub (''* '' @ iw_combinations sample_combinations)
      ''interface combinations are not supported''"
    by (simp add: iw_combinations_def iw_group_def sample_combinations_def dec.simps digit_char_def
        contains_sub_def starts_with_def)
  moreover have "list_all iw_printed sample_combinations"
    by (simp add: sample_combinations_def iw_printed_def contains_sub_def starts_with_def is_digit_def code_def)
  moreover have "\<not> contains_sub ''* '' ''#{''" by (simp add: contains_sub_def starts_with_def)
  ultimately show ?thesis using iw_limit_of_combinations [of "''* ''" sample_combinations] by simp
qed


end
