(* ===== verification/Uci_Plan.thy ===== *)
theory Uci_Plan
  imports Capabilities Configuration_Applier
begin

text \<open>
  \<open>src/src/openwrt/uci.cpp\<close>: the translation of a configuration update into \<open>uci\<close> commands, its
  validation against the capabilities of the platform, and the applier that hands the commands to the
  program.  The program itself is a parameter (\<open>uci_executor\<close>).
\<close>

section \<open>Names and texts\<close>

definition radio_section :: "radio_band \<Rightarrow> i64 option \<Rightarrow> string" where
  "radio_section band radio_id =
     (case radio_id of
        Some i \<Rightarrow> ''radio'' @ to_string_i i
      | None \<Rightarrow>
          (case band of TwoG \<Rightarrow> ''radio0'' | FiveG \<Rightarrow> ''radio1'' | FiveG2 \<Rightarrow> ''radio2'' | SixG \<Rightarrow> ''radio3''))"

fun slug_chars :: "bool \<Rightarrow> string \<Rightarrow> string" where
  "slug_chars last_underscore [] = []"
| "slug_chars last_underscore (c # cs) =
     (if is_alnum c \<or> c = CHR ''_'' then to_lower c # slug_chars False cs
      else if \<not> last_underscore then CHR ''_'' # slug_chars True cs
      else slug_chars True cs)"

definition drop_back_underscores :: "string \<Rightarrow> string" where
  "drop_back_underscores s = rev (dropWhile (\<lambda>c. c = CHR ''_'') (rev s))"

definition slug :: "string \<Rightarrow> string" where
  "slug s = drop_back_underscores (dropWhile (\<lambda>c. c = CHR ''_'') (slug_chars False s))"

definition wlan_section :: "wireless_network \<Rightarrow> string" where
  "wlan_section wlan =
    (let suffix =
           (case wn_index wlan of
              Some i \<Rightarrow> to_string_i i
            | None \<Rightarrow>
                (case wn_ssid_id wlan of
                   Some i \<Rightarrow> to_string_i i
                 | None \<Rightarrow> (let suffix = slug (wn_name wlan) in if suffix = [] then ''ssid'' else suffix)));
         sec = slug (''openomada_'' @ band_wire_string (wn_band wlan) @ ''_'' @ suffix);
         sec = (if 48 < length sec then drop_back_underscores (take 48 sec) else sec)
     in if sec = [] then ''openomada_ssid'' else sec)"

definition quote_uci :: "string \<Rightarrow> string" where
  "quote_uci s =
     concat (map (\<lambda>c. if c = CHR 0x5C then [CHR 0x5C, CHR 0x5C]
                      else if c = CHR 0x27 then [CHR 0x27, CHR 0x5C, CHR 0x27, CHR 0x27] else [c]) s)"

definition set_line :: "string \<Rightarrow> string \<Rightarrow> string \<Rightarrow> string \<Rightarrow> string" where
  "set_line config sec option v =
     ''set '' @ config @ ''.'' @ sec @ ''.'' @ option @ ''='' @ [CHR 0x27] @ quote_uci v @ [CHR 0x27]"

definition htmode :: "i64 \<Rightarrow> string" where
  "htmode width =
     (if width \<le>s 20 then ''HT20'' else if width \<le>s 40 then ''HT40'' else if width \<le>s 80 then ''VHT80''
      else ''HE'' @ to_string_i width)"

section \<open>The parts of a plan\<close>

definition max_active_ssids :: "config_update \<Rightarrow> platform_capabilities \<Rightarrow> nat" where
  "max_active_ssids update c = min (length (wlans update)) (unat (pcap_max_ssids c))"

definition active_wlans :: "config_update \<Rightarrow> platform_capabilities \<Rightarrow> wireless_network list" where
  "active_wlans update c = take (max_active_ssids update c) (wlans update)"

text \<open>\<open>append_unique\<close> and \<open>add_error\<close>, the same code twice.\<close>

definition append_unique :: "string list \<Rightarrow> string \<Rightarrow> string list" where
  "append_unique vs v = (if List.member vs v then vs else vs @ [v])"

definition has_radius_request :: "wireless_security \<Rightarrow> bool" where
  "has_radius_request s \<longleftrightarrow> radius_auth s \<or> radius_accounting s \<or> radius_mac_auth s"

definition radio_lines :: "radio_config \<Rightarrow> string list" where
  "radio_lines radio =
    (let sec = radio_section (rc_band radio) (rc_radio_id radio)
     in (case rc_enabled radio of
           Some e \<Rightarrow> [set_line ''wireless'' sec ''disabled'' (if e then ''0'' else ''1'')] | None \<Rightarrow> []) @
        (case rc_channel radio of
           Some i \<Rightarrow> [set_line ''wireless'' sec ''channel'' (to_string_i i)] | None \<Rightarrow> []) @
        (case rc_channel_width radio of
           Some i \<Rightarrow> [set_line ''wireless'' sec ''htmode'' (htmode i)] | None \<Rightarrow> []) @
        (case rc_tx_power radio of
           Some i \<Rightarrow> [set_line ''wireless'' sec ''txpower'' (to_string_i i)] | None \<Rightarrow> []))"

definition ssid_vlan_lines :: "u16 \<Rightarrow> string list" where
  "ssid_vlan_lines vlan =
    (let sec = ''openomada_vlan'' @ to_string_u vlan
     in [''delete network.'' @ sec,
         ''set network.'' @ sec @ ''=interface'',
         set_line ''network'' sec ''proto'' ''none'',
         set_line ''network'' sec ''device'' (''br-lan.'' @ to_string_u vlan)])"

record uci_plan_options =
  management_vlan_interface :: string
  management_vlan_device :: string

definition management_vlan_lines :: "management_vlan_config \<Rightarrow> uci_plan_options \<Rightarrow> string list" where
  "management_vlan_lines vlan options =
    (let iface = management_vlan_interface options; device = management_vlan_device options
     in if iface = [] \<or> device = [] then []
        else if \<not> mv_enabled vlan then [set_line ''network'' iface ''device'' device]
        else
          (case mv_vlan_id vlan of
             None \<Rightarrow> []
           | Some i \<Rightarrow> [set_line ''network'' iface ''device'' (device @ ''.'' @ to_string_u i)]))"

definition wlan_lines :: "wireless_network \<Rightarrow> platform_capabilities \<Rightarrow> string list" where
  "wlan_lines wlan c =
    (let sec = wlan_section wlan;
         device = radio_section (wn_band wlan) (wn_radio_id wlan);
         network =
           (case vlan_id (wn_vlan wlan) of
              Some i \<Rightarrow> (if supports_ssid_vlan c then ''openomada_vlan'' @ to_string_u i else ''lan'')
            | None \<Rightarrow> ''lan'');
         security = wn_security wlan
     in [''delete wireless.'' @ sec,
         ''set wireless.'' @ sec @ ''=wifi-iface'',
         set_line ''wireless'' sec ''openomada_managed'' ''1'',
         set_line ''wireless'' sec ''device'' device,
         set_line ''wireless'' sec ''mode'' ''ap'',
         set_line ''wireless'' sec ''network'' network,
         set_line ''wireless'' sec ''ssid'' (wn_name wlan),
         set_line ''wireless'' sec ''hidden'' (if wn_broadcast wlan = Some False then ''1'' else ''0'')] @
        (case wn_client_isolation wlan of
           Some b \<Rightarrow> [set_line ''wireless'' sec ''isolate'' (if b then ''1'' else ''0'')] | None \<Rightarrow> []) @
        (if psk_configured security
         then
           set_line ''wireless'' sec ''encryption''
             (if (case psk_version security of Some v \<Rightarrow> v | None \<Rightarrow> 2) = 3 then ''sae-mixed'' else ''psk2'') #
           (if psk_key security \<noteq> [] then [set_line ''wireless'' sec ''key'' (psk_key security)] else [])
         else [set_line ''wireless'' sec ''encryption'' ''none'']))"

section \<open>Validation\<close>

record uci_validation_result =
  uv_ok :: bool
  uv_errors :: "string list"

text \<open>\<open>if (condition) add_error(result.errors, error)\<close>\<close>

definition reject :: "bool \<Rightarrow> string \<Rightarrow> string list \<Rightarrow> string list" where
  "reject condition error errors = (if condition then append_unique errors error else errors)"

definition validate_radio :: "platform_capabilities \<Rightarrow> radio_config \<Rightarrow> string list \<Rightarrow> string list" where
  "validate_radio c radio =
     reject (\<not> supports_radio_band c (rc_band radio))
       (''radio band '' @ band_wire_string (rc_band radio) @ '' is not supported'')"

definition validate_wlan :: "platform_capabilities \<Rightarrow> wireless_network \<Rightarrow> string list \<Rightarrow> string list" where
  "validate_wlan c wlan errors =
    (let vlan = wn_vlan wlan; security = wn_security wlan;
         wpa3 = ((case psk_version security of Some v \<Rightarrow> v | None \<Rightarrow> 2) = 3);
         errors = reject (\<not> supports_radio_band c (wn_band wlan))
           (''SSID band '' @ band_wire_string (wn_band wlan) @ '' is not supported'') errors;
         errors = reject (vlan_id vlan \<noteq> None \<and> \<not> supports_ssid_vlan c)
           ''SSID VLAN requested but platform capability is disabled'' errors;
         errors = reject ((case dynamic_vlan_mode vlan of Some m \<Rightarrow> m \<noteq> 0 | None \<Rightarrow> False) \<and> \<not> supports_dynamic_vlan c)
           ''dynamic VLAN requested but platform capability is disabled'' errors;
         errors = reject ((case dhcp_option82 vlan of Some o82 \<Rightarrow> o82_enabled o82 | None \<Rightarrow> False) \<and> \<not> supports_option82 c)
           ''DHCP Option 82 requested but platform capability is disabled'' errors;
         errors = reject (cp_enabled (wn_portal wlan) \<and> \<not> supports_portal c)
           ''portal WLAN requested but platform capability is disabled'' errors;
         errors = reject (psk_configured security \<and> wpa3 \<and> \<not> supports_wpa3_psk c)
           ''WPA3-PSK WLAN requested but WPA3-PSK capability is disabled'' errors;
         errors = reject (psk_configured security \<and> \<not> wpa3 \<and> \<not> supports_wpa2_psk c)
           ''PSK WLAN requested but WPA2-PSK capability is disabled'' errors
     in reject (has_radius_request security \<and> \<not> supports_radius c)
          ''RADIUS WLAN requested but RADIUS capability is disabled'' errors)"

definition validate_management_vlan ::
  "platform_capabilities \<Rightarrow> uci_plan_options \<Rightarrow> management_vlan_config option \<Rightarrow> string list \<Rightarrow> string list" where
  "validate_management_vlan c options vlan errors =
     (case vlan of
        None \<Rightarrow> errors
      | Some vlan \<Rightarrow>
          (let errors = reject (mv_enabled vlan \<and> \<not> supports_management_vlan c)
                 ''management VLAN requested but platform capability is disabled'' errors
           in if mv_enabled vlan \<and> supports_management_vlan c
              then
                (let errors = reject (mv_vlan_id vlan = None)
                       ''enabled management VLAN is missing managementVlanId'' errors
                 in reject (management_vlan_interface options = [] \<or> management_vlan_device options = [])
                      ''management VLAN interface and device are required'' errors)
              else errors))"

definition validate_update ::
  "config_update \<Rightarrow> platform_capabilities \<Rightarrow> uci_plan_options \<Rightarrow> uci_validation_result" where
  "validate_update update c options =
    (let errors = reject ((radios update \<noteq> [] \<or> wlans update \<noteq> []) \<and> \<not> supports_wlan_config c)
           ''platform does not support WLAN configuration'' [];
         errors = fold (validate_radio c) (radios update) errors;
         errors = fold (validate_wlan c) (active_wlans update c) errors;
         errors = validate_management_vlan c options (management_vlan update) errors
     in \<lparr>uv_ok = (errors = []), uv_errors = errors\<rparr>)"

section \<open>The plan\<close>

record uci_plan =
  up_ok :: bool
  up_changed :: bool
  up_commands :: "string list"
  up_errors :: "string list"
  up_warning :: string

definition empty_plan :: uci_plan where
  "empty_plan = \<lparr>up_ok = False, up_changed = False, up_commands = [], up_errors = [], up_warning = []\<rparr>"

text \<open>The ordered set of the VLANs of the active networks.\<close>

definition ssid_vlan_ids :: "platform_capabilities \<Rightarrow> wireless_network list \<Rightarrow> u16 list" where
  "ssid_vlan_ids c active =
     fold (\<lambda>wlan ids.
       case vlan_id (wn_vlan wlan) of
         Some i \<Rightarrow> (if supports_ssid_vlan c then List.insort_insert i ids else ids) | None \<Rightarrow> ids) active []"

definition network_lines ::
  "config_update \<Rightarrow> platform_capabilities \<Rightarrow> uci_plan_options \<Rightarrow> wireless_network list \<Rightarrow> string list" where
  "network_lines update c options active =
     concat (map ssid_vlan_lines (ssid_vlan_ids c active)) @
     (case management_vlan update of Some vlan \<Rightarrow> management_vlan_lines vlan options | None \<Rightarrow> [])"

definition default_sections :: "wireless_network list \<Rightarrow> string list" where
  "default_sections active =
     fold (\<lambda>wlan secs. append_unique secs (''default_'' @ radio_section (wn_band wlan) (wn_radio_id wlan))) active []"

definition build_uci_plan ::
  "config_update \<Rightarrow> platform_capabilities \<Rightarrow> uci_plan_options \<Rightarrow> uci_plan" where
  "build_uci_plan update c options =
    (let plan = empty_plan; validation = validate_update update c options
     in if \<not> uv_ok validation then plan\<lparr>up_errors := uv_errors validation\<rparr>
        else
          (let active = active_wlans update c;
               plan =
                 (if length active < length (wlans update)
                  then plan\<lparr>up_warning := ''controller requested '' @ dec (length (wlans update)) @
                         '' SSIDs but platform max is '' @ to_string_u (pcap_max_ssids c) @
                         ''; applied first '' @ dec (length active)\<rparr>
                  else plan);
               network = network_lines update c options active;
               commands =
                 (if network \<noteq> [] then network @ [''commit network''] else []) @
                 concat (map radio_lines (radios update)) @
                 map (\<lambda>sec. set_line ''wireless'' sec ''disabled'' ''1'') (default_sections active) @
                 map (\<lambda>wlan. ''delete wireless.'' @ wlan_section wlan) (drop (length active) (wlans update)) @
                 concat (map (\<lambda>wlan. wlan_lines wlan c) active);
               commands = (if commands \<noteq> [] then commands @ [''commit wireless''] else commands)
           in plan\<lparr>up_commands := commands, up_ok := True, up_changed := (commands \<noteq> [])\<rparr>))"

definition render_uci_batch :: "string list \<Rightarrow> string" where
  "render_uci_batch commands = concat (map (\<lambda>command. command @ [CHR 0x0A]) commands)"

section \<open>The applier\<close>

record uci_execution_result =
  ue_ok :: bool
  ue_changed :: bool
  ue_error :: string
  ue_command_count :: nat

record 'w uci_executor =
  apply_batch :: "string \<Rightarrow> 'w \<Rightarrow> uci_execution_result \<times> 'w"
  reload_wifi :: "'w \<Rightarrow> uci_execution_result \<times> 'w"

definition uci_apply ::
  "platform_capabilities \<Rightarrow> 'w uci_executor \<Rightarrow> uci_plan_options \<Rightarrow> 'w applier" where
  "uci_apply c executor options update w =
    (let plan = build_uci_plan update c options
     in if \<not> up_ok plan
        then
          (let error = join_with ''; '' (up_errors plan)
           in (\<lparr>apply_ok = False, apply_changed = False,
                apply_error = (if error = [] then ''UCI plan rejected update'' else error)\<rparr>, w))
        else if \<not> up_changed plan then (\<lparr>apply_ok = True, apply_changed = False, apply_error = []\<rparr>, w)
        else
          (let (batch_result, w) = apply_batch executor (render_uci_batch (up_commands plan)) w
           in if \<not> ue_ok batch_result
              then (\<lparr>apply_ok = False, apply_changed = ue_changed batch_result,
                     apply_error = (if ue_error batch_result = [] then ''uci batch failed'' else ue_error batch_result)\<rparr>, w)
              else
                (let (reload_result, w) = reload_wifi executor w
                 in if \<not> ue_ok reload_result
                    then (\<lparr>apply_ok = False, apply_changed = True,
                           apply_error = (if ue_error reload_result = [] then ''wifi reload failed'' else ue_error reload_result)\<rparr>, w)
                    else (\<lparr>apply_ok = True, apply_changed = True, apply_error = []\<rparr>, w))))"

section \<open>The meaning of the commands\<close>

text \<open>
  A configuration is a map from sections to their options; the type of a section is kept as the option
  \<open>.type\<close>.  Setting an option of a section that does not exist is an error of the program and changes
  nothing; a commit only writes to flash what is already set.
\<close>

datatype uci_command =
    UciSet string string string string | UciSection string string string | UciDelete string string | UciCommit string

fun uci_text :: "uci_command \<Rightarrow> string" where
  "uci_text (UciSet config sec option v) = set_line config sec option v"
| "uci_text (UciSection config sec type) = ''set '' @ config @ ''.'' @ sec @ ''='' @ type"
| "uci_text (UciDelete config sec) = ''delete '' @ config @ ''.'' @ sec"
| "uci_text (UciCommit config) = ''commit '' @ config"

type_synonym uci_store = "string \<times> string \<Rightarrow> (string \<Rightarrow> string option) option"

fun uci_exec :: "uci_command \<Rightarrow> uci_store \<Rightarrow> uci_store" where
  "uci_exec (UciSet config sec option v) st =
     st((config, sec) := map_option (\<lambda>options. options(option \<mapsto> v)) (st (config, sec)))"
| "uci_exec (UciSection config sec type) st =
     st((config, sec) \<mapsto> (case st (config, sec) of Some options \<Rightarrow> options | None \<Rightarrow> Map.empty)(''.type'' \<mapsto> type))"
| "uci_exec (UciDelete config sec) st = st((config, sec) := None)"
| "uci_exec (UciCommit config) st = st"

text \<open>What each part of a plan stands for.\<close>

definition radio_settings :: "radio_config \<Rightarrow> (string \<times> string) list" where
  "radio_settings radio =
     (case rc_enabled radio of Some e \<Rightarrow> [(''disabled'', if e then ''0'' else ''1'')] | None \<Rightarrow> []) @
     (case rc_channel radio of Some i \<Rightarrow> [(''channel'', to_string_i i)] | None \<Rightarrow> []) @
     (case rc_channel_width radio of Some i \<Rightarrow> [(''htmode'', htmode i)] | None \<Rightarrow> []) @
     (case rc_tx_power radio of Some i \<Rightarrow> [(''txpower'', to_string_i i)] | None \<Rightarrow> [])"

definition wlan_network :: "platform_capabilities \<Rightarrow> wireless_network \<Rightarrow> string" where
  "wlan_network c wlan =
     (case vlan_id (wn_vlan wlan) of
        Some i \<Rightarrow> (if supports_ssid_vlan c then ''openomada_vlan'' @ to_string_u i else ''lan'') | None \<Rightarrow> ''lan'')"

definition wlan_settings :: "platform_capabilities \<Rightarrow> wireless_network \<Rightarrow> (string \<times> string) list" where
  "wlan_settings c wlan =
    [(''openomada_managed'', ''1''), (''device'', radio_section (wn_band wlan) (wn_radio_id wlan)), (''mode'', ''ap''),
     (''network'', wlan_network c wlan), (''ssid'', wn_name wlan),
     (''hidden'', if wn_broadcast wlan = Some False then ''1'' else ''0'')] @
    (case wn_client_isolation wlan of Some b \<Rightarrow> [(''isolate'', if b then ''1'' else ''0'')] | None \<Rightarrow> []) @
    (if psk_configured (wn_security wlan)
     then (''encryption'', if psk_version (wn_security wlan) = Some 3 then ''sae-mixed'' else ''psk2'') #
       (if psk_key (wn_security wlan) \<noteq> [] then [(''key'', psk_key (wn_security wlan))] else [])
     else [(''encryption'', ''none'')])"

definition wlan_commands :: "platform_capabilities \<Rightarrow> wireless_network \<Rightarrow> uci_command list" where
  "wlan_commands c wlan =
     UciDelete ''wireless'' (wlan_section wlan) # UciSection ''wireless'' (wlan_section wlan) ''wifi-iface'' #
     map (\<lambda>(option, v). UciSet ''wireless'' (wlan_section wlan) option v) (wlan_settings c wlan)"

definition vlan_commands :: "u16 \<Rightarrow> uci_command list" where
  "vlan_commands i =
    (let sec = ''openomada_vlan'' @ to_string_u i
     in [UciDelete ''network'' sec, UciSection ''network'' sec ''interface'',
         UciSet ''network'' sec ''proto'' ''none'', UciSet ''network'' sec ''device'' (''br-lan.'' @ to_string_u i)])"

definition management_commands :: "management_vlan_config option \<Rightarrow> uci_plan_options \<Rightarrow> uci_command list" where
  "management_commands vlan options =
    (let iface = management_vlan_interface options; device = management_vlan_device options
     in case vlan of
          None \<Rightarrow> []
        | Some vlan \<Rightarrow>
            (if iface = [] \<or> device = [] then []
             else if \<not> mv_enabled vlan then [UciSet ''network'' iface ''device'' device]
             else (case mv_vlan_id vlan of
                     None \<Rightarrow> [] | Some i \<Rightarrow> [UciSet ''network'' iface ''device'' (device @ ''.'' @ to_string_u i)])))"

definition network_commands ::
  "config_update \<Rightarrow> platform_capabilities \<Rightarrow> uci_plan_options \<Rightarrow> wireless_network list \<Rightarrow> uci_command list" where
  "network_commands update c options active =
     concat (map vlan_commands (ssid_vlan_ids c active)) @ management_commands (management_vlan update) options"

definition radio_commands :: "radio_config \<Rightarrow> uci_command list" where
  "radio_commands radio =
     map (\<lambda>(option, v). UciSet ''wireless'' (radio_section (rc_band radio) (rc_radio_id radio)) option v)
       (radio_settings radio)"

definition with_commit :: "string \<Rightarrow> uci_command list \<Rightarrow> uci_command list" where
  "with_commit config commands = (if commands \<noteq> [] then commands @ [UciCommit config] else [])"

definition plan_commands ::
  "config_update \<Rightarrow> platform_capabilities \<Rightarrow> uci_plan_options \<Rightarrow> uci_command list" where
  "plan_commands update c options =
    (let active = active_wlans update c
     in with_commit ''wireless''
          (with_commit ''network'' (network_commands update c options active) @
           concat (map radio_commands (radios update)) @
           map (\<lambda>sec. UciSet ''wireless'' sec ''disabled'' ''1'') (default_sections active) @
           map (\<lambda>wlan. UciDelete ''wireless'' (wlan_section wlan)) (drop (length active) (wlans update)) @
           concat (map (wlan_commands c) active)))"

lemma wlan_lines_commands: "wlan_lines wlan c = map uci_text (wlan_commands c wlan)"
  by (auto simp: wlan_lines_def wlan_commands_def wlan_settings_def wlan_network_def Let_def split: option.split)

lemma radio_lines_text: "radio_lines radio = map uci_text (radio_commands radio)"
  by (auto simp: radio_lines_def radio_commands_def radio_settings_def Let_def split: option.split)

lemma concat_text: "(\<And>x. f x = map g (h x)) \<Longrightarrow> concat (map f xs) = map g (concat (map h xs))"
  by (induction xs) auto

lemmas radio_lines_commands = concat_text [OF radio_lines_text]

lemma network_lines_commands:
  "network_lines update c options active = map uci_text (network_commands update c options active)"
proof -
  have vlan: "ssid_vlan_lines i = map uci_text (vlan_commands i)" for i
    by (simp add: ssid_vlan_lines_def vlan_commands_def Let_def)
  have "(case management_vlan update of Some vlan \<Rightarrow> management_vlan_lines vlan options | None \<Rightarrow> []) =
      map uci_text (management_commands (management_vlan update) options)"
    by (auto simp: management_vlan_lines_def management_commands_def Let_def split: option.split)
  then show ?thesis by (simp add: network_lines_def network_commands_def concat_text [OF vlan])
qed

lemma with_commit_text:
  "map uci_text (with_commit config commands) =
     (if map uci_text commands \<noteq> [] then map uci_text commands @ [''commit '' @ config] else map uci_text commands)"
  by (simp add: with_commit_def)

lemma plan_commands_text:
  assumes "up_ok (build_uci_plan update c options)"
  shows "up_commands (build_uci_plan update c options) = map uci_text (plan_commands update c options)"
proof -
  have "uv_ok (validate_update update c options)"
    using assms by (auto simp: build_uci_plan_def empty_plan_def Let_def split: if_splits)
  then show ?thesis
    by (simp add: build_uci_plan_def empty_plan_def Let_def plan_commands_def with_commit_text
        network_lines_commands radio_lines_commands concat_text [OF wlan_lines_commands] comp_def)
qed

section \<open>Sections\<close>

lemma drop_back_underscores_start: "s = c # cs \<Longrightarrow> c \<noteq> CHR ''_'' \<Longrightarrow> \<exists>cs'. drop_back_underscores s = c # cs'"
  by (auto simp: drop_back_underscores_def dropWhile_append intro: rev_rev_ident [symmetric])

lemma slug_openomada: "\<exists>cs. slug (''openomada_'' @ s) = CHR ''o'' # cs"
  unfolding slug_def
  by (rule drop_back_underscores_start) (simp_all add: is_alnum_def code_def to_lower_def)

lemma wlan_section_start: "\<exists>cs. wlan_section wlan = CHR ''o'' # cs"
proof -
  obtain s where sec: "wlan_section wlan =
      (let sec = slug (''openomada_'' @ s); sec = (if 48 < length sec then drop_back_underscores (take 48 sec) else sec)
       in if sec = [] then ''openomada_ssid'' else sec)"
    unfolding wlan_section_def Let_def by blast
  obtain cs where cs: "slug (''openomada_'' @ s) = CHR ''o'' # cs" using slug_openomada by blast
  obtain ds where "drop_back_underscores (take 48 (CHR ''o'' # cs)) = CHR ''o'' # ds"
    using drop_back_underscores_start [of "take 48 (CHR ''o'' # cs)" "CHR ''o''" "take 47 cs"] by auto
  with cs show ?thesis unfolding sec Let_def by (simp del: append_Cons)
qed

lemma radio_section_start: "\<exists>cs. radio_section band i = CHR ''r'' # cs"
  by (auto simp: radio_section_def split: option.split radio_band.split)

lemma section_names [simp]:
  "wlan_section wlan \<noteq> radio_section band i" "wlan_section wlan \<noteq> ''default_'' @ s"
  "radio_section band i \<noteq> ''default_'' @ s"
  "radio_section band i \<noteq> wlan_section wlan" "''default_'' @ s \<noteq> wlan_section wlan"
  "''default_'' @ s \<noteq> radio_section band i"
  using wlan_section_start [of wlan] radio_section_start [of band i] by auto

section \<open>Execution\<close>

fun uci_target :: "uci_command \<Rightarrow> (string \<times> string) option" where
  "uci_target (UciSet config sec option v) = Some (config, sec)"
| "uci_target (UciSection config sec type) = Some (config, sec)"
| "uci_target (UciDelete config sec) = Some (config, sec)"
| "uci_target (UciCommit config) = None"

lemma exec_frame:
  "\<forall>command \<in> set commands. uci_target command \<noteq> Some k \<Longrightarrow> fold uci_exec commands st k = st k"
proof (induction commands arbitrary: st)
  case (Cons command commands)
  then have "uci_exec command st k = st k" by (cases command) auto
  with Cons show ?case by simp
qed simp

lemma exec_settings:
  "st (config, sec) = Some options \<Longrightarrow>
   fold uci_exec (map (\<lambda>(option, v). UciSet config sec option v) settings) st (config, sec) =
     Some (options ++ map_of (rev settings))"
  by (induction settings arbitrary: st options) auto

lemma exec_wlan:
  "fold uci_exec (wlan_commands c wlan) st (''wireless'', wlan_section wlan) =
     Some (map_of ((''.type'', ''wifi-iface'') # wlan_settings c wlan))"
proof -
  have distinct: "distinct (map fst (wlan_settings c wlan))" and
    type: "''.type'' \<notin> set (map fst (wlan_settings c wlan))"
    by (auto simp: wlan_settings_def split: option.split)
  have "map_of (rev (wlan_settings c wlan)) = map_of (wlan_settings c wlan)"
    using distinct by (subst map_of_inject_set) (simp_all add: rev_map [symmetric])
  moreover have "map_of (wlan_settings c wlan) ''.type'' = None"
    using type by (simp add: map_of_eq_None_iff)
  ultimately have "[''.type'' \<mapsto> ''wifi-iface''] ++ map_of (rev (wlan_settings c wlan)) =
      map_of ((''.type'', ''wifi-iface'') # wlan_settings c wlan)"
    by (auto simp: fun_eq_iff map_add_def split: option.split)
  then show ?thesis by (simp add: wlan_commands_def exec_settings)
qed

lemma wlan_commands_target: "command \<in> set (wlan_commands c wlan) \<Longrightarrow> uci_target command = Some (''wireless'', wlan_section wlan)"
  by (auto simp: wlan_commands_def)

lemma exec_wlans:
  "distinct (map wlan_section ws) \<Longrightarrow> wlan \<in> set ws \<Longrightarrow>
   fold uci_exec (concat (map (wlan_commands c) ws)) st (''wireless'', wlan_section wlan) =
     Some (map_of ((''.type'', ''wifi-iface'') # wlan_settings c wlan))"
proof (induction ws arbitrary: st)
  case (Cons w ws)
  show ?case
  proof (cases "wlan \<in> set ws")
    case True
    with Cons show ?thesis by simp
  next
    case False
    with Cons have w: "wlan = w" and other: "\<forall>x \<in> set ws. wlan_section w \<noteq> wlan_section x"
      by (auto simp: image_iff)
    have "\<forall>command \<in> set (concat (map (wlan_commands c) ws)). uci_target command \<noteq> Some (''wireless'', wlan_section w)"
      using other by (auto dest!: wlan_commands_target)
    from exec_frame [OF this] w show ?thesis by (simp only: list.map concat.simps fold_append comp_apply exec_wlan)
  qed
qed simp

lemma exec_deletes:
  "fold uci_exec (map (\<lambda>wlan. UciDelete ''wireless'' (wlan_section wlan)) ws) st k =
     (if fst k = ''wireless'' \<and> snd k \<in> wlan_section ` set ws then None else st k)"
  by (cases k, induction ws arbitrary: st) auto

lemma exec_disables:
  "fold uci_exec (map (\<lambda>sec. UciSet ''wireless'' sec ''disabled'' ''1'') secs) st k =
     (if fst k = ''wireless'' \<and> snd k \<in> set secs
      then map_option (\<lambda>options. options(''disabled'' \<mapsto> ''1'')) (st k) else st k)"
  by (cases k, induction secs arbitrary: st) (auto simp: option.map_comp comp_def)

lemma exec_commit: "fold uci_exec (with_commit config commands) st = fold uci_exec commands st"
  by (simp add: with_commit_def)

lemma network_commands_target:
  "command \<in> set (network_commands update c options active) \<Longrightarrow> uci_target command \<noteq> Some (''wireless'', sec)"
  by (auto simp: network_commands_def vlan_commands_def management_commands_def Let_def
      split: option.splits if_splits)

lemma radio_commands_target:
  "command \<in> set (radio_commands radio) \<Longrightarrow>
   uci_target command = Some (''wireless'', radio_section (rc_band radio) (rc_radio_id radio))"
  by (auto simp: radio_commands_def)

lemma set_default_sections:
  "set (default_sections active) = (\<lambda>wlan. ''default_'' @ radio_section (wn_band wlan) (wn_radio_id wlan)) ` set active"
proof -
  have "set (fold (\<lambda>wlan secs. append_unique secs (f wlan)) ws secs) = set secs \<union> f ` set ws"
    for f :: "wireless_network \<Rightarrow> string" and ws secs
    by (induction ws arbitrary: secs) (auto simp: append_unique_def)
  then show ?thesis by (simp add: default_sections_def)
qed

lemma exec_prefix:
  assumes "\<forall>radio \<in> set (radios update). sec \<noteq> radio_section (rc_band radio) (rc_radio_id radio)"
  shows "fold uci_exec (with_commit ''network'' (network_commands update c options active) @
      concat (map radio_commands (radios update))) st (''wireless'', sec) = st (''wireless'', sec)"
proof -
  have "fold uci_exec (network_commands update c options active) st (''wireless'', sec) = st (''wireless'', sec)"
    by (rule exec_frame) (auto dest: network_commands_target)
  moreover have "fold uci_exec (concat (map radio_commands (radios update))) st' (''wireless'', sec) = st' (''wireless'', sec)" for st'
    by (rule exec_frame) (use assms in \<open>auto dest!: radio_commands_target\<close>)
  ultimately show ?thesis by (simp add: exec_commit)
qed

lemma active_wlans_split: "wlans update = active_wlans update c @ drop (length (active_wlans update c)) (wlans update)"
  by (simp add: active_wlans_def min_def)

text \<open>The configuration after a plan, section by section.\<close>

lemma plan_result:
  fixes update c options st
  defines "st' \<equiv> fold uci_exec (plan_commands update c options) st"
    and "active \<equiv> active_wlans update c"
  assumes "distinct (map wlan_section (wlans update))"
  shows "wlan \<in> set active \<Longrightarrow>
      st' (''wireless'', wlan_section wlan) = Some (map_of ((''.type'', ''wifi-iface'') # wlan_settings c wlan))"
    and "wlan \<in> set (drop (length active) (wlans update)) \<Longrightarrow> st' (''wireless'', wlan_section wlan) = None"
    and "wlan \<in> set active \<Longrightarrow> sec = ''default_'' @ radio_section (wn_band wlan) (wn_radio_id wlan) \<Longrightarrow>
      st' (''wireless'', sec) = map_option (\<lambda>options. options(''disabled'' \<mapsto> ''1'')) (st (''wireless'', sec))"
    and "sec \<notin> wlan_section ` set (wlans update) \<Longrightarrow> sec \<notin> set (default_sections active) \<Longrightarrow>
      \<forall>radio \<in> set (radios update). sec \<noteq> radio_section (rc_band radio) (rc_radio_id radio) \<Longrightarrow>
      st' (''wireless'', sec) = st (''wireless'', sec)"
proof -
  let ?inactive = "drop (length active) (wlans update)"
  define st1 where "st1 = fold uci_exec (with_commit ''network'' (network_commands update c options active) @
      concat (map radio_commands (radios update))) st"
  define st2 where "st2 = fold uci_exec (map (\<lambda>sec. UciSet ''wireless'' sec ''disabled'' ''1'') (default_sections active)) st1"
  define st3 where "st3 = fold uci_exec (map (\<lambda>wlan. UciDelete ''wireless'' (wlan_section wlan)) ?inactive) st2"
  have st': "st' = fold uci_exec (concat (map (wlan_commands c) active)) st3"
    by (simp add: st'_def plan_commands_def Let_def exec_commit st1_def st2_def st3_def active_def)
  have "wlans update = active @ ?inactive" unfolding active_def by (rule active_wlans_split)
  then have parts: "distinct (map wlan_section active)" "set (wlans update) = set active \<union> set ?inactive"
    "wlan_section ` set active \<inter> wlan_section ` set ?inactive = {}"
    using assms(3) by (metis distinct_append map_append, metis set_append, metis distinct_append map_append set_map)
  have outside: "st' (''wireless'', sec) = st3 (''wireless'', sec)" if "sec \<notin> wlan_section ` set active" for sec
    unfolding st' by (rule exec_frame) (use that in \<open>auto dest!: wlan_commands_target\<close>)
  have st1: "st1 (''wireless'', sec) = st (''wireless'', sec)"
    if "\<forall>radio \<in> set (radios update). sec \<noteq> radio_section (rc_band radio) (rc_radio_id radio)" for sec
    unfolding st1_def by (rule exec_prefix [OF that])
  show "st' (''wireless'', wlan_section wlan) = Some (map_of ((''.type'', ''wifi-iface'') # wlan_settings c wlan))"
    if "wlan \<in> set active"
    unfolding st' by (rule exec_wlans [OF parts(1) that])
  show "st' (''wireless'', wlan_section wlan) = None" if "wlan \<in> set ?inactive"
    using that parts(3) by (subst outside) (auto simp: st3_def exec_deletes)
  show "st' (''wireless'', sec) = map_option (\<lambda>options. options(''disabled'' \<mapsto> ''1'')) (st (''wireless'', sec))"
    if "wlan \<in> set active" "sec = ''default_'' @ radio_section (wn_band wlan) (wn_radio_id wlan)"
    using that by (subst outside) (auto simp: st3_def st2_def st1 exec_deletes exec_disables set_default_sections simp del: append_Cons)
  show "st' (''wireless'', sec) = st (''wireless'', sec)"
    if "sec \<notin> wlan_section ` set (wlans update)" "sec \<notin> set (default_sections active)"
      "\<forall>radio \<in> set (radios update). sec \<noteq> radio_section (rc_band radio) (rc_radio_id radio)"
    using that parts(2) by (subst outside) (auto simp: st3_def st2_def st1 exec_deletes exec_disables)
qed

section \<open>Properties\<close>


text \<open>Two networks, one more than the platform allows.\<close>

definition open_network :: "string \<Rightarrow> i64 \<Rightarrow> wireless_network" where
  "open_network name i = (default_network TwoG)\<lparr>wn_name := name, wn_index := Some i\<rparr>"

definition one_network_platform :: platform_capabilities where
  "one_network_platform = default_capabilities
     \<lparr>pcap_platform := ''openwrt'', pcap_radio_bands := [TwoG], pcap_max_ssids := 1, supports_wlan_config := True\<rparr>"


text \<open>The executor with a log of what it is asked to do and what it answers.\<close>

datatype uci_event = Batch string uci_execution_result | Reload uci_execution_result

definition recording_executor :: "'w uci_executor \<Rightarrow> ('w \<times> uci_event list) uci_executor" where
  "recording_executor E =
     \<lparr>apply_batch = (\<lambda>batch (w, log). let (r, w) = apply_batch E batch w in (r, w, log @ [Batch batch r])),
      reload_wifi = (\<lambda>(w, log). let (r, w) = reload_wifi E w in (r, w, log @ [Reload r]))\<rparr>"

text \<open>
  C35. The applier runs the commands at most once and only those of an accepted plan: an update the
  platform cannot carry out runs nothing and is refused; the wireless network is reloaded only after the
  commands were accepted, and success is reported exactly when both steps were, or nothing had to be
  done.  A failure always comes with a text.
\<close>

theorem uci_apply_guarded:
  "case uci_apply c (recording_executor E) options update (w, []) of (r, w', log) \<Rightarrow>
     (let plan = build_uci_plan update c options; batch = render_uci_batch (up_commands plan)
      in if up_ok plan \<and> up_commands plan \<noteq> []
         then (\<exists>b. log = [Batch batch b] \<and> \<not> ue_ok b \<and> \<not> apply_ok r \<and> apply_changed r = ue_changed b) \<or>
           (\<exists>b l. log = [Batch batch b, Reload l] \<and> ue_ok b \<and> apply_ok r = ue_ok l \<and> apply_changed r)
         else log = [] \<and> apply_ok r = up_ok plan \<and> \<not> apply_changed r) \<and>
     (apply_error r = []) = apply_ok r"
proof -
  have changed: "up_changed (build_uci_plan update c options) = (up_commands (build_uci_plan update c options) \<noteq> [])"
    by (simp add: build_uci_plan_def empty_plan_def Let_def)
  obtain b w1 where b: "apply_batch E (render_uci_batch (up_commands (build_uci_plan update c options))) w = (b, w1)"
    by (cases "apply_batch E (render_uci_batch (up_commands (build_uci_plan update c options))) w") auto
  obtain l w2 where "reload_wifi E w1 = (l, w2)" by (cases "reload_wifi E w1") auto
  with b show ?thesis
    by (simp add: uci_apply_def Let_def recording_executor_def changed)
qed

text \<open>
  A network that asks for RADIUS authentication and has no pre-shared key is set up without any
  encryption on every platform that claims to support RADIUS: the plan is accepted and its commands say
  so.
\<close>

theorem radius_network_left_open:
  assumes "up_ok (build_uci_plan update c options)" "wlan \<in> set (active_wlans update c)"
    and "has_radius_request (wn_security wlan)" "\<not> psk_configured (wn_security wlan)"
  shows "set_line ''wireless'' (wlan_section wlan) ''encryption'' ''none''
      \<in> set (up_commands (build_uci_plan update c options)) \<and> supports_radius c"
proof
  have "UciSet ''wireless'' (wlan_section wlan) ''encryption'' ''none'' \<in> set (wlan_commands c wlan)"
    using assms(4) by (auto simp: wlan_commands_def wlan_settings_def)
  with assms(2) have "UciSet ''wireless'' (wlan_section wlan) ''encryption'' ''none'' \<in> set (plan_commands update c options)"
    by (auto simp: plan_commands_def with_commit_def Let_def)
  then show "set_line ''wireless'' (wlan_section wlan) ''encryption'' ''none''
      \<in> set (up_commands (build_uci_plan update c options))"
    unfolding plan_commands_text [OF assms(1)] by force
  have grows: "errors \<noteq> [] \<Longrightarrow> reject b e errors \<noteq> []" for b e errors
    by (auto simp: reject_def append_unique_def)
  have rejected: "b \<Longrightarrow> reject b e errors \<noteq> []" for b e errors
    by (auto simp: reject_def append_unique_def)
  have wlans: "errors \<noteq> [] \<Longrightarrow> fold (validate_wlan c) ws errors \<noteq> []" for ws errors
    by (induction ws arbitrary: errors) (auto simp: validate_wlan_def Let_def grows)
  have bad: "\<not> supports_radius c \<Longrightarrow> fold (validate_wlan c) ws errors \<noteq> []" if "wlan \<in> set ws" for ws errors
    using that
  proof (induction ws arbitrary: errors)
    case (Cons w ws)
    have "w = wlan \<Longrightarrow> validate_wlan c w errors \<noteq> []"
      using Cons.prems(1) assms(3) rejected by (simp add: validate_wlan_def Let_def)
    with Cons show ?case by (cases "w = wlan") (simp_all add: wlans)
  qed simp
  show "supports_radius c"
  proof (rule ccontr)
    assume "\<not> supports_radius c"
    from bad [OF assms(2) this] have "uv_errors (validate_update update c options) \<noteq> []"
      by (auto simp: validate_update_def validate_management_vlan_def Let_def grows split: option.split)
    with assms(1) show False
      by (auto simp: build_uci_plan_def empty_plan_def validate_update_def Let_def split: if_splits)
  qed
qed

definition radius_network :: wireless_network where
  "radius_network = (open_network ''corp'' 0)\<lparr>wn_security := (wn_security (default_network TwoG))\<lparr>radius_auth := True\<rparr>\<rparr>"

theorem radius_network_left_open_witness:
  "set_line ''wireless'' (wlan_section radius_network) ''encryption'' ''none''
    \<in> set (up_commands (build_uci_plan (empty_update\<lparr>wlans := [radius_network]\<rparr>)
        (one_network_platform\<lparr>supports_radius := True\<rparr>)
        \<lparr>management_vlan_interface = [], management_vlan_device = []\<rparr>))"
proof -
  have "up_ok (build_uci_plan (empty_update\<lparr>wlans := [radius_network]\<rparr>)
        (one_network_platform\<lparr>supports_radius := True\<rparr>)
        \<lparr>management_vlan_interface = [], management_vlan_device = []\<rparr>)" by code_simp
  moreover have "active_wlans (empty_update\<lparr>wlans := [radius_network]\<rparr>)
      (one_network_platform\<lparr>supports_radius := True\<rparr>) = [radius_network]"
    by (simp add: active_wlans_def max_active_ssids_def one_network_platform_def)
  moreover have "has_radius_request (wn_security radius_network)" "\<not> psk_configured (wn_security radius_network)"
    by code_simp+
  ultimately show ?thesis
    using radius_network_left_open [of "empty_update\<lparr>wlans := [radius_network]\<rparr>"
        "one_network_platform\<lparr>supports_radius := True\<rparr>"
        "\<lparr>management_vlan_interface = [], management_vlan_device = []\<rparr>" radius_network]
    by simp
qed

end
