(* ===== verification/Client_State.thy ===== *)
theory Client_State
  imports Configuration Ecsp_Message
begin

text \<open>
  \<open>src/src/application/client_state.cpp\<close>: what is known of the stations of the access point, the reading
  of the lease file of dnsmasq, the merging of several sources by address, and the text of the
  \<open>clientStats\<close> member of a report.
\<close>

section \<open>Data\<close>

datatype client_portal_state =
    UnknownPortal | Unauthenticated | Authenticating | Authenticated | Expired | Blocked

fun portal_wire_string :: "client_portal_state \<Rightarrow> string" where
  "portal_wire_string UnknownPortal = ''unknown''"
| "portal_wire_string Unauthenticated = ''unauthenticated''"
| "portal_wire_string Authenticating = ''authenticating''"
| "portal_wire_string Authenticated = ''authenticated''"
| "portal_wire_string Expired = ''expired''"
| "portal_wire_string Blocked = ''blocked''"

fun radio_id_for_band :: "radio_band \<Rightarrow> i32" where
  "radio_id_for_band TwoG = 0"
| "radio_id_for_band FiveG = 1"
| "radio_id_for_band FiveG2 = 2"
| "radio_id_for_band SixG = 3"

record wireless_client =
  wc_mac :: mac_address
  wc_ipv4 :: string
  wc_ipv6 :: "string list"
  wc_hostname :: string
  wc_ssid :: string
  wc_radio :: "radio_band option"
  wc_rssi :: "i64 option"
  wc_snr :: "i64 option"
  wc_vlan_id :: "i64 option"
  wc_portal_state :: client_portal_state
  wc_rx_bytes :: u64
  wc_tx_bytes :: u64
  wc_rx_packets :: "u64 option"
  wc_tx_packets :: "u64 option"
  wc_rx_rate :: "u64 option"
  wc_tx_rate :: "u64 option"
  wc_association_time :: "u64 option"

definition default_client :: wireless_client where
  "default_client =
     \<lparr>wc_mac = default_mac, wc_ipv4 = [], wc_ipv6 = [], wc_hostname = [], wc_ssid = [], wc_radio = None,
      wc_rssi = None, wc_snr = None, wc_vlan_id = None, wc_portal_state = UnknownPortal, wc_rx_bytes = 0,
      wc_tx_bytes = 0, wc_rx_packets = None, wc_tx_packets = None, wc_rx_rate = None, wc_tx_rate = None,
      wc_association_time = None\<rparr>"

record dhcp_lease =
  dl_expires_at :: i64
  dl_mac :: mac_address
  dl_ipv4 :: string
  dl_hostname :: string
  dl_client_id :: string

record lease_parse_result =
  lp_ok :: bool
  lp_leases :: "dhcp_lease list"
  lp_error :: string

section \<open>The lease file\<close>

lemma split_ws_shorter:
  "dropWhile is_space line \<noteq> [] \<Longrightarrow>
   length (dropWhile (\<lambda>c. \<not> is_space c) (dropWhile is_space line)) < length line"
proof -
  assume "dropWhile is_space line \<noteq> []"
  then obtain c cs where "dropWhile is_space line = c # cs" "\<not> is_space c"
    using hd_dropWhile [of is_space line] by (cases "dropWhile is_space line") auto
  with length_dropWhile_le [of "\<lambda>c. \<not> is_space c" cs] length_dropWhile_le [of is_space line]
  show ?thesis by simp
qed

function split_ws :: "string \<Rightarrow> string list" where
  "split_ws line =
    (let rest = dropWhile is_space line
     in if rest = [] then []
        else takeWhile (\<lambda>c. \<not> is_space c) rest # split_ws (dropWhile (\<lambda>c. \<not> is_space c) rest))"
  by pat_completeness auto

termination
  by (relation "measure length") (simp_all add: split_ws_shorter)

declare split_ws.simps [simp del]

text \<open>A line of the file: nothing for an empty line or a comment, the lease, or that it is invalid.\<close>

definition lease_line :: "string list \<Rightarrow> (unit + dhcp_lease) option" where
  "lease_line parts =
     (case parts of
        first # _ \<Rightarrow>
          (if first \<noteq> [] \<and> hd first \<noteq> CHR ''#''
           then
             (if length parts < 4 then Some (Inl ())
              else
                (case (parse_int64 first, parse_mac (parts ! 1)) of
                   (Some expires, Some mac) \<Rightarrow>
                     Some (Inr
                       \<lparr>dl_expires_at = expires, dl_mac = mac, dl_ipv4 = parts ! 2,
                        dl_hostname = (if parts ! 3 \<noteq> ''*'' then parts ! 3 else []),
                        dl_client_id = (if 4 < length parts \<and> parts ! 4 \<noteq> ''*'' then parts ! 4 else [])\<rparr>)
                 | _ \<Rightarrow> Some (Inl ())))
           else None)
      | [] \<Rightarrow> None)"

fun lease_lines :: "nat \<Rightarrow> string list \<Rightarrow> dhcp_lease list \<Rightarrow> lease_parse_result" where
  "lease_lines line_no [] leases = \<lparr>lp_ok = True, lp_leases = leases, lp_error = []\<rparr>"
| "lease_lines line_no (line # rest) leases =
    (let line_no = line_no + 1
     in case lease_line (split_ws line) of
          None \<Rightarrow> lease_lines line_no rest leases
        | Some (Inl _) \<Rightarrow>
            \<lparr>lp_ok = False, lp_leases = leases, lp_error = ''invalid dnsmasq lease line '' @ dec line_no\<rparr>
        | Some (Inr lease) \<Rightarrow> lease_lines line_no rest (leases @ [lease]))"

definition parse_dnsmasq_leases :: "string \<Rightarrow> lease_parse_result" where
  "parse_dnsmasq_leases s = lease_lines 0 (split_on CHR 0x0A s) []"

section \<open>Merging\<close>

definition merge_client :: "wireless_client \<Rightarrow> wireless_client \<Rightarrow> wireless_client" where
  "merge_client base overlay =
     \<lparr>wc_mac = wc_mac base,
      wc_ipv4 = (if wc_ipv4 overlay \<noteq> [] then wc_ipv4 overlay else wc_ipv4 base),
      wc_ipv6 = (if wc_ipv6 overlay \<noteq> [] then wc_ipv6 overlay else wc_ipv6 base),
      wc_hostname = (if wc_hostname overlay \<noteq> [] then wc_hostname overlay else wc_hostname base),
      wc_ssid = (if wc_ssid overlay \<noteq> [] then wc_ssid overlay else wc_ssid base),
      wc_radio = (if wc_radio overlay \<noteq> None then wc_radio overlay else wc_radio base),
      wc_rssi = (if wc_rssi overlay \<noteq> None then wc_rssi overlay else wc_rssi base),
      wc_snr = (if wc_snr overlay \<noteq> None then wc_snr overlay else wc_snr base),
      wc_vlan_id = (if wc_vlan_id overlay \<noteq> None then wc_vlan_id overlay else wc_vlan_id base),
      wc_portal_state =
        (if wc_portal_state overlay \<noteq> UnknownPortal then wc_portal_state overlay else wc_portal_state base),
      wc_rx_bytes = (if wc_rx_bytes overlay \<noteq> 0 then wc_rx_bytes overlay else wc_rx_bytes base),
      wc_tx_bytes = (if wc_tx_bytes overlay \<noteq> 0 then wc_tx_bytes overlay else wc_tx_bytes base),
      wc_rx_packets = (if wc_rx_packets overlay \<noteq> None then wc_rx_packets overlay else wc_rx_packets base),
      wc_tx_packets = (if wc_tx_packets overlay \<noteq> None then wc_tx_packets overlay else wc_tx_packets base),
      wc_rx_rate = (if wc_rx_rate overlay \<noteq> None then wc_rx_rate overlay else wc_rx_rate base),
      wc_tx_rate = (if wc_tx_rate overlay \<noteq> None then wc_tx_rate overlay else wc_tx_rate base),
      wc_association_time =
        (if wc_association_time overlay \<noteq> None then wc_association_time overlay else wc_association_time base)\<rparr>"

definition keep_latest_lease :: "dhcp_lease \<Rightarrow> (string \<times> dhcp_lease) list \<Rightarrow> (string \<times> dhcp_lease) list" where
  "keep_latest_lease lease by_mac =
    (let mac = normalized (dl_mac lease)
     in case map_of by_mac mac of
          None \<Rightarrow> omap_put mac lease by_mac
        | Some existing \<Rightarrow>
            (if dl_expires_at existing \<le>s dl_expires_at lease then omap_put mac lease by_mac else by_mac))"

definition clients_from_dhcp_leases :: "dhcp_lease list \<Rightarrow> wireless_client list" where
  "clients_from_dhcp_leases leases =
     map (\<lambda>(_, lease). default_client\<lparr>wc_mac := dl_mac lease, wc_ipv4 := dl_ipv4 lease,
                                       wc_hostname := dl_hostname lease\<rparr>)
       (fold keep_latest_lease leases [])"

definition put_client :: "wireless_client \<Rightarrow> (string \<times> wireless_client) list \<Rightarrow> (string \<times> wireless_client) list" where
  "put_client client by_mac = omap_put (normalized (wc_mac client)) client by_mac"

definition overlay_client :: "wireless_client \<Rightarrow> (string \<times> wireless_client) list \<Rightarrow> (string \<times> wireless_client) list" where
  "overlay_client client by_mac =
    (let mac = normalized (wc_mac client)
     in omap_put mac
          (case map_of by_mac mac of None \<Rightarrow> client | Some existing \<Rightarrow> merge_client existing client) by_mac)"

definition merge_wireless_client_states ::
  "wireless_client list \<Rightarrow> wireless_client list \<Rightarrow> wireless_client list" where
  "merge_wireless_client_states base overlay = map snd (fold overlay_client overlay (fold put_client base []))"

definition enrich_client :: "wireless_client \<Rightarrow> (string \<times> wireless_client) list \<Rightarrow> (string \<times> wireless_client) list" where
  "enrich_client client by_mac =
    (let mac = normalized (wc_mac client)
     in case map_of by_mac mac of
          None \<Rightarrow> by_mac
        | Some existing \<Rightarrow> omap_put mac (merge_client existing client) by_mac)"

definition merge_associated_wireless_client_states ::
  "wireless_client list \<Rightarrow> wireless_client list \<Rightarrow> wireless_client list" where
  "merge_associated_wireless_client_states associated_clients metadata_clients =
     map snd (fold enrich_client metadata_clients (fold put_client associated_clients []))"

section \<open>The report of the clients\<close>

definition append_uint_field :: "string \<Rightarrow> u64 \<Rightarrow> string" where
  "append_uint_field key v = '',\"'' @ key @ ''\":'' @ to_string_u v"

definition append_int_field :: "string \<Rightarrow> i64 \<Rightarrow> string" where
  "append_int_field key v = '',\"'' @ key @ ''\":'' @ to_string_i v"

definition client_json :: "wireless_client \<Rightarrow> string" where
  "client_json client =
     ''{\"mac\":'' @ quoted (omada (wc_mac client)) @
     (if wc_ipv4 client \<noteq> [] then '',\"ip\":'' @ quoted (wc_ipv4 client) else []) @
     (if wc_ipv6 client \<noteq> [] then '',\"ipv6List\":['' @ join_with '','' (map quoted (wc_ipv6 client)) @ '']'' else []) @
     (if wc_hostname client \<noteq> [] then '',\"name\":'' @ quoted (wc_hostname client) else []) @
     (if wc_ssid client \<noteq> [] then '',\"ssid\":'' @ quoted (wc_ssid client) else []) @
     (case wc_radio client of Some b \<Rightarrow> append_int_field ''rid'' (scast (radio_id_for_band b)) | None \<Rightarrow> []) @
     (case wc_rssi client of Some v \<Rightarrow> append_int_field ''rssi'' v | None \<Rightarrow> []) @
     (case wc_snr client of Some v \<Rightarrow> append_int_field ''snr'' v | None \<Rightarrow> []) @
     (case wc_vlan_id client of Some v \<Rightarrow> append_int_field ''vid'' v | None \<Rightarrow> []) @
     (if wc_portal_state client \<noteq> UnknownPortal
      then '',\"portalStatus\":'' @ quoted (portal_wire_string (wc_portal_state client)) else []) @
     append_uint_field ''down'' (wc_rx_bytes client) @
     append_uint_field ''up'' (wc_tx_bytes client) @
     (case wc_rx_packets client of Some v \<Rightarrow> append_uint_field ''rxP'' v | None \<Rightarrow> []) @
     (case wc_tx_packets client of Some v \<Rightarrow> append_uint_field ''txP'' v | None \<Rightarrow> []) @
     (case wc_rx_rate client of Some v \<Rightarrow> append_uint_field ''rxR'' v | None \<Rightarrow> []) @
     (case wc_tx_rate client of Some v \<Rightarrow> append_uint_field ''txR'' v | None \<Rightarrow> []) @
     (case wc_association_time client of Some v \<Rightarrow> append_uint_field ''aTime'' v | None \<Rightarrow> []) @ ''}''"

definition client_stats_json :: "wireless_client list \<Rightarrow> string" where
  "client_stats_json clients = ''['' @ join_with '','' (map client_json clients) @ '']''"

section \<open>Maps by address\<close>

text \<open>
  A pass over a list that changes the entry of one key at a time leaves at each key the result of the
  pass over the items of that key.
\<close>

lemma fold_entries:
  fixes step :: "'x \<Rightarrow> ('k::linorder \<times> 'v) list \<Rightarrow> ('k \<times> 'v) list"
  assumes "\<And>x m. omap_ok m \<Longrightarrow> omap_ok (step x m) \<and> map_of (step x m) = (map_of m)(key x := upd x (map_of m (key x)))"
  shows "omap_ok m \<Longrightarrow> omap_ok (fold step xs m) \<and>
    map_of (fold step xs m) k = fold upd (filter (\<lambda>x. key x = k) xs) (map_of m k)"
  using assms by (induction xs arbitrary: m) auto

lemma omap_entry: "omap_ok m \<Longrightarrow> (k, v) \<in> set m \<longleftrightarrow> map_of m k = Some v"
  by (simp add: omap_ok_distinct)

text \<open>The entry of an address after each kind of pass.\<close>

definition latest :: "dhcp_lease \<Rightarrow> dhcp_lease option \<Rightarrow> dhcp_lease option" where
  "latest lease old =
     (case old of None \<Rightarrow> Some lease
      | Some existing \<Rightarrow> Some (if dl_expires_at existing \<le>s dl_expires_at lease then lease else existing))"

lemma latest_simps [simp]:
  "latest lease None = Some lease"
  "latest lease (Some old) = Some (if dl_expires_at old \<le>s dl_expires_at lease then lease else old)"
  by (simp_all add: latest_def)

lemma leases_entry:
  "omap_ok (fold keep_latest_lease leases []) \<and>
   map_of (fold keep_latest_lease leases []) k =
     fold latest (filter (\<lambda>l. normalized (dl_mac l) = k) leases) None"
  using fold_entries [where step = keep_latest_lease and key = "\<lambda>l. normalized (dl_mac l)" and upd = latest and m = "[]"]
  by (auto simp: keep_latest_lease_def latest_def Let_def fun_upd_idem split: option.split)

lemma put_entry:
  "omap_ok (fold put_client clients []) \<and>
   map_of (fold put_client clients []) k =
     fold (\<lambda>c _. Some c) (filter (\<lambda>c. normalized (wc_mac c) = k) clients) None"
  using fold_entries [where step = put_client and key = "\<lambda>c. normalized (wc_mac c)" and upd = "\<lambda>c _. Some c" and m = "[]"]
  by (auto simp: put_client_def)

lemma overlay_entry:
  "omap_ok m \<Longrightarrow> omap_ok (fold overlay_client overlay m) \<and>
   map_of (fold overlay_client overlay m) k =
     fold (\<lambda>c old. Some (case old of None \<Rightarrow> c | Some existing \<Rightarrow> merge_client existing c))
       (filter (\<lambda>c. normalized (wc_mac c) = k) overlay) (map_of m k)"
  by (rule fold_entries) (auto simp: overlay_client_def Let_def)

lemma enrich_entry:
  "omap_ok m \<Longrightarrow> omap_ok (fold enrich_client overlay m) \<and>
   map_of (fold enrich_client overlay m) k =
     fold (\<lambda>c old. map_option (\<lambda>existing. merge_client existing c) old)
       (filter (\<lambda>c. normalized (wc_mac c) = k) overlay) (map_of m k)"
  by (rule fold_entries) (auto simp: enrich_client_def Let_def fun_upd_idem split: option.split)

lemma fold_last: "fold (\<lambda>c _. Some c) xs None = (if xs = [] then None else Some (last xs))"
  by (induction xs rule: rev_induct) auto

lemma fold_map_option: "fold (\<lambda>x. map_option (f x)) xs (Some v) = Some (fold f xs v)"
  by (induction xs arbitrary: v) auto

lemma fold_map_option_None [simp]: "fold (\<lambda>x. map_option (f x)) xs None = None"
  by (induction xs) auto

lemma wc_mac_merge [simp]: "wc_mac (merge_client base overlay) = wc_mac base"
  by (simp add: merge_client_def)

lemma wc_mac_fold_merge [simp]: "wc_mac (fold (\<lambda>c base. merge_client base c) cs base) = wc_mac base"
  by (induction cs arbitrary: base) auto

text \<open>Entries in the order of their addresses.\<close>

lemma values_in_order:
  assumes "omap_ok m" "\<And>k v. map_of m k = Some v \<Longrightarrow> k = normalized (g v)"
  shows "sorted_wrt (<) (map (g \<circ> snd) m)" "set (map (g \<circ> snd) m) = {a. map_of m (normalized a) \<noteq> None}"
proof -
  have key: "fst kv = normalized (g (snd kv))" if "kv \<in> set m" for kv
    using that assms omap_entry by (metis prod.collapse)
  have "sorted_wrt (<) (map fst m)" using assms(1) by (simp add: omap_ok_def)
  then have "sorted_wrt (\<lambda>x y. fst x < fst y) m" by (simp add: sorted_wrt_map)
  then have "sorted_wrt (\<lambda>x y. g (snd x) < g (snd y)) m"
    by (rule sorted_wrt_mono_rel [rotated]) (simp add: key less_mac_address_def)
  then show "sorted_wrt (<) (map (g \<circ> snd) m)" by (simp add: sorted_wrt_map)
  show "set (map (g \<circ> snd) m) = {a. map_of m (normalized a) \<noteq> None}"
  proof (intro set_eqI iffI)
    fix a
    assume "a \<in> set (map (g \<circ> snd) m)"
    then obtain kv where kv: "kv \<in> set m" "a = g (snd kv)" by auto
    then have "map_of m (normalized a) = Some (snd kv)"
      using key [OF kv(1)] omap_entry [OF assms(1), of "fst kv" "snd kv"] by (metis prod.collapse)
    then show "a \<in> {a. map_of m (normalized a) \<noteq> None}" by simp
  next
    fix a
    assume "a \<in> {a. map_of m (normalized a) \<noteq> None}"
    then obtain v where v: "map_of m (normalized a) = Some v" by auto
    with assms(2) [OF v] omap_entry [OF assms(1)] have "a = g v" "(normalized a, v) \<in> set m" by auto
    then show "a \<in> set (map (g \<circ> snd) m)" by force
  qed
qed

section \<open>The text of the report\<close>

definition opt_member :: "string \<Rightarrow> ('a \<Rightarrow> json) \<Rightarrow> 'a option \<Rightarrow> (string \<times> json) list" where
  "opt_member key f v = (case v of Some x \<Rightarrow> [(key, f x)] | None \<Rightarrow> [])"

definition when_member :: "bool \<Rightarrow> string \<Rightarrow> json \<Rightarrow> (string \<times> json) list" where
  "when_member b key v = (if b then [(key, v)] else [])"

abbreviation text_member :: "string \<Rightarrow> string \<Rightarrow> (string \<times> json) list" where
  "text_member key s \<equiv> when_member (s \<noteq> []) key (JString s)"

text \<open>Optional members keep keys distinct and values printable.\<close>

lemma member_lists [simp]:
  "x \<in> fst ` set (opt_member k f v) \<longleftrightarrow> v \<noteq> None \<and> x = k"
  "x \<in> fst ` set (when_member b k j) \<longleftrightarrow> b \<and> x = k"
  "distinct (map fst (opt_member k f v @ ms)) \<longleftrightarrow> (v \<noteq> None \<longrightarrow> k \<notin> fst ` set ms) \<and> distinct (map fst ms)"
  "distinct (map fst (when_member b k j @ ms)) \<longleftrightarrow> (b \<longrightarrow> k \<notin> fst ` set ms) \<and> distinct (map fst ms)"
  "distinct (map fst (opt_member k f v))" "distinct (map fst (when_member b k j))"
  "list_all P (opt_member k f v) \<longleftrightarrow> (\<forall>x. v = Some x \<longrightarrow> P (k, f x))"
  "list_all P (when_member b k j) \<longleftrightarrow> (b \<longrightarrow> P (k, j))"
  by (auto simp: opt_member_def when_member_def split: option.split)

definition client_value :: "wireless_client \<Rightarrow> json" where
  "client_value client = JObject
     ((''mac'', JString (omada (wc_mac client))) #
      text_member ''ip'' (wc_ipv4 client) @
      when_member (wc_ipv6 client \<noteq> []) ''ipv6List'' (JArray (map JString (wc_ipv6 client))) @
      text_member ''name'' (wc_hostname client) @ text_member ''ssid'' (wc_ssid client) @
      opt_member ''rid'' (\<lambda>b. JInt (sint (scast (radio_id_for_band b) :: i64))) (wc_radio client) @
      opt_member ''rssi'' (\<lambda>v. JInt (sint v)) (wc_rssi client) @
      opt_member ''snr'' (\<lambda>v. JInt (sint v)) (wc_snr client) @
      opt_member ''vid'' (\<lambda>v. JInt (sint v)) (wc_vlan_id client) @
      when_member (wc_portal_state client \<noteq> UnknownPortal) ''portalStatus''
        (JString (portal_wire_string (wc_portal_state client))) @
      [(''down'', JInt (uint (wc_rx_bytes client))), (''up'', JInt (uint (wc_tx_bytes client)))] @
      opt_member ''rxP'' (\<lambda>v. JInt (uint v)) (wc_rx_packets client) @
      opt_member ''txP'' (\<lambda>v. JInt (uint v)) (wc_tx_packets client) @
      opt_member ''rxR'' (\<lambda>v. JInt (uint v)) (wc_rx_rate client) @
      opt_member ''txR'' (\<lambda>v. JInt (uint v)) (wc_tx_rate client) @
      opt_member ''aTime'' (\<lambda>v. JInt (uint v)) (wc_association_time client))"

definition comma_members :: "(string \<times> json) list \<Rightarrow> string" where
  "comma_members kvs = concat (map (\<lambda>(k, v). '','' @ quoted k @ '':'' @ render v) kvs)"

lemma render_comma_members: "render_members ((k, v) # kvs) = quoted k @ '':'' @ render v @ comma_members kvs"
  by (induction kvs arbitrary: k v) (auto simp: render_members_Cons comma_members_def)

lemma comma_members_simps [simp]:
  "comma_members [] = []" "comma_members (xs @ ys) = comma_members xs @ comma_members ys"
  "comma_members ((k, v) # kvs) = '','' @ quoted k @ '':'' @ render v @ comma_members kvs"
  by (simp_all add: comma_members_def)

lemma plain_client_keys:
  "quoted ''mac'' = ''\"mac\"''" "quoted ''ip'' = ''\"ip\"''" "quoted ''ipv6List'' = ''\"ipv6List\"''"
  "quoted ''name'' = ''\"name\"''" "quoted ''ssid'' = ''\"ssid\"''" "quoted ''rid'' = ''\"rid\"''"
  "quoted ''rssi'' = ''\"rssi\"''" "quoted ''snr'' = ''\"snr\"''" "quoted ''vid'' = ''\"vid\"''"
  "quoted ''portalStatus'' = ''\"portalStatus\"''" "quoted ''down'' = ''\"down\"''" "quoted ''up'' = ''\"up\"''"
  "quoted ''rxP'' = ''\"rxP\"''" "quoted ''txP'' = ''\"txP\"''" "quoted ''rxR'' = ''\"rxR\"''"
  "quoted ''txR'' = ''\"txR\"''" "quoted ''aTime'' = ''\"aTime\"''"
  by (simp_all add: quoted_plain plain_def code_def)

lemma dec_int_unsigned: "dec_int (uint (w::'w::len word)) = to_string_u w"
  by (simp add: dec_int_def to_string_u_def)

lemma comma_optional:
  "comma_members (opt_member k f v) =
     (case v of Some x \<Rightarrow> '','' @ quoted k @ '':'' @ render (f x) | None \<Rightarrow> [])"
  "comma_members (when_member b k j) = (if b then '','' @ quoted k @ '':'' @ render j else [])"
  by (simp_all add: opt_member_def when_member_def split: option.split)

lemma client_json_render: "client_json client = render (client_value client)"
  unfolding client_json_def client_value_def render_JObject render_comma_members
  by (simp add: comma_optional plain_client_keys append_int_field_def append_uint_field_def
      dec_int_unsigned to_string_i_def comp_def cong: option.case_cong if_cong)

lemma printable_client: "printable (client_value client)"
  by (simp add: client_value_def image_Un del: distinct_append map_append) (simp add: list_all_iff)

lemma client_stats_text: "json_text (JArray (map client_value clients)) (client_stats_json clients)"
proof -
  have "client_stats_json clients = render (JArray (map client_value clients))"
    by (simp add: client_stats_json_def client_json_render [abs_def] comp_def)
  then show ?thesis using json_text_render [of "JArray (map client_value clients)"] printable_client
    by (simp add: list_all_iff)
qed

section \<open>Properties\<close>

lemma fold_latest:
  "fold latest ls None = Some l \<Longrightarrow>
   \<exists>pre post. ls = pre @ l # post \<and> list_all (\<lambda>x. dl_expires_at x \<le>s dl_expires_at l) pre \<and>
     list_all (\<lambda>x. dl_expires_at x <s dl_expires_at l) post"
proof (induction ls arbitrary: l rule: rev_induct)
  case (snoc x ls)
  show ?case
  proof (cases "fold latest ls None")
    case None
    then have "ls = []"
      by (cases ls rule: rev_cases) (auto simp: latest_def split: option.splits)
    with snoc.prems have "ls @ [x] = [l]" by simp
    then show ?thesis by (intro exI [of _ "[]"]) simp
  next
    case (Some old)
    from snoc.IH [OF Some] obtain pre post where old: "ls = pre @ old # post"
      "list_all (\<lambda>y. dl_expires_at y \<le>s dl_expires_at old) pre"
      "list_all (\<lambda>y. dl_expires_at y <s dl_expires_at old) post" by blast
    show ?thesis
    proof (cases "dl_expires_at old \<le>s dl_expires_at x")
      case True
      with snoc.prems Some have "l = x" by simp
      moreover have "list_all (\<lambda>y. dl_expires_at y \<le>s dl_expires_at x) ls"
        using old True by (auto simp: list_all_iff word_sle_eq word_sless_alt)
      ultimately show ?thesis by (intro exI [of _ ls] exI [of _ "[]"]) simp
    next
      case False
      with snoc.prems Some have "l = old" by simp
      with old False show ?thesis
        by (intro exI [of _ pre] exI [of _ "post @ [x]"]) (simp add: word_sle_eq word_sless_alt)
    qed
  qed
qed simp

lemma fold_latest_None: "fold latest ls None = None \<longleftrightarrow> ls = []"
  by (cases ls rule: rev_cases) (auto simp: latest_def split: option.split)

text \<open>
  The clients of a lease file are in the order of their addresses, one for each address with a
  lease, and each shows the address and name of the lease of that station that expires last, the later
  line among equals.
\<close>

theorem dhcp_latest_lease:
  "let clients = clients_from_dhcp_leases leases in
   sorted_wrt (<) (map wc_mac clients) \<and> set (map wc_mac clients) = dl_mac ` set leases \<and>
   list_all (\<lambda>c. \<exists>pre l post. filter (\<lambda>x. dl_mac x = wc_mac c) leases = pre @ l # post \<and>
       wc_ipv4 c = dl_ipv4 l \<and> wc_hostname c = dl_hostname l \<and>
       list_all (\<lambda>x. dl_expires_at x \<le>s dl_expires_at l) pre \<and>
       list_all (\<lambda>x. dl_expires_at x <s dl_expires_at l) post) clients"
proof -
  let ?m = "fold keep_latest_lease leases []"
  have ok: "omap_ok ?m" using leases_entry by blast
  have entry: "map_of ?m k = fold latest (filter (\<lambda>l. normalized (dl_mac l) = k) leases) None" for k
    using leases_entry by blast
  have key: "k = normalized (dl_mac l)" "\<exists>pre post. filter (\<lambda>x. dl_mac x = dl_mac l) leases = pre @ l # post \<and>
      list_all (\<lambda>x. dl_expires_at x \<le>s dl_expires_at l) pre \<and> list_all (\<lambda>x. dl_expires_at x <s dl_expires_at l) post"
    if "map_of ?m k = Some l" for k l
  proof -
    from that fold_latest obtain pre post where l: "filter (\<lambda>x. normalized (dl_mac x) = k) leases = pre @ l # post"
      "list_all (\<lambda>x. dl_expires_at x \<le>s dl_expires_at l) pre" "list_all (\<lambda>x. dl_expires_at x <s dl_expires_at l) post"
      unfolding entry by blast
    then have "l \<in> set (filter (\<lambda>x. normalized (dl_mac x) = k) leases)" by simp
    then show "k = normalized (dl_mac l)" by simp
    with l show "\<exists>pre post. filter (\<lambda>x. dl_mac x = dl_mac l) leases = pre @ l # post \<and>
      list_all (\<lambda>x. dl_expires_at x \<le>s dl_expires_at l) pre \<and> list_all (\<lambda>x. dl_expires_at x <s dl_expires_at l) post"
      by auto
  qed
  have macs: "map wc_mac (clients_from_dhcp_leases leases) = map (dl_mac \<circ> snd) ?m"
    by (simp add: clients_from_dhcp_leases_def comp_def case_prod_unfold)
  have "{a. map_of ?m (normalized a) \<noteq> None} = dl_mac ` set leases"
    unfolding entry fold_latest_None by (auto simp: filter_empty_conv)
  with values_in_order [where g = dl_mac, OF ok key(1)]
  have "sorted_wrt (<) (map wc_mac (clients_from_dhcp_leases leases))"
    "set (map wc_mac (clients_from_dhcp_leases leases)) = dl_mac ` set leases"
    unfolding macs by blast+
  moreover have "list_all (\<lambda>(k, l). \<exists>pre post. filter (\<lambda>x. dl_mac x = dl_mac l) leases = pre @ l # post \<and>
      list_all (\<lambda>x. dl_expires_at x \<le>s dl_expires_at l) pre \<and> list_all (\<lambda>x. dl_expires_at x <s dl_expires_at l) post) ?m"
    unfolding list_all_iff [of _ ?m] using key(2) by (auto simp only: omap_entry [OF ok] split: prod.split)
  ultimately show ?thesis
    unfolding Let_def clients_from_dhcp_leases_def list_all_iff by (fastforce simp: list_all_iff)
qed

text \<open>
  C39. The clients a report lists are the associated stations, once each and in the order of their
  addresses: the lease file and the portal add what they know of a station that is associated and never
  a station that is not, and each station shows the last observation of it with every piece of
  metadata laid over it in turn.
\<close>

theorem associated_clients_reported:
  "let clients = merge_associated_wireless_client_states associated metadata in
   sorted_wrt (<) (map wc_mac clients) \<and> set (map wc_mac clients) = wc_mac ` set associated \<and>
   list_all (\<lambda>c. c = fold (\<lambda>x base. merge_client base x) (filter (\<lambda>x. wc_mac x = wc_mac c) metadata)
       (last (filter (\<lambda>x. wc_mac x = wc_mac c) associated))) clients"
proof -
  let ?base = "fold put_client associated []"
  let ?m = "fold enrich_client metadata ?base"
  have base: "omap_ok ?base" using put_entry by blast
  then have ok: "omap_ok ?m" using enrich_entry by blast
  have entry: "map_of ?m k =
      (let here = filter (\<lambda>c. normalized (wc_mac c) = k) in
       if here associated = [] then None
       else Some (fold (\<lambda>x base. merge_client base x) (here metadata) (last (here associated))))" for k
    using enrich_entry [OF base, of metadata k] put_entry [of associated k]
    by (simp add: fold_last fold_map_option Let_def)
  have key: "k = normalized (wc_mac c)"
    "c = fold (\<lambda>x base. merge_client base x) (filter (\<lambda>x. wc_mac x = wc_mac c) metadata)
       (last (filter (\<lambda>x. wc_mac x = wc_mac c) associated))"
    if "map_of ?m k = Some c" for k c
  proof -
    let ?here = "filter (\<lambda>c. normalized (wc_mac c) = k)"
    from that have c: "?here associated \<noteq> []"
      "c = fold (\<lambda>x base. merge_client base x) (?here metadata) (last (?here associated))"
      unfolding entry by (auto simp: Let_def split: if_splits)
    then have "last (?here associated) \<in> set (?here associated)" by (intro last_in_set)
    with c(2) show k: "k = normalized (wc_mac c)" by simp
    from c(2) show "c = fold (\<lambda>x base. merge_client base x) (filter (\<lambda>x. wc_mac x = wc_mac c) metadata)
       (last (filter (\<lambda>x. wc_mac x = wc_mac c) associated))" by (simp add: k)
  qed
  have macs: "map wc_mac (merge_associated_wireless_client_states associated metadata) = map (wc_mac \<circ> snd) ?m"
    by (simp add: merge_associated_wireless_client_states_def)
  have "{a. map_of ?m (normalized a) \<noteq> None} = wc_mac ` set associated"
    unfolding entry by (auto simp: Let_def filter_empty_conv)
  with values_in_order [where g = wc_mac, OF ok key(1)]
  have "sorted_wrt (<) (map wc_mac (merge_associated_wireless_client_states associated metadata))"
    "set (map wc_mac (merge_associated_wireless_client_states associated metadata)) = wc_mac ` set associated"
    unfolding macs by blast+
  moreover have "list_all (\<lambda>c. c = fold (\<lambda>x base. merge_client base x) (filter (\<lambda>x. wc_mac x = wc_mac c) metadata)
       (last (filter (\<lambda>x. wc_mac x = wc_mac c) associated))) (map snd ?m)"
    using key(2) omap_entry [OF ok] by (auto simp: list_all_iff)
  ultimately show ?thesis
    by (simp add: Let_def merge_associated_wireless_client_states_def image_image)
qed

end
