(* ===== verification/Opennds.thy ===== *)
theory Opennds
  imports Capabilities Client_State Configuration_Applier
begin

text \<open>
  \<open>src/src/openwrt/opennds.cpp\<close>: the captive portal.  The policy and the openNDS commands an update
  asks for, the shell script that sends a client to the portal of the controller, the reading of
  \<open>ndsctl json\<close>, and the applier that runs the commands.  Running a program is a parameter, the type
  \<open>'w command_run\<close> of the class \<open>OpenNdsExecutor\<close>.
\<close>

section \<open>Texts\<close>

definition nds_append_unique :: "string list \<Rightarrow> string \<Rightarrow> string list" where
  "nds_append_unique vs v =
    (let v = trim v in if v = [] then vs else if List.member vs v then vs else vs @ [v])"

definition ipv4_octet :: "string \<Rightarrow> u8 option" where
  "ipv4_octet raw =
     (if raw = [] \<or> 3 < length raw \<or> \<not> list_all is_digit raw \<or> 255 < digits_val raw then None
      else Some (of_nat (digits_val raw)))"

definition valid_ipv4_address :: "string \<Rightarrow> bool" where
  "valid_ipv4_address raw =
    (let parts = split_on CHR ''.'' raw
     in length parts = 4 \<and> list_all (\<lambda>part. ipv4_octet part \<noteq> None) parts)"

definition valid_mask :: "i64 \<Rightarrow> bool" where
  "valid_mask bits \<longleftrightarrow> 0 \<le>s bits \<and> bits \<le>s 32"

text \<open>The text after and before the last occurrence of a character, \<open>rfind\<close>.\<close>

definition after_last :: "char \<Rightarrow> string \<Rightarrow> string option" where
  "after_last c s = (if c \<in> set s then Some (rev (takeWhile (\<lambda>x. x \<noteq> c) (rev s))) else None)"

definition before_last :: "char \<Rightarrow> string \<Rightarrow> string option" where
  "before_last c s = (if c \<in> set s then Some (rev (tl (dropWhile (\<lambda>x. x \<noteq> c) (rev s)))) else None)"

fun port_digits :: "u32 \<Rightarrow> string \<Rightarrow> u32 option" where
  "port_digits port [] = Some port"
| "port_digits port (ch # chs) =
     (if \<not> is_digit ch then None
      else
        (let port = port * 10 + of_nat (digit_val ch)
         in if 65535 < port then None else port_digits port chs))"

definition optional_port_from_host :: "string \<Rightarrow> u16 option" where
  "optional_port_from_host host_port =
     (case after_last CHR '':'' host_port of
        None \<Rightarrow> None
      | Some digits \<Rightarrow> (if digits = [] then None else map_option ucast (port_digits 0 digits)))"

definition url_stop :: "char \<Rightarrow> bool" where
  "url_stop c \<longleftrightarrow> c = CHR ''/'' \<or> c = CHR ''?'' \<or> c = CHR ''#''"

definition host_from_urlish :: "string \<Rightarrow> string" where
  "host_from_urlish raw =
    (let raw = trim raw
     in if raw = [] then []
        else
          (let raw = (case find_sub ''://'' raw of
                        Some (_, rest) \<Rightarrow> rest
                      | None \<Rightarrow> (if starts_with raw ''//'' then drop 2 raw else raw));
               raw = takeWhile (\<lambda>c. \<not> url_stop c) raw;
               raw = (case after_last CHR 0x40 raw of Some rest \<Rightarrow> rest | None \<Rightarrow> raw)
           in if raw \<noteq> [] \<and> hd raw = CHR ''['' then []
              else
                (let raw = (case before_last CHR '':'' raw of Some host \<Rightarrow> host | None \<Rightarrow> raw);
                     raw = rev (dropWhile (\<lambda>c. c = CHR ''.'') (rev raw));
                     raw = lowercase (trim raw)
                 in if raw = [] \<or> valid_ipv4_address raw then [] else raw)))"

definition normal_portal_url :: "string \<Rightarrow> bool \<Rightarrow> string" where
  "normal_portal_url raw require_portal_path =
    (let raw = trim raw
     in if raw = [] then []
        else
          (let url = (if contains_sub raw ''://'' then raw else ''https://'' @ raw)
           in if \<not> starts_with url ''http://'' \<and> \<not> starts_with url ''https://'' then []
              else
                (case find_sub ''://'' url of
                   None \<Rightarrow> []
                 | Some (_, rest) \<Rightarrow>
                     (if takeWhile (\<lambda>c. \<not> url_stop c) rest = [] then []
                      else if require_portal_path \<and>
                        \<not> contains_sub (lowercase (dropWhile (\<lambda>c. \<not> url_stop c) rest)) ''portal''
                      then [] else url))))"

definition network_from_rule :: "portal_layer2_rule \<Rightarrow> string" where
  "network_from_rule rule =
     (case find (\<lambda>candidate. trim candidate \<noteq> [])
             [l2_dst_ip rule, l2_value rule, l2_ip rule, l2_ip_address rule, l2_address rule, l2_dst rule] of
        None \<Rightarrow> []
      | Some candidate \<Rightarrow>
          (let raw = trim candidate;
               bits = (case l2_dst_mask rule of Some m \<Rightarrow> m
                       | None \<Rightarrow> (case l2_mask rule of Some m \<Rightarrow> m | None \<Rightarrow> -1))
           in if 0 \<le>s bits
              then (if \<not> valid_mask bits \<or> \<not> valid_ipv4_address raw then []
                    else raw @ ''/'' @ to_string_i bits)
              else if \<not> valid_ipv4_address raw then [] else raw))"

text \<open>A loop that returns the first text that is not empty.\<close>

definition first_text :: "string list \<Rightarrow> string" where
  "first_text texts = (case find (\<lambda>t. t \<noteq> []) texts of Some t \<Rightarrow> t | None \<Rightarrow> [])"

definition landing_page_url :: "portal_configuration list \<Rightarrow> string" where
  "landing_page_url portals =
     first_text (map (\<lambda>portal. normal_portal_url (pc_redirect_url portal) False)
       (filter (\<lambda>portal. pc_redirect portal \<noteq> Some False) portals))"

text \<open>The last resort: the entry page of the controller.\<close>

definition controller_portal_url :: "string \<Rightarrow> string" where
  "controller_portal_url controller_host =
    (let host = trim controller_host
     in if host = [] then []
        else
          (let (scheme, host) =
                 (case find_sub ''://'' host of
                    Some (_, rest) \<Rightarrow> (if starts_with host ''https://'' then ''https'' else ''http'', rest)
                  | None \<Rightarrow> (''http'', host));
               host = takeWhile (\<lambda>c. c \<noteq> CHR ''/'') host
           in if optional_port_from_host host \<noteq> None then scheme @ ''://'' @ host @ ''/portal/entry''
              else
                (let port = (if scheme = ''https'' then 8843 else 8088 :: u16)
                 in scheme @ ''://'' @ host @ '':'' @ to_string_u port @ ''/portal/entry'')))"

definition portal_redirect_url :: "config_update \<Rightarrow> string \<Rightarrow> string" where
  "portal_redirect_url update controller_host =
    (let server = first_text (concat (map (\<lambda>portal.
               [normal_portal_url (pc_external_portal_server portal) False,
                normal_portal_url (pc_ext_auth_server portal) False]) (portal_configs update)));
         rules = (case portal_free_policy update of Some policy \<Rightarrow> url_rules policy | None \<Rightarrow> []);
         free = first_text (concat (map (\<lambda>rule.
               [normal_portal_url (ur_url rule) True, normal_portal_url (ur_host rule) True,
                normal_portal_url (ur_value rule) True]) rules));
         landing = landing_page_url (portal_configs update)
     in if server \<noteq> [] then server else if free \<noteq> [] then free else if landing \<noteq> [] then landing
        else controller_portal_url controller_host)"

definition default_ssid_name :: "portal_configuration list \<Rightarrow> string" where
  "default_ssid_name portals = first_text (map trim (concat (map pc_ssid_list portals)))"

definition portal_site_id :: "portal_configuration list \<Rightarrow> string \<Rightarrow> string" where
  "portal_site_id portals configured =
    (let found = first_text (map (\<lambda>portal. trim (pc_site_id portal)) portals)
     in if found \<noteq> [] then found else trim configured)"

definition portal_site_name :: "portal_configuration list \<Rightarrow> string \<Rightarrow> string" where
  "portal_site_name portals configured =
    (let found = first_text (map (\<lambda>portal. trim (pc_site_name portal)) portals)
     in if found \<noteq> [] then found else trim configured)"

abbreviation newline :: string where "newline \<equiv> [CHR 0x0A]"
abbreviation bslash :: string where "bslash \<equiv> [CHR 0x5C]"
abbreviation squote :: string where "squote \<equiv> [CHR 0x27]"

definition shell_quote :: "string \<Rightarrow> string" where
  "shell_quote s =
     squote @ concat (map (\<lambda>ch. if ch = CHR 0x27 then squote @ bslash @ squote @ squote else [ch]) s) @ squote"

definition html_escape :: "string \<Rightarrow> string" where
  "html_escape s = concat (map (\<lambda>ch.
     if ch = CHR 0x26 then ''&amp;'' else if ch = CHR 0x22 then ''&quot;''
     else if ch = CHR 0x3C then ''&lt;'' else if ch = CHR 0x3E then ''&gt;'' else [ch]) s)"

section \<open>Running programs\<close>

record command_result =
  cmd_ok :: bool
  cmd_exit_code :: i32
  cmd_output :: string
  cmd_error :: string

type_synonym 'w command_run = "string list \<Rightarrow> string \<Rightarrow> 'w \<Rightarrow> command_result \<times> 'w"

definition quiet_uci_delete :: "string list \<Rightarrow> bool" where
  "quiet_uci_delete command =
     (4 \<le> length command \<and> command ! 0 = ''uci'' \<and> command ! 1 = ''-q'' \<and> command ! 2 = ''delete'')"

definition command_error :: "string list \<Rightarrow> command_result \<Rightarrow> string \<Rightarrow> string" where
  "command_error command result fallback =
     (if cmd_error result \<noteq> [] then cmd_error result
      else if cmd_output result \<noteq> [] then cmd_output result
      else fallback @ (if command \<noteq> [] then '': '' @ join_with '' '' command else []))"

section \<open>The policy\<close>

record portal_policy =
  pol_walled_garden_fqdns :: "string list"
  pol_preauthenticated_user_rules :: "string list"
  pol_walled_garden_ports :: "u16 list"
  pol_portal_redirect_url :: string
  pol_landing_page_url :: string
  pol_default_ssid_name :: string
  pol_ap_mac :: string
  pol_site_id :: string
  pol_site_name :: string

definition default_policy :: portal_policy where
  "default_policy =
     \<lparr>pol_walled_garden_fqdns = [], pol_preauthenticated_user_rules = [],
      pol_walled_garden_ports = [80, 443, 8088, 8843], pol_portal_redirect_url = [], pol_landing_page_url = [],
      pol_default_ssid_name = [], pol_ap_mac = [], pol_site_id = [], pol_site_name = []\<rparr>"

definition opennds_portal_policy_from_free_policy :: "portal_free_policy_config option \<Rightarrow> portal_policy" where
  "opennds_portal_policy_from_free_policy policy =
     (case policy of
        None \<Rightarrow> default_policy
      | Some policy \<Rightarrow>
          default_policy
            \<lparr>pol_walled_garden_fqdns :=
               fold (\<lambda>raw fqdns. nds_append_unique fqdns (host_from_urlish raw))
                 (concat (map (\<lambda>rule. [ur_url rule, ur_host rule, ur_value rule]) (url_rules policy))) [],
             pol_preauthenticated_user_rules :=
               fold (\<lambda>rule rules.
                   let network = network_from_rule rule
                   in if network \<noteq> [] then nds_append_unique rules (''allow all to '' @ network) else rules)
                 (layer2_rules policy) []\<rparr>)"

definition opennds_portal_policy_from_omada_config ::
  "config_update \<Rightarrow> string \<Rightarrow> mac_address \<Rightarrow> string \<Rightarrow> string \<Rightarrow> portal_policy" where
  "opennds_portal_policy_from_omada_config update controller_host device_mac configured_site_id configured_site_name =
     (opennds_portal_policy_from_free_policy (portal_free_policy update))
       \<lparr>pol_portal_redirect_url := portal_redirect_url update controller_host,
        pol_landing_page_url := landing_page_url (portal_configs update),
        pol_default_ssid_name := default_ssid_name (portal_configs update),
        pol_ap_mac := omada device_mac,
        pol_site_id := portal_site_id (portal_configs update) configured_site_id,
        pol_site_name := portal_site_name (portal_configs update) configured_site_name\<rparr>"

section \<open>The script of the portal\<close>

definition themespec_variables :: "portal_policy \<Rightarrow> string" where
  "themespec_variables policy =
     ''#!/bin/sh'' @ newline @
     ''title=\"openomada-controller-redirect\"'' @ newline @
     ''openomada_portal_url='' @ shell_quote (pol_portal_redirect_url policy) @ newline @
     ''openomada_landing_page_url='' @ shell_quote (pol_landing_page_url policy) @ newline @
     ''openomada_default_ssid_name='' @ shell_quote (pol_default_ssid_name policy) @ newline @
     ''openomada_ap_mac='' @ shell_quote (pol_ap_mac policy) @ newline @
     ''openomada_site_id='' @ shell_quote (pol_site_id policy) @ newline @
     ''openomada_site_name='' @ shell_quote (pol_site_name policy) @ newline @ newline"

definition themespec_functions :: string where
  "themespec_functions =
     ''_openomada_format_mac() { printf \"%s\" \"$1\" | tr '' @ squote @ ''a-f:'' @ squote @ '' '' @ squote @ ''A-F-'' @ squote @ ''; }'' @ newline @
     ''_openomada_hexdump() { command -v hexdump >/dev/null 2>&1 && hexdump -v -e '' @ squote @ ''1/1 \"%02x\"'' @ squote @ ''; }'' @ newline @
     ''_openomada_urlencode() {'' @ newline @
     ''    hex=$(printf \"%s\" \"$1\" | _openomada_hexdump 2>/dev/null)'' @ newline @
     ''    encoded=\"\"'' @ newline @
     ''    while [ -n \"$hex\" ]; do'' @ newline @
     ''        byte=${hex%\"${hex#??}\"}; hex=${hex#??}'' @ newline @
     ''        case \"$byte\" in'' @ newline @
     ''            20) encoded=\"${encoded}+\" ;;'' @ newline @
     ''            2d|2e|5f|7e|30|31|32|33|34|35|36|37|38|39|41|42|43|44|45|46|47|48|49|4a|4b|4c|4d|4e|4f|50|51|52|53|54|55|56|57|58|59|5a|61|62|63|64|65|66|67|68|69|6a|6b|6c|6d|6e|6f|70|71|72|73|74|75|76|77|78|79|7a) encoded=\"${encoded}$(printf \"'' @ bslash @ bslash @ ''x$byte\")\" ;;'' @ newline @
     ''            *) encoded=\"${encoded}%$(printf \"%s\" \"$byte\" | tr '' @ squote @ ''a-f'' @ squote @ '' '' @ squote @ ''A-F'' @ squote @ '')\" ;;'' @ newline @
     ''        esac'' @ newline @
     ''    done'' @ newline @
     ''    printf \"%s\" \"$encoded\"'' @ newline @
     ''}'' @ newline @
     ''_openomada_append_param() { key=$1; value=$2; case \"$openomada_target\" in *'' @ bslash @ ''?|*'' @ bslash @ ''&) sep=\"\" ;; *'' @ bslash @ ''?*) sep=\"&\" ;; *) sep=\"?\" ;; esac; openomada_target=\"${openomada_target}${sep}${key}=$(_openomada_urlencode \"$value\")\"; }'' @ newline @
     ''_openomada_now() { date +%s 2>/dev/null || printf \"0\"; }'' @ newline @
     ''generate_splash_sequence() {'' @ newline @
     ''    openomada_target=$openomada_portal_url'' @ newline @
     ''    openomada_client_mac=$(_openomada_format_mac \"${clientmac:-}\")'' @ newline @
     ''    openomada_client_ip=${clientip:-}'' @ newline @
     ''    openomada_site_ref=${openomada_site_id:-$openomada_site_name}'' @ newline @
     ''    openomada_resolved_ssid=${openomada_default_ssid_name:-${client_zone:-}}'' @ newline @
     ''    openomada_redirect_url=$openomada_landing_page_url'' @ newline @
     ''    [ -z \"$openomada_redirect_url\" ] && openomada_redirect_url=${originurl:-}'' @ newline @
     ''    _openomada_append_param \"clientMac\" \"$openomada_client_mac\"'' @ newline @
     ''    _openomada_append_param \"clientIp\" \"$openomada_client_ip\"'' @ newline @
     ''    _openomada_append_param \"t\" \"$(_openomada_now)\"'' @ newline @
     ''    _openomada_append_param \"site\" \"$openomada_site_ref\"'' @ newline @
     ''    _openomada_append_param \"redirectUrl\" \"$openomada_redirect_url\"'' @ newline @
     ''    _openomada_append_param \"apMac\" \"$(_openomada_format_mac \"$openomada_ap_mac\")\"'' @ newline @
     ''    _openomada_append_param \"ssidName\" \"$openomada_resolved_ssid\"'' @ newline @
     ''    _openomada_append_param \"radioId\" \"0\"'' @ newline @
     ''    safe_target=$(printf \"%s\" \"$openomada_target\" | sed '' @ squote @ ''s/&/'' @ bslash @ ''&amp;/g; s/\"/'' @ bslash @ ''&quot;/g; s/</'' @ bslash @ ''&lt;/g; s/>/'' @ bslash @ ''&gt;/g'' @ squote @ '')'' @ newline @
     ''    echo \"<meta http-equiv='' @ bslash @ ''\"refresh'' @ bslash @ ''\" content='' @ bslash @ ''\"0; url=$safe_target'' @ bslash @ ''\">\"'' @ newline @
     ''    echo \"<p><a href='' @ bslash @ ''\"$safe_target'' @ bslash @ ''\">Open Omada portal</a></p>\"'' @ newline @
     ''}'' @ newline @
     ''header() { echo \"<!DOCTYPE html><html><head><meta charset='' @ bslash @ ''\"utf-8'' @ bslash @ ''\"><meta name='' @ bslash @ ''\"viewport'' @ bslash @ ''\" content='' @ bslash @ ''\"width=device-width, initial-scale=1.0'' @ bslash @ ''\"><title>Omada Portal</title></head><body>\"; }'' @ newline @
     ''footer() { echo \"</body></html>\"; exit 0; }'' @ newline"

definition build_openomada_redirect_themespec :: "portal_policy \<Rightarrow> string" where
  "build_openomada_redirect_themespec policy =
     (if pol_portal_redirect_url policy = [] then []
      else themespec_variables policy @ themespec_functions @
        ''# Static portal base URL: '' @ html_escape (pol_portal_redirect_url policy) @ newline)"

section \<open>The plan\<close>

record nds_plan =
  np_ok :: bool
  np_changed :: bool
  np_commands :: "string list list"
  np_themespec :: string
  np_error :: string

definition kOpenOmadaThemeSpecPath :: string where
  "kOpenOmadaThemeSpecPath = ''/usr/lib/opennds/theme_openomada_redirect.sh''"

definition nds_option :: "string \<Rightarrow> string" where
  "nds_option name = ''opennds.@opennds[0].'' @ name"

definition build_opennds_apply_plan :: "portal_policy \<Rightarrow> nds_plan" where
  "build_opennds_apply_plan policy =
    (let redirects = (pol_portal_redirect_url policy \<noteq> [])
     in \<lparr>np_ok = True, np_changed = True,
         np_commands =
           map (\<lambda>name. [''uci'', ''-q'', ''delete'', nds_option name])
             [''walledgarden_fqdn_list'', ''walledgarden_port_list'', ''preauthenticated_users'', ''themespec_path''] @
           map (\<lambda>fqdn. [''uci'', ''add_list'', nds_option ''walledgarden_fqdn_list='' @ fqdn])
             (pol_walled_garden_fqdns policy) @
           (if pol_walled_garden_fqdns policy \<noteq> []
            then [[''uci'', ''add_list'', nds_option ''walledgarden_port_list='' @
                   join_with '' '' (map to_string_u (pol_walled_garden_ports policy))]] else []) @
           map (\<lambda>rule. [''uci'', ''add_list'', nds_option ''preauthenticated_users='' @ rule])
             (pol_preauthenticated_user_rules policy) @
           (if redirects
            then [[''write-file'', kOpenOmadaThemeSpecPath],
                  [''chmod'', ''0644'', kOpenOmadaThemeSpecPath],
                  [''uci'', ''set'', nds_option ''login_option_enabled=3''],
                  [''uci'', ''set'', nds_option ''themespec_path='' @ kOpenOmadaThemeSpecPath]]
            else [[''uci'', ''set'', nds_option ''login_option_enabled=1'']]) @
           [[''uci'', ''set'', nds_option ''gatewayfqdn=disable''],
            [''uci'', ''set'', nds_option ''allow_preemptive_authentication=0''],
            [''uci'', ''commit'', ''opennds''],
            [''/etc/init.d/opennds'', ''restart'']],
         np_themespec = (if redirects then build_openomada_redirect_themespec policy else []),
         np_error = []\<rparr>)"

record nds_execution_result =
  ne_ok :: bool
  ne_changed :: bool
  ne_command_count :: nat
  ne_error :: string

fun run_plan_commands ::
  "'w command_run \<Rightarrow> string \<Rightarrow> string list list \<Rightarrow> nds_execution_result \<Rightarrow> 'w \<Rightarrow> nds_execution_result \<times> 'w" where
  "run_plan_commands run themespec [] result w = (result\<lparr>ne_ok := True, ne_changed := True\<rparr>, w)"
| "run_plan_commands run themespec (command # commands) result w =
     (if command = [] then run_plan_commands run themespec commands result w
      else
        (let input = (if command ! 0 = ''write-file'' then themespec else []);
             (command_result, w) = run command input w;
             result = result\<lparr>ne_command_count := ne_command_count result + 1\<rparr>
         in if \<not> cmd_ok command_result
            then if quiet_uci_delete command then run_plan_commands run themespec commands result w
                 else (result\<lparr>ne_error := command_error command command_result ''openNDS command failed''\<rparr>, w)
            else run_plan_commands run themespec commands result w))"

definition execute_opennds_apply_plan :: "'w command_run \<Rightarrow> nds_plan \<Rightarrow> 'w \<Rightarrow> nds_execution_result \<times> 'w" where
  "execute_opennds_apply_plan run plan w =
    (let result = \<lparr>ne_ok = False, ne_changed = False, ne_command_count = 0, ne_error = []\<rparr>
     in if \<not> np_ok plan
        then (result\<lparr>ne_error := (if np_error plan = [] then ''openNDS plan is invalid'' else np_error plan)\<rparr>, w)
        else if \<not> np_changed plan then (result\<lparr>ne_ok := True\<rparr>, w)
        else run_plan_commands run (np_themespec plan) (np_commands plan) result w)"

section \<open>The clients of openNDS\<close>

definition portal_state_from_opennds :: "string \<Rightarrow> client_portal_state" where
  "portal_state_from_opennds raw =
    (let raw = lowercase (trim raw)
     in if raw = ''authenticated'' \<or> raw = ''trusted'' then Authenticated
        else if raw = ''preauthenticated'' \<or> raw = ''preauth'' then Unauthenticated
        else if raw = ''blocked'' then Blocked
        else UnknownPortal)"

definition uint_counter :: "jsonc \<Rightarrow> json \<Rightarrow> string \<Rightarrow> u64" where
  "uint_counter J object key =
     (case optional_int_any J (object_member object key) of
        None \<Rightarrow> 0
      | Some parsed \<Rightarrow> (if parsed <s 0 then 0 else parsed))"

definition text_or :: "string option \<Rightarrow> string \<Rightarrow> string" where
  "text_or t fallback = (case t of Some s \<Rightarrow> s | None \<Rightarrow> fallback)"

definition nds_client :: "jsonc \<Rightarrow> string \<times> json \<Rightarrow> wireless_client option" where
  "nds_client J = (\<lambda>(raw_mac, raw_client).
     if \<not> is_object raw_client then None
     else
       (case parse_mac (text_or (optional_string_any J (object_member raw_client ''mac'')) (c_string raw_mac)) of
          None \<Rightarrow> None
        | Some mac \<Rightarrow>
            Some (default_client
              \<lparr>wc_mac := mac,
               wc_ipv4 := text_or (optional_string_any J (object_member raw_client ''ip'')) [],
               wc_portal_state := portal_state_from_opennds
                 (text_or (optional_string_any J (object_member raw_client ''state'')) []),
               wc_rx_bytes := uint_counter J raw_client ''download_this_session'',
               wc_tx_bytes := uint_counter J raw_client ''upload_this_session''\<rparr>)))"

record nds_clients_result =
  nc_ok :: bool
  nc_clients :: "wireless_client list"
  nc_error :: string

definition opennds_clients_from_json :: "jsonc \<Rightarrow> string \<Rightarrow> nds_clients_result" where
  "opennds_clients_from_json J payload =
    (let document = json_document_parse J payload
     in if \<not> valid document
        then \<lparr>nc_ok = False, nc_clients = [], nc_error = ''openNDS payload must be a JSON object''\<rparr>
        else
          (let clients = object_member document ''clients''
           in if \<not> is_object clients then \<lparr>nc_ok = True, nc_clients = [], nc_error = []\<rparr>
              else \<lparr>nc_ok = True,
                    nc_clients = sort_key wc_mac (List.map_filter (nds_client J) (object_entries clients)),
                    nc_error = []\<rparr>))"

definition opennds_client_ip_for_mac :: "jsonc \<Rightarrow> string \<Rightarrow> mac_address \<Rightarrow> string option" where
  "opennds_client_ip_for_mac J payload mac =
    (let parsed = opennds_clients_from_json J payload
     in if \<not> nc_ok parsed then None
        else map_option wc_ipv4
          (find (\<lambda>client. wc_mac client = mac \<and> valid_ipv4_address (wc_ipv4 client)) (nc_clients parsed)))"

section \<open>The applier\<close>

record nds_options =
  no_controller_host :: string
  no_device_mac :: mac_address
  no_site_id :: string
  no_site_name :: string
  no_flush_conntrack_on_deauth :: bool

definition has_portal_policy_update :: "config_update \<Rightarrow> bool" where
  "has_portal_policy_update update \<longleftrightarrow> portal_free_policy update \<noteq> None \<or> portal_configs update \<noteq> []"

definition has_portal_client_update :: "config_update \<Rightarrow> bool" where
  "has_portal_client_update update \<longleftrightarrow> list_ex (\<lambda>item. ca_unauthenticated item \<noteq> None) (client_configs update)"

definition portal_error :: "string \<Rightarrow> apply_result" where
  "portal_error error = \<lparr>apply_ok = False, apply_changed = False, apply_error = error\<rparr>"

text \<open>Ending and starting the session of one client: the refusal, or nothing.\<close>

definition deauth_client ::
  "jsonc \<Rightarrow> 'w command_run \<Rightarrow> nds_options \<Rightarrow> mac_address \<Rightarrow> 'w \<Rightarrow> apply_result option \<times> 'w" where
  "deauth_client J run options client w =
    (let mac = normalized client;
         (lookup, w) = run [''ndsctl'', ''json'', mac] [] w;
         client_ip = (if cmd_ok lookup \<and> cmd_output lookup \<noteq> []
                      then opennds_client_ip_for_mac J (cmd_output lookup) client else None);
         (deauthed, w) = run [''ndsctl'', ''deauth'', mac] [] w
     in if \<not> cmd_ok deauthed
        then (Some (portal_error (command_error [''ndsctl'', ''deauth'', mac] deauthed ''ndsctl deauth failed'')), w)
        else
          (case client_ip of
             Some ip \<Rightarrow>
               (if no_flush_conntrack_on_deauth options
                then (None, snd (run [''conntrack'', ''-D'', ''-d'', ip] [] (snd (run [''conntrack'', ''-D'', ''-s'', ip] [] w))))
                else (None, w))
           | None \<Rightarrow> (None, w)))"

definition auth_client :: "'w command_run \<Rightarrow> mac_address \<Rightarrow> 'w \<Rightarrow> apply_result option \<times> 'w" where
  "auth_client run client w =
    (let mac = normalized client;
         (authed, w) = run [''ndsctl'', ''auth'', mac, [], [], [], [], [], []] [] w
     in if \<not> cmd_ok authed
        then (Some (portal_error (command_error [''ndsctl'', ''auth'', mac] authed ''ndsctl auth failed'')), w)
        else (None, w))"

fun apply_client_auths ::
  "jsonc \<Rightarrow> 'w command_run \<Rightarrow> nds_options \<Rightarrow> client_auth_config list \<Rightarrow> bool \<Rightarrow> 'w \<Rightarrow> apply_result \<times> 'w" where
  "apply_client_auths J run options [] changed w = (\<lparr>apply_ok = True, apply_changed = changed, apply_error = []\<rparr>, w)"
| "apply_client_auths J run options (item # items) changed w =
     (case ca_unauthenticated item of
        None \<Rightarrow> apply_client_auths J run options items changed w
      | Some unauthenticated \<Rightarrow>
          (let (refused, w) =
                 (if unauthenticated then deauth_client J run options (ca_client_mac item) w
                  else auth_client run (ca_client_mac item) w)
           in case refused of
                Some error \<Rightarrow> (error, w)
              | None \<Rightarrow> apply_client_auths J run options items True w))"

definition portal_apply ::
  "jsonc \<Rightarrow> platform_capabilities \<Rightarrow> 'w command_run \<Rightarrow> nds_options \<Rightarrow> 'w applier" where
  "portal_apply J c run options update w =
    (let policy_update = has_portal_policy_update update; client_update = has_portal_client_update update
     in if \<not> policy_update \<and> \<not> client_update
        then (\<lparr>apply_ok = True, apply_changed = False, apply_error = []\<rparr>, w)
        else if \<not> supports_portal c
        then (portal_error ''portal configuration requested but platform capability is disabled'', w)
        else if \<not> tool_opennds (pcap_tools c) \<or> \<not> tool_ndsctl (pcap_tools c)
        then (portal_error ''portal configuration requires openNDS and ndsctl'', w)
        else if policy_update
        then
          (let policy = opennds_portal_policy_from_omada_config update (no_controller_host options)
                 (no_device_mac options) (no_site_id options) (no_site_name options);
               (applied, w) = execute_opennds_apply_plan run (build_opennds_apply_plan policy) w
           in if \<not> ne_ok applied
              then (portal_error (if ne_error applied = [] then ''openNDS policy apply failed'' else ne_error applied), w)
              else apply_client_auths J run options (client_configs update) (ne_changed applied) w)
        else apply_client_auths J run options (client_configs update) False w)"

end
