(* ===== verification/Opennds_Safety.thy ===== *)
theory Opennds_Safety
  imports Opennds
begin

text \<open>
  What the portal applier of \<open>src/src/openwrt/opennds.cpp\<close> can do to the platform: the commands it may
  run, the policies it makes, and the script it installs.
\<close>

section \<open>What may be run\<close>

text \<open>The runner with a log of the commands and their inputs.\<close>

definition recording_run :: "'w command_run \<Rightarrow> ('w \<times> (string list \<times> string) list) command_run" where
  "recording_run run command input =
     (\<lambda>(w, log). case run command input w of (r, w') \<Rightarrow> (r, w', log @ [(command, input)]))"

definition plan_inputs :: "nds_plan \<Rightarrow> (string list \<times> string) list" where
  "plan_inputs plan =
     map (\<lambda>command. (command, if command ! 0 = ''write-file'' then np_themespec plan else [])) (np_commands plan)"

definition client_texts :: "mac_address \<Rightarrow> string list list" where
  "client_texts mac =
     [[''ndsctl'', ''json'', normalized mac], [''ndsctl'', ''deauth'', normalized mac],
      [''ndsctl'', ''auth'', normalized mac, [], [], [], [], [], []]]"

definition conntrack_texts :: "string \<Rightarrow> string list list" where
  "conntrack_texts ip = [[''conntrack'', ''-D'', ''-s'', ip], [''conntrack'', ''-D'', ''-d'', ip]]"

definition client_command :: "client_auth_config list \<Rightarrow> nds_options \<Rightarrow> string list \<times> string \<Rightarrow> bool" where
  "client_command items options = (\<lambda>(command, input). input = [] \<and>
     ((\<exists>item \<in> set items. command \<in> set (client_texts (ca_client_mac item))) \<or>
      no_flush_conntrack_on_deauth options \<and>
      (\<exists>ip. valid_ipv4_address ip \<and> command \<in> set (conntrack_texts ip))))"

lemma recording_runE:
  assumes "recording_run run command input (w, log) = (r, s)"
  obtains w' where "s = (w', log @ [(command, input)])"
  using assms by (auto simp: recording_run_def split: prod.splits)

lemma client_ip_valid: "opennds_client_ip_for_mac J payload mac = Some ip \<Longrightarrow> valid_ipv4_address ip"
  by (auto simp: opennds_client_ip_for_mac_def Let_def find_Some_iff split: if_splits)

lemma client_command_mono: "set items \<subseteq> set items' \<Longrightarrow> client_command items options c \<Longrightarrow> client_command items' options c"
  by (cases c) (auto simp: client_command_def)

lemma client_commands_Cons:
  "list_all (client_command items options) l \<Longrightarrow> list_all (client_command (item # items) options) l"
  by (rule list.pred_mono_strong, assumption) (rule client_command_mono [of items "item # items"], auto)

lemma deauth_client_log:
  assumes "deauth_client J (recording_run run) options client (w, log) = (r, w', log')"
    and "item \<in> set items" "client = ca_client_mac item"
  shows "\<exists>l. log' = log @ l \<and> list_all (client_command items options) l"
proof -
  let ?run = "recording_run run"
  obtain lookup s1 where lookup: "?run [''ndsctl'', ''json'', normalized client] [] (w, log) = (lookup, s1)"
    by (cases "?run [''ndsctl'', ''json'', normalized client] [] (w, log)") auto
  then obtain w1 where s1: "s1 = (w1, log @ [([''ndsctl'', ''json'', normalized client], [])])"
    by (rule recording_runE)
  obtain deauthed s2 where deauthed: "?run [''ndsctl'', ''deauth'', normalized client] [] s1 = (deauthed, s2)"
    by (cases "?run [''ndsctl'', ''deauth'', normalized client] [] s1") auto
  then obtain w2 where s2: "s2 = (w2, log @ [([''ndsctl'', ''json'', normalized client], []),
      ([''ndsctl'', ''deauth'', normalized client], [])])"
    unfolding s1 by (rule recording_runE) simp
  have own: "client_command items options ([''ndsctl'', ''json'', normalized client], [])"
    "client_command items options ([''ndsctl'', ''deauth'', normalized client], [])"
    using assms(2,3) by (auto simp: client_command_def client_texts_def)
  let ?ip = "if cmd_ok lookup \<and> cmd_output lookup \<noteq> [] then opennds_client_ip_for_mac J (cmd_output lookup) client else None"
  show ?thesis
  proof (cases "cmd_ok deauthed \<and> ?ip \<noteq> None \<and> no_flush_conntrack_on_deauth options")
    case True
    then obtain ip where ip: "?ip = Some ip" by blast
    then have valid: "valid_ipv4_address ip" by (auto split: if_splits dest: client_ip_valid)
    obtain r3 s3 where c3: "?run [''conntrack'', ''-D'', ''-s'', ip] [] s2 = (r3, s3)"
      by (cases "?run [''conntrack'', ''-D'', ''-s'', ip] [] s2") auto
    then obtain w3 where s3: "s3 = (w3, snd s2 @ [([''conntrack'', ''-D'', ''-s'', ip], [])])"
      unfolding s2 by (rule recording_runE) simp
    obtain r4 s4 where c4: "?run [''conntrack'', ''-D'', ''-d'', ip] [] s3 = (r4, s4)"
      by (cases "?run [''conntrack'', ''-D'', ''-d'', ip] [] s3") auto
    then obtain w4 where s4: "s4 = (w4, snd s3 @ [([''conntrack'', ''-D'', ''-d'', ip], [])])"
      unfolding s3 by (rule recording_runE) simp
    have "(r, w', log') = (None, s4)"
      using assms(1) True ip by (simp add: deauth_client_def lookup deauthed Let_def c3 c4)
    then have "log' = log @ [([''ndsctl'', ''json'', normalized client], []),
        ([''ndsctl'', ''deauth'', normalized client], []), ([''conntrack'', ''-D'', ''-s'', ip], []),
        ([''conntrack'', ''-D'', ''-d'', ip], [])]"
      by (simp add: s2 s3 s4)
    moreover have "client_command items options ([''conntrack'', ''-D'', ''-s'', ip], [])"
      "client_command items options ([''conntrack'', ''-D'', ''-d'', ip], [])"
      using valid True by (auto simp: client_command_def conntrack_texts_def)
    ultimately show ?thesis using own by auto
  next
    case False
    have "(w', log') = s2"
      using assms(1) False by (auto simp: deauth_client_def lookup deauthed Let_def split: if_splits option.splits)
    then show ?thesis using own by (simp add: s2)
  qed
qed

lemma auth_client_log:
  assumes "auth_client (recording_run run) client (w, log) = (r, w', log')"
    and "item \<in> set items" "client = ca_client_mac item"
  shows "\<exists>l. log' = log @ l \<and> list_all (client_command items options) l"
  using assms
  by (auto simp: auth_client_def recording_run_def client_command_def client_texts_def Let_def
      split: prod.splits if_splits)

lemma apply_client_auths_log:
  "apply_client_auths J (recording_run run) options items changed (w, log) = (r, w', log') \<Longrightarrow>
   \<exists>l. log' = log @ l \<and> list_all (client_command items options) l"
proof (induction items arbitrary: changed w log)
  case (Cons item items)
  show ?case
  proof (cases "ca_unauthenticated item")
    case None
    with Cons.prems have "apply_client_auths J (recording_run run) options items changed (w, log) = (r, w', log')"
      by simp
    from Cons.IH [OF this] show ?thesis using client_commands_Cons by blast
  next
    case (Some unauthenticated)
    obtain refused w1 log1 where first:
      "(if unauthenticated then deauth_client J (recording_run run) options (ca_client_mac item) (w, log)
        else auth_client (recording_run run) (ca_client_mac item) (w, log)) = (refused, w1, log1)"
      by (metis surj_pair)
    then obtain l1 where l1: "log1 = log @ l1" "list_all (client_command (item # items) options) l1"
      using deauth_client_log [of J run options "ca_client_mac item" w log refused w1 log1 item "item # items"]
        auth_client_log [of run "ca_client_mac item" w log refused w1 log1 item "item # items" options]
      by (auto split: if_splits)
    show ?thesis
    proof (cases refused)
      case None
      with Cons.prems Some first
      have "apply_client_auths J (recording_run run) options items True (w1, log1) = (r, w', log')" by simp
      from Cons.IH [OF this] obtain l where "log' = log1 @ l" "list_all (client_command items options) l" by blast
      then have "log' = log @ l1 @ l" "list_all (client_command (item # items) options) (l1 @ l)"
        using l1 client_commands_Cons by auto
      then show ?thesis by blast
    next
      case error: (Some error)
      with Cons.prems Some first l1 show ?thesis by auto
    qed
  qed
qed simp

lemma run_plan_commands_log:
  "run_plan_commands (recording_run run) themespec commands result (w, log) = (r, w', log') \<Longrightarrow>
   list_all (\<lambda>command. command \<noteq> []) commands \<Longrightarrow> \<not> ne_ok result \<Longrightarrow>
   \<exists>k. log' = log @ map (\<lambda>command. (command, if command ! 0 = ''write-file'' then themespec else [])) (take k commands) \<and>
     (if ne_ok r then k = length commands \<and> ne_changed r else True)"
proof (induction commands arbitrary: result w log)
  case (Cons command commands)
  let ?input = "if command ! 0 = ''write-file'' then themespec else []"
  obtain cr s1 where c: "recording_run run command ?input (w, log) = (cr, s1)"
    by (cases "recording_run run command ?input (w, log)") auto
  then obtain w1 where s1: "s1 = (w1, log @ [(command, ?input)])" by (rule recording_runE)
  let ?result = "result\<lparr>ne_command_count := ne_command_count result + 1\<rparr>"
  have "r = ?result\<lparr>ne_error := command_error command cr ''openNDS command failed''\<rparr> \<and> (w', log') = s1 \<or>
      run_plan_commands (recording_run run) themespec commands ?result s1 = (r, w', log')"
    using Cons.prems(1,2) c by (auto simp: Let_def split: if_splits)
  then show ?case
  proof
    assume "r = ?result\<lparr>ne_error := command_error command cr ''openNDS command failed''\<rparr> \<and> (w', log') = s1"
    then show ?thesis using Cons.prems(3) by (intro exI [of _ 1]) (simp add: s1)
  next
    assume "run_plan_commands (recording_run run) themespec commands ?result s1 = (r, w', log')"
    then obtain k where "log' = (log @ [(command, ?input)]) @
        map (\<lambda>command. (command, if command ! 0 = ''write-file'' then themespec else [])) (take k commands)"
      "if ne_ok r then k = length commands \<and> ne_changed r else True"
      using Cons.IH [of ?result w1 "log @ [(command, ?input)]"] Cons.prems(2,3) unfolding s1 by auto
    then show ?thesis by (intro exI [of _ "Suc k"]) simp
  qed
qed auto

section \<open>Policies\<close>

text \<open>An entry of the list of networks that need no login.\<close>

definition allow_rule :: "string \<Rightarrow> bool" where
  "allow_rule rule \<longleftrightarrow> (\<exists>ip. valid_ipv4_address ip \<and>
     (rule = ''allow all to '' @ ip \<or> (\<exists>n \<le> 32. rule = ''allow all to '' @ ip @ ''/'' @ dec n)))"

definition garden_host :: "string \<Rightarrow> bool" where
  "garden_host host \<longleftrightarrow> host \<noteq> [] \<and> trim host = host \<and> lowercase host = host \<and> \<not> valid_ipv4_address host \<and>
     (\<forall>c \<in> set host. \<not> url_stop c \<and> c \<noteq> CHR 0x40)"

lemma valid_ipv4_chars: "valid_ipv4_address ip \<Longrightarrow> list_all (\<lambda>c. is_digit c \<or> c = CHR ''.'') ip"
proof -
  assume valid: "valid_ipv4_address ip"
  have "ip = join_with ''.'' (split_on CHR ''.'' ip)" by (simp add: join_split)
  moreover have "list_all (list_all is_digit) (split_on CHR ''.'' ip)"
    using valid unfolding valid_ipv4_address_def Let_def list_all_iff [of _ "split_on CHR ''.'' ip"]
    by (auto simp: ipv4_octet_def list_all_iff [of _ "split_on CHR ''.'' ip"] split: if_splits)
  moreover have "list_all (list_all is_digit) parts \<Longrightarrow> list_all (\<lambda>c. is_digit c \<or> c = CHR ''.'') (join_with ''.'' parts)" for parts
    by (induction "''.''" parts rule: join_with.induct) (auto simp: list_all_iff)
  ultimately show ?thesis by metis
qed

lemma trim_no_space: "list_all (\<lambda>c. \<not> is_space c) s \<Longrightarrow> trim s = s"
  by (rule trim_id) (cases s rule: rev_cases, auto simp: list_all_iff hd_append split: list.splits)

lemma trim_allow: "list_all (\<lambda>c. \<not> is_space c) s \<Longrightarrow> s \<noteq> [] \<Longrightarrow> trim (''allow all to '' @ s) = ''allow all to '' @ s"
  by (rule trim_id) (auto simp: list_all_iff is_space_def code_def)

lemma network_from_rule_cases:
  assumes "network_from_rule rule = n" "n \<noteq> []"
  shows "valid_ipv4_address n \<or> (\<exists>ip m. valid_ipv4_address ip \<and> m \<le> 32 \<and> n = ip @ ''/'' @ dec m)"
proof -
  have mask: "\<exists>m \<le> 32. to_string_i b = dec m" if "valid_mask b" for b
  proof (intro exI conjI)
    have range: "0 \<le> sint b" "sint b \<le> 32" using that by (simp_all add: valid_mask_def word_sle_eq)
    then show "nat (sint b) \<le> 32" by simp
    show "to_string_i b = dec (nat (sint b))" using range by (simp add: to_string_i_def dec_int_def)
  qed
  show ?thesis
    using assms mask unfolding network_from_rule_def Let_def
    by (auto split: option.splits if_splits)
qed

lemma network_rule_allowed:
  assumes "network_from_rule rule \<noteq> []"
  shows "allow_rule (''allow all to '' @ network_from_rule rule)"
    "trim (''allow all to '' @ network_from_rule rule) = ''allow all to '' @ network_from_rule rule"
proof -
  from network_from_rule_cases [OF refl assms]
  show "allow_rule (''allow all to '' @ network_from_rule rule)"
    by (auto simp: allow_rule_def)
  have address: "list_all (\<lambda>c. \<not> is_space c) ip" if "valid_ipv4_address ip" for ip
    using valid_ipv4_chars [OF that] digit_not_special(10)
    by (auto simp: list_all_iff is_space_def code_def)
  have number: "list_all (\<lambda>c. \<not> is_space c) (''/'' @ dec m)" for m
    using dec_set [of _ m] digit_not_special(10) by (auto simp: list_all_iff is_space_def code_def)
  from network_from_rule_cases [OF refl assms] have "list_all (\<lambda>c. \<not> is_space c) (network_from_rule rule)"
    using address number by auto
  from trim_allow [OF this assms]
  show "trim (''allow all to '' @ network_from_rule rule) = ''allow all to '' @ network_from_rule rule" .
qed

lemma set_after_last: "after_last c s = Some t \<Longrightarrow> x \<in> set t \<Longrightarrow> x \<in> set s \<and> x \<noteq> c"
  using set_takeWhileD [of x "\<lambda>x. x \<noteq> c" "rev s"] by (auto simp: after_last_def split: if_splits)

lemma set_before_last: "before_last c s = Some t \<Longrightarrow> x \<in> set t \<Longrightarrow> x \<in> set s"
proof -
  assume "before_last c s = Some t" "x \<in> set t"
  then have "x \<in> set (tl (dropWhile (\<lambda>x. x \<noteq> c) (rev s)))"
    by (auto simp: before_last_def split: if_splits)
  then have "x \<in> set (dropWhile (\<lambda>x. x \<noteq> c) (rev s))" by (metis list.sel(2) list.set_sel(2))
  then show "x \<in> set s" by (metis set_dropWhileD set_rev)
qed

lemma to_lower_marks [simp]: "url_stop (to_lower c) = url_stop c" "to_lower c = CHR 0x40 \<longleftrightarrow> c = CHR 0x40"
proof -
  have "code (to_lower c) = (if 65 \<le> code c \<and> code c \<le> 90 then code c + 32 else code c)"
    by (auto simp: to_lower_def)
  moreover have "code CHR ''/'' = 47" "code CHR ''?'' = 63" "code CHR ''#'' = 35" "code CHR 0x40 = 64"
    by (simp_all add: code_def)
  ultimately show "url_stop (to_lower c) = url_stop c" "to_lower c = CHR 0x40 \<longleftrightarrow> c = CHR 0x40"
    unfolding url_stop_def code_inject [symmetric] by auto
qed

lemma set_lowercase: "set (lowercase s) = to_lower ` set s"
  by (simp add: lowercase_def)

lemma host_from_urlish_garden: "host_from_urlish raw \<noteq> [] \<Longrightarrow> garden_host (host_from_urlish raw)"
proof -
  assume some: "host_from_urlish raw \<noteq> []"
  define r1 where "r1 = takeWhile (\<lambda>c. \<not> url_stop c)
    (case find_sub ''://'' (trim raw) of Some (_, rest) \<Rightarrow> rest
     | None \<Rightarrow> (if starts_with (trim raw) ''//'' then drop 2 (trim raw) else trim raw))"
  define r2 where "r2 = (case after_last CHR 0x40 r1 of Some rest \<Rightarrow> rest | None \<Rightarrow> r1)"
  define r3 where "r3 = (case before_last CHR '':'' r2 of Some host \<Rightarrow> host | None \<Rightarrow> r2)"
  define r4 where "r4 = rev (dropWhile (\<lambda>c. c = CHR ''.'') (rev r3))"
  have "host_from_urlish raw =
      (if trim raw = [] then [] else if r2 \<noteq> [] \<and> hd r2 = CHR ''['' then []
       else if lowercase (trim r4) = [] \<or> valid_ipv4_address (lowercase (trim r4)) then [] else lowercase (trim r4))"
    unfolding host_from_urlish_def Let_def r4_def r3_def r2_def r1_def by (rule refl)
  with some have host: "host_from_urlish raw = lowercase (trim r4)" "\<not> valid_ipv4_address (host_from_urlish raw)"
    by (auto split: if_splits)
  have r1: "\<not> url_stop c" if "c \<in> set r1" for c
    using that unfolding r1_def by (rule set_takeWhileD [THEN conjunct2])
  have r2: "\<not> url_stop c \<and> c \<noteq> CHR 0x40" if c: "c \<in> set r2" for c
  proof (cases "after_last CHR 0x40 r1")
    case None
    then have "CHR 0x40 \<notin> set r1" by (simp add: after_last_def split: if_splits)
    with None c r1 show ?thesis by (auto simp: r2_def)
  next
    case (Some t)
    with c set_after_last [OF Some] r1 show ?thesis by (simp add: r2_def)
  qed
  have r3: "c \<in> set r2" if "c \<in> set r3" for c
    using that set_before_last [of "CHR '':''" r2] by (cases "before_last CHR '':'' r2") (auto simp: r3_def)
  have "c \<in> set r2" if "c \<in> set r4" for c
    using that r3 by (auto simp: r4_def dest: set_dropWhileD)
  with r2 have chars: "\<not> url_stop c \<and> c \<noteq> CHR 0x40" if "c \<in> set (trim r4)" for c
    using that set_trim by blast
  show "garden_host (host_from_urlish raw)"
    using some host chars by (auto simp: garden_host_def trim_lowercase set_lowercase)
qed

lemma nds_append_unique_keeps:
  "list_all P vs \<Longrightarrow> distinct vs \<Longrightarrow> (trim v \<noteq> [] \<Longrightarrow> P (trim v)) \<Longrightarrow>
   list_all P (nds_append_unique vs v) \<and> distinct (nds_append_unique vs v)"
  by (auto simp: nds_append_unique_def Let_def)

lemma append_all_keeps:
  "list_all P vs \<Longrightarrow> distinct vs \<Longrightarrow> (\<And>x. trim (f x) \<noteq> [] \<Longrightarrow> P (trim (f x))) \<Longrightarrow>
   list_all P (fold (\<lambda>x vs. nds_append_unique vs (f x)) xs vs) \<and>
   distinct (fold (\<lambda>x vs. nds_append_unique vs (f x)) xs vs)"
  by (induction xs arbitrary: vs) (simp_all add: nds_append_unique_keeps)

lemma append_rules_keep:
  "list_all P vs \<Longrightarrow> distinct vs \<Longrightarrow> (\<And>x. b x \<Longrightarrow> P (trim (f x))) \<Longrightarrow>
   list_all P (fold (\<lambda>x vs. if b x then nds_append_unique vs (f x) else vs) xs vs) \<and>
   distinct (fold (\<lambda>x vs. if b x then nds_append_unique vs (f x) else vs) xs vs)"
  by (induction xs arbitrary: vs) (simp_all add: nds_append_unique_keeps)

lemma plan_commands_nonempty: "list_all (\<lambda>command. command \<noteq> []) (np_commands (build_opennds_apply_plan policy))"
  by (auto simp: build_opennds_apply_plan_def Let_def list_all_iff)

section \<open>Properties\<close>


text \<open>The plan of a policy update is run first, and only a plan that was run in full is followed by commands.\<close>

lemma portal_policy_log:
  assumes "supports_portal c \<and> tool_opennds (pcap_tools c) \<and> tool_ndsctl (pcap_tools c)"
    and "has_portal_policy_update update"
    and "portal_apply J c (recording_run run) options update (w, []) = (r, w', log)"
  defines "plan \<equiv> build_opennds_apply_plan (opennds_portal_policy_from_omada_config update
    (no_controller_host options) (no_device_mac options) (no_site_id options) (no_site_name options))"
  shows "\<exists>k rest. log = take k (plan_inputs plan) @ rest \<and>
    list_all (client_command (client_configs update) options) rest \<and>
    (if rest = [] \<and> \<not> apply_ok r then True else length (plan_inputs plan) \<le> k)"
proof -
  let ?run = "recording_run run"
  let ?start = "\<lparr>ne_ok = False, ne_changed = False, ne_command_count = 0, ne_error = []\<rparr>"
  have plan: "np_ok plan" "np_changed plan" by (simp_all add: plan_def build_opennds_apply_plan_def Let_def)
  obtain applied w1 log1 where applied:
    "run_plan_commands ?run (np_themespec plan) (np_commands plan) ?start (w, []) = (applied, w1, log1)"
    by (metis surj_pair)
  have "list_all (\<lambda>command. command \<noteq> []) (np_commands plan)" by (simp add: plan_def plan_commands_nonempty)
  from run_plan_commands_log [OF applied this] obtain k where
    log1: "log1 = take k (plan_inputs plan)" "ne_ok applied \<Longrightarrow> k = length (plan_inputs plan)"
    by (auto simp: plan_inputs_def take_map split: if_splits)
  show ?thesis
  proof (cases "ne_ok applied")
    case False
    then have "(r, w', log) = (portal_error (if ne_error applied = [] then ''openNDS policy apply failed'' else ne_error applied), w1, log1)"
      using assms(1-3) applied plan by (simp add: portal_apply_def Let_def execute_opennds_apply_plan_def plan_def)
    then show ?thesis using log1(1) by (auto simp: portal_error_def intro!: exI [of _ k])
  next
    case ok: True
    then have "apply_client_auths J ?run options (client_configs update) (ne_changed applied) (w1, log1) = (r, w', log)"
      using assms(1-3) applied plan by (simp add: portal_apply_def Let_def execute_opennds_apply_plan_def plan_def)
    from apply_client_auths_log [OF this] obtain l where
      "log = log1 @ l" "list_all (client_command (client_configs update) options) l" by blast
    then show ?thesis using log1 ok
      by (intro exI [of _ "length (plan_inputs plan)"] exI [of _ l]) simp
  qed
qed

text \<open>
  C36. The portal applier runs nothing on a platform without the portal or for an update without
  portal settings; otherwise it runs the commands of the plan in their order, with the script as the
  input of the one that writes it, all of them when it reports success, and then only \<open>ndsctl\<close> for the
  clients of the update and \<open>conntrack\<close> for a dotted IPv4 address: no text that openNDS answers or the
  controller sends becomes an argument of a command that is run for a client.
\<close>

theorem portal_apply_commands:
  "case portal_apply J c (recording_run run) options update (w, []) of (r, w', log) \<Rightarrow>
     (let plan = build_opennds_apply_plan (opennds_portal_policy_from_omada_config update
            (no_controller_host options) (no_device_mac options) (no_site_id options) (no_site_name options));
          policy_part = (if has_portal_policy_update update then plan_inputs plan else [])
      in if supports_portal c \<and> tool_opennds (pcap_tools c) \<and> tool_ndsctl (pcap_tools c)
         then \<exists>k rest. log = take k policy_part @ rest \<and>
           list_all (client_command (client_configs update) options) rest \<and>
           (if rest = [] \<and> \<not> apply_ok r then True else length policy_part \<le> k)
         else log = [])"
proof -
  obtain r w' log where run: "portal_apply J c (recording_run run) options update (w, []) = (r, w', log)"
    by (metis surj_pair)
  show ?thesis
  proof (cases "supports_portal c \<and> tool_opennds (pcap_tools c) \<and> tool_ndsctl (pcap_tools c)")
    case False
    then show ?thesis by (auto simp: portal_apply_def Let_def)
  next
    case able: True
    show ?thesis
    proof (cases "has_portal_policy_update update")
      case False
      have "list_all (client_command (client_configs update) options) log"
      proof (cases "has_portal_client_update update")
        case True
        then have "apply_client_auths J (recording_run run) options (client_configs update) False (w, []) = (r, w', log)"
          using run able False by (simp add: portal_apply_def Let_def)
        from apply_client_auths_log [OF this] show ?thesis by auto
      next
        case no: False
        then show ?thesis using run False by (simp add: portal_apply_def)
      qed
      then show ?thesis using able False by (simp add: run Let_def)
    next
      case True
      from portal_policy_log [OF able True run] show ?thesis using able True by (simp add: run Let_def)
    qed
  qed
qed

text \<open>
  C38. A line break inside the address of the portal ends the last comment of the script: the rest of
  the address is a line of the script, outside every quote.  The address comes from the controller, or
  whoever answers in its place, and the script is run by openNDS as root.
\<close>

theorem themespec_runs_rest_of_url:
  assumes "host \<noteq> []" "\<not> url_stop (hd host)"
    and "line \<noteq> []" "\<not> is_space (last line)" "html_escape line = line"
    and "map pc_external_portal_server (portal_configs update) = [''http://'' @ host @ newline @ line]"
  shows "build_openomada_redirect_themespec
      (opennds_portal_policy_from_omada_config update controller device site_id site_name) =
    themespec_variables (opennds_portal_policy_from_omada_config update controller device site_id site_name) @
    themespec_functions @ ''# Static portal base URL: http://'' @ html_escape host @ newline @ line @ newline"
proof -
  let ?url = "''http://'' @ host @ newline @ line"
  let ?policy = "opennds_portal_policy_from_omada_config update controller device site_id site_name"
  have "trim ?url = ?url"
    by (rule trim_id) (use assms(3,4) in \<open>simp add: is_space_def code_def\<close>)
  moreover have found: "find_sub ''://'' ?url = Some (''http'', host @ newline @ line)"
    by (simp add: starts_with_def)
  moreover have "takeWhile (\<lambda>c. \<not> url_stop c) (host @ newline @ line) \<noteq> []"
    using assms(1,2) by (cases host) auto
  moreover have "starts_with ?url ''http://''" by (simp add: starts_with_def)
  ultimately have url: "normal_portal_url ?url False = ?url"
    by (simp add: normal_portal_url_def Let_def contains_sub_def del: append_Cons)
  obtain portal where portal: "portal_configs update = [portal]" "pc_external_portal_server portal = ?url"
    using assms(6) by (auto simp: map_eq_Cons_conv)
  have "portal_redirect_url update controller = ?url"
    unfolding portal_redirect_url_def Let_def portal(1)
    by (simp only: list.map concat.simps append_Cons append_Nil portal(2) first_text_def)
      (simp only: url [simplified], simp add: url [simplified])
  then have "pol_portal_redirect_url ?policy = ?url"
    by (simp add: opennds_portal_policy_from_omada_config_def)
  moreover have "html_escape ?url = ''http://'' @ html_escape host @ newline @ line"
    using assms(5) by (simp add: html_escape_def)
  ultimately show ?thesis by (simp add: build_openomada_redirect_themespec_def)
qed

definition rebooting_portal :: config_update where
  "rebooting_portal = empty_update\<lparr>portal_configs :=
     [\<lparr>pc_auth_type = None, pc_auth_timeout = None, pc_portal_day = None, pc_portal_hour = None,
       pc_portal_min = None, pc_https_redirect_enable = None, pc_redirect = None, pc_redirect_url = [],
       pc_auth_server_type = None, pc_ext_auth_server = [],
       pc_external_portal_server = ''http://'' @ ''portal'' @ newline @ ''reboot'',
       pc_site_id = [], pc_site_name = [], pc_portal_title = [], pc_portal_accept = None, pc_ssid_list = []\<rparr>]\<rparr>"

theorem themespec_runs_rest_of_url_witness:
  "\<exists>script. build_openomada_redirect_themespec
      (opennds_portal_policy_from_omada_config rebooting_portal [] default_mac [] []) =
    script @ newline @ ''reboot'' @ newline"
proof -
  have "map pc_external_portal_server (portal_configs rebooting_portal) = [''http://'' @ ''portal'' @ newline @ ''reboot'']"
    by (simp add: rebooting_portal_def)
  moreover have "\<not> url_stop CHR ''p''" "\<not> is_space CHR ''t''" "html_escape ''reboot'' = ''reboot''"
    by (simp_all add: url_stop_def is_space_def code_def html_escape_def)
  ultimately show ?thesis
    using themespec_runs_rest_of_url [of "''portal''" "''reboot''" rebooting_portal "[]" default_mac "[]" "[]"]
    by (simp del: append_assoc add: append_assoc [symmetric])
qed

end
