(* ===== verification/Telemetry.thy ===== *)
theory Telemetry
  imports Capabilities Client_State Inform
begin

text \<open>
  \<open>src/src/openwrt/telemetry.cpp\<close>: what \<open>ubus\<close> answers about the radios, the networks and the stations,
  turned into members of a report and into the state of the clients.  The keys of a parsed object are
  C strings, as json-c keeps them.
\<close>

section \<open>Texts\<close>

type_synonym json_fields = "(string \<times> string) list"

definition object_json :: "json_fields \<Rightarrow> string" where
  "object_json flds = ''{'' @ join_with '','' (map (\<lambda>(key, v). quoted key @ '':'' @ v) flds) @ ''}''"

definition array_json :: "string list \<Rightarrow> string" where
  "array_json vs = ''['' @ join_with '','' vs @ '']''"

definition counter :: "jsonc \<Rightarrow> json \<Rightarrow> string \<Rightarrow> string option \<Rightarrow> u64" where
  "counter J object first second =
    (let v = optional_int_any J (object_member object first);
         v = (case (v, second) of
                (None, Some key) \<Rightarrow> optional_int_any J (object_member object key)
              | _ \<Rightarrow> v)
     in case v of None \<Rightarrow> 0 | Some n \<Rightarrow> (if n <s 0 then 0 else n))"

text \<open>The length of a list or of an object, or neither.\<close>

definition container_length :: "json \<Rightarrow> nat option" where
  "container_length raw =
     (if is_object raw then Some (length (object_entries raw))
      else if is_array raw then Some (length (array_items raw)) else None)"

fun first_some :: "'a option list \<Rightarrow> 'a option" where
  "first_some [] = None"
| "first_some (Some x # xs) = Some x"
| "first_some (None # xs) = first_some xs"

definition station_count :: "jsonc \<Rightarrow> json \<Rightarrow> i64" where
  "station_count J iface =
     (case first_some (map (\<lambda>key. container_length (object_member iface key)) [''stations'', ''assoclist'', ''clients'']) of
        Some n \<Rightarrow> of_nat n
      | None \<Rightarrow>
          (case first_some (map (\<lambda>key. optional_int_any J (object_member iface key)) [''num_sta'', ''staNum'']) of
             Some v \<Rightarrow> (if v <s 0 then 0 else v)
           | None \<Rightarrow> 0))"

definition band_from_radio_name :: "string \<Rightarrow> radio_band option" where
  "band_from_radio_name name =
     (case radio_band_from_wire name of
        Some band \<Rightarrow> Some band
      | None \<Rightarrow>
          (if name = ''radio0'' then Some TwoG else if name = ''radio1'' then Some FiveG
           else if name = ''radio2'' then Some FiveG2 else if name = ''radio3'' then Some SixG else None))"

fun suffix_for_band :: "radio_band \<Rightarrow> string" where
  "suffix_for_band TwoG = ''2G''"
| "suffix_for_band FiveG = ''5G''"
| "suffix_for_band FiveG2 = ''5G2''"
| "suffix_for_band SixG = ''6G''"

definition interface_objects :: "json \<Rightarrow> json list" where
  "interface_objects radio =
    (let raw = object_member radio ''interfaces''
     in if is_array raw then filter is_object (array_items raw)
        else filter is_object (map snd (object_entries raw)))"

definition optional_texts :: "jsonc \<Rightarrow> (json \<times> string) list \<Rightarrow> string option" where
  "optional_texts J places = first_some (map (\<lambda>(object, key). optional_string_any J (object_member object key)) places)"

definition interface_ifname :: "jsonc \<Rightarrow> json \<Rightarrow> string" where
  "interface_ifname J iface =
    (let config = object_member iface ''config''
     in case optional_texts J [(iface, ''ifname''), (iface, ''ifname_current''), (iface, ''section''), (config, ''ifname'')] of
          Some t \<Rightarrow> t | None \<Rightarrow> [])"

definition interface_ssid :: "jsonc \<Rightarrow> json \<Rightarrow> string" where
  "interface_ssid J iface =
     (case optional_texts J [(iface, ''ssid''), (object_member iface ''config'', ''ssid'')] of
        Some t \<Rightarrow> t | None \<Rightarrow> [])"

definition text_field :: "string \<Rightarrow> string option \<Rightarrow> json_fields" where
  "text_field key t = (case t of Some s \<Rightarrow> [(key, quoted s)] | None \<Rightarrow> [])"

definition count_field :: "string \<Rightarrow> u64 \<Rightarrow> json_fields" where
  "count_field key n = (if n \<noteq> 0 then [(key, to_string_u n)] else [])"

definition wireless_info_json :: "jsonc \<Rightarrow> json \<Rightarrow> json list \<Rightarrow> string" where
  "wireless_info_json J radio interfaces =
    (let config = object_member radio ''config'';
         flds =
           text_field ''ch'' (optional_texts J [(config, ''channel''), (radio, ''channel'')]) @
           text_field ''bw'' (optional_texts J [(config, ''htmode''), (config, ''bandwidth''), (radio, ''htmode'')]) @
           text_field ''rdMode'' (optional_texts J [(config, ''hwmode''), (config, ''mode''), (radio, ''hwmode'')]) @
           text_field ''txPower'' (optional_texts J [(config, ''txpower''), (radio, ''txpower'')]);
         stations = fold (\<lambda>iface n. n + station_count J iface) interfaces 0;
         flds = flds @ (if 0 <s stations then [(''staNum'', to_string_i stations)] else [])
     in if flds = [] then [] else object_json flds)"

definition ssid_stats_json :: "jsonc \<Rightarrow> json \<Rightarrow> string" where
  "ssid_stats_json J iface =
    (let ssid = interface_ssid J iface
     in if ssid = [] then []
        else
          (let config = object_member iface ''config'';
               bssid = (case optional_texts J [(iface, ''bssid''), (config, ''bssid''), (config, ''macaddr'')] of
                          Some t \<Rightarrow> t | None \<Rightarrow> []);
               bssid_fields =
                 (if bssid = [] then []
                  else (case parse_mac bssid of
                          Some address \<Rightarrow> [(''bssid'', quoted (omada address))] | None \<Rightarrow> [(''bssid'', quoted bssid)]));
               counters = object_member iface ''statistics'';
               counters = (if is_object counters then counters else object_member iface ''stats'');
               counter_fields =
                 (if is_object counters
                  then
                    (let down = counter J counters ''tx_bytes'' (Some ''txByte'');
                         up = counter J counters ''rx_bytes'' (Some ''rxByte'');
                         down_pkts = counter J counters ''tx_packets'' (Some ''txPackets'');
                         up_pkts = counter J counters ''rx_packets'' (Some ''rxPackets'')
                     in count_field ''down'' (if down = 0 then counter J counters ''tx'' None else down) @
                        count_field ''up'' (if up = 0 then counter J counters ''rx'' None else up) @
                        count_field ''downPkts'' down_pkts @ count_field ''upPkts'' up_pkts)
                  else [])
           in object_json
                ([(''ssid'', quoted ssid), (''clntNum'', to_string_i (station_count J iface))] @
                 bssid_fields @ counter_fields)))"

definition field_key :: "string \<Rightarrow> radio_band \<Rightarrow> string" where
  "field_key prefix band = prefix @ ''_'' @ suffix_for_band band"

section \<open>Members\<close>

fun set_member :: "json_body_member list \<Rightarrow> string \<Rightarrow> string \<Rightarrow> json_body_member list" where
  "set_member [] key json = [\<lparr>member_key = key, member_json = json\<rparr>]"
| "set_member (m # ms) key json =
     (if member_key m = key then m\<lparr>member_json := json\<rparr> # ms else m # set_member ms key json)"

fun member_json_of :: "json_body_member list \<Rightarrow> string \<Rightarrow> string" where
  "member_json_of [] key = []"
| "member_json_of (m # ms) key = (if member_key m = key then member_json m else member_json_of ms key)"

definition text_or_empty :: "string option \<Rightarrow> string" where
  "text_or_empty t = (case t of Some s \<Rightarrow> s | None \<Rightarrow> [])"

definition merge_ssid_stats_array_json :: "jsonc \<Rightarrow> string \<Rightarrow> string \<Rightarrow> string" where
  "merge_ssid_stats_array_json J existing_json stats_json =
    (let stats = json_document_parse J stats_json;
         replacement_ssid = (if valid stats then text_or_empty (optional_string_any J (object_member stats ''ssid'')) else []);
         existing = json_document_parse J
           (''{\"items\":'' @ (if existing_json = [] then ''[]'' else existing_json) @ ''}'');
         items = (if valid existing then array_items (object_member existing ''items'') else []);
         kept = filter (\<lambda>item. is_object item \<and>
             \<not> (replacement_ssid \<noteq> [] \<and>
                text_or_empty (optional_string_any J (object_member item ''ssid'')) = replacement_ssid)) items
     in array_json (List.map_filter (jc_render J) kept @ [stats_json]))"

definition object_uint :: "jsonc \<Rightarrow> json \<Rightarrow> string \<Rightarrow> u64" where
  "object_uint J object key =
     (case optional_int_any J (object_member object key) of
        None \<Rightarrow> 0 | Some v \<Rightarrow> (if v <s 0 then 0 else v))"

definition traffic_keys :: "string list" where
  "traffic_keys = [''tx'', ''rx'', ''txP'', ''rxP'', ''txDP'', ''rxDP'', ''txEP'', ''rxEP'', ''txRP'', ''rxRP'']"

definition merge_radio_traffic_json :: "jsonc \<Rightarrow> string \<Rightarrow> string \<Rightarrow> string" where
  "merge_radio_traffic_json J existing_json addition_json =
    (let existing = json_document_parse J (if existing_json = [] then ''{}'' else existing_json);
         addition = json_document_parse J addition_json
     in object_json (map (\<lambda>key. (key, to_string_u
          ((if valid existing then object_uint J existing key else 0) +
           (if valid addition then object_uint J addition key else 0)))) traffic_keys))"

record client_totals =
  tot_clients :: nat
  tot_down :: u64
  tot_up :: u64
  tot_down_packets :: u64
  tot_up_packets :: u64

definition add_client_totals :: "jsonc \<Rightarrow> json \<Rightarrow> client_totals \<Rightarrow> client_totals" where
  "add_client_totals J raw_client t =
     (if \<not> is_object raw_client then t
      else
        (let bytes = object_member raw_client ''bytes''; packets = object_member raw_client ''packets''
         in \<lparr>tot_clients = tot_clients t + 1,
             tot_down = tot_down t + counter J bytes ''tx'' (Some ''tx_bytes''),
             tot_up = tot_up t + counter J bytes ''rx'' (Some ''rx_bytes''),
             tot_down_packets = tot_down_packets t + counter J packets ''tx'' (Some ''tx_packets''),
             tot_up_packets = tot_up_packets t + counter J packets ''rx'' (Some ''rx_packets'')\<rparr>))"

definition hostapd_totals :: "jsonc \<Rightarrow> json \<Rightarrow> client_totals" where
  "hostapd_totals J raw_clients =
     fold (add_client_totals J) (map snd (object_entries raw_clients))
       \<lparr>tot_clients = 0, tot_down = 0, tot_up = 0, tot_down_packets = 0, tot_up_packets = 0\<rparr>"

definition hostapd_ssid_stats_json :: "jsonc \<Rightarrow> string \<Rightarrow> json \<Rightarrow> string" where
  "hostapd_ssid_stats_json J ssid hostapd_status =
    (let raw_clients = object_member hostapd_status ''clients''
     in if \<not> is_object raw_clients then []
        else
          (let t = hostapd_totals J raw_clients
           in object_json
                ([(''ssid'', quoted ssid), (''clntNum'', dec (tot_clients t))] @
                 count_field ''down'' (tot_down t) @ count_field ''up'' (tot_up t) @
                 count_field ''downPkts'' (tot_down_packets t) @ count_field ''upPkts'' (tot_up_packets t))))"

definition radio_traffic_json :: "jsonc \<Rightarrow> json \<Rightarrow> string" where
  "radio_traffic_json J hostapd_status =
    (let t = hostapd_totals J (object_member hostapd_status ''clients'')
     in object_json
          ([(''tx'', to_string_u (tot_down t)), (''rx'', to_string_u (tot_up t)),
            (''txP'', to_string_u (tot_down_packets t)), (''rxP'', to_string_u (tot_up_packets t))] @
           map (\<lambda>key. (key, ''0'')) [''txDP'', ''rxDP'', ''txEP'', ''rxEP'', ''txRP'', ''rxRP'']))"

definition merge_sta_num :: "jsonc \<Rightarrow> string \<Rightarrow> nat \<Rightarrow> string" where
  "merge_sta_num J current_json station_count_value =
    (let entries = object_entries (json_document_parse J current_json);
         current_sta = fold (\<lambda>(key, v) n.
             if key = ''staNum'' then (case optional_int_any J v of Some i \<Rightarrow> i | None \<Rightarrow> 0) else n) entries 0;
         flds = List.map_filter (\<lambda>(key, v).
             if key = ''staNum'' then None else map_option (\<lambda>t. (key, t)) (jc_render J v)) entries;
         merged = max (if current_sta <s 0 then 0 else current_sta) (of_nat station_count_value) :: u64
     in object_json (flds @ [(''staNum'', to_string_u merged)]))"

definition hostapd_client_count :: "json \<Rightarrow> nat" where
  "hostapd_client_count hostapd_status = length (object_entries (object_member hostapd_status ''clients''))"

section \<open>The wireless status\<close>

record wireless_inform_result =
  wi_ok :: bool
  wi_members :: "json_body_member list"
  wi_error :: string

definition radio_members :: "jsonc \<Rightarrow> string \<times> json \<Rightarrow> json_body_member list" where
  "radio_members J = (\<lambda>(radio_name, raw_radio).
     if \<not> is_object raw_radio then []
     else
       (case band_from_radio_name radio_name of
          None \<Rightarrow> []
        | Some band \<Rightarrow>
            (let interfaces = interface_objects raw_radio;
                 info = wireless_info_json J raw_radio interfaces;
                 ssid_stats = filter (\<lambda>stats. stats \<noteq> []) (map (ssid_stats_json J) interfaces)
             in (if info \<noteq> [] then [\<lparr>member_key = field_key ''wSettings'' band, member_json = info\<rparr>] else []) @
                (if ssid_stats \<noteq> []
                 then [\<lparr>member_key = field_key ''ssidStats'' band, member_json = array_json ssid_stats\<rparr>] else []))))"

definition openwrt_wireless_inform_from_status_json :: "jsonc \<Rightarrow> string \<Rightarrow> wireless_inform_result" where
  "openwrt_wireless_inform_from_status_json J status_json =
    (let document = json_document_parse J status_json
     in if \<not> valid document
        then \<lparr>wi_ok = False, wi_members = [], wi_error = ''wireless status must be a JSON object''\<rparr>
        else \<lparr>wi_ok = True, wi_members = concat (map (radio_members J) (object_entries document)), wi_error = []\<rparr>)"

record wireless_interface =
  if_ifname :: string
  if_ssid :: string
  if_band :: "radio_band option"

record interface_parse_result =
  ip_ok :: bool
  ip_interfaces :: "wireless_interface list"
  ip_error :: string

definition radio_interfaces :: "jsonc \<Rightarrow> string \<times> json \<Rightarrow> wireless_interface list" where
  "radio_interfaces J = (\<lambda>(radio_name, raw_radio).
     if \<not> is_object raw_radio then []
     else
       (let band = band_from_radio_name radio_name
        in List.map_filter (\<lambda>iface.
             (let ifname = interface_ifname J iface
              in if ifname = [] then None
                 else Some \<lparr>if_ifname = ifname, if_ssid = interface_ssid J iface, if_band = band\<rparr>))
             (interface_objects raw_radio)))"

definition openwrt_wireless_interfaces_from_status_json :: "jsonc \<Rightarrow> string \<Rightarrow> interface_parse_result" where
  "openwrt_wireless_interfaces_from_status_json J status_json =
    (let document = json_document_parse J status_json
     in if \<not> valid document
        then \<lparr>ip_ok = False, ip_interfaces = [], ip_error = ''wireless status must be a JSON object''\<rparr>
        else \<lparr>ip_ok = True, ip_interfaces = concat (map (radio_interfaces J) (object_entries document)), ip_error = []\<rparr>)"

section \<open>The stations of an interface\<close>

record hostapd_client_result =
  hc_ok :: bool
  hc_clients :: "wireless_client list"
  hc_error :: string

text \<open>A number of the object that is there and not negative.\<close>

definition unsigned_member :: "jsonc \<Rightarrow> json \<Rightarrow> string \<Rightarrow> u64 option" where
  "unsigned_member J object key =
     (case optional_int_any J (object_member object key) of
        Some v \<Rightarrow> (if 0 \<le>s v then Some v else None) | None \<Rightarrow> None)"

definition hostapd_client :: "jsonc \<Rightarrow> wireless_interface \<Rightarrow> string \<times> json \<Rightarrow> wireless_client option" where
  "hostapd_client J iface = (\<lambda>(raw_mac, raw_client).
     if \<not> is_object raw_client then None
     else
       (case parse_mac raw_mac of
          None \<Rightarrow> None
        | Some address \<Rightarrow>
            (let bytes = object_member raw_client ''bytes''; packets = object_member raw_client ''packets'';
                 rate = object_member raw_client ''rate'';
                 rx_packets = counter J packets ''rx'' (Some ''rx_packets'');
                 tx_packets = counter J packets ''tx'' (Some ''tx_packets'');
                 rx_rate = counter J rate ''rx'' None;
                 tx_rate = counter J rate ''tx'' None
             in Some (default_client
                  \<lparr>wc_mac := address, wc_ssid := if_ssid iface, wc_radio := if_band iface,
                   wc_rssi := first_some [optional_int_any J (object_member raw_client ''signal''),
                                          optional_int_any J (object_member raw_client ''rssi'')],
                   wc_snr := optional_int_any J (object_member raw_client ''snr''),
                   wc_rx_bytes := counter J bytes ''tx'' (Some ''tx_bytes''),
                   wc_tx_bytes := counter J bytes ''rx'' (Some ''rx_bytes''),
                   wc_rx_packets := (if rx_packets \<noteq> 0 then Some rx_packets else None),
                   wc_tx_packets := (if tx_packets \<noteq> 0 then Some tx_packets else None),
                   wc_rx_rate := (if rx_rate \<noteq> 0 then Some rx_rate else unsigned_member J raw_client ''rx_rate''),
                   wc_tx_rate := (if tx_rate \<noteq> 0 then Some tx_rate else unsigned_member J raw_client ''tx_rate''),
                   wc_association_time := first_some [unsigned_member J raw_client ''connected_time'',
                     unsigned_member J raw_client ''association_time'', unsigned_member J raw_client ''aTime'']\<rparr>))))"

definition hostapd_client_states_from_json :: "jsonc \<Rightarrow> wireless_interface \<Rightarrow> string \<Rightarrow> hostapd_client_result" where
  "hostapd_client_states_from_json J iface hostapd_json =
    (let document = json_document_parse J hostapd_json
     in if \<not> valid document
        then \<lparr>hc_ok = False, hc_clients = [], hc_error = ''hostapd status must be a JSON object''\<rparr>
        else
          (let clients = object_member document ''clients''
           in if \<not> is_object clients then \<lparr>hc_ok = True, hc_clients = [], hc_error = []\<rparr>
              else \<lparr>hc_ok = True,
                    hc_clients = sort_key wc_mac (List.map_filter (hostapd_client J iface) (object_entries clients)),
                    hc_error = []\<rparr>))"

section \<open>Both together\<close>

definition add_interface_members ::
  "jsonc \<Rightarrow> wireless_interface \<times> string \<Rightarrow> json_body_member list \<Rightarrow> json_body_member list" where
  "add_interface_members J = (\<lambda>(iface, hostapd_json) members.
     case if_band iface of
       None \<Rightarrow> members
     | Some band \<Rightarrow>
         (if if_ssid iface = [] then members
          else
            (let hostapd = json_document_parse J hostapd_json
             in if \<not> valid hostapd then members
                else
                  (let stats = hostapd_ssid_stats_json J (if_ssid iface) hostapd
                   in if stats = [] then members
                      else
                        (let stats_key = field_key ''ssidStats'' band;
                             members = set_member members stats_key
                               (merge_ssid_stats_array_json J (member_json_of members stats_key) stats);
                             settings_key = field_key ''wSettings'' band;
                             current_settings = member_json_of members settings_key;
                             members = set_member members settings_key
                               (merge_sta_num J (if current_settings = [] then ''{}'' else current_settings)
                                 (hostapd_client_count hostapd));
                             traffic_key = field_key ''radioTraffic'' band
                         in set_member members traffic_key
                              (merge_radio_traffic_json J (member_json_of members traffic_key)
                                (radio_traffic_json J hostapd)))))))"

definition openwrt_wireless_inform_from_status_and_hostapd_json ::
  "jsonc \<Rightarrow> string \<Rightarrow> string list \<Rightarrow> wireless_inform_result" where
  "openwrt_wireless_inform_from_status_and_hostapd_json J status_json hostapd_client_json_by_interface =
    (let payload = openwrt_wireless_inform_from_status_json J status_json
     in if \<not> wi_ok payload then payload
        else
          (let interfaces = openwrt_wireless_interfaces_from_status_json J status_json
           in if \<not> ip_ok interfaces then payload\<lparr>wi_ok := False, wi_error := ip_error interfaces\<rparr>
              else payload\<lparr>wi_members := fold (add_interface_members J)
                     (zip (ip_interfaces interfaces) hostapd_client_json_by_interface) (wi_members payload)\<rparr>))"


section \<open>Texts of JSON values\<close>

text \<open>
  A text of a value without doubles, whose objects never repeat a key.  The laws of json-c that the
  merging relies on: from such a text it reads such a value, and such a value it prints as a text of it.
\<close>

definition clean_text :: "string \<Rightarrow> bool" where
  "clean_text t \<longleftrightarrow> (\<exists>v. printable v \<and> json_text v t)"

definition jsonc_clean :: "jsonc \<Rightarrow> bool" where
  "jsonc_clean J \<longleftrightarrow>
     (\<forall>s v. clean_text s \<longrightarrow> jc_parse J s = Some v \<longrightarrow> printable v) \<and>
     (\<forall>v t. printable v \<longrightarrow> jc_render J v = Some t \<longrightarrow> json_text v t)"

definition text_value :: "string \<Rightarrow> json" where
  "text_value t = (SOME v. printable v \<and> json_text v t)"

lemma text_value: "clean_text t \<Longrightarrow> printable (text_value t) \<and> json_text (text_value t) t"
  unfolding clean_text_def text_value_def by (rule someI_ex)

named_theorems clean_texts "printers of JSON texts"

lemma clean_text_render: "printable v \<Longrightarrow> clean_text (render v)"
  unfolding clean_text_def using json_text_render by blast

lemma clean_text_scalar [clean_texts]:
  "clean_text (quoted s)" "clean_text (to_string_u u)" "clean_text (to_string_i i)" "clean_text (dec n)" "clean_text ''0''"
proof -
  have int: "clean_text (dec_int k)" for k using clean_text_render [of "JInt k"] by simp
  show "clean_text (quoted s)" using clean_text_render [of "JString s"] by simp
  show "clean_text (to_string_u u)" using int [of "uint u"] by (simp add: dec_int_unsigned)
  show "clean_text (to_string_i i)" using int [of "sint i"] by (simp add: to_string_i_def)
  show "clean_text (dec n)" using int [of "int n"] by (simp add: dec_int_def)
  show "clean_text ''0''" using int [of 0] by (simp add: dec_int_small)
qed

lemma clean_text_not_Nil: "clean_text t \<Longrightarrow> t \<noteq> []"
  using json_text_not_Nil by (auto simp: clean_text_def)

lemma members_text_join:
  assumes "list_all (\<lambda>kv. json_text (val kv) (snd kv)) kvs" "kvs \<noteq> []"
  shows "members_text (map (\<lambda>kv. (fst kv, val kv)) kvs) (join_with '','' (map (\<lambda>(key, v). quoted key @ '':'' @ v) kvs))"
  using assms
proof (induction kvs)
  case (Cons kv kvs)
  obtain k t where kv [simp]: "kv = (k, t)" by (cases kv)
  from Cons.prems have m: "members_text [(k, val kv)] (quoted k @ '':'' @ t)" using member_text by simp
  show ?case
  proof (cases kvs)
    case Nil
    with m show ?thesis by simp
  next
    case (Cons a list)
    with Cons.IH Cons.prems members_text_append [OF m] show ?thesis by simp
  qed
qed simp

lemma elements_text_join:
  assumes "list_all (\<lambda>t. json_text (val t) t) ts" "ts \<noteq> []"
  shows "elements_text (map val ts) (join_with '','' ts)"
  using assms
proof (induction ts)
  case (Cons t ts)
  then show ?case
    using et_last [OF white_Nil _ white_Nil, of "val t" t] et_more [OF white_Nil _ white_Nil, of "val t" t]
    by (cases ts) auto
qed simp

lemma clean_text_object [clean_texts]:
  assumes "list_all (\<lambda>kv. clean_text (snd kv)) kvs" "distinct (map fst kvs)"
  shows "clean_text (object_json kvs)"
proof -
  let ?val = "\<lambda>kv. text_value (snd kv)"
  have val: "printable (?val kv) \<and> json_text (?val kv) (snd kv)" if "kv \<in> set kvs" for kv
    using assms(1) that by (intro text_value) (simp add: list_all_iff)
  have "printable (JObject (map (\<lambda>kv. (fst kv, ?val kv)) kvs))"
    using assms(2) val by (simp add: list_all_iff comp_def)
  moreover have "json_text (JObject (map (\<lambda>kv. (fst kv, ?val kv)) kvs)) (object_json kvs)"
  proof (cases "kvs = []")
    case True
    then show ?thesis using jt_object_empty [OF white_Nil] by (simp add: object_json_def)
  next
    case False
    then show ?thesis
      using json_text_members [OF members_text_join [of ?val kvs]] val assms(2)
      by (simp add: object_json_def list_all_iff comp_def)
  qed
  ultimately show ?thesis unfolding clean_text_def by blast
qed

lemma clean_text_array [clean_texts]:
  assumes "list_all clean_text ts"
  shows "clean_text (array_json ts)"
proof -
  have val: "printable (text_value t) \<and> json_text (text_value t) t" if "t \<in> set ts" for t
    using assms that by (intro text_value) (simp add: list_all_iff)
  have "json_text (JArray (map text_value ts)) (array_json ts)"
  proof (cases ts)
    case Nil
    then show ?thesis using jt_array_empty [OF white_Nil] by (simp add: array_json_def)
  next
    case (Cons t us)
    then have "elements_text (text_value t # map text_value us) (join_with '','' ts)"
      using elements_text_join [of text_value ts] val by (simp add: list_all_iff)
    from jt_array [OF this] Cons show ?thesis by (simp add: array_json_def)
  qed
  moreover have "printable (JArray (map text_value ts))" using val by (simp add: list_all_iff)
  ultimately show ?thesis unfolding clean_text_def by blast
qed

lemma clean_items: "clean_text t \<Longrightarrow> clean_text (''{\"items\":'' @ t @ ''}'')"
  using clean_text_object [of "[(''items'', t)]"]
  by (simp add: object_json_def quoted_plain plain_def code_def)

lemma text_field_simps [simp]:
  "x \<in> fst ` set (text_field k t) \<longleftrightarrow> t \<noteq> None \<and> x = k"
  "(x, y) \<in> set (text_field k t) \<longleftrightarrow> (\<exists>s. t = Some s \<and> x = k \<and> y = quoted s)"
  "(x, y) \<in> set (count_field k n) \<longleftrightarrow> n \<noteq> 0 \<and> x = k \<and> y = to_string_u n"
  "list_all (\<lambda>kv. clean_text (snd kv)) (text_field k t)" "distinct (map fst (text_field k t))"
  "x \<in> fst ` set (count_field k n) \<longleftrightarrow> n \<noteq> 0 \<and> x = k"
  "list_all (\<lambda>kv. clean_text (snd kv)) (count_field k n)" "distinct (map fst (count_field k n))"
  by (auto simp: text_field_def count_field_def clean_texts split: option.split)

lemma text_field_append [simp]:
  "distinct (map fst (text_field k t @ kvs)) \<longleftrightarrow> (t \<noteq> None \<longrightarrow> k \<notin> fst ` set kvs) \<and> distinct (map fst kvs)"
  "distinct (map fst (count_field k n @ kvs)) \<longleftrightarrow> (n \<noteq> 0 \<longrightarrow> k \<notin> fst ` set kvs) \<and> distinct (map fst kvs)"
  by (auto simp: text_field_def count_field_def split: option.split)

lemma clean_unless:
  assumes "\<not> b \<Longrightarrow> clean_text t" "(if b then [] else t) \<noteq> []"
  shows "clean_text (if b then [] else t)"
  using assms by (cases b) simp_all

lemma clean_wireless_info: "wireless_info_json J radio ifaces \<noteq> [] \<Longrightarrow> clean_text (wireless_info_json J radio ifaces)"
  unfolding wireless_info_json_def Let_def
  by (erule clean_unless [rotated], rule clean_text_object)
    (auto simp: clean_texts image_Un simp del: distinct_append map_append)

lemma bssid_field:
  "(if bssid = [] then []
    else (case parse_mac bssid of
            Some address \<Rightarrow> [(''bssid'', quoted (omada address))] | None \<Rightarrow> [(''bssid'', quoted bssid)])) =
   text_field ''bssid''
     (if bssid = [] then None else Some (case parse_mac bssid of Some address \<Rightarrow> omada address | None \<Rightarrow> bssid))"
  by (simp add: text_field_def split: option.split)

lemma clean_ssid_fields:
  "clean_text (object_json ([(''ssid'', quoted ssid), (''clntNum'', to_string_i n)] @ text_field ''bssid'' b @
     (if c then count_field ''down'' w @ count_field ''up'' x @ count_field ''downPkts'' y @ count_field ''upPkts'' z else [])))"
  by (rule clean_text_object) (auto simp: clean_texts image_Un simp del: distinct_append map_append)

lemma clean_ssid_stats: "ssid_stats_json J iface \<noteq> [] \<Longrightarrow> clean_text (ssid_stats_json J iface)"
  unfolding ssid_stats_json_def Let_def bssid_field
  by (erule clean_unless [rotated]) (rule clean_ssid_fields)

lemma clean_hostapd_ssid_stats:
  "hostapd_ssid_stats_json J ssid h \<noteq> [] \<Longrightarrow> clean_text (hostapd_ssid_stats_json J ssid h)"
  unfolding hostapd_ssid_stats_json_def Let_def
  by (erule clean_unless [rotated], rule clean_text_object)
    (auto simp: clean_texts image_Un simp del: distinct_append map_append)

lemma clean_radio_traffic: "clean_text (radio_traffic_json J h)"
  unfolding radio_traffic_json_def Let_def
  by (rule clean_text_object) (simp_all add: clean_texts)

lemma clean_merge_radio_traffic: "clean_text (merge_radio_traffic_json J a b)"
  unfolding merge_radio_traffic_json_def Let_def
  by (rule clean_text_object) (simp_all add: clean_texts list_all_iff comp_def traffic_keys_def)

lemma parsed_entries:
  assumes "jsonc_clean J" "clean_text s"
  shows "distinct (map fst (object_entries (json_document_parse J s))) \<and>
    list_all (\<lambda>kv. printable (snd kv)) (object_entries (json_document_parse J s))"
proof -
  have "printable v" if "jc_parse J s = Some v" for v
    using assms that by (auto simp: jsonc_clean_def)
  moreover have "distinct (map fst (object_entries v)) \<and> list_all (\<lambda>kv. printable (snd kv)) (object_entries v)"
    if "printable v" for v
    using that by (cases v) simp_all
  ultimately show ?thesis
    by (simp add: json_document_parse_def split: option.split)
qed

lemma printable_member: "list_all (\<lambda>kv. printable (snd kv)) (object_entries v) \<Longrightarrow> printable (object_member v k)"
  using map_of_SomeD [of "object_entries v" k]
  by (cases v; cases "map_of (object_entries v) k") (force simp: object_member_def list_all_iff)+

lemma clean_rendered: "jsonc_clean J \<Longrightarrow> printable v \<Longrightarrow> jc_render J v = Some t \<Longrightarrow> clean_text t"
  unfolding jsonc_clean_def clean_text_def by blast

lemma map_filter_set: "x \<in> set (List.map_filter f xs) \<longleftrightarrow> (\<exists>y \<in> set xs. f y = Some x)"
  by (force simp: List.map_filter_def)

lemma clean_rendered_items:
  assumes "jsonc_clean J" "list_all printable xs"
  shows "list_all clean_text (List.map_filter (jc_render J) (filter P xs))"
  unfolding list_all_iff
proof
  fix t
  assume "t \<in> set (List.map_filter (jc_render J) (filter P xs))"
  then obtain v where "v \<in> set xs" "jc_render J v = Some t" by (auto simp: map_filter_set)
  with assms(2) show "clean_text t" by (intro clean_rendered [OF assms(1)]) (auto simp: list_all_iff)
qed

lemma clean_merge_ssid_stats:
  assumes "jsonc_clean J" "clean_text stats" "old = [] \<or> clean_text old"
  shows "clean_text (merge_ssid_stats_array_json J old stats)"
proof -
  let ?doc = "json_document_parse J (''{\"items\":'' @ (if old = [] then ''[]'' else old) @ ''}'')"
  have "clean_text ''[]''" using clean_text_array [of "[]"] by (simp add: array_json_def)
  with assms(3) have "clean_text (if old = [] then ''[]'' else old)" by auto
  then have "printable (object_member ?doc ''items'')"
    by (intro printable_member conjunct2 [OF parsed_entries] assms(1) clean_items)
  then have items: "list_all printable (array_items (object_member ?doc ''items''))"
    by (cases "object_member ?doc ''items''") simp_all
  then have "list_all printable (if b then array_items (object_member ?doc ''items'') else [])" for b
    by simp
  from clean_rendered_items [OF assms(1) this] show ?thesis
    unfolding merge_ssid_stats_array_json_def Let_def
    by (intro clean_text_array) (simp only: list_all_append list.pred_inject assms(2) simp_thms)
qed

lemma clean_merge_sta_num:
  assumes "jsonc_clean J" "clean_text old"
  shows "clean_text (merge_sta_num J old n)"
proof -
  let ?es = "object_entries (json_document_parse J old)"
  let ?f = "\<lambda>(key, v). if key = ''staNum'' then None else map_option (\<lambda>t. (key, t)) (jc_render J v)"
  note es = parsed_entries [OF assms]
  have keys: "distinct (map fst (List.map_filter ?f es))" "fst ` set (List.map_filter ?f es) \<subseteq> fst ` set es - {''staNum''}"
    if "distinct (map fst es)" for es
  proof -
    show sub: "fst ` set (List.map_filter ?f es) \<subseteq> fst ` set es - {''staNum''}" for es
      by (force simp: map_filter_set split: if_splits)
    show "distinct (map fst (List.map_filter ?f es))"
      using that
    proof (induction es)
      case (Cons kv es)
      have "fst x = fst kv" if "?f kv = Some x" for x
        using that by (auto split: prod.splits if_splits)
      with Cons sub [of es] show ?case
        by (cases "?f kv") (auto simp: List.map_filter_simps simp del: split_paired_All)
    qed (simp add: List.map_filter_simps)
  qed
  have "list_all (\<lambda>kv. clean_text (snd kv)) (List.map_filter ?f ?es)"
    using es clean_rendered [OF assms(1)] by (fastforce simp: list_all_iff map_filter_set split: if_splits)
  with keys [OF conjunct1 [OF es]] show ?thesis
    unfolding merge_sta_num_def Let_def by (intro clean_text_object) (auto simp: clean_texts)
qed

section \<open>Members of a report\<close>

definition telemetry_members :: "json_body_member list \<Rightarrow> bool" where
  "telemetry_members ms \<longleftrightarrow>
     list_all (\<lambda>m. clean_text (member_json m) \<and> CHR ''_'' \<in> set (member_key m)) ms \<and> distinct (map member_key ms)"

text \<open>The bands of the radios of a status, in its order.\<close>

definition reported_bands :: "(string \<times> json) list \<Rightarrow> radio_band list" where
  "reported_bands kvs =
     List.map_filter (\<lambda>(name, radio). if is_object radio then band_from_radio_name name else None) kvs"

lemma suffix_for_band_inject [simp]: "suffix_for_band b = suffix_for_band b' \<longleftrightarrow> b = b'"
  by (cases b; cases b') simp_all

lemma field_key_eq [simp]:
  "field_key ''wSettings'' b = field_key ''wSettings'' b' \<longleftrightarrow> b = b'"
  "field_key ''ssidStats'' b = field_key ''ssidStats'' b' \<longleftrightarrow> b = b'"
  "field_key ''wSettings'' b \<noteq> field_key ''ssidStats'' b'" "field_key ''ssidStats'' b \<noteq> field_key ''wSettings'' b'"
  by (simp_all add: field_key_def)

lemma field_key_mark [simp]: "CHR ''_'' \<in> set (field_key p b)"
  by (simp add: field_key_def)

lemma radio_members_clean:
  "list_all (\<lambda>m. clean_text (member_json m) \<and> CHR ''_'' \<in> set (member_key m)) (radio_members J kv)"
proof -
  have "list_all clean_text (filter (\<lambda>stats. stats \<noteq> []) (map (ssid_stats_json J) ifaces))" for ifaces
    using clean_ssid_stats by (auto simp: list_all_iff)
  then show ?thesis
    using clean_wireless_info clean_text_array
    by (simp add: radio_members_def Let_def split: prod.split option.split)
qed

lemma radio_members_keys:
  "distinct (map member_key (radio_members J kv))"
  "member_key ` set (radio_members J kv) \<subseteq>
     (\<Union>b \<in> set (reported_bands [kv]). {field_key ''wSettings'' b, field_key ''ssidStats'' b})"
  by (auto simp: radio_members_def reported_bands_def List.map_filter_simps Let_def split: prod.split option.split)

lemma status_members_keys:
  "member_key ` set (concat (map (radio_members J) kvs)) \<subseteq>
     (\<Union>b \<in> set (reported_bands kvs). {field_key ''wSettings'' b, field_key ''ssidStats'' b})"
proof (induction kvs)
  case (Cons kv kvs)
  have bands: "set (reported_bands (kv # kvs)) = set (reported_bands [kv]) \<union> set (reported_bands kvs)"
    by (auto simp: reported_bands_def List.map_filter_simps split: option.split)
  show ?case
    using Un_mono [OF radio_members_keys(2) [of J kv] Cons.IH]
    by (simp only: bands UN_Un list.map concat.simps set_append image_Un Union_Un_distrib)
qed simp

lemma status_members:
  "distinct (reported_bands kvs) \<Longrightarrow> telemetry_members (concat (map (radio_members J) kvs))"
proof (induction kvs)
  case (Cons kv kvs)
  have bands: "reported_bands (kv # kvs) = reported_bands [kv] @ reported_bands kvs"
    by (simp add: reported_bands_def List.map_filter_simps split: option.split)
  have "member_key ` set (radio_members J kv) \<inter> member_key ` set (concat (map (radio_members J) kvs)) = {}"
  proof (rule equals0I)
    fix k
    assume k: "k \<in> member_key ` set (radio_members J kv) \<inter> member_key ` set (concat (map (radio_members J) kvs))"
    from k radio_members_keys(2) [of J kv] obtain b where b: "b \<in> set (reported_bands [kv])"
      "k = field_key ''wSettings'' b \<or> k = field_key ''ssidStats'' b" by blast
    from k status_members_keys [of J kvs] obtain b' where b': "b' \<in> set (reported_bands kvs)"
      "k = field_key ''wSettings'' b' \<or> k = field_key ''ssidStats'' b'" by blast
    from b b' have "b = b'" by auto
    with b b' Cons.prems show False by (auto simp: bands)
  qed
  with Cons radio_members_clean [of J kv] radio_members_keys(1) [of J kv] show ?case
    by (simp add: telemetry_members_def bands image_UN)
qed (simp add: telemetry_members_def)

lemma set_member_keys: "member_key ` set (set_member ms k j) = insert k (member_key ` set ms)"
  by (induction ms) auto

lemma set_member_telemetry:
  "telemetry_members ms \<Longrightarrow> clean_text j \<Longrightarrow> CHR ''_'' \<in> set k \<Longrightarrow> telemetry_members (set_member ms k j)"
proof (induction ms)
  case (Cons m ms)
  then show ?case
    using set_member_keys [of ms k j] by (auto simp: telemetry_members_def)
qed (simp add: telemetry_members_def)

lemma member_json_of_clean: "telemetry_members ms \<Longrightarrow> member_json_of ms k = [] \<or> clean_text (member_json_of ms k)"
  by (induction ms) (auto simp: telemetry_members_def)

lemma clean_empty_object: "clean_text ''{}''"
  using clean_text_object [of "[]"] by (simp add: object_json_def)

lemma add_interface_telemetry:
  assumes "jsonc_clean J" "telemetry_members ms"
  shows "telemetry_members (add_interface_members J x ms)"
proof -
  have step: "telemetry_members (set_member ms (field_key p b) t)" if "telemetry_members ms" "clean_text t" for ms p b t
    using that by (intro set_member_telemetry) simp_all
  have old: "clean_text (member_json_of ms k)" if "telemetry_members ms" "member_json_of ms k \<noteq> []" for ms k
    using that member_json_of_clean by auto
  show ?thesis
    using assms(2)
    unfolding add_interface_members_def Let_def
    by (auto split: prod.split option.split intro!: step old clean_merge_radio_traffic clean_empty_object
        clean_merge_sta_num [OF assms(1)] clean_merge_ssid_stats [OF assms(1)] clean_hostapd_ssid_stats
        member_json_of_clean)
qed

lemma wireless_telemetry:
  assumes "jsonc_clean J" "distinct (reported_bands (object_entries (json_document_parse J status)))"
  shows "telemetry_members
    (wi_members (openwrt_wireless_inform_from_status_and_hostapd_json J status hostapd))"
proof -
  have "telemetry_members ms \<Longrightarrow> telemetry_members (fold (add_interface_members J) xs ms)" for xs ms
    using add_interface_telemetry [OF assms(1)] by (induction xs arbitrary: ms) auto
  moreover have "telemetry_members []" by (simp add: telemetry_members_def)
  ultimately show ?thesis
    using status_members [OF assms(2)]
    by (simp add: openwrt_wireless_inform_from_status_and_hostapd_json_def
        openwrt_wireless_inform_from_status_json_def Let_def)
qed

end
