(* ===== verification/Inform_Provider.thy ===== *)
theory Inform_Provider
  imports Telemetry Opennds
begin

text \<open>
  \<open>src/src/openwrt/inform_provider.cpp\<close>: the provider of a real access point.  It runs \<open>ubus\<close> and
  \<open>ndsctl\<close> through the parameter \<open>run\<close> of the model of openNDS, and reads the lease file through
  \<open>input_file\<close>, which gives the bytes of a file, or nothing for a file that cannot be opened.
  The laws at the end make it an \<open>inform_source\<close>.
\<close>

section \<open>The provider\<close>

type_synonym 'w input_file = "string \<Rightarrow> 'w \<Rightarrow> string option"

record inform_provider_options =
  dhcp_leases_path :: string
  include_opennds :: bool

definition default_provider_options :: inform_provider_options where
  "default_provider_options = \<lparr>dhcp_leases_path = ''/tmp/dhcp.leases'', include_opennds = True\<rparr>"

definition read_optional_file :: "'w input_file \<Rightarrow> string \<Rightarrow> 'w \<Rightarrow> string" where
  "read_optional_file file path w = (case file path w of None \<Rightarrow> [] | Some content \<Rightarrow> content)"

text \<open>The answer of \<open>hostapd\<close> for every interface, in order, and the stations of all of them.\<close>

fun ask_hostapd ::
  "jsonc \<Rightarrow> 'w command_run \<Rightarrow> wireless_interface list \<Rightarrow> 'w \<Rightarrow> (string list \<times> wireless_client list) \<times> 'w" where
  "ask_hostapd J run [] w = (([], []), w)"
| "ask_hostapd J run (iface # rest) w =
    (let (hostapd, w) = run [''ubus'', ''call'', ''hostapd.'' @ if_ifname iface, ''get_clients''] [] w;
         answer = (if cmd_ok hostapd then cmd_output hostapd else ''{}'');
         parsed_clients = hostapd_client_states_from_json J iface (cmd_output hostapd);
         clients = (if cmd_ok hostapd \<and> hc_ok parsed_clients then hc_clients parsed_clients else []);
         ((answers, more_clients), w) = ask_hostapd J run rest w
     in ((answer # answers, clients @ more_clients), w))"

definition metadata_from_leases :: "string \<Rightarrow> wireless_client list" where
  "metadata_from_leases leases =
     (if leases = [] then []
      else
        (let parsed_leases = parse_dnsmasq_leases leases
         in if lp_ok parsed_leases then clients_from_dhcp_leases (lp_leases parsed_leases) else []))"

definition metadata_from_opennds ::
  "jsonc \<Rightarrow> 'w command_run \<Rightarrow> inform_provider_options \<Rightarrow> 'w \<Rightarrow> wireless_client list \<times> 'w" where
  "metadata_from_opennds J run options w =
     (if \<not> include_opennds options then ([], w)
      else
        (let (opennds, w) = run [''ndsctl'', ''json''] [] w
         in if cmd_ok opennds \<and> cmd_output opennds \<noteq> []
            then
              (let parsed_opennds = opennds_clients_from_json J (cmd_output opennds)
               in (if nc_ok parsed_opennds then nc_clients parsed_opennds else [], w))
            else ([], w)))"

definition platform_inform_build ::
  "jsonc \<Rightarrow> 'w command_run \<Rightarrow> 'w input_file \<Rightarrow> inform_provider_options \<Rightarrow> 'w inform_provider" where
  "platform_inform_build J run file options need_reply uptime_seconds w =
    (let snapshot = default_snapshot\<lparr>sn_need_reply := need_reply, sn_uptime_seconds := uptime_seconds\<rparr>;
         (status, w) = run [''ubus'', ''call'', ''network.wireless'', ''status''] [] w
     in if \<not> cmd_ok status \<or> cmd_output status = [] then (snapshot, w)
        else
          (let interfaces = openwrt_wireless_interfaces_from_status_json J (cmd_output status);
               ((answers, associated_clients), w) =
                 (if ip_ok interfaces then ask_hostapd J run (ip_interfaces interfaces) w else (([], []), w));
               wireless = openwrt_wireless_inform_from_status_and_hostapd_json J (cmd_output status) answers;
               members = (if wi_ok wireless then wi_members wireless else []);
               lease_clients = metadata_from_leases (read_optional_file file (dhcp_leases_path options) w);
               (portal_clients, w) = metadata_from_opennds J run options w;
               merged_clients =
                 merge_associated_wireless_client_states associated_clients (lease_clients @ portal_clients);
               client_members =
                 (if merged_clients \<noteq> []
                  then [\<lparr>member_key = ''clientStats'', member_json = client_stats_json merged_clients\<rparr>] else [])
           in (snapshot\<lparr>sn_extra_body_members := members @ client_members\<rparr>, w)))"

section \<open>The contract\<close>

text \<open>What a status of \<open>ubus\<close> must be for its report to name no member twice: no two radios of one band.\<close>

definition one_radio_per_band :: "jsonc \<Rightarrow> 'w command_run \<Rightarrow> bool" where
  "one_radio_per_band J run \<longleftrightarrow>
     (\<forall>w. distinct (reported_bands (object_entries (json_document_parse J
       (cmd_output (fst (run [''ubus'', ''call'', ''network.wireless'', ''status''] [] w)))))))"

lemma platform_build_members:
  assumes "jsonc_clean J" "one_radio_per_band J run"
    and "platform_inform_build J run file options n u w = (sn, w')"
  shows "sn_need_reply sn = n \<and> sn_uptime_seconds sn = u \<and>
    (\<exists>ms clients. telemetry_members ms \<and>
       sn_extra_body_members sn = ms @
         (if clients = [] then [] else [\<lparr>member_key = ''clientStats'', member_json = client_stats_json clients\<rparr>]))"
proof -
  obtain status w1 where run: "run [''ubus'', ''call'', ''network.wireless'', ''status''] [] w = (status, w1)" by fastforce
  let ?wireless = "openwrt_wireless_inform_from_status_and_hostapd_json J (cmd_output status)"
  have ms: "telemetry_members (if b then wi_members (?wireless as) else [])" for b as
  proof -
    have "distinct (reported_bands (object_entries (json_document_parse J (cmd_output status))))"
      using assms(2) run unfolding one_radio_per_band_def by (metis fst_conv)
    from wireless_telemetry [OF assms(1) this] show ?thesis by (simp add: telemetry_members_def)
  qed
  show ?thesis
  proof (cases "\<not> cmd_ok status \<or> cmd_output status = []")
    case True
    then show ?thesis
      using assms(3) by (intro conjI exI [of _ "[]"]) (auto simp: platform_inform_build_def run Let_def default_snapshot_def
          telemetry_members_def)
  next
    case False
    let ?interfaces = "openwrt_wireless_interfaces_from_status_json J (cmd_output status)"
    obtain answers associated w2 where asked: "(if ip_ok ?interfaces then ask_hostapd J run (ip_interfaces ?interfaces) w1
        else (([], []), w1)) = ((answers, associated), w2)"
      by (metis surj_pair)
    obtain portal w3 where portal: "metadata_from_opennds J run options w2 = (portal, w3)" by fastforce
    let ?clients = "merge_associated_wireless_client_states associated
      (metadata_from_leases (read_optional_file file (dhcp_leases_path options) w2) @ portal)"
    have "sn = default_snapshot\<lparr>sn_need_reply := n, sn_uptime_seconds := u, sn_extra_body_members :=
        (if wi_ok (?wireless answers) then wi_members (?wireless answers) else []) @
        (if ?clients \<noteq> [] then [\<lparr>member_key = ''clientStats'', member_json = client_stats_json ?clients\<rparr>] else [])\<rparr>"
      using assms(3) False by (simp add: platform_inform_build_def run asked portal Let_def)
    then show ?thesis
      using ms [of "wi_ok (?wireless answers)" answers]
      by (intro conjI exI [of _ "if wi_ok (?wireless answers) then wi_members (?wireless answers) else []"]
          exI [of _ ?clients]) (simp_all add: default_snapshot_def)
  qed
qed

lemma clean_client_stats: "clean_text (client_stats_json clients)"
proof -
  have "printable (JArray (map client_value clients))" by (simp add: list_all_iff printable_client)
  with client_stats_text [of clients] show ?thesis unfolding clean_text_def by blast
qed

lemma telemetry_snapshot:
  assumes "telemetry_members ms"
    and "sn_extra_body_members sn = ms @
      (if clients = [] then [] else [\<lparr>member_key = ''clientStats'', member_json = client_stats_json clients\<rparr>])"
  shows "snapshot_ok (\<lambda>m. text_value (member_json m)) sn"
proof -
  let ?ms = "sn_extra_body_members sn"
  have clean: "list_all (\<lambda>m. clean_text (member_json m)) ?ms"
    using assms by (simp add: telemetry_members_def list_all_iff clean_client_stats)
  have "k \<notin> member_key ` set ms" if "CHR ''_'' \<notin> set k" for k
    using assms(1) that by (auto simp: telemetry_members_def list_all_iff)
  from this [of "''needReply''"] this [of "''deviceInfo''"] this [of "''lanInfo''"] this [of "''clientStats''"]
  have "distinct ([''needReply'', ''deviceInfo'', ''lanInfo''] @ map member_key ?ms)"
    using assms by (simp add: telemetry_members_def)
  then have "distinct ([''needReply'', ''deviceInfo'', ''lanInfo''] @ map member_key (filter reported_member ?ms))"
    by (auto simp: distinct_map_filter)
  with clean text_value show ?thesis by (simp add: snapshot_ok_def list_all_iff)
qed

lemma platform_source:
  assumes "jsonc_clean J" "one_radio_per_band J run"
  shows "inform_source (platform_inform_build J run file options) (\<lambda>m. text_value (member_json m))"
  using platform_build_members [OF assms] telemetry_snapshot by unfold_locales blast+

section \<open>Property\<close>

text \<open>
  C40. A due report of a real access point is sent as exactly one message, a JSON text of the report:
  the scheduled number, the need for a reply and the uptime, the link, and every member of the
  telemetry under its own key with the value its text denotes, whatever \<open>ubus\<close>, \<open>hostapd\<close>, \<open>ndsctl\<close>
  and the lease file answered, as long as no two radios are of one band.  A report that is not due
  sends nothing.
\<close>

theorem platform_report_sent:
  assumes "jsonc_clean J" "one_radio_per_band J run"
  shows "let build = platform_inform_build J run file options in
    case send_inform (recording T) s (make_profile s) (\<lambda>n u. quiet (build n u)) controller r t (w, []) of
     (st, w', log) \<Rightarrow>
       (if si_due r
        then (let sn = fst (build (si_need_reply r) (si_uptime_seconds r) w); members = sn_extra_body_members sn in
          sn_need_reply sn = si_need_reply r \<and> sn_uptime_seconds sn = si_uptime_seconds r \<and>
          list_all (\<lambda>m. json_text (text_value (member_json m)) (member_json m)) members \<and>
          distinct (map member_key members) \<and>
          (\<exists>payload. log = [Sent payload st] \<and>
             json_text (message_value (inform_header s (si_seq r) controller t)
               (Some (JObject (inform_members s sn @ map (\<lambda>m. (member_key m, text_value (member_json m))) members)))) payload))
        else log = [] \<and> st = status_success)"
proof -
  let ?build = "platform_inform_build J run file options"
  obtain st w' log where run: "send_inform (recording T) s (make_profile s) (\<lambda>n u. quiet (?build n u)) controller r t (w, []) = (st, w', log)"
    by (metis surj_pair)
  show ?thesis
  proof (cases "si_due r")
    case True
    obtain sn w1 where sn: "?build (si_need_reply r) (si_uptime_seconds r) w = (sn, w1)" by fastforce
    from platform_build_members [OF assms sn] obtain ms clients where ms: "telemetry_members ms"
      "sn_extra_body_members sn = ms @
         (if clients = [] then [] else [\<lparr>member_key = ''clientStats'', member_json = client_stats_json clients\<rparr>])" by blast
    then have members: "list_all (\<lambda>m. clean_text (member_json m) \<and> reported_member m) (sn_extra_body_members sn)"
      by (auto simp: telemetry_members_def list_all_iff clean_client_stats reported_member_def clean_text_not_Nil [OF clean_client_stats]
          dest: clean_text_not_Nil)
    then have all: "filter reported_member (sn_extra_body_members sn) = sn_extra_body_members sn"
      by (simp add: list_all_iff filter_id_conv)
    from telemetry_snapshot [OF ms] all have "distinct (map member_key (sn_extra_body_members sn))"
      by (simp add: snapshot_ok_def)
    with inform_source.send_inform_due [OF platform_source [OF assms] run True] members all text_value True show ?thesis
      by (auto simp: run sn inform_source.report_value_def [OF platform_source [OF assms]] extra_members_def list_all_iff)
  next
    case False
    then show ?thesis
      using inform_source.send_inform_idle [OF platform_source [OF assms] False] run by auto
  qed
qed

text \<open>An access point with one radio, and no station: a document and the programs that answer it.\<close>

definition sample_status :: string where
  "sample_status = ''{\"radio0\":{\"config\":{\"channel\":\"6\"},\"interfaces\":[]}}''"

definition sample_jsonc :: jsonc where
  "sample_jsonc = (table_jsonc [(sample_status, JObject [(''radio0'', JObject
     [(''config'', JObject [(''channel'', JString ''6'')]), (''interfaces'', JArray [])])])])
     \<lparr>jc_render := (\<lambda>v. if printable v then Some (render v) else None)\<rparr>"

definition sample_run :: "unit command_run" where
  "sample_run command input w =
     (\<lparr>cmd_ok = hd command = ''ubus'', cmd_exit_code = 0, cmd_output = sample_status, cmd_error = []\<rparr>, w)"

lemma sample_laws: "jsonc_clean sample_jsonc" "one_radio_per_band sample_jsonc sample_run"
proof -
  show "jsonc_clean sample_jsonc"
    by (auto simp: jsonc_clean_def sample_jsonc_def json_text_render split: if_splits)
  show "one_radio_per_band sample_jsonc sample_run"
    by (simp add: one_radio_per_band_def sample_run_def sample_jsonc_def json_document_parse_def
        reported_bands_def split: option.split)
qed

lemma platform_report_sent_witness:
  "case send_inform (recording \<lparr>tp_send = (\<lambda>_ w. (status_success, w)), tp_receive = (\<lambda>w. (default_receive_result, w))\<rparr>)
      default_settings (make_profile default_settings)
      (\<lambda>n u. quiet (platform_inform_build sample_jsonc sample_run (\<lambda>_ _. None) default_provider_options n u)) ''c''
      (default_scheduled\<lparr>si_due := True\<rparr>) 0 ((), []) of
     (st, w', log) \<Rightarrow> \<exists>payload. log = [Sent payload st] \<and> payload \<noteq> []"
  using platform_report_sent [OF sample_laws, of "\<lambda>_ _. None" default_provider_options
      "default_scheduled\<lparr>si_due := True\<rparr>" "()" default_settings "''c''" 0
      "\<lparr>tp_send = (\<lambda>_ w. (status_success, w)), tp_receive = (\<lambda>w. (default_receive_result, w))\<rparr>"]
  by (auto simp: Let_def dest: json_text_not_Nil split: prod.splits)

end
