(* ===== verification/Daemon_Config.thy ===== *)
theory Daemon_Config
  imports Device_Profile Capabilities
begin

text \<open>
  \<open>src/src/application/daemon_config.cpp\<close>: the command line, the UCI-style configuration file, the
  environment, and the configuration of the daemon they give together.  The width of \<open>unsigned long\<close>,
  which \<open>strtoul\<close> reads into, is the parameter \<open>ul\<close>: 32 or 64 on the targets of the agent.  A file is
  the parameter \<open>config_file\<close>: its bytes, or the reason it cannot be opened for.
\<close>

section \<open>Data\<close>

record runtime_options =
  ro_config_path :: string
  ro_check_config :: bool
  ro_once :: bool
  ro_dry_run :: bool

definition default_options :: runtime_options where
  "default_options =
     \<lparr>ro_config_path = ''/etc/config/openomada'', ro_check_config = False, ro_once = False, ro_dry_run = False\<rparr>"

record openwrt_config =
  ow_platform :: string
  ow_radio_bands :: string
  ow_max_ssids :: u32
  ow_management_vlan_interface :: string
  ow_management_vlan_device :: string
  ow_portal_enabled :: bool
  ow_portal_engine :: string
  ow_flush_conntrack_on_deauth :: bool

definition default_openwrt :: openwrt_config where
  "default_openwrt =
     \<lparr>ow_platform = ''auto'', ow_radio_bands = ''2g'', ow_max_ssids = 4, ow_management_vlan_interface = [],
      ow_management_vlan_device = [], ow_portal_enabled = True, ow_portal_engine = ''opennds'',
      ow_flush_conntrack_on_deauth = True\<rparr>"

record daemon_config =
  dc_enabled :: bool
  dc_protocol_trace :: bool
  dc_log_level :: string
  dc_settings :: agent_settings
  dc_openwrt :: openwrt_config

definition default_config :: daemon_config where
  "default_config =
     \<lparr>dc_enabled = False, dc_protocol_trace = False, dc_log_level = ''info'', dc_settings = default_settings,
      dc_openwrt = default_openwrt\<rparr>"

type_synonym environment = "(string \<times> string) list"

record load_config_result =
  lc_ok :: bool
  lc_config :: daemon_config
  lc_error :: string

record options_result =
  or_ok :: bool
  or_options :: runtime_options
  or_show_help :: bool
  or_show_version :: bool
  or_error :: string

section \<open>The file\<close>

type_synonym section_values = "(string \<times> (string \<times> string) list) list"

text \<open>
  The loop over the characters with its three flags; the word that is being read comes first.  A word
  ends at a space outside quotes, and the line at \<open>#\<close> outside quotes.
\<close>

fun uci_words :: "string \<Rightarrow> bool \<Rightarrow> bool \<Rightarrow> bool \<Rightarrow> string \<Rightarrow> string list" where
  "uci_words current in_single in_double escaped [] = (if current \<noteq> [] then [current] else [])"
| "uci_words current in_single in_double escaped (ch # cs) =
     (if escaped then uci_words (current @ [ch]) in_single in_double False cs
      else if ch = CHR 0x5C \<and> in_double then uci_words current in_single in_double True cs
      else if ch = CHR 0x27 \<and> \<not> in_double then uci_words current (\<not> in_single) in_double False cs
      else if ch = CHR 0x22 \<and> \<not> in_single then uci_words current in_single (\<not> in_double) False cs
      else if \<not> in_single \<and> \<not> in_double \<and> ch = CHR ''#'' then (if current \<noteq> [] then [current] else [])
      else if \<not> in_single \<and> \<not> in_double \<and> is_space ch
      then (if current \<noteq> [] then [current] else []) @ uci_words [] in_single in_double False cs
      else uci_words (current @ [ch]) in_single in_double False cs)"

definition split_uci_tokens :: "string \<Rightarrow> string list" where
  "split_uci_tokens line = uci_words [] False False False line"

definition section_entry :: "section_values \<Rightarrow> string \<Rightarrow> (string \<times> string) list" where
  "section_entry sections name = (case map_of sections name of Some entries \<Rightarrow> entries | None \<Rightarrow> [])"

definition uci_line :: "string \<Rightarrow> section_values \<times> string \<Rightarrow> section_values \<times> string" where
  "uci_line line = (\<lambda>(sections, current_type).
    (let tokens = split_uci_tokens (trim line)
     in case tokens of
          [] \<Rightarrow> (sections, current_type)
        | first # _ \<Rightarrow>
            (if first = ''config'' \<and> 2 \<le> length tokens
             then (omap_put (tokens ! 1) (section_entry sections (tokens ! 1)) sections, tokens ! 1)
             else if first = ''option'' \<and> 3 \<le> length tokens \<and> current_type \<noteq> []
             then (omap_put current_type
                     (omap_put (tokens ! 1) (tokens ! 2) (section_entry sections current_type)) sections, current_type)
             else (sections, current_type))))"

definition parse_uci :: "string \<Rightarrow> section_values" where
  "parse_uci config_text = fst (fold uci_line (split_on CHR 0x0A config_text) ([], []))"

definition section_value :: "section_values \<Rightarrow> string \<Rightarrow> string \<Rightarrow> string option" where
  "section_value sections name key =
     (case map_of sections name of None \<Rightarrow> None | Some entries \<Rightarrow> map_of entries key)"

definition env_value :: "environment \<Rightarrow> string \<Rightarrow> string option" where
  "env_value environment name = map_of environment name"

section \<open>Values\<close>

text \<open>\<open>strtoul\<close> negates a number with a minus sign in the unsigned type.\<close>

definition strtoul :: "nat \<Rightarrow> string \<Rightarrow> nat \<times> bool \<times> string" where
  "strtoul ul text =
     (let (neg, s) = scan_sign (dropWhile is_space text);
          digits = takeWhile is_digit s; rest = dropWhile is_digit s
      in if digits = [] then (0, False, text)
         else if 2 ^ ul \<le> digits_val digits then (2 ^ ul - 1, True, rest)
         else (if neg then (2 ^ ul - digits_val digits) mod 2 ^ ul else digits_val digits, False, rest))"

definition parse_uint32 :: "nat \<Rightarrow> string \<Rightarrow> u32 option" where
  "parse_uint32 ul raw =
    (let v = c_string (trim raw)
     in if trim raw = [] then None
        else
          (let (parsed, erange, rest) = strtoul ul v
           in if erange \<or> rest = v \<or> rest \<noteq> [] \<or> 0xFFFFFFFF < parsed then None else Some (of_nat parsed)))"

definition parse_port :: "nat \<Rightarrow> string \<Rightarrow> u16 option" where
  "parse_port ul raw =
     (case parse_uint32 ul raw of None \<Rightarrow> None | Some v \<Rightarrow> (if 65535 < v then None else Some (ucast v)))"

definition parse_bool :: "string \<Rightarrow> bool option" where
  "parse_bool raw =
    (let v = lowercase (trim raw)
     in if v \<in> set [''1'', ''true'', ''yes'', ''on'', ''enabled'', ''enable''] then Some True
        else if v \<in> set [''0'', ''false'', ''no'', ''off'', ''disabled'', ''disable''] then Some False
        else None)"

text \<open>An option is looked up in the file first and in the environment second; the last one found stays.\<close>

definition apply_string :: "section_values \<Rightarrow> environment \<Rightarrow> string \<Rightarrow> string \<Rightarrow> string \<Rightarrow> string \<Rightarrow> string" where
  "apply_string sections environment name key env target =
    (let target = (case section_value sections name key of Some v \<Rightarrow> v | None \<Rightarrow> target)
     in case env_value environment env of Some v \<Rightarrow> v | None \<Rightarrow> target)"

definition apply_parsed ::
  "(string \<Rightarrow> 'a option) \<Rightarrow> string \<Rightarrow> section_values \<Rightarrow> environment \<Rightarrow> string \<Rightarrow> string \<Rightarrow> string \<Rightarrow> 'a \<Rightarrow> string + 'a" where
  "apply_parsed parse complaint sections environment name key env target =
    (case (case section_value sections name key of
             None \<Rightarrow> Inr target
           | Some v \<Rightarrow> (case parse v of None \<Rightarrow> Inl (name @ ''.'' @ key @ complaint) | Some parsed \<Rightarrow> Inr parsed)) of
       Inl error \<Rightarrow> Inl error
     | Inr target \<Rightarrow>
         (case env_value environment env of
            None \<Rightarrow> Inr target
          | Some v \<Rightarrow> (case parse v of None \<Rightarrow> Inl (env @ complaint) | Some parsed \<Rightarrow> Inr parsed)))"

definition apply_bool ::
  "section_values \<Rightarrow> environment \<Rightarrow> string \<Rightarrow> string \<Rightarrow> string \<Rightarrow> bool \<Rightarrow> string + bool" where
  "apply_bool = apply_parsed parse_bool '' must be boolean''"

definition apply_uint32 ::
  "nat \<Rightarrow> section_values \<Rightarrow> environment \<Rightarrow> string \<Rightarrow> string \<Rightarrow> string \<Rightarrow> u32 \<Rightarrow> string + u32" where
  "apply_uint32 ul = apply_parsed (parse_uint32 ul) '' must be an unsigned integer''"

definition apply_port ::
  "nat \<Rightarrow> section_values \<Rightarrow> environment \<Rightarrow> string \<Rightarrow> string \<Rightarrow> string \<Rightarrow> u16 \<Rightarrow> string + u16" where
  "apply_port ul = apply_parsed (parse_port ul) '' must be a TCP/UDP port''"

section \<open>The command line\<close>

fun runtime_arguments :: "string list \<Rightarrow> options_result \<Rightarrow> options_result" where
  "runtime_arguments [] result = result"
| "runtime_arguments (v # vs) result =
    (let options = or_options result
     in if v = ''--help'' \<or> v = ''-h'' then result\<lparr>or_show_help := True\<rparr>
        else if v = ''--version'' then result\<lparr>or_show_version := True\<rparr>
        else if v = ''--check-config'' then runtime_arguments vs (result\<lparr>or_options := options\<lparr>ro_check_config := True\<rparr>\<rparr>)
        else if v = ''--once'' then runtime_arguments vs (result\<lparr>or_options := options\<lparr>ro_once := True\<rparr>\<rparr>)
        else if v = ''--dry-run'' then runtime_arguments vs (result\<lparr>or_options := options\<lparr>ro_dry_run := True\<rparr>\<rparr>)
        else if v = ''--config''
        then (case vs of
                [] \<Rightarrow> result\<lparr>or_ok := False, or_error := ''--config requires a path''\<rparr>
              | path # vs' \<Rightarrow> runtime_arguments vs' (result\<lparr>or_options := options\<lparr>ro_config_path := path\<rparr>\<rparr>))
        else if starts_with v ''--config=''
        then runtime_arguments vs (result\<lparr>or_options := options\<lparr>ro_config_path := drop 9 v\<rparr>\<rparr>)
        else result\<lparr>or_ok := False, or_error := ''unknown argument: '' @ v\<rparr>)"

definition parse_runtime_options :: "string list \<Rightarrow> options_result" where
  "parse_runtime_options args =
     runtime_arguments (drop 1 args)
       \<lparr>or_ok = True, or_options = default_options, or_show_help = False, or_show_version = False, or_error = []\<rparr>"

section \<open>The configuration\<close>

type_synonym config_step = "daemon_config \<Rightarrow> string + daemon_config"

fun config_steps :: "config_step list \<Rightarrow> config_step" where
  "config_steps [] c = Inr c"
| "config_steps (f # fs) c = (case f c of Inl error \<Rightarrow> Inl error | Inr c \<Rightarrow> config_steps fs c)"

definition set_text ::
  "section_values \<Rightarrow> environment \<Rightarrow> string \<Rightarrow> string \<Rightarrow> string \<Rightarrow> ('r \<Rightarrow> string) \<Rightarrow>
   ((string \<Rightarrow> string) \<Rightarrow> 'r \<Rightarrow> 'r) \<Rightarrow> 'r \<Rightarrow> string + 'r" where
  "set_text S E name key env get upd r = Inr (upd (\<lambda>_. apply_string S E name key env (get r)) r)"

definition set_parsed ::
  "(string \<Rightarrow> string \<Rightarrow> string \<Rightarrow> 'a \<Rightarrow> string + 'a) \<Rightarrow> string \<Rightarrow> string \<Rightarrow> string \<Rightarrow> ('r \<Rightarrow> 'a) \<Rightarrow>
   (('a \<Rightarrow> 'a) \<Rightarrow> 'r \<Rightarrow> 'r) \<Rightarrow> 'r \<Rightarrow> string + 'r" where
  "set_parsed apply_option name key env get upd r =
     (case apply_option name key env (get r) of Inl error \<Rightarrow> Inl error | Inr v \<Rightarrow> Inr (upd (\<lambda>_. v) r))"

definition set_from_environment ::
  "environment \<Rightarrow> string \<Rightarrow> ((string \<Rightarrow> string) \<Rightarrow> 'r \<Rightarrow> 'r) \<Rightarrow> 'r \<Rightarrow> string + 'r" where
  "set_from_environment E env upd r = Inr (case env_value E env of Some v \<Rightarrow> upd (\<lambda>_. v) r | None \<Rightarrow> r)"

definition configured_mac :: "section_values \<Rightarrow> environment \<Rightarrow> string" where
  "configured_mac S E = apply_string S E ''device'' ''mac'' ''OPENOMADA_DEVICE_MAC'' []"

definition set_mac :: "string \<Rightarrow> agent_settings \<Rightarrow> string + agent_settings" where
  "set_mac raw_mac s =
     (if raw_mac = [] then Inr s
      else (case parse_mac raw_mac of
              None \<Rightarrow> Inl ''device MAC must be valid''
            | Some parsed_mac \<Rightarrow> Inr (s\<lparr>mac := parsed_mac\<rparr>)))"

definition on_settings :: "(agent_settings \<Rightarrow> string + agent_settings) \<Rightarrow> config_step" where
  "on_settings f c = map_sum id (\<lambda>s. c\<lparr>dc_settings := s\<rparr>) (f (dc_settings c))"

definition on_openwrt :: "(openwrt_config \<Rightarrow> string + openwrt_config) \<Rightarrow> config_step" where
  "on_openwrt f c = map_sum id (\<lambda>s. c\<lparr>dc_openwrt := s\<rparr>) (f (dc_openwrt c))"

definition controller_steps :: "section_values \<Rightarrow> environment \<Rightarrow> config_step list" where
  "controller_steps S E =
  [set_parsed (apply_bool S E) ''controller'' ''enabled'' ''OPENOMADA_ENABLED'' dc_enabled dc_enabled_update,
   on_settings (set_text S E ''controller'' ''host'' ''OPENOMADA_CONTROLLER_HOST'' controller_host controller_host_update),
   on_settings (set_text S E ''controller'' ''controller_id'' ''OPENOMADA_CONTROLLER_ID'' controller_id controller_id_update),
   on_settings (set_text S E ''controller'' ''site_id'' ''OPENOMADA_SITE_ID'' site_id site_id_update),
   on_settings (set_text S E ''controller'' ''username'' ''OPENOMADA_DEVICE_USERNAME'' device_username device_username_update),
   on_settings (set_text S E ''controller'' ''password'' ''OPENOMADA_DEVICE_PASSWORD'' device_password device_password_update)]"

definition agent_steps :: "nat \<Rightarrow> section_values \<Rightarrow> environment \<Rightarrow> config_step list" where
  "agent_steps ul S E =
  [on_settings (set_text S E ''agent'' ''state_path'' ''OPENOMADA_STATE_PATH'' state_file state_file_update),
   set_text S E ''agent'' ''log_level'' ''OPENOMADA_LOG_LEVEL'' dc_log_level dc_log_level_update,
   on_openwrt (set_text S E ''agent'' ''platform'' ''OPENOMADA_PLATFORM'' ow_platform ow_platform_update),
   on_openwrt (set_text S E ''agent'' ''radio_bands'' ''OPENOMADA_RADIO_BANDS'' ow_radio_bands ow_radio_bands_update),
   set_parsed (apply_bool S E) ''agent'' ''protocol_trace'' ''OPENOMADA_PROTOCOL_TRACE'' dc_protocol_trace dc_protocol_trace_update,
   on_settings (set_parsed (apply_uint32 ul S E) ''agent'' ''inform_interval_ms'' ''OPENOMADA_INFORM_INTERVAL_MS'' inform_interval_ms inform_interval_ms_update),
   on_settings (set_parsed (apply_uint32 ul S E) ''agent'' ''tcp_timeout_seconds'' ''OPENOMADA_TCP_TIMEOUT_SECONDS'' tcp_timeout_seconds tcp_timeout_seconds_update),
   on_settings (set_parsed (apply_uint32 ul S E) ''agent'' ''reconnect_delay_ms'' ''OPENOMADA_RECONNECT_DELAY_MS'' reconnect_delay_ms reconnect_delay_ms_update),
   on_settings (set_parsed (apply_uint32 ul S E) ''agent'' ''managed_reconnect_attempts'' ''OPENOMADA_MANAGED_RECONNECT_ATTEMPTS'' managed_reconnect_attempts managed_reconnect_attempts_update),
   on_openwrt (set_parsed (apply_uint32 ul S E) ''agent'' ''max_ssids'' ''OPENOMADA_MAX_SSIDS'' ow_max_ssids ow_max_ssids_update),
   on_settings (set_parsed (apply_port ul S E) ''agent'' ''discovery_port'' ''OPENOMADA_DISCOVERY_PORT'' discovery_port discovery_port_update),
   on_settings (set_parsed (apply_port ul S E) ''agent'' ''local_discovery_port'' ''OPENOMADA_LOCAL_DISCOVERY_PORT'' local_discovery_port local_discovery_port_update),
   on_settings (set_parsed (apply_port ul S E) ''agent'' ''manage_port'' ''OPENOMADA_MANAGE_PORT'' manage_port manage_port_update),
   on_settings (set_parsed (apply_bool S E) ''agent'' ''tls_verify'' ''OPENOMADA_TLS_VERIFY'' tls_verify tls_verify_update),
   on_settings (set_text S E ''agent'' ''tls_ca_file'' ''OPENOMADA_TLS_CA_FILE'' tls_ca_file tls_ca_file_update)]"

definition device_steps :: "nat \<Rightarrow> section_values \<Rightarrow> environment \<Rightarrow> config_step list" where
  "device_steps ul S E =
  [on_settings (set_text S E ''device'' ''name'' ''OPENOMADA_DEVICE_NAME'' device_name device_name_update),
   on_settings (set_text S E ''device'' ''model'' ''OPENOMADA_MODEL'' model model_update),
   on_settings (set_text S E ''device'' ''model_version'' ''OPENOMADA_MODEL_VERSION'' model_version model_version_update),
   on_settings (set_text S E ''device'' ''hardware_version'' ''OPENOMADA_HARDWARE_VERSION'' hardware_version hardware_version_update),
   on_settings (set_text S E ''device'' ''firmware_version'' ''OPENOMADA_FIRMWARE_VERSION'' firmware_version firmware_version_update),
   on_settings (set_text S E ''device'' ''ip'' ''OPENOMADA_DEVICE_IP'' device_ip device_ip_update),
   on_settings (set_parsed (apply_uint32 ul S E) ''device'' ''customize_region'' ''OPENOMADA_CUSTOMIZE_REGION'' customize_region customize_region_update),
   on_settings (set_mac (configured_mac S E))]"

definition platform_steps :: "section_values \<Rightarrow> environment \<Rightarrow> config_step list" where
  "platform_steps S E =
  [on_openwrt (set_text S E ''openwrt'' ''management_vlan_interface'' ''OPENOMADA_MANAGEMENT_VLAN_INTERFACE'' ow_management_vlan_interface ow_management_vlan_interface_update),
   on_openwrt (set_text S E ''openwrt'' ''management_vlan_device'' ''OPENOMADA_MANAGEMENT_VLAN_DEVICE'' ow_management_vlan_device ow_management_vlan_device_update),
   on_openwrt (set_text S E ''portal'' ''engine'' ''OPENOMADA_PORTAL_ENGINE'' ow_portal_engine ow_portal_engine_update),
   on_openwrt (set_parsed (apply_bool S E) ''portal'' ''enabled'' ''OPENOMADA_PORTAL_ENABLED'' ow_portal_enabled ow_portal_enabled_update),
   on_openwrt (set_parsed (apply_bool S E) ''portal'' ''flush_conntrack_on_deauth'' ''OPENOMADA_FLUSH_CONNTRACK_ON_DEAUTH'' ow_flush_conntrack_on_deauth ow_flush_conntrack_on_deauth_update),
   on_settings (set_from_environment E ''OPENOMADA_DEVICE_ACCOUNT_PASSWORD'' device_password_update),
   on_settings (set_from_environment E ''OPENOMADA_DESTINATION_CONTROLLER_ID'' destination_controller_id_update)]"

definition missing_option :: "daemon_config \<Rightarrow> string \<Rightarrow> string option" where
  "missing_option config raw_mac =
     (if \<not> dc_enabled config then None
      else if controller_host (dc_settings config) = [] then Some ''controller host is required when the agent is enabled''
      else if state_file (dc_settings config) = [] then Some ''state path is required when the agent is enabled''
      else if device_password (dc_settings config) = []
      then Some ''Device Account password is required when the agent is enabled''
      else if raw_mac = [] then Some ''device MAC is required when the agent is enabled''
      else None)"

definition config_failure :: "string \<Rightarrow> load_config_result" where
  "config_failure error = \<lparr>lc_ok = False, lc_config = default_config, lc_error = error\<rparr>"

definition initial_config :: daemon_config where
  "initial_config =
     default_config\<lparr>dc_settings := default_settings\<lparr>state_file := ''/var/lib/openomada/managed-state.json''\<rparr>\<rparr>"

definition load_daemon_config_from_text :: "nat \<Rightarrow> string \<Rightarrow> environment \<Rightarrow> load_config_result" where
  "load_daemon_config_from_text ul config_text E =
    (let S = parse_uci config_text
     in case config_steps (controller_steps S E @ agent_steps ul S E @ device_steps ul S E @ platform_steps S E)
               initial_config of
          Inl error \<Rightarrow> config_failure error
        | Inr config \<Rightarrow>
            (case missing_option config (configured_mac S E) of
               Some error \<Rightarrow> config_failure error
             | None \<Rightarrow> \<lparr>lc_ok = True, lc_config = config, lc_error = []\<rparr>))"

type_synonym 'w config_file = "string \<Rightarrow> 'w \<Rightarrow> string + string"

definition load_daemon_config_file ::
  "nat \<Rightarrow> 'w config_file \<Rightarrow> runtime_options \<Rightarrow> environment \<Rightarrow> 'w \<Rightarrow> load_config_result" where
  "load_daemon_config_file ul file options E w =
     (case file (ro_config_path options) w of
        Inl reason \<Rightarrow> config_failure (''could not open config file: '' @ ro_config_path options @ '': '' @ reason)
      | Inr content \<Rightarrow> load_daemon_config_from_text ul content E)"

definition or_unset :: "string \<Rightarrow> string" where
  "or_unset s = (if s = [] then ''<unset>'' else s)"

definition daemon_config_summary :: "daemon_config \<Rightarrow> string" where
  "daemon_config_summary config =
    (let s = dc_settings config; ow = dc_openwrt config
     in ''enabled='' @ (if dc_enabled config then ''1'' else ''0'') @
        '' controller='' @ or_unset (controller_host s) @
        '' site='' @ or_unset (site_id s) @
        '' mac='' @ omada (mac s) @
        '' model='' @ model s @
        '' state='' @ or_unset (state_file s) @
        '' informMs='' @ to_string_u (inform_interval_ms s) @
        '' platform='' @ ow_platform ow @
        '' bands='' @ ow_radio_bands ow @
        '' maxSsids='' @ to_string_u (ow_max_ssids ow) @
        '' portal='' @ (if ow_portal_enabled ow then ow_portal_engine ow else ''disabled''))"


section \<open>What an option ends up as\<close>

definition effective :: "section_values \<Rightarrow> environment \<Rightarrow> string \<Rightarrow> string \<Rightarrow> string \<Rightarrow> string option" where
  "effective S E name key env =
     (case env_value E env of Some v \<Rightarrow> Some v | None \<Rightarrow> section_value S name key)"

definition text_set :: "section_values \<Rightarrow> environment \<Rightarrow> string \<times> string \<times> string \<times> string \<times> string \<Rightarrow> bool" where
  "text_set S E = (\<lambda>(v, name, key, env, default).
     v = (case effective S E name key env of Some t \<Rightarrow> t | None \<Rightarrow> default))"

definition parsed_set ::
  "(string \<Rightarrow> 'a option) \<Rightarrow> section_values \<Rightarrow> environment \<Rightarrow> 'a \<times> string \<times> string \<times> string \<times> 'a \<Rightarrow> bool" where
  "parsed_set parse S E = (\<lambda>(v, name, key, env, default).
     case effective S E name key env of Some t \<Rightarrow> parse t = Some v | None \<Rightarrow> v = default)"

lemma apply_string_set: "text_set S E (apply_string S E name key env d, name, key, env, d)"
  by (simp add: text_set_def apply_string_def effective_def split: option.split)

lemma apply_parsed_set:
  "apply_parsed parse complaint S E name key env d = Inr v \<Longrightarrow> parsed_set parse S E (v, name, key, env, d)"
  by (auto simp: parsed_set_def apply_parsed_def effective_def split: option.splits sum.splits)

lemmas applied_set =
  apply_parsed_set [of parse_bool "'' must be boolean''", folded apply_bool_def]
  apply_parsed_set [of "parse_uint32 ul" "'' must be an unsigned integer''" for ul, folded apply_uint32_def]
  apply_parsed_set [of "parse_port ul" "'' must be a TCP/UDP port''" for ul, folded apply_port_def]

text \<open>The steps one after the other.\<close>

named_theorems step_rules "results of the configuration steps"

lemma config_steps_append:
  "config_steps (fs @ gs) c = (case config_steps fs c of Inl e \<Rightarrow> Inl e | Inr d \<Rightarrow> config_steps gs d)"
  by (induction fs arbitrary: c) (auto split: sum.split)

lemma settings_text [step_rules]:
  "config_steps (on_settings (set_text S E name key env get upd) # fs) c =
     config_steps fs (c\<lparr>dc_settings := upd (\<lambda>_. apply_string S E name key env (get (dc_settings c))) (dc_settings c)\<rparr>)"
  by (simp add: on_settings_def set_text_def)

lemma openwrt_text [step_rules]:
  "config_steps (on_openwrt (set_text S E name key env get upd) # fs) c =
     config_steps fs (c\<lparr>dc_openwrt := upd (\<lambda>_. apply_string S E name key env (get (dc_openwrt c))) (dc_openwrt c)\<rparr>)"
  by (simp add: on_openwrt_def set_text_def)

lemma config_text [step_rules]:
  "config_steps (set_text S E name key env get upd # fs) c =
     config_steps fs (upd (\<lambda>_. apply_string S E name key env (get c)) c)"
  by (simp add: set_text_def)

lemma settings_parsed [step_rules]:
  "config_steps (on_settings (set_parsed ap name key env get upd) # fs) c = Inr d \<longleftrightarrow>
     (\<exists>v. ap name key env (get (dc_settings c)) = Inr v \<and>
        config_steps fs (c\<lparr>dc_settings := upd (\<lambda>_. v) (dc_settings c)\<rparr>) = Inr d)"
  by (auto simp: on_settings_def set_parsed_def split: sum.split)

lemma openwrt_parsed [step_rules]:
  "config_steps (on_openwrt (set_parsed ap name key env get upd) # fs) c = Inr d \<longleftrightarrow>
     (\<exists>v. ap name key env (get (dc_openwrt c)) = Inr v \<and>
        config_steps fs (c\<lparr>dc_openwrt := upd (\<lambda>_. v) (dc_openwrt c)\<rparr>) = Inr d)"
  by (auto simp: on_openwrt_def set_parsed_def split: sum.split)

lemma config_parsed [step_rules]:
  "config_steps (set_parsed ap name key env get upd # fs) c = Inr d \<longleftrightarrow>
     (\<exists>v. ap name key env (get c) = Inr v \<and> config_steps fs (upd (\<lambda>_. v) c) = Inr d)"
  by (auto simp: set_parsed_def split: sum.split)

lemma settings_environment [step_rules]:
  "config_steps (on_settings (set_from_environment E env upd) # fs) c =
     config_steps fs (c\<lparr>dc_settings := (case env_value E env of Some v \<Rightarrow> upd (\<lambda>_. v) (dc_settings c) | None \<Rightarrow> dc_settings c)\<rparr>)"
  by (simp add: on_settings_def set_from_environment_def)

lemma settings_mac [step_rules]:
  "config_steps (on_settings (set_mac raw) # fs) c = Inr d \<longleftrightarrow>
     (\<exists>a. (raw = [] \<longrightarrow> a = mac (dc_settings c)) \<and> (raw \<noteq> [] \<longrightarrow> parse_mac raw = Some a) \<and>
        config_steps fs (c\<lparr>dc_settings := (dc_settings c)\<lparr>mac := a\<rparr>\<rparr>) = Inr d)"
  by (auto simp: on_settings_def set_mac_def split: option.split)

lemma controller_steps_result:
  assumes "config_steps (controller_steps S E) c = Inr d"
  shows "\<exists>v1. apply_bool S E ''controller'' ''enabled'' ''OPENOMADA_ENABLED'' (dc_enabled c) = Inr v1 \<and>
    d = c\<lparr>dc_enabled := v1,
       dc_settings := (dc_settings c)\<lparr>controller_host := apply_string S E ''controller'' ''host'' ''OPENOMADA_CONTROLLER_HOST'' (controller_host (dc_settings c)),
       controller_id := apply_string S E ''controller'' ''controller_id'' ''OPENOMADA_CONTROLLER_ID'' (controller_id (dc_settings c)),
       site_id := apply_string S E ''controller'' ''site_id'' ''OPENOMADA_SITE_ID'' (site_id (dc_settings c)),
       device_username := apply_string S E ''controller'' ''username'' ''OPENOMADA_DEVICE_USERNAME'' (device_username (dc_settings c)),
       device_password := apply_string S E ''controller'' ''password'' ''OPENOMADA_DEVICE_PASSWORD'' (device_password (dc_settings c))\<rparr>\<rparr>"
  using assms unfolding controller_steps_def by (auto simp: step_rules simp del: config_steps.simps(2) split: option.split)

lemma controller_steps_fields:
  assumes "config_steps (controller_steps S E) c = Inr d"
  shows
    "parsed_set parse_bool S E (dc_enabled d, ''controller'', ''enabled'', ''OPENOMADA_ENABLED'', dc_enabled c)"
    "text_set S E (controller_host (dc_settings d), ''controller'', ''host'', ''OPENOMADA_CONTROLLER_HOST'', controller_host (dc_settings c))"
    "text_set S E (controller_id (dc_settings d), ''controller'', ''controller_id'', ''OPENOMADA_CONTROLLER_ID'', controller_id (dc_settings c))"
    "text_set S E (site_id (dc_settings d), ''controller'', ''site_id'', ''OPENOMADA_SITE_ID'', site_id (dc_settings c))"
    "text_set S E (device_username (dc_settings d), ''controller'', ''username'', ''OPENOMADA_DEVICE_USERNAME'', device_username (dc_settings c))"
    "text_set S E (device_password (dc_settings d), ''controller'', ''password'', ''OPENOMADA_DEVICE_PASSWORD'', device_password (dc_settings c))"
    "state_file (dc_settings d) = state_file (dc_settings c)"
    "inform_interval_ms (dc_settings d) = inform_interval_ms (dc_settings c)"
    "tcp_timeout_seconds (dc_settings d) = tcp_timeout_seconds (dc_settings c)"
    "reconnect_delay_ms (dc_settings d) = reconnect_delay_ms (dc_settings c)"
    "managed_reconnect_attempts (dc_settings d) = managed_reconnect_attempts (dc_settings c)"
    "discovery_port (dc_settings d) = discovery_port (dc_settings c)"
    "local_discovery_port (dc_settings d) = local_discovery_port (dc_settings c)"
    "manage_port (dc_settings d) = manage_port (dc_settings c)"
    "tls_verify (dc_settings d) = tls_verify (dc_settings c)"
    "tls_ca_file (dc_settings d) = tls_ca_file (dc_settings c)"
    "device_name (dc_settings d) = device_name (dc_settings c)"
    "model (dc_settings d) = model (dc_settings c)"
    "customize_region (dc_settings d) = customize_region (dc_settings c)"
    "destination_controller_id (dc_settings d) = destination_controller_id (dc_settings c)"
    "ow_radio_bands (dc_openwrt d) = ow_radio_bands (dc_openwrt c)"
    "ow_max_ssids (dc_openwrt d) = ow_max_ssids (dc_openwrt c)"
    "ow_portal_enabled (dc_openwrt d) = ow_portal_enabled (dc_openwrt c)"
    "ow_portal_engine (dc_openwrt d) = ow_portal_engine (dc_openwrt c)"
    "dc_log_level d = dc_log_level c"
  by (insert controller_steps_result [OF assms], elim exE conjE; simp add: apply_string_set applied_set)+

lemma agent_steps_result:
  assumes "config_steps (agent_steps ul S E) c = Inr d"
  shows "\<exists>v1 v2 v3 v4 v5 v6 v7 v8 v9 v10. apply_bool S E ''agent'' ''protocol_trace'' ''OPENOMADA_PROTOCOL_TRACE'' (dc_protocol_trace c) = Inr v1 \<and>
    apply_uint32 ul S E ''agent'' ''inform_interval_ms'' ''OPENOMADA_INFORM_INTERVAL_MS'' (inform_interval_ms (dc_settings c)) = Inr v2 \<and>
    apply_uint32 ul S E ''agent'' ''tcp_timeout_seconds'' ''OPENOMADA_TCP_TIMEOUT_SECONDS'' (tcp_timeout_seconds (dc_settings c)) = Inr v3 \<and>
    apply_uint32 ul S E ''agent'' ''reconnect_delay_ms'' ''OPENOMADA_RECONNECT_DELAY_MS'' (reconnect_delay_ms (dc_settings c)) = Inr v4 \<and>
    apply_uint32 ul S E ''agent'' ''managed_reconnect_attempts'' ''OPENOMADA_MANAGED_RECONNECT_ATTEMPTS'' (managed_reconnect_attempts (dc_settings c)) = Inr v5 \<and>
    apply_uint32 ul S E ''agent'' ''max_ssids'' ''OPENOMADA_MAX_SSIDS'' (ow_max_ssids (dc_openwrt c)) = Inr v6 \<and>
    apply_port ul S E ''agent'' ''discovery_port'' ''OPENOMADA_DISCOVERY_PORT'' (discovery_port (dc_settings c)) = Inr v7 \<and>
    apply_port ul S E ''agent'' ''local_discovery_port'' ''OPENOMADA_LOCAL_DISCOVERY_PORT'' (local_discovery_port (dc_settings c)) = Inr v8 \<and>
    apply_port ul S E ''agent'' ''manage_port'' ''OPENOMADA_MANAGE_PORT'' (manage_port (dc_settings c)) = Inr v9 \<and>
    apply_bool S E ''agent'' ''tls_verify'' ''OPENOMADA_TLS_VERIFY'' (tls_verify (dc_settings c)) = Inr v10 \<and>
    d = c\<lparr>dc_log_level := apply_string S E ''agent'' ''log_level'' ''OPENOMADA_LOG_LEVEL'' (dc_log_level c),
       dc_protocol_trace := v1,
       dc_settings := (dc_settings c)\<lparr>state_file := apply_string S E ''agent'' ''state_path'' ''OPENOMADA_STATE_PATH'' (state_file (dc_settings c)),
       inform_interval_ms := v2,
       tcp_timeout_seconds := v3,
       reconnect_delay_ms := v4,
       managed_reconnect_attempts := v5,
       discovery_port := v7,
       local_discovery_port := v8,
       manage_port := v9,
       tls_verify := v10,
       tls_ca_file := apply_string S E ''agent'' ''tls_ca_file'' ''OPENOMADA_TLS_CA_FILE'' (tls_ca_file (dc_settings c))\<rparr>,
       dc_openwrt := (dc_openwrt c)\<lparr>ow_platform := apply_string S E ''agent'' ''platform'' ''OPENOMADA_PLATFORM'' (ow_platform (dc_openwrt c)),
       ow_radio_bands := apply_string S E ''agent'' ''radio_bands'' ''OPENOMADA_RADIO_BANDS'' (ow_radio_bands (dc_openwrt c)),
       ow_max_ssids := v6\<rparr>\<rparr>"
  using assms unfolding agent_steps_def by (auto simp: step_rules simp del: config_steps.simps(2) split: option.split)

lemma agent_steps_fields:
  assumes "config_steps (agent_steps ul S E) c = Inr d"
  shows
    "text_set S E (state_file (dc_settings d), ''agent'', ''state_path'', ''OPENOMADA_STATE_PATH'', state_file (dc_settings c))"
    "text_set S E (dc_log_level d, ''agent'', ''log_level'', ''OPENOMADA_LOG_LEVEL'', dc_log_level c)"
    "text_set S E (ow_radio_bands (dc_openwrt d), ''agent'', ''radio_bands'', ''OPENOMADA_RADIO_BANDS'', ow_radio_bands (dc_openwrt c))"
    "parsed_set (parse_uint32 ul) S E (inform_interval_ms (dc_settings d), ''agent'', ''inform_interval_ms'', ''OPENOMADA_INFORM_INTERVAL_MS'', inform_interval_ms (dc_settings c))"
    "parsed_set (parse_uint32 ul) S E (tcp_timeout_seconds (dc_settings d), ''agent'', ''tcp_timeout_seconds'', ''OPENOMADA_TCP_TIMEOUT_SECONDS'', tcp_timeout_seconds (dc_settings c))"
    "parsed_set (parse_uint32 ul) S E (reconnect_delay_ms (dc_settings d), ''agent'', ''reconnect_delay_ms'', ''OPENOMADA_RECONNECT_DELAY_MS'', reconnect_delay_ms (dc_settings c))"
    "parsed_set (parse_uint32 ul) S E (managed_reconnect_attempts (dc_settings d), ''agent'', ''managed_reconnect_attempts'', ''OPENOMADA_MANAGED_RECONNECT_ATTEMPTS'', managed_reconnect_attempts (dc_settings c))"
    "parsed_set (parse_uint32 ul) S E (ow_max_ssids (dc_openwrt d), ''agent'', ''max_ssids'', ''OPENOMADA_MAX_SSIDS'', ow_max_ssids (dc_openwrt c))"
    "parsed_set (parse_port ul) S E (discovery_port (dc_settings d), ''agent'', ''discovery_port'', ''OPENOMADA_DISCOVERY_PORT'', discovery_port (dc_settings c))"
    "parsed_set (parse_port ul) S E (local_discovery_port (dc_settings d), ''agent'', ''local_discovery_port'', ''OPENOMADA_LOCAL_DISCOVERY_PORT'', local_discovery_port (dc_settings c))"
    "parsed_set (parse_port ul) S E (manage_port (dc_settings d), ''agent'', ''manage_port'', ''OPENOMADA_MANAGE_PORT'', manage_port (dc_settings c))"
    "parsed_set parse_bool S E (tls_verify (dc_settings d), ''agent'', ''tls_verify'', ''OPENOMADA_TLS_VERIFY'', tls_verify (dc_settings c))"
    "text_set S E (tls_ca_file (dc_settings d), ''agent'', ''tls_ca_file'', ''OPENOMADA_TLS_CA_FILE'', tls_ca_file (dc_settings c))"
    "controller_host (dc_settings d) = controller_host (dc_settings c)"
    "controller_id (dc_settings d) = controller_id (dc_settings c)"
    "site_id (dc_settings d) = site_id (dc_settings c)"
    "device_username (dc_settings d) = device_username (dc_settings c)"
    "device_password (dc_settings d) = device_password (dc_settings c)"
    "device_name (dc_settings d) = device_name (dc_settings c)"
    "model (dc_settings d) = model (dc_settings c)"
    "customize_region (dc_settings d) = customize_region (dc_settings c)"
    "destination_controller_id (dc_settings d) = destination_controller_id (dc_settings c)"
    "ow_portal_enabled (dc_openwrt d) = ow_portal_enabled (dc_openwrt c)"
    "ow_portal_engine (dc_openwrt d) = ow_portal_engine (dc_openwrt c)"
    "dc_enabled d = dc_enabled c"
  by (insert agent_steps_result [OF assms], elim exE conjE; simp add: apply_string_set applied_set)+

lemma device_steps_result:
  assumes "config_steps (device_steps ul S E) c = Inr d"
  shows "\<exists>v1 a. apply_uint32 ul S E ''device'' ''customize_region'' ''OPENOMADA_CUSTOMIZE_REGION'' (customize_region (dc_settings c)) = Inr v1 \<and>
    (configured_mac S E = [] \<longrightarrow> a = mac (dc_settings c)) \<and> (configured_mac S E \<noteq> [] \<longrightarrow> parse_mac (configured_mac S E) = Some a) \<and>
    d = c\<lparr>dc_settings := (dc_settings c)\<lparr>device_name := apply_string S E ''device'' ''name'' ''OPENOMADA_DEVICE_NAME'' (device_name (dc_settings c)),
       model := apply_string S E ''device'' ''model'' ''OPENOMADA_MODEL'' (model (dc_settings c)),
       model_version := apply_string S E ''device'' ''model_version'' ''OPENOMADA_MODEL_VERSION'' (model_version (dc_settings c)),
       hardware_version := apply_string S E ''device'' ''hardware_version'' ''OPENOMADA_HARDWARE_VERSION'' (hardware_version (dc_settings c)),
       firmware_version := apply_string S E ''device'' ''firmware_version'' ''OPENOMADA_FIRMWARE_VERSION'' (firmware_version (dc_settings c)),
       device_ip := apply_string S E ''device'' ''ip'' ''OPENOMADA_DEVICE_IP'' (device_ip (dc_settings c)),
       customize_region := v1,
       mac := a\<rparr>\<rparr>"
  using assms unfolding device_steps_def by (auto simp: step_rules simp del: config_steps.simps(2) split: option.split)

lemma device_steps_fields:
  assumes "config_steps (device_steps ul S E) c = Inr d"
  shows
    "text_set S E (device_name (dc_settings d), ''device'', ''name'', ''OPENOMADA_DEVICE_NAME'', device_name (dc_settings c))"
    "text_set S E (model (dc_settings d), ''device'', ''model'', ''OPENOMADA_MODEL'', model (dc_settings c))"
    "parsed_set (parse_uint32 ul) S E (customize_region (dc_settings d), ''device'', ''customize_region'', ''OPENOMADA_CUSTOMIZE_REGION'', customize_region (dc_settings c))"
    "configured_mac S E \<noteq> [] \<Longrightarrow> parse_mac (configured_mac S E) = Some (mac (dc_settings d))"
    "controller_host (dc_settings d) = controller_host (dc_settings c)"
    "controller_id (dc_settings d) = controller_id (dc_settings c)"
    "site_id (dc_settings d) = site_id (dc_settings c)"
    "device_username (dc_settings d) = device_username (dc_settings c)"
    "device_password (dc_settings d) = device_password (dc_settings c)"
    "state_file (dc_settings d) = state_file (dc_settings c)"
    "inform_interval_ms (dc_settings d) = inform_interval_ms (dc_settings c)"
    "tcp_timeout_seconds (dc_settings d) = tcp_timeout_seconds (dc_settings c)"
    "reconnect_delay_ms (dc_settings d) = reconnect_delay_ms (dc_settings c)"
    "managed_reconnect_attempts (dc_settings d) = managed_reconnect_attempts (dc_settings c)"
    "discovery_port (dc_settings d) = discovery_port (dc_settings c)"
    "local_discovery_port (dc_settings d) = local_discovery_port (dc_settings c)"
    "manage_port (dc_settings d) = manage_port (dc_settings c)"
    "tls_verify (dc_settings d) = tls_verify (dc_settings c)"
    "tls_ca_file (dc_settings d) = tls_ca_file (dc_settings c)"
    "destination_controller_id (dc_settings d) = destination_controller_id (dc_settings c)"
    "ow_radio_bands (dc_openwrt d) = ow_radio_bands (dc_openwrt c)"
    "ow_max_ssids (dc_openwrt d) = ow_max_ssids (dc_openwrt c)"
    "ow_portal_enabled (dc_openwrt d) = ow_portal_enabled (dc_openwrt c)"
    "ow_portal_engine (dc_openwrt d) = ow_portal_engine (dc_openwrt c)"
    "dc_enabled d = dc_enabled c"
    "dc_log_level d = dc_log_level c"
  by (insert device_steps_result [OF assms], elim exE conjE; simp add: apply_string_set applied_set)+

lemma platform_steps_result:
  assumes "config_steps (platform_steps S E) c = Inr d"
  shows "\<exists>v1 v2. apply_bool S E ''portal'' ''enabled'' ''OPENOMADA_PORTAL_ENABLED'' (ow_portal_enabled (dc_openwrt c)) = Inr v1 \<and>
    apply_bool S E ''portal'' ''flush_conntrack_on_deauth'' ''OPENOMADA_FLUSH_CONNTRACK_ON_DEAUTH'' (ow_flush_conntrack_on_deauth (dc_openwrt c)) = Inr v2 \<and>
    d = c\<lparr>dc_settings := (dc_settings c)\<lparr>device_password := (case env_value E ''OPENOMADA_DEVICE_ACCOUNT_PASSWORD'' of Some v \<Rightarrow> v | None \<Rightarrow> device_password (dc_settings c)),
       destination_controller_id := (case env_value E ''OPENOMADA_DESTINATION_CONTROLLER_ID'' of Some v \<Rightarrow> v | None \<Rightarrow> destination_controller_id (dc_settings c))\<rparr>,
       dc_openwrt := (dc_openwrt c)\<lparr>ow_management_vlan_interface := apply_string S E ''openwrt'' ''management_vlan_interface'' ''OPENOMADA_MANAGEMENT_VLAN_INTERFACE'' (ow_management_vlan_interface (dc_openwrt c)),
       ow_management_vlan_device := apply_string S E ''openwrt'' ''management_vlan_device'' ''OPENOMADA_MANAGEMENT_VLAN_DEVICE'' (ow_management_vlan_device (dc_openwrt c)),
       ow_portal_engine := apply_string S E ''portal'' ''engine'' ''OPENOMADA_PORTAL_ENGINE'' (ow_portal_engine (dc_openwrt c)),
       ow_portal_enabled := v1,
       ow_flush_conntrack_on_deauth := v2\<rparr>\<rparr>"
  using assms unfolding platform_steps_def by (auto simp: step_rules simp del: config_steps.simps(2) split: option.split)

lemma platform_steps_fields:
  assumes "config_steps (platform_steps S E) c = Inr d"
  shows
    "text_set S E (ow_portal_engine (dc_openwrt d), ''portal'', ''engine'', ''OPENOMADA_PORTAL_ENGINE'', ow_portal_engine (dc_openwrt c))"
    "parsed_set parse_bool S E (ow_portal_enabled (dc_openwrt d), ''portal'', ''enabled'', ''OPENOMADA_PORTAL_ENABLED'', ow_portal_enabled (dc_openwrt c))"
    "device_password (dc_settings d) = (case env_value E ''OPENOMADA_DEVICE_ACCOUNT_PASSWORD'' of Some v \<Rightarrow> v | None \<Rightarrow> device_password (dc_settings c))"
    "destination_controller_id (dc_settings d) = (case env_value E ''OPENOMADA_DESTINATION_CONTROLLER_ID'' of Some v \<Rightarrow> v | None \<Rightarrow> destination_controller_id (dc_settings c))"
    "controller_host (dc_settings d) = controller_host (dc_settings c)"
    "controller_id (dc_settings d) = controller_id (dc_settings c)"
    "site_id (dc_settings d) = site_id (dc_settings c)"
    "device_username (dc_settings d) = device_username (dc_settings c)"
    "state_file (dc_settings d) = state_file (dc_settings c)"
    "inform_interval_ms (dc_settings d) = inform_interval_ms (dc_settings c)"
    "tcp_timeout_seconds (dc_settings d) = tcp_timeout_seconds (dc_settings c)"
    "reconnect_delay_ms (dc_settings d) = reconnect_delay_ms (dc_settings c)"
    "managed_reconnect_attempts (dc_settings d) = managed_reconnect_attempts (dc_settings c)"
    "discovery_port (dc_settings d) = discovery_port (dc_settings c)"
    "local_discovery_port (dc_settings d) = local_discovery_port (dc_settings c)"
    "manage_port (dc_settings d) = manage_port (dc_settings c)"
    "tls_verify (dc_settings d) = tls_verify (dc_settings c)"
    "tls_ca_file (dc_settings d) = tls_ca_file (dc_settings c)"
    "device_name (dc_settings d) = device_name (dc_settings c)"
    "model (dc_settings d) = model (dc_settings c)"
    "mac (dc_settings d) = mac (dc_settings c)"
    "customize_region (dc_settings d) = customize_region (dc_settings c)"
    "ow_radio_bands (dc_openwrt d) = ow_radio_bands (dc_openwrt c)"
    "ow_max_ssids (dc_openwrt d) = ow_max_ssids (dc_openwrt c)"
    "dc_enabled d = dc_enabled c"
    "dc_log_level d = dc_log_level c"
  by (insert platform_steps_result [OF assms], elim exE conjE; simp add: apply_string_set applied_set)+

lemma failed_step:
  "apply_parsed parse complaint S E name key env d = Inl e \<Longrightarrow> complaint \<noteq> [] \<Longrightarrow> e \<noteq> []"
  by (auto simp: apply_parsed_def split: option.splits sum.splits)

lemma config_steps_error:
  "list_all (\<lambda>f. \<forall>c e. f c = Inl e \<longrightarrow> e \<noteq> []) fs \<Longrightarrow> config_steps fs c = Inl e \<Longrightarrow> e \<noteq> []"
  by (induction fs arbitrary: c) (auto split: sum.splits)

lemma step_error [simp]:
  "set_text S E name key env get upd r \<noteq> Inl e" "set_from_environment E env upd' r \<noteq> Inl e"
  "set_parsed (apply_bool S E) name key env getb updb r = Inl e \<Longrightarrow> e \<noteq> []"
  "set_parsed (apply_uint32 ul S E) name key env getu updu r = Inl e \<Longrightarrow> e \<noteq> []"
  "set_parsed (apply_port ul S E) name key env getp updp r = Inl e \<Longrightarrow> e \<noteq> []"
  "set_mac raw s = Inl e \<Longrightarrow> e \<noteq> []"
  by (auto simp: set_text_def set_from_environment_def set_parsed_def set_mac_def apply_bool_def apply_uint32_def
      apply_port_def dest: failed_step split: sum.splits if_splits option.splits)

lemma on_step_error [simp]:
  "on_settings f c = Inl e \<longleftrightarrow> f (dc_settings c) = Inl e" "on_openwrt g c = Inl e \<longleftrightarrow> g (dc_openwrt c) = Inl e"
  by (auto simp: on_settings_def on_openwrt_def map_sum_def split: sum.splits)

lemma load_error:
  "config_steps (controller_steps S E @ agent_steps ul S E @ device_steps ul S E @ platform_steps S E) c = Inl e \<Longrightarrow> e \<noteq> []"
  by (erule config_steps_error [rotated])
    (auto simp: controller_steps_def agent_steps_def device_steps_def platform_steps_def)

text \<open>The options of a loaded configuration and where they come from.\<close>

definition options_from ::
  "nat \<Rightarrow> section_values \<Rightarrow> environment \<Rightarrow> daemon_config \<Rightarrow> bool" where
  "options_from ul S E c =
    (let s = dc_settings c; ow = dc_openwrt c in
        list_all (text_set S E)
          [(controller_host s, ''controller'', ''host'', ''OPENOMADA_CONTROLLER_HOST'', []),
           (controller_id s, ''controller'', ''controller_id'', ''OPENOMADA_CONTROLLER_ID'', []),
           (site_id s, ''controller'', ''site_id'', ''OPENOMADA_SITE_ID'', []),
           (device_username s, ''controller'', ''username'', ''OPENOMADA_DEVICE_USERNAME'', []),
           (state_file s, ''agent'', ''state_path'', ''OPENOMADA_STATE_PATH'', ''/var/lib/openomada/managed-state.json''),
           (dc_log_level c, ''agent'', ''log_level'', ''OPENOMADA_LOG_LEVEL'', ''info''),
           (tls_ca_file s, ''agent'', ''tls_ca_file'', ''OPENOMADA_TLS_CA_FILE'', []),
           (device_name s, ''device'', ''name'', ''OPENOMADA_DEVICE_NAME'', ''OpenOmada-AP''),
           (model s, ''device'', ''model'', ''OPENOMADA_MODEL'', ''EAP110''),
           (ow_radio_bands ow, ''agent'', ''radio_bands'', ''OPENOMADA_RADIO_BANDS'', ''2g''),
           (ow_portal_engine ow, ''portal'', ''engine'', ''OPENOMADA_PORTAL_ENGINE'', ''opennds'')] \<and>
        list_all (parsed_set (parse_uint32 ul) S E)
          [(inform_interval_ms s, ''agent'', ''inform_interval_ms'', ''OPENOMADA_INFORM_INTERVAL_MS'', 3000),
           (tcp_timeout_seconds s, ''agent'', ''tcp_timeout_seconds'', ''OPENOMADA_TCP_TIMEOUT_SECONDS'', 15),
           (reconnect_delay_ms s, ''agent'', ''reconnect_delay_ms'', ''OPENOMADA_RECONNECT_DELAY_MS'', 3000),
           (managed_reconnect_attempts s, ''agent'', ''managed_reconnect_attempts'', ''OPENOMADA_MANAGED_RECONNECT_ATTEMPTS'', 3),
           (ow_max_ssids ow, ''agent'', ''max_ssids'', ''OPENOMADA_MAX_SSIDS'', 4),
           (customize_region s, ''device'', ''customize_region'', ''OPENOMADA_CUSTOMIZE_REGION'', 841)] \<and>
        list_all (parsed_set (parse_port ul) S E)
          [(discovery_port s, ''agent'', ''discovery_port'', ''OPENOMADA_DISCOVERY_PORT'', 29810),
           (local_discovery_port s, ''agent'', ''local_discovery_port'', ''OPENOMADA_LOCAL_DISCOVERY_PORT'', 0),
           (manage_port s, ''agent'', ''manage_port'', ''OPENOMADA_MANAGE_PORT'', 29814)] \<and>
        list_all (parsed_set parse_bool S E)
          [(dc_enabled c, ''controller'', ''enabled'', ''OPENOMADA_ENABLED'', False),
           (tls_verify s, ''agent'', ''tls_verify'', ''OPENOMADA_TLS_VERIFY'', False),
           (ow_portal_enabled ow, ''portal'', ''enabled'', ''OPENOMADA_PORTAL_ENABLED'', True)] \<and>
        destination_controller_id s =
          (case env_value E ''OPENOMADA_DESTINATION_CONTROLLER_ID'' of Some v \<Rightarrow> v | None \<Rightarrow> []) \<and>
        (case env_value E ''OPENOMADA_DEVICE_ACCOUNT_PASSWORD'' of
           Some v \<Rightarrow> device_password s = v
         | None \<Rightarrow> text_set S E (device_password s, ''controller'', ''password'', ''OPENOMADA_DEVICE_PASSWORD'', [])))"

section \<open>Words in quotes\<close>

definition uci_quoted :: "string \<Rightarrow> string" where
  "uci_quoted w = CHR 0x22 # concat (map (\<lambda>c. if c = CHR 0x22 \<or> c = CHR 0x5C then [CHR 0x5C, c] else [c]) w) @ [CHR 0x22]"

lemma uci_words_quoted:
  "uci_words current False True False (concat (map (\<lambda>c. if c = CHR 0x22 \<or> c = CHR 0x5C then [CHR 0x5C, c] else [c]) w) @
     CHR 0x22 # rest) = uci_words (current @ w) False False False rest"
  by (induction w arbitrary: current) auto

lemma uci_words_space:
  "uci_words current False False False (CHR '' '' # rest) =
     (if current \<noteq> [] then [current] else []) @ uci_words [] False False False rest"
  by (simp add: is_space_def code_def)

lemma uci_words_plain:
  "list_all (\<lambda>c. c \<noteq> CHR 0x22 \<and> c \<noteq> CHR 0x27 \<and> c \<noteq> CHR ''#'' \<and> \<not> is_space c) w \<Longrightarrow>
   uci_words current False False False (w @ rest) = uci_words (current @ w) False False False rest"
  by (induction w arbitrary: current) auto

section \<open>Properties\<close>



text \<open>
  A number in decimal is read as itself if it fits 32 bits and refused otherwise; a number with a
  minus sign is not refused where \<open>unsigned long\<close> has 32 bits, but read as its negation modulo \<open>2 ^ 32\<close>.
\<close>

theorem unsigned_option_read:
  "parse_uint32 32 (dec n) = (if n < 2 ^ 32 then Some (of_nat n) else None) \<and>
   parse_uint32 64 (dec n) = (if n < 2 ^ 32 then Some (of_nat n) else None) \<and>
   parse_uint32 32 (CHR ''-'' # dec n) = (if n < 2 ^ 32 then Some (- of_nat n) else None) \<and>
   parse_uint32 64 (CHR ''-'' # dec n) = (if n = 0 \<or> 2 ^ 64 - 2 ^ 32 < n \<and> n < 2 ^ 64 then Some (- of_nat n) else None)"
proof -
  have ends: "\<not> is_space (hd (dec n))" "\<not> is_space (last (dec n))"
    using dec_set digit_not_special(10) by (metis dec_not_Nil hd_in_set, metis dec_not_Nil last_in_set)
  then have plain: "trim (dec n) = dec n" "trim (CHR ''-'' # dec n) = CHR ''-'' # dec n"
    by (simp_all add: trim_id is_space_def code_def)
  have c: "c_string (CHR ''-'' # dec n) = CHR ''-'' # dec n"
    using c_string_dec [of n] by (simp add: c_string_def)
  have minus: "scan_sign (dropWhile is_space (CHR ''-'' # dec n)) = (True, dec n)"
    by (simp add: scan_sign_def is_space_def code_def)
  have neg: "(of_nat (2 ^ ul - n) :: u32) = - of_nat n" if "n \<le> 2 ^ ul" "32 \<le> ul" for ul
    using that by (simp add: of_nat_diff)
  have "strtoul ul (dec n) = (if 2 ^ ul \<le> n then (2 ^ ul - 1, True, []) else (n, False, []))" for ul
    by (simp add: strtoul_def dec_digits)
  moreover have "strtoul ul (CHR ''-'' # dec n) = (if 2 ^ ul \<le> n then (2 ^ ul - 1, True, []) else ((2 ^ ul - n) mod 2 ^ ul, False, []))" for ul
    unfolding strtoul_def minus by (simp add: dec_digits)
  ultimately have
    "parse_uint32 ul (dec n) = (if 2 ^ ul \<le> n \<or> 0xFFFFFFFF < n then None else Some (of_nat n))"
    "parse_uint32 ul (CHR ''-'' # dec n) =
      (if 2 ^ ul \<le> n \<or> 0xFFFFFFFF < (2 ^ ul - n) mod 2 ^ ul then None else Some (of_nat ((2 ^ ul - n) mod 2 ^ ul)))" for ul
    by (simp_all add: parse_uint32_def plain c not_sym [OF dec_not_Nil])
  then show ?thesis
    using neg [of 32] neg [of 64] by (cases "n = 0") auto
qed

end
