(* ===== verification/Process.thy ===== *)
theory Process
  imports Session_Repository Opennds Uci_Plan
begin

text \<open>
  \<open>src/src/openwrt/process.cpp\<close>: running programs, replacing files, and the executor that the UCI and
  the openNDS reconcilers use.  Descriptors are those of \<open>Posix_Files\<close>; the calls on processes are the
  record \<open>process_calls\<close>: \<open>pc_fork\<close> takes what the child does, which ends with the exit code of the
  child, and \<open>pc_execvp\<close> gives the exit code of the program or \<open>None\<close> if it cannot be started.
  \<open>write_all_fd\<close> is the \<open>write_all\<close> of the state repository, of which it is a copy.
\<close>

section \<open>Calls on processes\<close>

datatype wait_status = Exited nat | Signaled nat | OtherStatus

record 'w process_calls =
  pc_pipe :: "'w \<Rightarrow> (nat \<times> nat) option \<times> 'w"
  pc_dup2 :: "nat \<Rightarrow> nat \<Rightarrow> 'w \<Rightarrow> bool \<times> 'w"
  pc_execvp :: "string list \<Rightarrow> 'w \<Rightarrow> nat option \<times> 'w"
  pc_fork :: "('w \<Rightarrow> nat \<times> 'w) \<Rightarrow> 'w \<Rightarrow> nat option \<times> 'w"
  pc_waitpid :: "nat \<Rightarrow> 'w \<Rightarrow> wait_status option \<times> 'w"
  pc_access :: "string \<Rightarrow> 'w \<Rightarrow> bool"
  pc_path :: "'w \<Rightarrow> string option"

record process_result =
  pr_ok :: bool
  pr_exit_code :: int
  pr_output :: string
  pr_error :: string

definition process_error :: "string \<Rightarrow> process_result" where
  "process_error error = \<lparr>pr_ok = False, pr_exit_code = - 1, pr_output = [], pr_error = error\<rparr>"

definition errno_text :: "'w posix \<Rightarrow> string \<Rightarrow> 'w \<Rightarrow> string" where
  "errno_text P prefix w = prefix @ '': '' @ px_strerror P (px_errno P w)"

definition valid_argument :: "string \<Rightarrow> bool" where
  "valid_argument v \<longleftrightarrow> CHR 0x00 \<notin> set v"

section \<open>Replacing a file\<close>

definition process_parent_directory :: "string \<Rightarrow> string" where
  "process_parent_directory path =
     (if CHR ''/'' \<notin> set path then ''.''
      else
        (let before = rev (tl (dropWhile (\<lambda>c. c \<noteq> CHR ''/'') (rev path)))
         in if before = [] then ''/'' else before))"

definition sync_directory :: "'w posix \<Rightarrow> string \<Rightarrow> 'w \<Rightarrow> 'w" where
  "sync_directory P directory w =
     (case px_open_read P directory w of
        (None, w) \<Rightarrow> w
      | (Some fd, w) \<Rightarrow> px_close P fd (snd (px_fsync P fd w)))"

definition write_file_atomically :: "'w posix \<Rightarrow> string \<Rightarrow> string \<Rightarrow> 'w \<Rightarrow> (process_result \<times> 'w) option" where
  "write_file_atomically P path content w =
     (if path = [] \<or> CHR 0x00 \<in> set path then Some (process_error ''write-file path is invalid'', w)
      else
        (let tmp_path = path @ ''.tmp''
         in case px_open_create P tmp_path w of
              (None, w) \<Rightarrow> Some (process_error (errno_text P ''open'' w), w)
            | (Some fd, w) \<Rightarrow>
                (case write_all P fd content w of
                   None \<Rightarrow> None
                 | Some (False, w) \<Rightarrow> Some (process_error (errno_text P ''write'' w), px_close P fd w)
                 | Some (True, w) \<Rightarrow>
                     (case px_fsync P fd w of
                        (False, w) \<Rightarrow> Some (process_error (errno_text P ''fsync'' w), px_close P fd w)
                      | (True, w) \<Rightarrow>
                          (case px_rename P tmp_path path (px_close P fd w) of
                             (False, w) \<Rightarrow> Some (process_error (errno_text P ''rename'' w), w)
                           | (True, w) \<Rightarrow>
                               Some (\<lparr>pr_ok = True, pr_exit_code = 0, pr_output = [], pr_error = []\<rparr>,
                                 sync_directory P (process_parent_directory path) w))))))"

section \<open>Running a program\<close>

partial_function (option) read_output ::
  "'w posix \<Rightarrow> nat \<Rightarrow> nat \<Rightarrow> string \<Rightarrow> 'w \<Rightarrow> ((string \<times> string) \<times> 'w) option" where
  "read_output P fd max_output_bytes output w =
     (case px_read P fd 4096 w of
        (None, w) \<Rightarrow>
          (if px_errno P w = EINTR then read_output P fd max_output_bytes output w
           else Some ((output, errno_text P ''read output'' w), w))
      | (Some bytes, w) \<Rightarrow>
          (if bytes = [] then Some ((output, []), w)
           else read_output P fd max_output_bytes (output @ take (max_output_bytes - length output) bytes) w))"

partial_function (option) wait_child ::
  "'w posix \<Rightarrow> 'w process_calls \<Rightarrow> nat \<Rightarrow> 'w \<Rightarrow> (wait_status option \<times> 'w) option" where
  "wait_child P C pid w =
     (case pc_waitpid C pid w of
        (Some status, w) \<Rightarrow> Some (Some status, w)
      | (None, w) \<Rightarrow> (if px_errno P w = EINTR then wait_child P C pid w else Some (None, w)))"

definition finished_process :: "string \<Rightarrow> string \<Rightarrow> wait_status \<Rightarrow> process_result" where
  "finished_process output error status =
    (let exit_code = (case status of Exited n \<Rightarrow> int n | Signaled n \<Rightarrow> 128 + int n | OtherStatus \<Rightarrow> - 1);
         ok = (case status of Exited n \<Rightarrow> n = 0 \<and> error = [] | _ \<Rightarrow> False)
     in \<lparr>pr_ok = ok, pr_exit_code = exit_code, pr_output = output,
         pr_error =
           (if \<not> ok \<and> error = []
            then (if output = [] then ''process exited with code '' @ dec_int exit_code else output)
            else error)\<rparr>)"

definition child_finished ::
  "'w posix \<Rightarrow> 'w process_calls \<Rightarrow> nat \<Rightarrow> nat \<Rightarrow> nat \<Rightarrow> 'w \<Rightarrow> (process_result \<times> 'w) option" where
  "child_finished P C pid output_read max_output_bytes w =
     (case read_output P output_read max_output_bytes [] w of
        None \<Rightarrow> None
      | Some ((output, error), w) \<Rightarrow>
          (case wait_child P C pid (px_close P output_read w) of
             None \<Rightarrow> None
           | Some (None, w) \<Rightarrow>
               Some (\<lparr>pr_ok = False, pr_exit_code = - 1, pr_output = output, pr_error = errno_text P ''waitpid'' w\<rparr>, w)
           | Some (Some status, w) \<Rightarrow> Some (finished_process output error status, w)))"

definition started_child ::
  "'w posix \<Rightarrow> 'w process_calls \<Rightarrow> string \<Rightarrow> nat \<Rightarrow> nat \<Rightarrow> nat \<Rightarrow> nat \<Rightarrow> 'w \<Rightarrow> (process_result \<times> 'w) option" where
  "started_child P C input max_output_bytes pid stdin_write output_read w =
     (case (if input = [] then Some (True, w) else write_all P stdin_write input w) of
        None \<Rightarrow> None
      | Some (False, w) \<Rightarrow>
          (let w = snd (pc_waitpid C pid (px_close P stdin_write w))
           in Some (process_error (errno_text P ''write stdin'' w), px_close P output_read w))
      | Some (True, w) \<Rightarrow> child_finished P C pid output_read max_output_bytes (px_close P stdin_write w))"

definition child_side ::
  "'w posix \<Rightarrow> 'w process_calls \<Rightarrow> string list \<Rightarrow> nat \<times> nat \<Rightarrow> nat \<times> nat \<Rightarrow> 'w \<Rightarrow> nat \<times> 'w" where
  "child_side P C command = (\<lambda>(stdin_read, stdin_write) (output_read, output_write) w.
     (case pc_dup2 C stdin_read 0 w of
        (False, w) \<Rightarrow> (126, w)
      | (True, w) \<Rightarrow>
          (case pc_dup2 C output_write 1 w of
             (False, w) \<Rightarrow> (126, w)
           | (True, w) \<Rightarrow>
               (case pc_dup2 C output_write 2 w of
                  (False, w) \<Rightarrow> (126, w)
                | (True, w) \<Rightarrow>
                    (case pc_execvp C command
                            (px_close P output_write (px_close P output_read
                              (px_close P stdin_write (px_close P stdin_read w)))) of
                       (None, w) \<Rightarrow> (127, w)
                     | (Some exit_code, w) \<Rightarrow> (exit_code, w))))))"

definition run_process ::
  "'w posix \<Rightarrow> 'w process_calls \<Rightarrow> string list \<Rightarrow> string \<Rightarrow> nat \<Rightarrow> 'w \<Rightarrow> (process_result \<times> 'w) option" where
  "run_process P C command input max_output_bytes w =
     (if command = [] \<or> hd command = [] then Some (process_error ''command is empty'', w)
      else if \<not> list_all valid_argument command
      then Some (process_error ''command argument contains NUL byte'', w)
      else
        (case pc_pipe C w of
           (None, w) \<Rightarrow> Some (process_error (errno_text P ''pipe'' w), w)
         | (Some (stdin_read, stdin_write), w) \<Rightarrow>
             (case pc_pipe C w of
                (None, w) \<Rightarrow>
                  Some (process_error (errno_text P ''pipe'' w), px_close P stdin_read (px_close P stdin_write w))
              | (Some (output_read, output_write), w) \<Rightarrow>
                  (case pc_fork C (child_side P C command (stdin_read, stdin_write) (output_read, output_write)) w of
                     (None, w) \<Rightarrow>
                       Some (process_error (errno_text P ''fork'' w),
                         px_close P stdin_read (px_close P stdin_write
                           (px_close P output_read (px_close P output_write w))))
                   | (Some pid, w) \<Rightarrow>
                       started_child P C input max_output_bytes pid stdin_write output_read
                         (px_close P output_write (px_close P stdin_read w))))))"

definition kMaxOutputBytes :: nat where "kMaxOutputBytes = 65536"

definition command_available :: "'w process_calls \<Rightarrow> string \<Rightarrow> 'w \<Rightarrow> bool" where
  "command_available C name w =
     (if name = [] \<or> CHR ''/'' \<in> set name \<or> CHR 0x00 \<in> set name then False
      else
        (let path = (case pc_path C w of
                       None \<Rightarrow> ''/sbin:/usr/sbin:/bin:/usr/bin''
                     | Some raw_path \<Rightarrow> (if raw_path = [] then ''/sbin:/usr/sbin:/bin:/usr/bin'' else raw_path))
         in list_ex (\<lambda>directory. pc_access C ((if directory = [] then ''.'' else directory) @ ''/'' @ name) w)
              (split_on CHR '':'' path)))"

section \<open>The executor\<close>

definition command_count :: "string \<Rightarrow> nat" where
  "command_count batch =
     length (filter (list_ex (\<lambda>ch. ch \<noteq> CHR '' '' \<and> ch \<noteq> CHR 0x09 \<and> ch \<noteq> CHR 0x0D)) (split_on CHR 0x0A batch))"

definition convert_process_result :: "process_result \<Rightarrow> command_result" where
  "convert_process_result result =
     \<lparr>cmd_ok = pr_ok result, cmd_exit_code = word_of_int (pr_exit_code result), cmd_output = pr_output result,
      cmd_error = pr_error result\<rparr>"

definition convert_uci_result :: "process_result \<Rightarrow> nat \<Rightarrow> uci_execution_result" where
  "convert_uci_result result commands =
     \<lparr>ue_ok = pr_ok result, ue_changed = pr_ok result \<and> 0 < commands,
      ue_error = (if pr_ok result then [] else if pr_error result = [] then pr_output result else pr_error result),
      ue_command_count = commands\<rparr>"

definition executor_apply_batch ::
  "'w posix \<Rightarrow> 'w process_calls \<Rightarrow> string \<Rightarrow> 'w \<Rightarrow> (uci_execution_result \<times> 'w) option" where
  "executor_apply_batch P C batch w =
    (let commands = command_count batch
     in if commands = 0 then Some (\<lparr>ue_ok = True, ue_changed = False, ue_error = [], ue_command_count = 0\<rparr>, w)
        else map_option (map_prod (\<lambda>r. convert_uci_result r commands) id)
               (run_process P C [''uci'', ''batch''] batch kMaxOutputBytes w))"

definition executor_reload_wifi ::
  "'w posix \<Rightarrow> 'w process_calls \<Rightarrow> 'w \<Rightarrow> (uci_execution_result \<times> 'w) option" where
  "executor_reload_wifi P C w =
     map_option (map_prod (\<lambda>r. convert_uci_result r 1) id) (run_process P C [''wifi'', ''reload''] [] kMaxOutputBytes w)"

definition executor_run ::
  "'w posix \<Rightarrow> 'w process_calls \<Rightarrow> string list \<Rightarrow> string \<Rightarrow> 'w \<Rightarrow> (command_result \<times> 'w) option" where
  "executor_run P C command input w =
     (if command \<noteq> [] \<and> hd command = ''write-file''
      then
        (if length command \<noteq> 2
         then Some (\<lparr>cmd_ok = False, cmd_exit_code = 2, cmd_output = [], cmd_error = ''write-file requires a path''\<rparr>, w)
         else map_option (map_prod convert_process_result id) (write_file_atomically P (command ! 1) input w))
      else map_option (map_prod convert_process_result id) (run_process P C command input kMaxOutputBytes w))"

section \<open>What the calls guarantee\<close>

context posix_files
begin

lemma sync_directory_contents: "contents (sync_directory P d u) = contents u"
proof -
  obtain fd u1 where opened: "px_open_read P d u = (fd, u1)" by fastforce
  then have "contents u1 = contents u" using open_read_ok open_read_failed by (cases fd) blast+
  moreover have "contents (snd (px_fsync P f u1)) = contents u1" for f
    using fsync_quiet by (cases "px_fsync P f u1") auto
  ultimately show ?thesis using opened by (auto simp: sync_directory_def close_quiet split: option.splits)
qed

lemma write_file_result:
  "\<exists>r w'. write_file_atomically P path content w = Some (r, w') \<and>
     (if pr_ok r then contents w' = (contents w)(path @ ''.tmp'' := None, path := Some content)
      else contents w' = (contents w)(path @ ''.tmp'' := contents w' (path @ ''.tmp'')))"
proof (cases "path = [] \<or> CHR 0x00 \<in> set path")
  case True
  then show ?thesis by (simp add: write_file_atomically_def process_error_def)
next
  case False
  let ?tmp = "path @ ''.tmp''"
  obtain fd w1 where create: "px_open_create P ?tmp w = (fd, w1)" by fastforce
  show ?thesis
  proof (cases fd)
    case None
    with create open_create_failed False show ?thesis by (simp add: write_file_atomically_def process_error_def)
  next
    case (Some n)
    with create open_create_ok have "contents w1 = (contents w)(?tmp := Some [])" "target w1 n = Some ?tmp" by auto
    with write_all_appends [of w1 n ?tmp "[]" content]
    obtain b w2 k where written: "write_all P n content w1 = Some (b, w2)"
      "contents w2 = (contents w)(?tmp := Some (take k content))" "b \<longrightarrow> length content \<le> k"
      by auto
    obtain s w3 where sync: "px_fsync P n w2 = (s, w3)" by fastforce
    obtain m w4 where rename: "px_rename P ?tmp path (px_close P n w3) = (m, w4)" by fastforce
    have closed: "contents (px_close P n w3) = (contents w)(?tmp := Some (take k content))"
      using fsync_quiet [OF sync] written(2) by (simp add: close_quiet)
    have result: "write_file_atomically P path content w =
        (if \<not> b then Some (process_error (errno_text P ''write'' w2), px_close P n w2)
         else if \<not> s then Some (process_error (errno_text P ''fsync'' w3), px_close P n w3)
         else if \<not> m then Some (process_error (errno_text P ''rename'' w4), w4)
         else Some (\<lparr>pr_ok = True, pr_exit_code = 0, pr_output = [], pr_error = []\<rparr>,
           sync_directory P (process_parent_directory path) w4))"
      using False create Some written(1) sync rename
      by (cases b; cases s; cases m) (simp_all add: write_file_atomically_def Let_def)
    have m: "if m then contents w4 = (contents (px_close P n w3))(?tmp := None, path := Some (take k content))
        else contents w4 = contents (px_close P n w3)"
    proof (cases m)
      case True
      from rename_ok [OF rename [unfolded eq_True [THEN iffD2, OF True]], of "take k content"] closed True show ?thesis by simp
    next
      case False
      from rename_failed [OF rename [unfolded eq_False [THEN iffD2, OF False]]] False show ?thesis by simp
    qed
    show ?thesis
    proof (cases "b \<and> s \<and> m")
      case True
      with m closed written(3) show ?thesis by (simp add: result sync_directory_contents)
    next
      case False
      then have "\<exists>r w'. write_file_atomically P path content w = Some (r, w') \<and> \<not> pr_ok r \<and>
          contents w' = (contents w)(?tmp := Some (take k content))"
        using m closed written(2) by (auto simp: result process_error_def close_quiet split: if_splits)
      then show ?thesis by (elim exE conjE) simp
    qed
  qed
qed

lemma read_output_result:
  assumes "remaining w fd = Some out" "length acc \<le> limit"
  shows "\<exists>k e w'. read_output P fd limit acc w = Some ((take limit (acc @ take k out), e), w') \<and>
    (e = [] \<longrightarrow> length out \<le> k)"
  using assms
proof (induction "(length out, patience w)" arbitrary: out w acc
    rule: wf_induct_rule [OF wf_lex_prod [OF wf_less_than wf_less_than]])
  case (1 out w acc)
  note IH = 1(1) and left = 1(2) and small = 1(3)
  obtain bytes w1 where call: "px_read P fd 4096 w = (bytes, w1)" by fastforce
  show ?case
  proof (cases bytes)
    case None
    with call left read_failed [of fd 4096 w w1 out]
    have rest: "remaining w1 fd = Some out" "px_errno P w1 = EINTR \<Longrightarrow> patience w1 < patience w" by auto
    show ?thesis
    proof (cases "px_errno P w1 = EINTR")
      case True
      with IH [of out w1 acc] rest small show ?thesis using call None by (subst read_output.simps) simp
    next
      case False
      then show ?thesis
        using call None small by (subst read_output.simps) (auto simp: errno_text_def intro!: exI [of _ 0])
    qed
  next
    case (Some b)
    have "(b = [] \<longleftrightarrow> out = []) \<and> (\<exists>r'. out = b @ r' \<and> remaining w1 fd = Some r')"
      using read_ok [OF call [unfolded Some] left] by simp
    then obtain out' where rest: "b = [] \<longleftrightarrow> out = []" "out = b @ out'" "remaining w1 fd = Some out'" by blast
    show ?thesis
    proof (cases "b = []")
      case True
      then show ?thesis
        using call Some small rest(1) by (subst read_output.simps) (auto intro!: exI [of _ 0])
    next
      case False
      let ?acc = "acc @ take (limit - length acc) b"
      have "length out' < length out" "length ?acc \<le> limit" using rest(2) False small by auto
      with IH [of out' w1 ?acc] rest(3)
      obtain k e w' where "read_output P fd limit ?acc w1 = Some ((take limit (?acc @ take k out'), e), w')"
        "e = [] \<longrightarrow> length out' \<le> k" by auto
      moreover have "take limit (?acc @ take k out') = take limit (acc @ take (length b + k) out)"
        using small by (simp add: rest(2) min_def)
      moreover have "length out' \<le> k \<Longrightarrow> length out \<le> length b + k" by (simp add: rest(2))
      ultimately show ?thesis
        using call Some False by (subst read_output.simps) (auto intro!: exI [of _ "length b + k"])
    qed
  qed
qed

end

section \<open>Properties\<close>

lemma wait_child_returns:
  assumes "\<And>u u'. pc_waitpid C pid u = (None, u') \<Longrightarrow> px_errno P u' = EINTR \<Longrightarrow> (patience u' :: nat) < patience u"
  shows "\<exists>status w'. wait_child P C pid w = Some (status, w')"
proof (induction "patience w" arbitrary: w rule: less_induct)
  case less
  obtain status w1 where call: "pc_waitpid C pid w = (status, w1)" by fastforce
  show ?case
  proof (cases "status = None \<and> px_errno P w1 = EINTR")
    case True
    with less [of w1] assms [of w w1] call show ?thesis by (subst wait_child.simps) simp
  next
    case False
    then show ?thesis using call by (subst wait_child.simps) (cases status; simp)
  qed
qed


text \<open>A program that has printed ten bytes, of which four are kept, after two interrupted calls.\<close>

definition sample_pipe :: memory_fs where
  "sample_pipe =
     \<lparr>mem_files = (\<lambda>_. None), mem_remaining = (\<lambda>_. Some ''0123456789''), mem_target = (\<lambda>_. None), mem_next_fd = 0,
      mem_errno = EIO, mem_script = [Refuse EINTR, Short 3]\<rparr>"

definition sample_processes :: "memory_fs process_calls" where
  "sample_processes =
     \<lparr>pc_pipe = (\<lambda>w. (Some (3, 4), w)), pc_dup2 = (\<lambda>_ _ w. (True, w)),
      pc_execvp = (\<lambda>_ w. (Some 0, w)), pc_fork = (\<lambda>_ w. (Some 7, w)), pc_waitpid = (\<lambda>_ w. (Some (Exited 0), w)),
      pc_access = (\<lambda>_ _. True), pc_path = (\<lambda>_. None)\<rparr>"


text \<open>
  The file of a \<open>write-file\<close> command is replaced as a whole or not at all, whatever calls fail, are
  interrupted or write only part, and the command always returns.
\<close>

theorem write_file_atomic:
  assumes "posix_files P contents remaining target patience"
  shows "case executor_run P C [''write-file'', path] content w of
     None \<Rightarrow> False
   | Some (r, w') \<Rightarrow>
       (if cmd_ok r then contents w' = (contents w)(path @ ''.tmp'' := None, path := Some content)
        else contents w' = (contents w)(path @ ''.tmp'' := contents w' (path @ ''.tmp'')))"
  using posix_files.write_file_result [OF assms, of path content w]
  by (elim exE conjE) (simp add: executor_run_def convert_process_result_def)

theorem write_file_atomic_witness:
  "\<exists>r w'. executor_run memory_posix sample_processes [''write-file'', ''f''] ''ab'' (sample_pipe\<lparr>mem_script := []\<rparr>) = Some (r, w') \<and>
     mem_files w' ''f'' = Some ''ab''"
proof -
  have "\<exists>r w'. executor_run memory_posix sample_processes [''write-file'', ''f''] ''ab'' (sample_pipe\<lparr>mem_script := []\<rparr>) = Some (r, w') \<and> cmd_ok r"
    by (simp add: executor_run_def write_file_atomically_def write_all.simps memory_calls sample_pipe_def Let_def
        convert_process_result_def)
  with write_file_atomic [OF memory.posix_files_axioms, where C = sample_processes and path = "''f''" and content = "''ab''"
      and w = "sample_pipe\<lparr>mem_script := []\<rparr>"]
  show ?thesis by auto
qed

end
