(* ===== verification/Daemon.thy ===== *)
theory Daemon
  imports Adoption Request_Handler Reconnect Discovery Tls_Transport Uci_Plan Opennds Inform_Provider
    Daemon_Config Process "HOL-Library.Monad_Syntax"
begin

text \<open>
  \<open>src/src/cli/main.cpp\<close>: the daemon.  What it calls and does not define is the record \<open>daemon_env\<close>: the
  clock, the sleep, the stop flag a signal may set between any two reads of it, standard error, the
  system calls under the state file and the UDP socket, the management transport with its \<open>connect\<close>
  and its destructor, and the executor of programs.  Everything else is the model of the component
  the code uses.  A function gives \<open>None\<close> where the code does not return.
\<close>

section \<open>The environment\<close>

datatype log_level = LogError | LogWarning | LogInfo | LogDebug

text \<open>\<open>de_nanosleep\<close> gives the time that is left if a signal woke the sleeper, and nothing otherwise.\<close>

record ('a, 'w) daemon_env =
  de_level :: log_level
  de_stop :: "'w \<Rightarrow> bool \<times> 'w"
  de_clock :: "'w \<Rightarrow> (int \<times> int) option \<times> 'w"
  de_nanosleep :: "nat \<times> nat \<Rightarrow> 'w \<Rightarrow> (nat \<times> nat) option \<times> 'w"
  de_stderr :: "string \<Rightarrow> 'w \<Rightarrow> 'w"
  de_backend :: "'w backend"
  de_posix :: "'w posix"
  de_udp :: "('a, 'w) udp_calls"
  de_connect :: "tls_client_options \<Rightarrow> 'w \<Rightarrow> transport_status \<times> 'w"
  de_transport :: "'w frame_transport"
  de_disconnect :: "'w \<Rightarrow> 'w"
  de_available :: "string \<Rightarrow> 'w \<Rightarrow> bool"
  de_run :: "'w command_run"
  de_uci :: "'w uci_executor"
  de_file :: "'w input_file"

abbreviation de_json :: "('a, 'w) daemon_env \<Rightarrow> jsonc" where
  "de_json E \<equiv> bk_json (de_backend E)"

section \<open>Logging, time and sleep\<close>

fun log_rank :: "log_level \<Rightarrow> nat" where
  "log_rank LogError = 0"
| "log_rank LogWarning = 1"
| "log_rank LogInfo = 2"
| "log_rank LogDebug = 3"

fun log_label :: "log_level \<Rightarrow> string" where
  "log_label LogError = ''error''"
| "log_label LogWarning = ''warning''"
| "log_label LogInfo = ''info''"
| "log_label LogDebug = ''debug''"

definition parse_log_level :: "string \<Rightarrow> log_level" where
  "parse_log_level raw =
    (let v = lowercase raw
     in if v = ''debug'' \<or> v = ''trace'' then LogDebug
        else if v = ''warn'' \<or> v = ''warning'' then LogWarning
        else if v = ''error'' then LogError else LogInfo)"

definition log_write :: "('a, 'w) daemon_env \<Rightarrow> log_level \<Rightarrow> string \<Rightarrow> 'w \<Rightarrow> 'w" where
  "log_write E level message w =
     (if log_rank level \<le> log_rank (de_level E)
      then de_stderr E (''openomada-agent-native['' @ log_label level @ '']: '' @ message @ [CHR 0x0A]) w
      else w)"

definition now_ms :: "('a, 'w) daemon_env \<Rightarrow> 'w \<Rightarrow> u64 \<times> 'w" where
  "now_ms E w =
     (case de_clock E w of
        (None, w) \<Rightarrow> (0, w)
      | (Some (tv_sec, tv_nsec), w) \<Rightarrow>
          (let seconds = (if tv_sec < 0 then 0 else word_of_int tv_sec);
               nanos = (if tv_nsec < 0 then 0 else word_of_int tv_nsec)
           in (seconds * 1000 + nanos div 1000000, w)))"

partial_function (option) sleep_rest :: "('a, 'w) daemon_env \<Rightarrow> nat \<times> nat \<Rightarrow> 'w \<Rightarrow> 'w option" where
  "sleep_rest E remaining w =
    (let (stopping, w) = de_stop E w
     in if stopping then Some w
        else
          (case de_nanosleep E remaining w of
             (None, w) \<Rightarrow> Some w
           | (Some rest, w) \<Rightarrow> sleep_rest E rest w))"

definition sleep_ms :: "('a, 'w) daemon_env \<Rightarrow> u32 \<Rightarrow> 'w \<Rightarrow> 'w option" where
  "sleep_ms E milliseconds w =
     sleep_rest E (unat milliseconds div 1000, unat milliseconds mod 1000 * 1000000) w"

definition host_port :: "string \<Rightarrow> u16 \<Rightarrow> string" where
  "host_port host port = host @ '':'' @ to_string_u port"

section \<open>What the platform can do\<close>

definition support_guard :: "bool \<Rightarrow> 'w applier" where
  "support_guard portal_supported update w =
    (let refused = (\<lambda>message. \<lparr>apply_ok = False, apply_changed = False, apply_error = message\<rparr>)
     in if led update \<noteq> None \<or> wifi_control_led update \<noteq> None
        then (refused ''LED configuration is parsed but has no native OpenWrt backend yet'', w)
        else if client_operations update \<noteq> []
        then (refused ''clientOperation is parsed but has no native OpenWrt backend yet'', w)
        else if client_rate_config update \<noteq> None
        then (refused ''clientRateConfig is parsed but has no native OpenWrt backend yet'', w)
        else if \<not> portal_supported \<and>
          (portal_free_policy update \<noteq> None \<or> portal_configs update \<noteq> [] \<or> client_configs update \<noteq> [])
        then (refused ''portal configuration requires enabled openNDS capability'', w)
        else (\<lparr>apply_ok = True, apply_changed = False, apply_error = []\<rparr>, w))"

definition runtime_tools :: "('a, 'w) daemon_env \<Rightarrow> 'w \<Rightarrow> tool_availability" where
  "runtime_tools E w =
     \<lparr>tool_uci = de_available E ''uci'' w, tool_ubus = de_available E ''ubus'' w, tool_nft = de_available E ''nft'' w,
      tool_hostapd = de_available E ''hostapd'' w, tool_dnsmasq = de_available E ''dnsmasq'' w,
      tool_opennds = de_available E ''opennds'' w, tool_ndsctl = de_available E ''ndsctl'' w,
      tool_iw = de_available E ''iw'' w\<rparr>"

definition detect_runtime_capabilities ::
  "('a, 'w) daemon_env \<Rightarrow> daemon_config \<Rightarrow> 'w \<Rightarrow> platform_capabilities \<times> 'w" where
  "detect_runtime_capabilities E config w =
    (let ow = dc_openwrt config; tools = runtime_tools E w;
         (iw_list, w) =
           (if tool_iw tools
            then
              (let (iw, w) = de_run E [''iw'', ''list''] [] w
               in if cmd_ok iw then (cmd_output iw, w)
                  else ([], log_write E LogDebug (''could not read iw list: '' @ cmd_error iw) w))
            else ([], w));
         result = detect_platform_capabilities
           (default_platform_input
              \<lparr>pi_platform := ow_platform ow, pi_radio_bands := ow_radio_bands ow, pi_max_ssids := ow_max_ssids ow,
               pi_tools := tools, pi_iw_list_output := iw_list, cap_ssid_vlan := Some (tool_uci tools),
               cap_management_vlan :=
                 Some (tool_uci tools \<and> ow_management_vlan_interface ow \<noteq> [] \<and> ow_management_vlan_device ow \<noteq> []),
               cap_portal :=
                 Some (ow_portal_enabled ow \<and> lowercase (ow_portal_engine ow) = ''opennds'' \<and>
                   tool_opennds tools \<and> tool_ndsctl tools),
               cap_client_operations := Some False, cap_client_rate_limits := Some False, cap_led := Some False\<rparr>)
     in if \<not> cr_ok result
        then (default_capabilities,
          log_write E LogWarning (''capability detection failed: '' @ cr_error result @
            ''; using generic disabled capabilities'') w)
        else (cr_capabilities result, w))"

section \<open>A session\<close>

record live_session =
  se_settings :: agent_settings
  se_state :: managed_state
  se_adoption :: adoption_result

record live_session_result =
  lr_session :: "live_session option"
  lr_error :: string

definition no_session :: "string \<Rightarrow> live_session_result" where
  "no_session error = \<lparr>lr_session = None, lr_error = error\<rparr>"

definition connect_and_sync ::
  "('a, 'w) daemon_env \<Rightarrow> agent_settings \<Rightarrow> u16 \<Rightarrow> string \<Rightarrow> 'w adoption_options \<Rightarrow> 'w \<Rightarrow>
   live_session_result \<times> 'w" where
  "connect_and_sync E s port controller adoption_options w =
     (if controller = [] then (no_session ''controller id is empty'', w)
      else
        (let s = s\<lparr>controller_id := controller, manage_port := port\<rparr>;
             w = log_write E LogInfo (''connecting management TLS '' @ host_port (controller_host s) port) w;
             (connected, w) = de_connect E
               \<lparr>tls_host = controller_host s, tls_port = port, tls_timeout_seconds = tcp_timeout_seconds s,
                tls_verify_peer = tls_verify s, tls_ca = tls_ca_file s\<rparr> w
         in if \<not> ts_ok connected then (no_session (ts_error connected), de_disconnect E w)
            else
              (let (t, w) = (if opt_timestamp_ms adoption_options = 0 then now_ms E w
                             else (opt_timestamp_ms adoption_options, w));
                   (adoption, w) = run_v2_initial_sync (de_backend E) (de_transport E) s (make_profile s) controller
                     (adoption_options\<lparr>opt_timestamp_ms := t\<rparr>) w
               in if \<not> ar_ok adoption \<or> \<not> initial_sync_complete adoption
                  then (no_session (adoption_error_to_string (ar_error adoption) @
                          (if ar_detail adoption \<noteq> [] then '': '' @ ar_detail adoption else [])), de_disconnect E w)
                  else
                    (let (updated, w) = now_ms E w
                     in (\<lparr>lr_session = Some
                            \<lparr>se_settings = s, se_state = managed_state_from_adoption s port adoption updated,
                             se_adoption = adoption\<rparr>, lr_error = []\<rparr>, w)))))"

definition save_state ::
  "('a, 'w) daemon_env \<Rightarrow> json_repository \<Rightarrow> managed_state \<Rightarrow> 'w \<Rightarrow> 'w option" where
  "save_state E repository state w = do {
     (saved, w) \<leftarrow> repository_save (de_posix E) repository state w;
     Some (if \<not> rs_ok saved
           then log_write E LogWarning (''could not persist managed state: '' @ rs_error saved) w else w)
   }"

definition closed_udp :: "'w \<Rightarrow> 'w udp_object" where
  "closed_udp w = \<lparr>udp_socket = None, udp_timeout_seconds = 1, udp_world = w\<rparr>"

definition send_managed_rediscovery ::
  "('a, 'w) daemon_env \<Rightarrow> agent_settings \<Rightarrow> managed_state \<Rightarrow> 'w \<Rightarrow> 'w" where
  "send_managed_rediscovery E s state w =
    (let s = settings_for_managed_state s state;
         (opened, udp) = udp_open (de_udp E) \<lparr>uo_local_port = local_discovery_port s, uo_timeout_seconds = 1\<rparr> (closed_udp w)
     in if \<not> ts_ok opened
        then udp_world (udp_close (de_udp E)
          (udp\<lparr>udp_world := log_write E LogWarning (''managed rediscovery UDP open failed: '' @ ts_error opened) (udp_world udp)\<rparr>))
        else
          (let (t, w) = now_ms E (udp_world udp);
               (sent, udp) = send_discovery_once (de_udp E)
                 \<lparr>ep_host = ms_controller_host state, ep_port = discovery_port s\<rparr> s (make_profile s) 1 True t
                 (udp\<lparr>udp_world := w\<rparr>);
               w = (if \<not> ts_ok sent
                    then log_write E LogWarning (''managed rediscovery send failed: '' @ ts_error sent) (udp_world udp)
                    else log_write E LogInfo (''managed rediscovery sent to '' @
                      host_port (ms_controller_host state) (discovery_port s)) (udp_world udp))
           in udp_world (udp_close (de_udp E) (udp\<lparr>udp_world := w\<rparr>))))"

text \<open>The attempts that are left, counted down, and the number of the next one.\<close>

fun reconnect_attempts ::
  "('a, 'w) daemon_env \<Rightarrow> agent_settings \<Rightarrow> managed_state \<Rightarrow> nat \<Rightarrow> nat \<Rightarrow> live_session_result \<Rightarrow> 'w \<Rightarrow>
   (live_session_result \<times> 'w) option" where
  "reconnect_attempts E s state number 0 result w = Some (result, w)"
| "reconnect_attempts E s state number (Suc remaining) result w =
    (let (stopping, w) = de_stop E w
     in if stopping then Some (result, w)
        else
          (let w = log_write E LogInfo (''managed reconnect attempt '' @ dec (number + 1) @ ''/'' @
                 to_string_u (managed_reconnect_attempts s)) w;
               (session, w) = connect_and_sync E (settings_for_managed_state s state) (ms_manage_port state)
                 (ms_controller_id state) (adoption_options_for_managed_state state) w
           in if lr_session session \<noteq> None
              then Some (session, log_write E LogInfo ''managed reconnect succeeded'' w)
              else
                (case sleep_ms E (reconnect_delay_ms s)
                        (log_write E LogWarning (''managed reconnect failed: '' @ lr_error session) w) of
                   None \<Rightarrow> None
                 | Some w \<Rightarrow>
                     reconnect_attempts E s state (number + 1) remaining (result\<lparr>lr_error := lr_error session\<rparr>) w)))"

definition try_managed_reconnect ::
  "('a, 'w) daemon_env \<Rightarrow> json_repository \<Rightarrow> agent_settings \<Rightarrow> 'w \<Rightarrow> (live_session_result \<times> 'w) option" where
  "try_managed_reconnect E repository s w = do {
     (loaded, w) \<leftarrow> repository_load (de_posix E) (de_json E) repository w;
     if \<not> ls_ok loaded
     then Some (no_session (ls_error loaded), log_write E LogWarning (''managed state load failed: '' @ ls_error loaded) w)
     else if \<not> ls_found loaded
     then Some (no_session ''no managed state'',
       if ls_error loaded \<noteq> [] then log_write E LogDebug (''managed state ignored: '' @ ls_error loaded) w else w)
     else do {
       (result, w) \<leftarrow> reconnect_attempts E s (ls_state loaded) 0 (unat (managed_reconnect_attempts s)) (no_session []) w;
       if lr_session result \<noteq> None then Some (result, w)
       else
         (let (stopping, w) = de_stop E w
          in Some (result, if stopping then w else send_managed_rediscovery E s (ls_state loaded) w))
     }
   }"

section \<open>Discovery and adoption\<close>

text \<open>
  The inner loop: datagrams are read until one is an offer that was tried, or none comes in time; the
  answer is the session, or the error of the attempt if one was made.
\<close>

partial_function (option) await_offer ::
  "('a, 'w) daemon_env \<Rightarrow> agent_settings \<Rightarrow> live_session_result \<Rightarrow> 'w udp_object \<Rightarrow>
   (live_session_result \<times> 'w udp_object) option" where
  "await_offer E s result udp =
    (let (stopping, w) = de_stop E (udp_world udp); udp = udp\<lparr>udp_world := w\<rparr>;
         again = (\<lambda>level message udp. udp\<lparr>udp_world := log_write E level message (udp_world udp)\<rparr>)
     in if stopping then Some (result, udp)
        else
          (let (received, udp) = udp_receive_payload (de_udp E) udp
           in if \<not> rr_ok received
              then Some (result,
                if rr_timeout received then again LogDebug ''discovery receive timeout'' udp
                else again LogWarning (''discovery receive failed: '' @ rr_error received) udp)
              else
                (let offer = parse_pre_adopt_request (de_json E) (rr_payload received) (controller_id s) (manage_port s)
                 in if \<not> pa_ok offer
                    then await_offer E s result (again LogDebug (''ignored malformed discovery response: '' @ pa_error offer) udp)
                    else if \<not> pa_is_pre_adopt offer
                    then await_offer E s result (again LogDebug ''ignored non PRE_ADOPT discovery response'' udp)
                    else if pa_controller_id offer = []
                    then await_offer E s result
                      (again LogWarning ''PRE_ADOPT_REQUEST did not include a usable controller id'' udp)
                    else
                      (let (session, w) = connect_and_sync E
                             (s\<lparr>controller_id := pa_controller_id offer, destination_controller_id := pa_destination_id offer\<rparr>)
                             (pa_adopt_port offer) (pa_controller_id offer)
                             \<lparr>managed_reconnect = False, known_config_version = None, random_system_key = None,
                              opt_timestamp_ms = 0\<rparr> (udp_world udp);
                           udp = udp\<lparr>udp_world := w\<rparr>
                       in if lr_session session \<noteq> None
                          then Some (session, again LogInfo ''adoption and initial sync completed'' udp)
                          else Some (result\<lparr>lr_error := lr_error session\<rparr>,
                            again LogWarning (''adoption failed: '' @ lr_error session) udp)))))"

definition sleep_udp :: "('a, 'w) daemon_env \<Rightarrow> u32 \<Rightarrow> 'w udp_object \<Rightarrow> 'w udp_object option" where
  "sleep_udp E milliseconds udp =
     map_option (\<lambda>w. udp\<lparr>udp_world := w\<rparr>) (sleep_ms E milliseconds (udp_world udp))"

partial_function (option) announce_until_adopted ::
  "('a, 'w) daemon_env \<Rightarrow> agent_settings \<Rightarrow> bool \<Rightarrow> u32 \<Rightarrow> live_session_result \<Rightarrow> 'w udp_object \<Rightarrow>
   (live_session_result \<times> 'w udp_object) option" where
  "announce_until_adopted E s announced seq result udp =
    (let (stopping, w) = de_stop E (udp_world udp)
     in if stopping then Some (result, udp\<lparr>udp_world := w\<rparr>)
        else
          (let w = (if \<not> announced
                    then log_write E LogInfo (''discovering controller at '' @
                      host_port (controller_host s) (discovery_port s)) w else w);
               (t, w) = now_ms E w;
               (sent, udp) = send_discovery_once (de_udp E)
                 \<lparr>ep_host = controller_host s, ep_port = discovery_port s\<rparr> s (make_profile s) seq False t
                 (udp\<lparr>udp_world := w\<rparr>)
           in if \<not> ts_ok sent
              then do {
                udp \<leftarrow> sleep_udp E (reconnect_delay_ms s)
                  (udp\<lparr>udp_world := log_write E LogWarning (''discovery send failed: '' @ ts_error sent) (udp_world udp)\<rparr>);
                announce_until_adopted E s True (seq + 1) (result\<lparr>lr_error := ts_error sent\<rparr>) udp
              }
              else do {
                (result, udp) \<leftarrow> await_offer E s result udp;
                if lr_session result \<noteq> None then Some (result, udp)
                else do {
                  udp \<leftarrow> sleep_udp E (reconnect_delay_ms s) udp;
                  announce_until_adopted E s True (seq + 1) result udp
                }
              }))"

definition discover_and_adopt ::
  "('a, 'w) daemon_env \<Rightarrow> agent_settings \<Rightarrow> 'w \<Rightarrow> (live_session_result \<times> 'w) option" where
  "discover_and_adopt E s w =
    (let (opened, udp) =
           udp_open (de_udp E) \<lparr>uo_local_port = local_discovery_port s, uo_timeout_seconds = 2\<rparr> (closed_udp w)
     in if \<not> ts_ok opened then Some (no_session (ts_error opened), udp_world (udp_close (de_udp E) udp))
        else do {
          (result, udp) \<leftarrow> announce_until_adopted E s False 1 (no_session []) udp;
          Some (if lr_session result = None \<and> lr_error result = [] then no_session ''stopped'' else result,
            udp_world (udp_close (de_udp E) udp))
        })"

section \<open>The managed session\<close>

datatype loop_outcome = LoopStopped | LoopReconnect

text \<open>
  One round of the loop: over with an outcome, or on with the session and the schedule it leaves.
\<close>

definition report_round ::
  "('a, 'w) daemon_env \<Rightarrow> 'w inform_provider \<Rightarrow> live_session \<Rightarrow> inform_scheduler \<Rightarrow> 'w \<Rightarrow>
   (bool \<times> inform_scheduler) \<times> 'w" where
  "report_round E provider session scheduler w =
    (let (now, w) = now_ms E w; (scheduled, scheduler) = scheduler_poll now scheduler
     in if \<not> si_due scheduled then ((True, scheduler), w)
        else
          (let (t, w) = now_ms E w;
               (sent, w) = send_inform (de_transport E) (se_settings session) (make_profile (se_settings session)) provider
                 (ms_controller_id (se_state session)) scheduled t w
           in if \<not> ts_ok sent
              then ((False, scheduler), log_write E LogWarning (''INFORM_REQUEST send failed: '' @ ts_error sent) w)
              else ((True, scheduler),
                log_write E LogDebug (''sent INFORM_REQUEST seq='' @ to_string_u (si_seq scheduled) @ '' needReply='' @
                  (if si_need_reply scheduled then ''1'' else ''0'')) w)))"

definition after_request ::
  "('a, 'w) daemon_env \<Rightarrow> json_repository \<Rightarrow> managed_request_result \<Rightarrow> live_session \<Rightarrow> 'w \<Rightarrow>
   (bool \<times> live_session \<times> 'w) option" where
  "after_request E repository result session w =
     (if \<not> mr_ok result
      then Some (True, session, log_write E LogWarning (''managed request failed: '' @ mr_error result) w)
      else
        (let w = (if mr_action result \<noteq> Ignored
                  then log_write E LogInfo (''managed action: '' @ request_action_to_string (mr_action result)) w else w);
             w = (if mr_error result \<noteq> []
                  then log_write E LogWarning (''managed action detail: '' @ mr_error result) w else w)
         in do {
              (session, w) \<leftarrow>
                (if mr_action result = SetResponseAction \<and> (mr_config_version result \<noteq> None \<or> mr_sequence_id result \<noteq> None)
                 then
                   (let (t, w) = now_ms E w; session = session\<lparr>se_state := (se_state session)\<lparr>ms_updated_at := t\<rparr>\<rparr>
                    in map_option (Pair session) (save_state E repository (se_state session) w))
                 else Some (session, w));
              let (cleared, w) =
                (if mr_should_clear_state result then repository_clear (de_posix E) repository w else (True, w));
              let w = (if \<not> cleared then log_write E LogWarning ''managed state clear failed'' w else w);
              Some (\<not> mr_should_end_session result, session,
                if mr_should_end_session result
                then log_write E LogInfo ''managed session ended by controller request'' w else w)
            }))"

definition managed_round ::
  "('a, 'w) daemon_env \<Rightarrow> json_repository \<Rightarrow> 'w applier \<Rightarrow> 'w inform_provider \<Rightarrow> live_session \<times> inform_scheduler \<Rightarrow> 'w \<Rightarrow>
   ((loop_outcome option \<times> live_session \<times> inform_scheduler) \<times> 'w) option" where
  "managed_round E repository applier provider = (\<lambda>(session, scheduler) w.
    (let (stopping, w) = de_stop E w
     in if stopping then Some ((Some LoopStopped, session, scheduler), w)
        else
          (let ((reported, scheduler), w) = report_round E provider session scheduler w
           in if \<not> reported then Some ((Some LoopReconnect, session, scheduler), w)
              else
                (let (received, w) = tp_receive (de_transport E) w
                 in if \<not> rr_ok received
                    then Some
                      (if rr_timeout received then ((None, session, scheduler), w)
                       else ((Some LoopReconnect, session, scheduler),
                         log_write E LogWarning (''managed receive failed: '' @ rr_error received) w))
                    else
                      (let (t, w) = now_ms E w;
                           ((result, state), w) = handle_managed_request (de_json E) (de_transport E) (se_settings session)
                             (Some (se_state session)) (rr_payload received) (Some applier) t w;
                           session = session\<lparr>se_state := (case state of Some st \<Rightarrow> st | None \<Rightarrow> se_state session)\<rparr>
                       in do {
                            (continue, session, w) \<leftarrow> after_request E repository result session w;
                            Some ((if continue then None else Some LoopReconnect, session, scheduler), w)
                          })))))"

partial_function (option) managed_rounds ::
  "('a, 'w) daemon_env \<Rightarrow> json_repository \<Rightarrow> 'w applier \<Rightarrow> 'w inform_provider \<Rightarrow> live_session \<times> inform_scheduler \<Rightarrow> 'w \<Rightarrow>
   (loop_outcome \<times> 'w) option" where
  "managed_rounds E repository applier provider current w = do {
     ((outcome, current), w) \<leftarrow> managed_round E repository applier provider current w;
     (case outcome of
        None \<Rightarrow> managed_rounds E repository applier provider current w
      | Some result \<Rightarrow> Some (result, w))
   }"

definition run_managed_loop ::
  "('a, 'w) daemon_env \<Rightarrow> live_session \<Rightarrow> json_repository \<Rightarrow> 'w applier \<Rightarrow> 'w inform_provider \<Rightarrow> 'w \<Rightarrow>
   (loop_outcome \<times> 'w) option" where
  "run_managed_loop E session repository applier provider w =
    (let (t, w) = now_ms E w;
         scheduler = scheduler_start (last_seq (se_adoption session)) t
           (make_scheduler (inform_interval_ms (se_settings session)))
     in managed_rounds E repository applier provider (session, scheduler) (log_write E LogInfo ''entered managed session'' w))"

section \<open>The daemon\<close>

definition daemon_appliers ::
  "('a, 'w) daemon_env \<Rightarrow> platform_capabilities \<Rightarrow> daemon_config \<Rightarrow> 'w applier" where
  "daemon_appliers E c config =
    (let ow = dc_openwrt config; s = dc_settings config;
         uci_options = \<lparr>management_vlan_interface = ow_management_vlan_interface ow,
                        management_vlan_device = ow_management_vlan_device ow\<rparr>;
         nds_options = \<lparr>no_controller_host = controller_host s, no_device_mac = mac s, no_site_id = site_id s,
                        no_site_name = [], no_flush_conntrack_on_deauth = ow_flush_conntrack_on_deauth ow\<rparr>;
         appliers = add (uci_apply c (de_uci E) uci_options) (add (support_guard (supports_portal c)) []);
         appliers = (if supports_portal c
                     then add (portal_apply (de_json E) c (de_run E) nds_options) appliers else appliers)
     in composite_apply appliers)"

definition daemon_provider :: "('a, 'w) daemon_env \<Rightarrow> platform_capabilities \<Rightarrow> 'w inform_provider" where
  "daemon_provider E c =
     (if tool_ubus (pcap_tools c)
      then platform_inform_build (de_json E) (de_run E) (de_file E)
        (default_provider_options\<lparr>include_opennds := supports_portal c\<rparr>)
      else static_inform_build default_lan)"

partial_function (option) daemon_loop ::
  "('a, 'w) daemon_env \<Rightarrow> json_repository \<Rightarrow> agent_settings \<Rightarrow> bool \<Rightarrow> 'w applier \<Rightarrow> 'w inform_provider \<Rightarrow> 'w \<Rightarrow> 'w option" where
  "daemon_loop E repository s once applier provider w =
    (let (stopping, w) = de_stop E w
     in if stopping then Some (log_write E LogInfo ''stopped'' w)
        else do {
          (session, w) \<leftarrow> try_managed_reconnect E repository s w;
          (session, w) \<leftarrow>
            (if lr_session session \<noteq> None then Some (session, w)
             else
               (let (stopping, w) = de_stop E w
                in if stopping then Some (session, w) else discover_and_adopt E s w));
          (case lr_session session of
             None \<Rightarrow>
               (let (stopping, w) = de_stop E w
                in if stopping then Some (log_write E LogInfo ''stopped'' w)
                   else do {
                     w \<leftarrow> sleep_ms E (reconnect_delay_ms s)
                       (log_write E LogWarning (''could not establish managed session: '' @ lr_error session) w);
                     daemon_loop E repository s once applier provider w
                   })
           | Some live \<Rightarrow> do {
               w \<leftarrow> save_state E repository (se_state live) w;
               if once
               then Some (de_disconnect E (log_write E LogInfo ''--once requested; exiting after initial sync'' w))
               else do {
                 (outcome, w) \<leftarrow> run_managed_loop E live repository applier provider w;
                 if outcome = LoopStopped then Some (log_write E LogInfo ''stopped'' (de_disconnect E w))
                 else
                   (let (stopping, w) = de_stop E w
                    in do {
                      w \<leftarrow> (if stopping then Some w else sleep_ms E (reconnect_delay_ms s) w);
                      daemon_loop E repository s once applier provider (de_disconnect E w)
                    })
               }
             })
        })"

definition run_daemon ::
  "('a, 'w) daemon_env \<Rightarrow> runtime_options \<Rightarrow> daemon_config \<Rightarrow> 'w \<Rightarrow> (nat \<times> 'w) option" where
  "run_daemon E0 options config w =
    (let E = E0\<lparr>de_level := parse_log_level (dc_log_level config)\<rparr>; s = dc_settings config
     in if \<not> dc_enabled config
        then Some (0, log_write E LogInfo (''agent disabled by config: '' @ ro_config_path options) w)
        else
          (let w = log_write E LogInfo (''config: '' @ daemon_config_summary config) w;
               (c, w) = detect_runtime_capabilities E config w;
               w = log_write E LogInfo (''capabilities: '' @ capability_summary c) w
           in if ro_dry_run options
              then Some (0, log_write E LogInfo
                ''dry-run requested; no discovery or management connection will be opened'' w)
              else map_option (Pair 0)
                (daemon_loop E
                   \<lparr>repo_path = state_file s, repo_device_mac = mac s, repo_controller_host = controller_host s\<rparr>
                   s (ro_once options) (daemon_appliers E c config) (daemon_provider E c) w)))"

section \<open>The program\<close>

definition kEnvironmentNames :: "string list" where
  "kEnvironmentNames =
     [''OPENOMADA_CONFIG'', ''OPENOMADA_ENABLED'', ''OPENOMADA_CONTROLLER_HOST'', ''OPENOMADA_CONTROLLER_ID'',
      ''OPENOMADA_SITE_ID'', ''OPENOMADA_DEVICE_USERNAME'', ''OPENOMADA_DEVICE_PASSWORD'',
      ''OPENOMADA_DEVICE_ACCOUNT_PASSWORD'', ''OPENOMADA_STATE_PATH'', ''OPENOMADA_LOG_LEVEL'', ''OPENOMADA_PLATFORM'',
      ''OPENOMADA_RADIO_BANDS'', ''OPENOMADA_PROTOCOL_TRACE'', ''OPENOMADA_INFORM_INTERVAL_MS'',
      ''OPENOMADA_TCP_TIMEOUT_SECONDS'', ''OPENOMADA_RECONNECT_DELAY_MS'', ''OPENOMADA_MANAGED_RECONNECT_ATTEMPTS'',
      ''OPENOMADA_MAX_SSIDS'', ''OPENOMADA_DISCOVERY_PORT'', ''OPENOMADA_LOCAL_DISCOVERY_PORT'', ''OPENOMADA_MANAGE_PORT'',
      ''OPENOMADA_TLS_VERIFY'', ''OPENOMADA_TLS_CA_FILE'', ''OPENOMADA_DEVICE_NAME'', ''OPENOMADA_MODEL'',
      ''OPENOMADA_MODEL_VERSION'', ''OPENOMADA_HARDWARE_VERSION'', ''OPENOMADA_FIRMWARE_VERSION'', ''OPENOMADA_DEVICE_IP'',
      ''OPENOMADA_CUSTOMIZE_REGION'', ''OPENOMADA_DEVICE_MAC'', ''OPENOMADA_MANAGEMENT_VLAN_INTERFACE'',
      ''OPENOMADA_MANAGEMENT_VLAN_DEVICE'', ''OPENOMADA_PORTAL_ENGINE'', ''OPENOMADA_PORTAL_ENABLED'',
      ''OPENOMADA_FLUSH_CONNTRACK_ON_DEAUTH'', ''OPENOMADA_DESTINATION_CONTROLLER_ID'']"

definition collect_environment :: "(string \<Rightarrow> string option) \<Rightarrow> environment" where
  "collect_environment getenv =
     List.map_filter (\<lambda>name. map_option (Pair name) (getenv name)) kEnvironmentNames"

definition apply_environment_config_path :: "(string \<Rightarrow> string option) \<Rightarrow> runtime_options \<Rightarrow> runtime_options" where
  "apply_environment_config_path getenv options =
     (case getenv ''OPENOMADA_CONFIG'' of
        None \<Rightarrow> options
      | Some path \<Rightarrow>
          (if path \<noteq> [] \<and> ro_config_path options = ''/etc/config/openomada''
           then options\<lparr>ro_config_path := path\<rparr> else options))"

text \<open>What the program does with its arguments: an early exit, with its code and what it prints, or the daemon.\<close>

datatype program_plan =
    PrintError string nat | PrintHelp | PrintVersion | PrintSummary string | RunDaemon runtime_options daemon_config

definition main_plan ::
  "nat \<Rightarrow> 'w config_file \<Rightarrow> (string \<Rightarrow> string option) \<Rightarrow> string list \<Rightarrow> 'w \<Rightarrow> program_plan" where
  "main_plan ul file getenv args w =
    (let parsed_options = parse_runtime_options args
     in if \<not> or_ok parsed_options then PrintError (or_error parsed_options) 2
        else if or_show_help parsed_options then PrintHelp
        else if or_show_version parsed_options then PrintVersion
        else
          (let options = apply_environment_config_path getenv (or_options parsed_options);
               loaded = load_daemon_config_file ul file options (collect_environment getenv) w
           in if \<not> lc_ok loaded then PrintError (lc_error loaded) 1
              else if ro_check_config options then PrintSummary (daemon_config_summary (lc_config loaded))
              else RunDaemon options (lc_config loaded)))"

end
