(* ===== verification/Daemon_Safety.thy ===== *)
theory Daemon_Safety
  imports Daemon
begin

text \<open>
  Lemmas on the daemon of \<open>Daemon\<close>: where its sessions come from, what it refuses on behalf of the
  platform, what the rounds of a managed session keep, and, under the contract \<open>state_keeper\<close>, that its
  calls return and what happens to the state file.  The properties they give are in \<open>Spec2Isabelle\<close>.
\<close>

section \<open>Where sessions come from\<close>

text \<open>
  The settings of a session differ from those of the configuration at most in the controller, the port
  and what the saved state adds; and a session is only made by a completed handshake.
\<close>

definition same_agent :: "agent_settings \<Rightarrow> agent_settings \<Rightarrow> bool" where
  "same_agent s s' \<longleftrightarrow>
     controller_host s' = controller_host s \<and> mac s' = mac s \<and> device_password s' = device_password s \<and>
     tls_verify s' = tls_verify s \<and> tls_ca_file s' = tls_ca_file s \<and> tcp_timeout_seconds s' = tcp_timeout_seconds s"

definition adopted :: "agent_settings \<Rightarrow> live_session \<Rightarrow> bool" where
  "adopted s l \<longleftrightarrow>
     same_agent s (se_settings l) \<and> controller_id (se_settings l) \<noteq> [] \<and>
     ar_ok (se_adoption l) \<and> initial_sync_complete (se_adoption l) \<and>
     ar_controller_id (se_adoption l) = controller_id (se_settings l) \<and>
     (\<exists>t. se_state l = managed_state_from_adoption (se_settings l) (manage_port (se_settings l)) (se_adoption l) t)"

definition session_adopted :: "agent_settings \<Rightarrow> live_session_result \<Rightarrow> bool" where
  "session_adopted s r \<longleftrightarrow> (case lr_session r of None \<Rightarrow> True | Some l \<Rightarrow> adopted s l)"

lemma session_adopted_simps [simp]:
  "session_adopted s (no_session e)" "session_adopted s (r\<lparr>lr_error := e\<rparr>) \<longleftrightarrow> session_adopted s r"
  "lr_session r = None \<Longrightarrow> session_adopted s r"
  by (auto simp: session_adopted_def no_session_def)

lemma connect_and_sync_adopted:
  "connect_and_sync E s' port c opts w = (r, w') \<Longrightarrow> same_agent s s' \<Longrightarrow> session_adopted s r"
  by (auto simp: connect_and_sync_def session_adopted_def adopted_def same_agent_def no_session_def Let_def
      dest: run_v2_initial_sync_controller split: prod.splits if_splits)

lemma settings_for_managed_state_fields:
  "controller_host (settings_for_managed_state s st) = ms_controller_host st"
  "mac (settings_for_managed_state s st) = mac s"
  "device_password (settings_for_managed_state s st) = device_password s"
  "tls_verify (settings_for_managed_state s st) = tls_verify s"
  "tls_ca_file (settings_for_managed_state s st) = tls_ca_file s"
  "tcp_timeout_seconds (settings_for_managed_state s st) = tcp_timeout_seconds s"
  by (simp_all add: settings_for_managed_state_def Let_def)

lemma reconnect_attempts_adopted:
  "reconnect_attempts E s st n k r w = Some (r', w') \<Longrightarrow> session_adopted s r \<Longrightarrow>
   ms_controller_host st = controller_host s \<Longrightarrow> session_adopted s r'"
proof (induction E s st n k r w rule: reconnect_attempts.induct)
  case (2 E s st n k r w)
  have "same_agent s (settings_for_managed_state s st)"
    using 2(4) by (simp add: same_agent_def settings_for_managed_state_fields)
  with 2 show ?case
    by (auto simp: Let_def dest: connect_and_sync_adopted split: prod.splits if_splits option.splits)
qed simp

lemma load_document_host: "ls_found (load_document J repo d) \<longrightarrow> ms_controller_host (ls_state (load_document J repo d)) = repo_controller_host repo"
  unfolding load_document_def Let_def ignored_state_def
  by (simp split: option.split prod.split)

lemma repository_load_host:
  "repository_load P J repo w = Some (r, w') \<Longrightarrow> ls_found r \<Longrightarrow> ms_controller_host (ls_state r) = repo_controller_host repo"
  using load_document_host [of J repo]
  by (auto simp: repository_load_def split: option.splits prod.splits if_splits)

lemma try_managed_reconnect_adopted:
  "try_managed_reconnect E repo s w = Some (r, w') \<Longrightarrow> repo_controller_host repo = controller_host s \<Longrightarrow> session_adopted s r"
  unfolding try_managed_reconnect_def Let_def
  by (clarsimp split: prod.splits if_splits Option.bind_splits)
    (erule reconnect_attempts_adopted; simp add: repository_load_host)

lemma offer_adopted:
  "connect_and_sync E (s\<lparr>controller_id := c, destination_controller_id := d\<rparr>) port c opts w = (r, w') \<Longrightarrow>
   session_adopted s r"
  by (erule connect_and_sync_adopted) (simp add: same_agent_def)

lemma await_offer_adopted:
  assumes "await_offer E s r udp = Some (r', udp')" "session_adopted s r"
  shows "session_adopted s r'"
proof -
  have "session_adopted s r \<longrightarrow> session_adopted s (fst (r', udp'))"
  proof (induction rule: await_offer.raw_induct [OF _ assms(1), where P = "\<lambda>E s r udp y. session_adopted s r \<longrightarrow> session_adopted s (fst y)"])
    case (1 f E s r udp y)
    then show ?case
      by (auto simp: Let_def dest: offer_adopted split: prod.splits if_splits)
  qed
  with assms(2) show ?thesis by simp
qed

lemma announce_adopted:
  assumes "announce_until_adopted E s a seq r udp = Some (r', udp')" "session_adopted s r"
  shows "session_adopted s r'"
proof -
  have "session_adopted s r \<longrightarrow> session_adopted s (fst (r', udp'))"
  proof (induction rule: announce_until_adopted.raw_induct [OF _ assms(1),
        where P = "\<lambda>E s a seq r udp y. session_adopted s r \<longrightarrow> session_adopted s (fst y)"])
    case (1 f E s a seq r udp y)
    note again = 1(1) and run = 1(2)
    obtain stopping w1 where calls: "de_stop E (udp_world udp) = (stopping, w1)" by fastforce
    obtain t w3 where clock: "now_ms E (if \<not> a then log_write E LogInfo (''discovering controller at '' @
      host_port (controller_host s) (discovery_port s)) w1 else w1) = (t, w3)" by fastforce
    obtain sent udp1 where sending: "send_discovery_once (de_udp E)
      \<lparr>ep_host = controller_host s, ep_port = discovery_port s\<rparr> s (make_profile s) seq False t (udp\<lparr>udp_world := w3\<rparr>) =
      (sent, udp1)" by fastforce
    note run = run [unfolded Let_def calls clock sending prod.case]
    show ?case
    proof
      assume r: "session_adopted s r"
      show "session_adopted s (fst y)"
      proof (cases "stopping")
        case True
        with run r show ?thesis by auto
      next
        case False
        note going = False
        show ?thesis
        proof (cases "ts_ok sent")
          case True
          with run going obtain r1 udp2 where offer: "await_offer E s r udp1 = Some (r1, udp2)"
            and rest: "(if lr_session r1 \<noteq> None then Some (r1, udp2)
              else sleep_udp E (reconnect_delay_ms s) udp2 \<bind> f E s True (seq + 1) r1) = Some y"
            by (cases "await_offer E s r udp1") auto
          from await_offer_adopted [OF offer r] rest again [of E s True "seq + 1" r1] show ?thesis
            by (auto split: if_splits Option.bind_splits)
        next
          case False
          with run going again [of E s True "seq + 1" "r\<lparr>lr_error := ts_error sent\<rparr>"] r show ?thesis
            by (auto split: Option.bind_splits)
        qed
      qed
    qed
  qed
  with assms(2) show ?thesis by simp
qed

lemma discover_and_adopt_adopted:
  "discover_and_adopt E s w = Some (r, w') \<Longrightarrow> session_adopted s r"
  by (auto simp: discover_and_adopt_def Let_def dest: announce_adopted
      split: prod.splits if_splits Option.bind_splits)

section \<open>The platform that cannot\<close>

definition beyond_platform :: "platform_capabilities \<Rightarrow> config_update \<Rightarrow> bool" where
  "beyond_platform c u \<longleftrightarrow>
     led u \<noteq> None \<or> wifi_control_led u \<noteq> None \<or> client_operations u \<noteq> [] \<or> client_rate_config u \<noteq> None \<or>
     \<not> supports_portal c \<and> (portal_free_policy u \<noteq> None \<or> portal_configs u \<noteq> [] \<or> client_configs u \<noteq> [])"

lemma support_guard_refuses:
  "apply_ok (fst (support_guard (supports_portal c) u w)) \<longleftrightarrow> \<not> beyond_platform c u"
  "beyond_platform c u \<Longrightarrow> apply_error (fst (support_guard (supports_portal c) u w)) \<noteq> []"
  "snd (support_guard b u w) = w"
  by (auto simp: support_guard_def beyond_platform_def Let_def split: if_splits)

lemma daemon_appliers_refuse:
  assumes "beyond_platform c u"
  shows "daemon_appliers E c config u w = support_guard (supports_portal c) u w"
proof -
  obtain r w1 where "support_guard (supports_portal c) u w = (r, w1)" by fastforce
  with support_guard_refuses(1) [of c u w] assms show ?thesis
    by (cases "supports_portal c") (simp_all add: daemon_appliers_def composite_apply_def add_def Let_def)
qed

lemma beyond_actionable: "beyond_platform c u \<Longrightarrow> is_actionable_config u"
  by (auto simp: beyond_platform_def is_actionable_config_def)

lemma evaluate_refused:
  assumes "beyond_platform c (cpr_update (parse_set_request_json J payload))"
  obtains ev where
    "evaluate_set_request_with_optional_applier J payload (Some (daemon_appliers E c config)) w = (ev, w)"
    "ev_errcode ev = kConfigError"
proof -
  let ?u = "cpr_update (parse_set_request_json J payload)"
  obtain r w1 where guard: "support_guard (supports_portal c) ?u w = (r, w1)" by fastforce
  with support_guard_refuses(1) [of c ?u w] support_guard_refuses(3) [of "supports_portal c" ?u w] assms
  have "\<not> apply_ok r" "w1 = w" by simp_all
  with guard show thesis
    using beyond_actionable [OF assms]
    by (intro that [of "fst (evaluate_set_request_with_optional_applier J payload (Some (daemon_appliers E c config)) w)"])
      (simp_all add: evaluate_set_request_with_optional_applier_def default_evaluation_def daemon_appliers_refuse [OF assms] Let_def)
qed

lemma handle_set_refused:
  assumes "beyond_platform c (cpr_update (parse_set_request_json J payload))"
    and "handle_set J T s st payload (Some (daemon_appliers E c config)) t w = ((r, st'), w')"
  shows "st' = st \<and> \<not> mr_configuration_applied r \<and>
    (let body = build_set_response_body_json J payload (map_option ucast (ms_config_version st)) kConfigError
     in if sr_ok body
        then w' = snd (tp_send T (build_set_response_json J s payload (ms_controller_id st) body t) w)
        else w' = w \<and> \<not> mr_ok r)"
proof -
  obtain ev where "evaluate_set_request_with_optional_applier J payload (Some (daemon_appliers E c config)) w = (ev, w)"
    "ev_errcode ev = kConfigError"
    using evaluate_refused [OF assms(1)] by metis
  with assms(2) show ?thesis
    by (auto simp: handle_set_def Let_def request_failed_def default_request_result_def kConfigError_def kConfigOk_def split: prod.splits if_splits)
qed

section \<open>Rounds of the managed session\<close>

inductive managed_reach ::
  "('a, 'w) daemon_env \<Rightarrow> json_repository \<Rightarrow> 'w applier \<Rightarrow> 'w inform_provider \<Rightarrow>
   live_session \<times> inform_scheduler \<Rightarrow> 'w \<Rightarrow> live_session \<times> inform_scheduler \<Rightarrow> 'w \<Rightarrow> bool"
  for E repository applier provider x w where
  reach_start: "managed_reach E repository applier provider x w x w"
| reach_round: "managed_reach E repository applier provider x w y v \<Longrightarrow>
    managed_round E repository applier provider y v = Some ((None, z), u) \<Longrightarrow>
    managed_reach E repository applier provider x w z u"

lemma managed_reach_trans:
  assumes "managed_reach E repository applier provider y v z u" "managed_reach E repository applier provider x w y v"
  shows "managed_reach E repository applier provider x w z u"
  using assms by (induction rule: managed_reach.induct) (auto intro: reach_round)

lemma managed_rounds_reach:
  assumes "managed_reach E repository applier provider x w y v"
  shows "managed_rounds E repository applier provider x w = managed_rounds E repository applier provider y v"
  using assms
proof (induction rule: managed_reach.induct)
  case (reach_round y v z u)
  then show ?case by (subst (asm) managed_rounds.simps [of E repository applier provider y v]) simp
qed simp

lemma managed_rounds_ends:
  assumes "managed_rounds E repository applier provider x w = Some (r, w')"
  shows "\<exists>y v z. managed_reach E repository applier provider x w y v \<and>
    managed_round E repository applier provider y v = Some ((Some r, z), w')"
proof -
  have "\<exists>y v z. managed_reach E repository applier provider x w y v \<and>
    managed_round E repository applier provider y v = Some ((Some (fst (r, w')), z), snd (r, w'))"
  proof (induction rule: managed_rounds.raw_induct [OF _ assms, where P = "\<lambda>E rp ap pr x w out.
      \<exists>y v z. managed_reach E rp ap pr x w y v \<and> managed_round E rp ap pr y v = Some ((Some (fst out), z), snd out)"])
    case (1 f E rp ap pr x w out)
    from 1(2) obtain outcome y v where round: "managed_round E rp ap pr x w = Some ((outcome, y), v)"
      and rest: "(case outcome of None \<Rightarrow> f E rp ap pr y v | Some result \<Rightarrow> Some (result, v)) = Some out"
      by (auto split: Option.bind_splits prod.splits)
    show ?case
    proof (cases outcome)
      case (Some result)
      with round rest have "managed_round E rp ap pr x w = Some ((Some (fst out), y), snd out)" by auto
      with managed_reach.reach_start show ?thesis by metis
    next
      case None
      with rest 1(1) obtain y' v' z where "managed_reach E rp ap pr y v y' v'"
        "managed_round E rp ap pr y' v' = Some ((Some (fst out), z), snd out)" by fastforce
      moreover have "managed_reach E rp ap pr x w y v"
        using round None by (auto intro: managed_reach.intros)
      ultimately show ?thesis by (intro exI conjI) (rule managed_reach_trans)
    qed
  qed
  then show ?thesis by simp
qed

lemma managed_round_over:
  assumes "managed_round E repository applier provider x w = Some ((Some r, y), w')"
  shows "r = LoopStopped \<longleftrightarrow> fst (de_stop E w)"
  using assms by (cases x) (auto simp: managed_round_def Let_def split: prod.splits if_splits Option.bind_splits)

text \<open>
  The managed loop returns exactly what some round that it reaches ends with, and stops rather than
  reconnects exactly when that round saw the stop flag; without such a round it goes on forever.
\<close>

lemma managed_loop_ends:
  "managed_rounds E repository applier provider x w = Some (r, w') \<longleftrightarrow>
     (\<exists>y v z. managed_reach E repository applier provider x w y v \<and>
        managed_round E repository applier provider y v = Some ((Some r, z), w') \<and>
        (r = LoopStopped \<longleftrightarrow> fst (de_stop E v)))"
proof
  assume "\<exists>y v z. managed_reach E repository applier provider x w y v \<and>
        managed_round E repository applier provider y v = Some ((Some r, z), w') \<and> (r = LoopStopped \<longleftrightarrow> fst (de_stop E v))"
  then obtain y v z where "managed_reach E repository applier provider x w y v"
    "managed_round E repository applier provider y v = Some ((Some r, z), w')" by blast
  with managed_rounds_reach [of E repository applier provider x w y v]
  show "managed_rounds E repository applier provider x w = Some (r, w')"
    by (simp add: managed_rounds.simps [of E repository applier provider y v])
qed (use managed_rounds_ends managed_round_over in metis)

section \<open>What a round keeps\<close>

definition state_identity :: "managed_state \<Rightarrow> managed_state" where
  "state_identity st = st\<lparr>ms_config_version := None, ms_sequence_id := None, ms_updated_at := 0\<rparr>"

definition same_session :: "live_session \<times> inform_scheduler \<Rightarrow> live_session \<times> inform_scheduler \<Rightarrow> bool" where
  "same_session x y \<longleftrightarrow>
     se_settings (fst y) = se_settings (fst x) \<and> se_adoption (fst y) = se_adoption (fst x) \<and>
     state_identity (se_state (fst y)) = state_identity (se_state (fst x)) \<and>
     sched_interval_ms (snd y) = sched_interval_ms (snd x) \<and> sched_started (snd y) = sched_started (snd x)"

lemma scheduler_poll_kept:
  "scheduler_poll t s = (r, s') \<Longrightarrow> sched_interval_ms s' = sched_interval_ms s \<and> sched_started s' = sched_started s"
  by (auto simp: scheduler_poll_def Let_def split: if_splits)

lemma report_round_kept:
  "report_round E provider session s w = ((b, s'), w') \<Longrightarrow> sched_interval_ms s' = sched_interval_ms s \<and> sched_started s' = sched_started s"
  by (auto simp: report_round_def Let_def dest!: scheduler_poll_kept split: prod.splits if_splits)

lemma after_request_kept:
  "after_request E rp result session w = Some (b, session', w') \<Longrightarrow>
   se_settings session' = se_settings session \<and> se_adoption session' = se_adoption session \<and>
   (se_state session' = se_state session \<or> (\<exists>t. se_state session' = (se_state session)\<lparr>ms_updated_at := t\<rparr>))"
  by (auto simp: after_request_def Let_def split: prod.splits if_splits Option.bind_splits)

lemma managed_round_kept:
  assumes "managed_round E repository applier provider x w = Some ((result, y), w')"
  shows "same_session x y"
  using assms
  by (cases x) (auto simp: managed_round_def same_session_def state_identity_def Let_def
      dest!: report_round_kept after_request_kept handle_managed_request_state
      split: prod.splits if_splits Option.bind_splits)

lemma same_session_trans: "same_session x y \<Longrightarrow> same_session y z \<Longrightarrow> same_session x z"
  by (simp add: same_session_def)

lemma managed_reach_kept:
  assumes "managed_reach E repository applier provider x w y v"
  shows "same_session x y"
  using assms
proof (induction rule: managed_reach.induct)
  case reach_start
  show ?case by (simp add: same_session_def)
next
  case (reach_round y v z u)
  from same_session_trans [OF reach_round(3) managed_round_kept [OF reach_round(2)]] show ?case .
qed

section \<open>The state file\<close>

text \<open>
  What the daemon relies on of its surroundings: the file system keeps the contract of
  \<open>posix_files\<close>, a sleep is interrupted only so often, and nothing but the repository touches the state
  file.
\<close>

locale state_keeper = posix_files "de_posix E" contents remaining target patience
  for E :: "('a, 'w) daemon_env" and contents and remaining and target and patience +
  fixes repository :: json_repository and applier :: "'w applier" and provider :: "'w inform_provider" and naps :: "'w \<Rightarrow> nat"
  assumes nap_interrupted: "de_nanosleep E r w = (Some r', w') \<Longrightarrow> naps w' < naps w"
    and stop_quiet: "de_stop E w = (b, w') \<Longrightarrow> contents w' (repo_path repository) = contents w (repo_path repository) \<and> naps w' \<le> naps w"
    and stderr_quiet: "contents (de_stderr E message w) (repo_path repository) = contents w (repo_path repository)"
    and clock_quiet: "de_clock E w = (t, w') \<Longrightarrow> contents w' (repo_path repository) = contents w (repo_path repository)"
    and send_quiet: "tp_send (de_transport E) p w = (st, w') \<Longrightarrow>
      contents w' (repo_path repository) = contents w (repo_path repository)"
    and receive_quiet: "tp_receive (de_transport E) w = (rr, w') \<Longrightarrow>
      contents w' (repo_path repository) = contents w (repo_path repository)"
    and applier_quiet: "applier u w = (a, w') \<Longrightarrow> contents w' (repo_path repository) = contents w (repo_path repository)"
    and provider_quiet: "provider n s w = (sn, w') \<Longrightarrow> contents w' (repo_path repository) = contents w (repo_path repository)"
begin

abbreviation state_text :: "'w \<Rightarrow> string option" where
  "state_text w \<equiv> contents w (repo_path repository)"

lemma log_quiet [simp]: "state_text (log_write E level message w) = state_text w"
  by (simp add: log_write_def stderr_quiet)

lemma now_quiet: "now_ms E w = (t, w') \<Longrightarrow> state_text w' = state_text w"
  by (auto simp: now_ms_def Let_def dest: clock_quiet split: prod.splits option.splits)

lemma sleep_rest_returns: "\<exists>w'. sleep_rest E r w = Some w'"
proof (induction "naps w" arbitrary: r w rule: less_induct)
  case less
  obtain b w1 where stop: "de_stop E w = (b, w1)" by fastforce
  obtain n w2 where nap: "de_nanosleep E r w1 = (n, w2)" by fastforce
  show ?case
  proof (cases "b \<or> n = None")
    case True
    with stop nap show ?thesis by (subst sleep_rest.simps) auto
  next
    case False
    then obtain r' where r': "n = Some r'" by auto
    from nap_interrupted [OF nap [unfolded r']] stop_quiet [OF stop] have "naps w2 < naps w" by simp
    from less [OF this, of r'] False stop nap r' show ?thesis by (subst sleep_rest.simps) simp
  qed
qed

lemma sleep_returns: "\<exists>w'. sleep_ms E m w = Some w'"
  by (simp add: sleep_ms_def sleep_rest_returns)

lemma reconnect_attempts_return: "\<exists>y. reconnect_attempts E s st n k r w = Some y"
proof (induction k arbitrary: n r w)
  case (Suc k)
  obtain stopping w1 where stop: "de_stop E w = (stopping, w1)" by fastforce
  obtain session w2 where connect: "connect_and_sync E (settings_for_managed_state s st) (ms_manage_port st) (ms_controller_id st)
      (adoption_options_for_managed_state st)
      (log_write E LogInfo (''managed reconnect attempt '' @ dec (n + 1) @ ''/'' @
         to_string_u (managed_reconnect_attempts s)) w1) = (session, w2)" by fastforce
  obtain w3 where "sleep_ms E (reconnect_delay_ms s)
      (log_write E LogWarning (''managed reconnect failed: '' @ lr_error session) w2) = Some w3"
    using sleep_returns by blast
  with Suc [of "n + 1" "r\<lparr>lr_error := lr_error session\<rparr>" w3] stop connect show ?case by (simp add: Let_def)
qed simp

lemma try_managed_reconnect_returns: "\<exists>y. try_managed_reconnect E repository s w = Some y"
proof -
  obtain r w1 where load: "repository_load (de_posix E) (de_json E) repository w = Some (r, w1)"
    using repository_load_result [of "de_json E" repository w] by blast
  obtain r2 w2 where "reconnect_attempts E s (ls_state r) 0 (unat (managed_reconnect_attempts s)) (no_session []) w1 = Some (r2, w2)"
    using reconnect_attempts_return by fastforce
  with load show ?thesis
    by (cases "de_stop E w2") (simp add: try_managed_reconnect_def)
qed

lemma save_state_result:
  "\<exists>w'. save_state E repository st w = Some w' \<and>
     (state_text w' = state_text w \<or> (\<exists>m. save_checks repository st = Inr m \<and> state_text w' = Some (state_json st m)))"
proof -
  obtain s w1 where saved: "repository_save (de_posix E) repository st w = Some (s, w1)"
    "if rs_ok s
     then \<exists>m. save_checks repository st = Inr m \<and>
       contents w1 = (contents w)(repo_path repository @ ''.tmp'' := None, repo_path repository := Some (state_json st m))
     else contents w1 = (contents w)(repo_path repository @ ''.tmp'' := contents w1 (repo_path repository @ ''.tmp''))"
    using repository_save_result [of repository st w] by blast
  have "state_text w1 = state_text w" if "\<not> rs_ok s"
    using saved(2) that by (metis append_self_conv fun_upd_other list.distinct(1))
  with saved show ?thesis by (cases "rs_ok s") (auto simp: save_state_def)
qed

lemma report_round_quiet: "report_round E provider session s w = (x, w') \<Longrightarrow> state_text w' = state_text w"
  by (auto simp: report_round_def send_inform_def Let_def status_success_def dest!: now_quiet provider_quiet send_quiet
      split: prod.splits if_splits)

lemma handle_managed_request_quiet:
  assumes "handle_managed_request J (de_transport E) s (Some st) payload (Some applier) t w = ((r, state'), w')"
  shows "state_text w' = state_text w"
  using assms
  by (rule handle_managed_request_cases)
    (auto simp: handle_set_def evaluate_set_request_with_optional_applier_def handle_get_def handle_notify_def
      handle_portal_auth_def apply_portal_auth_def handle_forget_def Let_def dest!: send_quiet applier_quiet
      split: prod.splits if_splits)

definition file_follows :: "'w \<Rightarrow> live_session \<Rightarrow> 'w \<Rightarrow> bool" where
  "file_follows w session w' \<longleftrightarrow> state_text w' = state_text w \<or> state_text w' = None \<or>
     (\<exists>m. save_checks repository (se_state session) = Inr m \<and> state_text w' = Some (state_json (se_state session) m))"

lemma clear_quiet: "repository_clear (de_posix E) repository w = (b, w') \<Longrightarrow> state_text w' = state_text w \<or> state_text w' = None"
  using repository_clear_result [of repository w b w'] by (auto split: if_splits)

lemma after_request_result:
  "\<exists>b session' w'. after_request E repository result session w = Some (b, session', w') \<and> file_follows w session' w'"
proof (cases "mr_ok result")
  case False
  then show ?thesis by (auto simp: after_request_def file_follows_def)
next
  case True
  define w1 where "w1 = (let w = (if mr_action result \<noteq> Ignored
      then log_write E LogInfo (''managed action: '' @ request_action_to_string (mr_action result)) w else w)
    in if mr_error result \<noteq> [] then log_write E LogWarning (''managed action detail: '' @ mr_error result) w else w)"
  have logged: "state_text w1 = state_text w" by (simp add: w1_def Let_def)
  define saved where "saved = (if mr_action result = SetResponseAction \<and> (mr_config_version result \<noteq> None \<or> mr_sequence_id result \<noteq> None)
    then (let (t, w) = now_ms E w1; session = session\<lparr>se_state := (se_state session)\<lparr>ms_updated_at := t\<rparr>\<rparr>
          in map_option (Pair session) (save_state E repository (se_state session) w))
    else Some (session, w1))"
  have "\<exists>session' w2. saved = Some (session', w2) \<and> file_follows w session' w2"
  proof (cases "mr_action result = SetResponseAction \<and> (mr_config_version result \<noteq> None \<or> mr_sequence_id result \<noteq> None)")
    case True
    obtain t w2 where clock: "now_ms E w1 = (t, w2)" by fastforce
    with True save_state_result [of "(se_state session)\<lparr>ms_updated_at := t\<rparr>" w2] logged now_quiet [OF clock]
    show ?thesis by (auto simp: saved_def file_follows_def)
  next
    case False
    with logged show ?thesis by (auto simp: saved_def file_follows_def)
  qed
  then obtain session' w2 where s: "saved = Some (session', w2)" "file_follows w session' w2" by blast
  obtain b w3 where clear: "(if mr_should_clear_state result then repository_clear (de_posix E) repository w2 else (True, w2)) = (b, w3)"
    by fastforce
  with clear_quiet [of w2 b w3] s(2) have "file_follows w session' w3"
    by (auto simp: file_follows_def split: if_splits)
  moreover have "after_request E repository result session w =
    Some (\<not> mr_should_end_session result, session',
      let w4 = (if \<not> b then log_write E LogWarning ''managed state clear failed'' w3 else w3)
      in if mr_should_end_session result then log_write E LogInfo ''managed session ended by controller request'' w4 else w4)"
    by (simp only: after_request_def Let_def w1_def [unfolded Let_def, symmetric] saved_def [unfolded Let_def, symmetric]
        True s(1) clear not_True_eq_False if_False Option.bind.simps prod.case)
  ultimately show ?thesis by (simp add: file_follows_def Let_def)
qed

lemma file_follows_quiet:
  "file_follows w session w'" if "state_text w' = state_text w"
  using that by (simp add: file_follows_def)

lemma managed_round_result:
  "\<exists>result y w'. managed_round E repository applier provider x w = Some ((result, y), w') \<and> file_follows w (fst y) w'"
proof -
  obtain session scheduler where x: "x = (session, scheduler)" by fastforce
  obtain stopping w1 where stop: "de_stop E w = (stopping, w1)" by fastforce
  obtain reported scheduler' w2 where report: "report_round E provider session scheduler w1 = ((reported, scheduler'), w2)"
    by (metis prod.exhaust)
  obtain received w3 where receive: "tp_receive (de_transport E) w2 = (received, w3)" by fastforce
  obtain t w4 where clock: "now_ms E w3 = (t, w4)" by fastforce
  obtain result state w5 where handle: "handle_managed_request (de_json E) (de_transport E) (se_settings session)
      (Some (se_state session)) (rr_payload received) (Some applier) t w4 = ((result, state), w5)"
    by (metis prod.exhaust)
  note quiet = stop_quiet [OF stop] report_round_quiet [OF report] receive_quiet [OF receive] now_quiet [OF clock]
    handle_managed_request_quiet [OF handle]
  let ?session = "session\<lparr>se_state := (case state of Some st \<Rightarrow> st | None \<Rightarrow> se_state session)\<rparr>"
  obtain b session' w6 where after: "after_request E repository result ?session w5 = Some (b, session', w6)"
    "file_follows w5 session' w6"
    using after_request_result by blast
  consider (stop) stopping | (unsent) "\<not> stopping" "\<not> reported" | (unread) "\<not> stopping" "reported" "\<not> rr_ok received"
    | (request) "\<not> stopping" "reported" "rr_ok received" by blast
  then show ?thesis
  proof cases
    case request
    with after quiet show ?thesis
      by (auto simp: managed_round_def x stop report receive clock handle file_follows_def Let_def)
  qed (use quiet in \<open>auto simp: managed_round_def x stop report receive file_follows_def Let_def\<close>)
qed

lemma load_saved:
  assumes "state_text w = Some (state_json st m)" "save_checks repository st = Inr m" "durable_state J repository st"
  shows "case repository_load (de_posix E) J repository w of
     None \<Rightarrow> False
   | Some (r, w') \<Rightarrow> (if ls_ok r then ls_found r \<and> ls_state r = canonical_state repository st else \<not> ls_found r)"
proof -
  obtain r w' where "repository_load (de_posix E) J repository w = Some (r, w')"
    "case state_text w of None \<Rightarrow> ls_ok r \<and> \<not> ls_found r
     | Some c \<Rightarrow> (if ls_ok r then r = load_document J repository c \<and> int (length c) \<le> kMaxStateFileBytes
                 else \<not> ls_found r)"
    using repository_load_result [of J repository w] by blast
  with assms(1) load_document_state_json [OF assms(3,2)] show ?thesis by (auto split: if_splits)
qed

lemma managed_reach_file:
  assumes "managed_reach E repository applier provider x w y v"
  shows "state_text v = state_text w \<or> state_text v = None \<or>
    (\<exists>st m. state_identity st = state_identity (se_state (fst x)) \<and> save_checks repository st = Inr m \<and>
       state_text v = Some (state_json st m))"
  using assms
proof (induction rule: managed_reach.induct)
  case (reach_round y v z u)
  from managed_round_result [of y v] reach_round(2) have "file_follows v (fst z) u" by auto
  moreover from managed_reach_kept [OF managed_reach.reach_round [OF reach_round(1,2)]]
  have "state_identity (se_state (fst z)) = state_identity (se_state (fst x))" by (simp add: same_session_def)
  ultimately show ?case using reach_round(3) unfolding file_follows_def by metis
qed simp

end

lemma adopted_saved:
  assumes "adopted s l" "manage_port (se_settings l) \<noteq> 0" "state_identity st = state_identity (se_state l)"
  shows "save_checks \<lparr>repo_path = p, repo_device_mac = mac s, repo_controller_host = controller_host s\<rparr> st = Inr (mac s)"
proof -
  from assms(3) have same: "ms_version st = ms_version (se_state l)" "ms_mac st = ms_mac (se_state l)"
    "ms_controller_host st = ms_controller_host (se_state l)" "ms_controller_id st = ms_controller_id (se_state l)"
    "ms_manage_port st = ms_manage_port (se_state l)"
    by (cases st; cases "se_state l"; simp add: state_identity_def)+
  from assms(1) obtain t where
    "se_state l = managed_state_from_adoption (se_settings l) (manage_port (se_settings l)) (se_adoption l) t"
    "same_agent s (se_settings l)" "ar_controller_id (se_adoption l) = controller_id (se_settings l)"
    "controller_id (se_settings l) \<noteq> []"
    by (auto simp: adopted_def)
  with same assms(2) show ?thesis
    by (simp add: save_checks_def managed_state_from_adoption_def same_agent_def default_managed_state_def kStateVersion_def
        parse_mac_of_nibbles nibbles_of_printed)
qed

section \<open>A daemon in memory\<close>

text \<open>
  The clock stands still, the controller keeps quiet and every entry of the fault script may wake a
  sleeper; the appliers and the provider are the ones the daemon builds for a platform without tools.
\<close>

definition memory_env :: "(nat, memory_fs) daemon_env" where
  "memory_env =
     \<lparr>de_level = LogInfo, de_stop = (\<lambda>w. (False, w)), de_clock = (\<lambda>w. (Some (1000, 0), w)),
      de_nanosleep = (\<lambda>r. attempt (Some r) (\<lambda>_ w. (None, w))), de_stderr = (\<lambda>_ w. w),
      de_backend =
        \<lparr>bk_json = table_jsonc [], bk_digests = \<lparr>md5_digest = (\<lambda>_. None), sha256_digest = (\<lambda>_. None)\<rparr>,
         bk_random_bytes = (\<lambda>w. (None, w))\<rparr>,
      de_posix = memory_posix,
      de_udp =
        \<lparr>ud_socket = (\<lambda>w. (None, w)), ud_set_receive_timeout = (\<lambda>_ _ w. (False, w)),
         ud_set_send_timeout = (\<lambda>_ _ w. (False, w)), ud_bind = (\<lambda>_ _ w. (False, w)),
         ud_getaddrinfo = (\<lambda>_ _ w. (Inr [], w)), ud_sendto = (\<lambda>_ _ _ w. (None, w)), ud_recv = (\<lambda>_ _ w. (None, w)),
         ud_close = (\<lambda>_ w. w), ud_would_block = (\<lambda>_. True), ud_strerror = (\<lambda>_. [])\<rparr>,
      de_connect = (\<lambda>_ w. (status_success, w)),
      de_transport =
        \<lparr>tp_send = (\<lambda>_ w. (status_success, w)), tp_receive = (\<lambda>w. (default_receive_result\<lparr>rr_timeout := True\<rparr>, w))\<rparr>,
      de_disconnect = id, de_available = (\<lambda>_ _. False),
      de_run = (\<lambda>_ _ w. (\<lparr>cmd_ok = False, cmd_exit_code = 1, cmd_output = [], cmd_error = []\<rparr>, w)),
      de_uci =
        \<lparr>apply_batch = (\<lambda>_ w. (\<lparr>ue_ok = True, ue_changed = True, ue_error = [], ue_command_count = 1\<rparr>, w)),
         reload_wifi = (\<lambda>w. (\<lparr>ue_ok = True, ue_changed = True, ue_error = [], ue_command_count = 1\<rparr>, w))\<rparr>,
      de_file = (\<lambda>_ _. None)\<rparr>"

lemma memory_env_simps [simp]:
  "de_stop memory_env w = (False, w)" "de_clock memory_env w = (Some (1000, 0), w)" "de_stderr memory_env m w = w"
  "de_nanosleep memory_env r = attempt (Some r) (\<lambda>_ w. (None, w))"
  "de_posix memory_env = memory_posix" "tp_send (de_transport memory_env) p w = (status_success, w)"
  "tp_receive (de_transport memory_env) w = (default_receive_result\<lparr>rr_timeout := True\<rparr>, w)"
  "apply_batch (de_uci memory_env) b w = (\<lparr>ue_ok = True, ue_changed = True, ue_error = [], ue_command_count = 1\<rparr>, w)"
  "reload_wifi (de_uci memory_env) w = (\<lparr>ue_ok = True, ue_changed = True, ue_error = [], ue_command_count = 1\<rparr>, w)"
  by (simp_all add: memory_env_def)

lemma memory_appliers:
  "daemon_appliers memory_env default_capabilities config u w = (r, w') \<Longrightarrow> w' = w"
proof -
  assume run: "daemon_appliers memory_env default_capabilities config u w = (r, w')"
  have "a = w" if "uci_apply default_capabilities (de_uci memory_env) options u w = (q, a)" for options q a
    using that by (auto simp: uci_apply_def Let_def split: if_splits)
  moreover have "\<not> supports_portal default_capabilities" by (simp add: default_capabilities_def)
  ultimately show ?thesis
    using run support_guard_refuses(3) [of False u w]
    by (auto simp: daemon_appliers_def composite_apply_def add_def Let_def split: prod.splits if_splits)
qed

lemma memory_provider:
  "daemon_provider memory_env default_capabilities n u w = (sn, w') \<Longrightarrow> w' = w"
  by (simp add: daemon_provider_def default_capabilities_def no_tools_def static_inform_build_def)

interpretation memory_daemon: state_keeper memory_env mem_files mem_remaining mem_target "length \<circ> mem_script"
  repository "daemon_appliers memory_env default_capabilities config" "daemon_provider memory_env default_capabilities"
  "length \<circ> mem_script" for repository config
proof -
  have base: "posix_files (de_posix memory_env) mem_files mem_remaining mem_target (length \<circ> mem_script)"
    using memory.posix_files_axioms by simp
  have naps: "attempt (Some r) (\<lambda>_ w. (None, w)) w = (Some r', w') \<Longrightarrow> length (mem_script w') < length (mem_script w)" for r r' :: "nat \<times> nat" and w w'
    by (auto simp: attempt_def next_fault_def split: list.splits fault.splits)
  show "state_keeper memory_env mem_files mem_remaining mem_target (length \<circ> mem_script) repository
    (daemon_appliers memory_env default_capabilities config) (daemon_provider memory_env default_capabilities)
    (length \<circ> mem_script)"
    by (intro state_keeper.intro base state_keeper_axioms.intro)
      (auto dest: naps memory_appliers memory_provider)
qed

section \<open>Dry runs\<close>

lemma log_write_env:
  "de_level E' = de_level E \<Longrightarrow> de_stderr E' = de_stderr E \<Longrightarrow> log_write E' = log_write E"
  by (simp add: log_write_def fun_eq_iff)

lemma detect_env:
  assumes "de_level E' = de_level E" "de_stderr E' = de_stderr E" "de_available E' = de_available E" "de_run E' = de_run E"
  shows "detect_runtime_capabilities E' config w = detect_runtime_capabilities E config w"
  unfolding detect_runtime_capabilities_def runtime_tools_def log_write_env [OF assms(1,2)] assms(3,4) ..

end
