(* ===== verification/Socket.thy ===== *)
theory Socket
  imports Tls_Transport Discovery
begin

text \<open>
  \<open>src/src/transport/socket.cpp\<close>: connecting over TCP with a time limit, and exact reads and writes on a
  socket.  The system calls are the record \<open>socket_calls\<close>, which extends the one of the UDP transport by
  what TCP needs; \<open>o_nonblock\<close> is the flag, which depends on the target.  \<open>with_sockets\<close> puts this code under
  the TLS transport, where \<open>Tls_Transport\<close> has the single call \<open>ConnectTcp\<close>.
\<close>

section \<open>System calls\<close>

datatype socket_errno = InProgress | Interrupted | WouldBlock | OtherErrno nat

record ('a, 'w) socket_calls = "('a, 'w) udp_calls" +
  o_nonblock :: i32
  tcp_getaddrinfo :: "string \<Rightarrow> string \<Rightarrow> 'w \<Rightarrow> (string + 'a list) \<times> 'w"
  tcp_freeaddrinfo :: "'w \<Rightarrow> 'w"
  tcp_socket :: "'a \<Rightarrow> 'w \<Rightarrow> nat option \<times> 'w"
  tcp_getfl :: "nat \<Rightarrow> 'w \<Rightarrow> i32 option \<times> 'w"
  tcp_setfl :: "nat \<Rightarrow> i32 \<Rightarrow> 'w \<Rightarrow> bool \<times> 'w"
  tcp_connect :: "nat \<Rightarrow> 'a \<Rightarrow> 'w \<Rightarrow> bool \<times> 'w"
  tcp_select :: "nat \<Rightarrow> u32 \<Rightarrow> 'w \<Rightarrow> int \<times> 'w"
  tcp_so_error :: "nat \<Rightarrow> 'w \<Rightarrow> (bool \<times> nat) \<times> 'w"
  tcp_recv :: "nat \<Rightarrow> nat \<Rightarrow> 'w \<Rightarrow> string option \<times> 'w"
  tcp_send :: "nat \<Rightarrow> string \<Rightarrow> 'w \<Rightarrow> nat option \<times> 'w"
  tcp_errno :: "'w \<Rightarrow> socket_errno"
  tcp_strerror :: "nat \<Rightarrow> string"

definition assign_errno :: "('a, 'w) socket_calls \<Rightarrow> string \<Rightarrow> 'w \<Rightarrow> string" where
  "assign_errno S prefix w = prefix @ '': '' @ ud_strerror S w"

section \<open>Connecting\<close>

text \<open>The error text, or nothing.\<close>

definition set_nonblocking :: "('a, 'w) socket_calls \<Rightarrow> nat \<Rightarrow> bool \<Rightarrow> 'w \<Rightarrow> string option \<times> 'w" where
  "set_nonblocking S fd enabled w =
     (case tcp_getfl S fd w of
        (None, w) \<Rightarrow> (Some (assign_errno S ''fcntl(F_GETFL)'' w), w)
      | (Some flags, w) \<Rightarrow>
          (case tcp_setfl S fd (if enabled then or flags (o_nonblock S) else and flags (not (o_nonblock S))) w of
             (False, w) \<Rightarrow> (Some (assign_errno S ''fcntl(F_SETFL)'' w), w)
           | (True, w) \<Rightarrow> (None, w)))"

definition await_connection :: "('a, 'w) socket_calls \<Rightarrow> nat \<Rightarrow> 'a \<Rightarrow> u32 \<Rightarrow> 'w \<Rightarrow> string option \<times> 'w" where
  "await_connection S fd ai timeout_seconds w =
     (case tcp_connect S fd ai w of
        (True, w) \<Rightarrow> (None, w)
      | (False, w) \<Rightarrow>
          (if tcp_errno S w = InProgress
           then
             (let (selected, w) = tcp_select S fd timeout_seconds w
              in if 0 < selected
                 then
                   (let ((got, so_error), w) = tcp_so_error S fd w
                    in if got \<and> so_error = 0 then (None, w) else (Some (''connect: '' @ tcp_strerror S so_error), w))
                 else if selected = 0 then (Some ''connect: timeout'', w)
                 else (Some (assign_errno S ''select'' w), w))
           else (Some (assign_errno S ''connect'' w), w)))"

definition connect_candidate :: "('a, 'w) socket_calls \<Rightarrow> nat \<Rightarrow> 'a \<Rightarrow> u32 \<Rightarrow> 'w \<Rightarrow> string option \<times> 'w" where
  "connect_candidate S fd ai timeout_seconds w =
     (case set_nonblocking S fd True w of
        (Some error, w) \<Rightarrow> (Some error, w)
      | (None, w) \<Rightarrow>
          (case await_connection S fd ai timeout_seconds w of
             (Some error, w) \<Rightarrow> (Some error, w)
           | (None, w) \<Rightarrow>
               (case set_nonblocking S fd False w of
                  (Some error, w) \<Rightarrow> (Some error, w)
                | (None, w) \<Rightarrow> set_socket_timeout (udp_calls.truncate S) fd timeout_seconds w)))"

fun connect_addresses ::
  "('a, 'w) socket_calls \<Rightarrow> u32 \<Rightarrow> 'a list \<Rightarrow> string \<Rightarrow> 'w \<Rightarrow> (string + nat) \<times> 'w" where
  "connect_addresses S timeout_seconds [] last_error w = (Inl last_error, w)"
| "connect_addresses S timeout_seconds (ai # addresses) last_error w =
     (case tcp_socket S ai w of
        (None, w) \<Rightarrow> connect_addresses S timeout_seconds addresses (assign_errno S ''socket'' w) w
      | (Some candidate, w) \<Rightarrow>
          (case connect_candidate S candidate ai timeout_seconds w of
             (None, w) \<Rightarrow> (Inr candidate, w)
           | (Some error, w) \<Rightarrow> connect_addresses S timeout_seconds addresses error (ud_close S candidate w)))"

definition connect_tcp ::
  "('a, 'w) socket_calls \<Rightarrow> string \<Rightarrow> u16 \<Rightarrow> u32 \<Rightarrow> 'w \<Rightarrow> (string + nat) \<times> 'w" where
  "connect_tcp S host port timeout_seconds w =
     (case tcp_getaddrinfo S host (to_string_u port) w of
        (Inl reason, w) \<Rightarrow> (Inl (''getaddrinfo: '' @ reason), w)
      | (Inr addresses, w) \<Rightarrow>
          (case connect_addresses S timeout_seconds addresses [] w of
             (Inl last_error, w) \<Rightarrow>
               (Inl (if last_error = [] then ''connect: no usable address'' else last_error), tcp_freeaddrinfo S w)
           | (Inr fd, w) \<Rightarrow> (Inr fd, tcp_freeaddrinfo S w)))"

section \<open>Exact reads and writes\<close>

partial_function (option) read_exact_from ::
  "('a, 'w) socket_calls \<Rightarrow> nat \<Rightarrow> nat \<Rightarrow> string \<Rightarrow> 'w \<Rightarrow> (((bool \<times> string) + string) \<times> 'w) option" where
  "read_exact_from S fd wanted got w =
     (if wanted \<le> length got then Some (Inr got, w)
      else
        (case tcp_recv S fd (wanted - length got) w of
           (Some bytes, w) \<Rightarrow>
             (if bytes = [] then Some (Inl (False, ''peer closed connection''), w)
              else read_exact_from S fd wanted (got @ bytes) w)
         | (None, w) \<Rightarrow>
             (if tcp_errno S w = Interrupted then read_exact_from S fd wanted got w
              else if tcp_errno S w = WouldBlock then Some (Inl (True, ''read timeout''), w)
              else Some (Inl (False, assign_errno S ''recv'' w), w))))"

definition read_exact ::
  "('a, 'w) socket_calls \<Rightarrow> nat \<Rightarrow> nat \<Rightarrow> 'w \<Rightarrow> (((bool \<times> string) + string) \<times> 'w) option" where
  "read_exact S fd wanted w = read_exact_from S fd wanted [] w"

partial_function (option) socket_write_all ::
  "('a, 'w) socket_calls \<Rightarrow> nat \<Rightarrow> string \<Rightarrow> 'w \<Rightarrow> (string option \<times> 'w) option" where
  "socket_write_all S fd data w =
     (if data = [] then Some (None, w)
      else
        (case tcp_send S fd data w of
           (Some n, w) \<Rightarrow>
             (if 0 < n then socket_write_all S fd (drop n data) w
              else Some (Some (assign_errno S ''send'' w), w))
         | (None, w) \<Rightarrow>
             (if tcp_errno S w = Interrupted then socket_write_all S fd data w
              else Some (Some (assign_errno S ''send'' w), w))))"

section \<open>Under the TLS transport\<close>

text \<open>The world of the TLS transport, with the descriptor of \<open>socket_\<close> and the text of the last error.\<close>

definition with_sockets ::
  "('a, 'w) socket_calls \<Rightarrow> 'w tls_setup \<Rightarrow> ('w \<times> nat option \<times> string) tls_setup" where
  "with_sockets S U =
     \<lparr>tls_do = (\<lambda>c (w, fd, message).
        (case c of
           ConnectTcp host port timeout_seconds \<Rightarrow>
             (case connect_tcp S host port timeout_seconds w of
                (Inl error, w) \<Rightarrow> (False, w, fd, error)
              | (Inr connected, w) \<Rightarrow> (True, w, Some connected, message))
         | CloseSocket \<Rightarrow> (True, (case fd of None \<Rightarrow> w | Some fd \<Rightarrow> ud_close S fd w), None, message)
         | _ \<Rightarrow> (let (b, w) = tls_do U c w in (b, w, fd, message)))),
      tcp_error = (\<lambda>(w, fd, message). message)\<rparr>"

section \<open>What becomes of the sockets\<close>

datatype socket_event =
    Opened nat | Closed nat | Flags nat i32 | ReceiveLimit nat u32 | SendLimit nat u32

definition noting :: "('r \<Rightarrow> socket_event list) \<Rightarrow> ('w \<Rightarrow> 'r \<times> 'w) \<Rightarrow> 'w \<times> socket_event list \<Rightarrow> 'r \<times> 'w \<times> socket_event list" where
  "noting events f = (\<lambda>(w, log). let (r, w) = f w in (r, w, log @ events r))"

definition recording_sockets :: "('a, 'w) socket_calls \<Rightarrow> ('a, 'w \<times> socket_event list) socket_calls" where
  "recording_sockets S =
     \<lparr>ud_socket = noting (\<lambda>_. []) (ud_socket S),
      ud_set_receive_timeout = (\<lambda>fd t. noting (\<lambda>ok. if ok then [ReceiveLimit fd t] else []) (ud_set_receive_timeout S fd t)),
      ud_set_send_timeout = (\<lambda>fd t. noting (\<lambda>ok. if ok then [SendLimit fd t] else []) (ud_set_send_timeout S fd t)),
      ud_bind = (\<lambda>fd port. noting (\<lambda>_. []) (ud_bind S fd port)),
      ud_getaddrinfo = (\<lambda>host service. noting (\<lambda>_. []) (ud_getaddrinfo S host service)),
      ud_sendto = (\<lambda>fd d a. noting (\<lambda>_. []) (ud_sendto S fd d a)),
      ud_recv = (\<lambda>fd n. noting (\<lambda>_. []) (ud_recv S fd n)),
      ud_close = (\<lambda>fd (w, log). (ud_close S fd w, log @ [Closed fd])),
      ud_would_block = (\<lambda>(w, log). ud_would_block S w),
      ud_strerror = (\<lambda>(w, log). ud_strerror S w),
      o_nonblock = o_nonblock S,
      tcp_getaddrinfo = (\<lambda>host service. noting (\<lambda>_. []) (tcp_getaddrinfo S host service)),
      tcp_freeaddrinfo = (\<lambda>(w, log). (tcp_freeaddrinfo S w, log)),
      tcp_socket = (\<lambda>ai. noting (\<lambda>fd. case fd of None \<Rightarrow> [] | Some fd \<Rightarrow> [Opened fd]) (tcp_socket S ai)),
      tcp_getfl = (\<lambda>fd. noting (\<lambda>_. []) (tcp_getfl S fd)),
      tcp_setfl = (\<lambda>fd flags. noting (\<lambda>ok. if ok then [Flags fd flags] else []) (tcp_setfl S fd flags)),
      tcp_connect = (\<lambda>fd ai. noting (\<lambda>_. []) (tcp_connect S fd ai)),
      tcp_select = (\<lambda>fd t. noting (\<lambda>_. []) (tcp_select S fd t)),
      tcp_so_error = (\<lambda>fd. noting (\<lambda>_. []) (tcp_so_error S fd)),
      tcp_recv = (\<lambda>fd n. noting (\<lambda>_. []) (tcp_recv S fd n)),
      tcp_send = (\<lambda>fd d. noting (\<lambda>_. []) (tcp_send S fd d)),
      tcp_errno = (\<lambda>(w, log). tcp_errno S w),
      tcp_strerror = tcp_strerror S\<rparr>"

text \<open>The descriptors that are open after a list of events, and the last word on a descriptor.\<close>

fun open_after :: "socket_event list \<Rightarrow> nat list \<Rightarrow> nat list" where
  "open_after [] fds = fds"
| "open_after (Opened fd # events) fds = open_after events (fd # fds)"
| "open_after (Closed fd # events) fds = open_after events (remove1 fd fds)"
| "open_after (_ # events) fds = open_after events fds"

lemma open_after_append [simp]: "open_after (ev @ ev') fds = open_after ev' (open_after ev fds)"
  by (induction ev fds rule: open_after.induct) auto

definition settled :: "i32 \<Rightarrow> nat \<Rightarrow> u32 \<Rightarrow> socket_event list \<Rightarrow> bool" where
  "settled nonblock fd t ev \<longleftrightarrow>
     (\<exists>before flags. ev = before @ [Flags fd flags, ReceiveLimit fd t, SendLimit fd t] \<and> and flags nonblock = 0)"

lemma noted:
  "noting events f w = (r, w') \<Longrightarrow> snd w' = snd w @ events r"
  by (auto simp: noting_def split: prod.splits)

definition neutral :: "socket_event list \<Rightarrow> bool" where
  "neutral ev \<longleftrightarrow> (\<forall>fds. open_after ev fds = fds)"

lemma neutral_simps [simp]:
  "neutral []" "neutral [Flags fd f]" "neutral [ReceiveLimit fd t]" "neutral [ReceiveLimit fd t, SendLimit fd t]"
  "neutral ev \<Longrightarrow> neutral ev' \<Longrightarrow> neutral (ev @ ev')"
  by (simp_all add: neutral_def)

lemma recorded_calls [simp]:
  "o_nonblock (recording_sockets S) = o_nonblock S" "ud_close (recording_sockets S) fd w = (ud_close S fd (fst w), snd w @ [Closed fd])"
  "snd (tcp_freeaddrinfo (recording_sockets S) w) = snd w"
  by (simp_all add: recording_sockets_def case_prod_beta)

lemma recorded_results:
  "tcp_getfl (recording_sockets S) fd w = (fl, w') \<Longrightarrow> snd w' = snd w"
  "tcp_setfl (recording_sockets S) fd f w = (ok, w') \<Longrightarrow> snd w' = snd w @ (if ok then [Flags fd f] else [])"
  "tcp_connect (recording_sockets S) fd ai w = (ok, w') \<Longrightarrow> snd w' = snd w"
  "tcp_select (recording_sockets S) fd t w = (n, w') \<Longrightarrow> snd w' = snd w"
  "tcp_so_error (recording_sockets S) fd w = (se, w') \<Longrightarrow> snd w' = snd w"
  "tcp_socket (recording_sockets S) ai w = (x, w') \<Longrightarrow> snd w' = snd w @ (case x of None \<Rightarrow> [] | Some fd \<Rightarrow> [Opened fd])"
  "tcp_getaddrinfo (recording_sockets S) h p w = (as, w') \<Longrightarrow> snd w' = snd w"
  "ud_set_receive_timeout (udp_calls.truncate (recording_sockets S)) fd t w = (ok, w') \<Longrightarrow>
     snd w' = snd w @ (if ok then [ReceiveLimit fd t] else [])"
  "ud_set_send_timeout (udp_calls.truncate (recording_sockets S)) fd t w = (ok, w') \<Longrightarrow>
     snd w' = snd w @ (if ok then [SendLimit fd t] else [])"
  by (auto simp: recording_sockets_def udp_calls.truncate_def dest!: noted)

lemma set_nonblocking_events:
  "set_nonblocking (recording_sockets S) fd b w = (e, w') \<Longrightarrow>
   \<exists>ev. snd w' = snd w @ ev \<and> neutral ev \<and>
     (e = None \<and> \<not> b \<longrightarrow> (\<exists>flags. ev = [Flags fd flags] \<and> and flags (o_nonblock S) = 0))"
  by (auto simp: set_nonblocking_def and.assoc dest!: recorded_results split: prod.splits option.splits bool.splits if_splits)

lemma await_connection_events:
  "await_connection (recording_sockets S) fd ai t w = (e, w') \<Longrightarrow> snd w' = snd w"
  by (auto simp: await_connection_def Let_def dest!: recorded_results split: prod.splits bool.splits if_splits)

lemma time_limit_events:
  "set_socket_timeout (udp_calls.truncate (recording_sockets S)) fd t w = (e, w') \<Longrightarrow>
   \<exists>ev. snd w' = snd w @ ev \<and> neutral ev \<and> (e = None \<longrightarrow> ev = [ReceiveLimit fd t, SendLimit fd t])"
  by (auto simp: set_socket_timeout_def dest!: recorded_results split: prod.splits bool.splits)

lemma connect_candidate_events:
  assumes "connect_candidate (recording_sockets S) fd ai t w = (e, w')"
  shows "\<exists>ev. snd w' = snd w @ ev \<and> neutral ev \<and> (e = None \<longrightarrow> settled (o_nonblock S) fd t ev)"
proof -
  obtain e1 w1 where s1: "set_nonblocking (recording_sockets S) fd True w = (e1, w1)" by (metis prod.exhaust)
  obtain e2 w2 where s2: "await_connection (recording_sockets S) fd ai t w1 = (e2, w2)" by (metis prod.exhaust)
  obtain e3 w3 where s3: "set_nonblocking (recording_sockets S) fd False w2 = (e3, w3)" by (metis prod.exhaust)
  obtain e4 w4 where s4: "set_socket_timeout (udp_calls.truncate (recording_sockets S)) fd t w3 = (e4, w4)" by (metis prod.exhaust)
  from set_nonblocking_events [OF s1] set_nonblocking_events [OF s3] time_limit_events [OF s4] await_connection_events [OF s2]
  obtain ev1 ev3 ev4 where ev: "snd w1 = snd w @ ev1" "neutral ev1" "snd w2 = snd w1" "snd w3 = snd w2 @ ev3" "neutral ev3"
    "snd w4 = snd w3 @ ev4" "neutral ev4" "e4 = None \<Longrightarrow> ev4 = [ReceiveLimit fd t, SendLimit fd t]"
    "e3 = None \<Longrightarrow> \<exists>flags. ev3 = [Flags fd flags] \<and> and flags (o_nonblock S) = 0" by blast
  have result: "(e, w') = (if e1 \<noteq> None then (e1, w1) else if e2 \<noteq> None then (e2, w2) else if e3 \<noteq> None then (e3, w3) else (e4, w4))"
    using assms s1 s2 s3 s4 by (cases e1; cases e2; cases e3) (auto simp: connect_candidate_def)
  show ?thesis
  proof (cases "e1 = None \<and> e2 = None \<and> e3 = None")
    case False
    with result ev show ?thesis by (auto split: if_splits)
  next
    case True
    with result have "e = e4" "w' = w4" by simp_all
    with ev True show ?thesis
      by (intro exI [of _ "ev1 @ ev3 @ ev4"]) (auto simp: settled_def)
  qed
qed

lemma connect_addresses_events:
  assumes "connect_addresses (recording_sockets S) t addresses e w = (r, w')"
  shows "\<exists>ev. snd w' = snd w @ ev \<and>
    (case r of Inl _ \<Rightarrow> neutral ev
     | Inr fd \<Rightarrow> (\<forall>fds. open_after ev fds = fd # fds) \<and> settled (o_nonblock S) fd t ev)"
  using assms
proof (induction addresses arbitrary: e w)
  case (Cons ai addresses)
  obtain x w1 where opened: "tcp_socket (recording_sockets S) ai w = (x, w1)" by (metis prod.exhaust)
  note log1 = recorded_results(6) [OF opened]
  show ?case
  proof (cases x)
    case None
    with Cons.IH [of "assign_errno (recording_sockets S) ''socket'' w1" w1] Cons(2) opened log1 show ?thesis by simp
  next
    case (Some fd)
    obtain e2 w2 where tried: "connect_candidate (recording_sockets S) fd ai t w1 = (e2, w2)" by (metis prod.exhaust)
    from connect_candidate_events [OF this] obtain ev where ev: "snd w2 = snd w1 @ ev" "neutral ev"
      "e2 = None \<Longrightarrow> settled (o_nonblock S) fd t ev" by blast
    show ?thesis
    proof (cases e2)
      case None
      with Cons(2) opened Some tried log1 ev show ?thesis
        by (intro exI [of _ "Opened fd # ev"]) (auto simp: neutral_def settled_def)
    next
      case error: (Some e3)
      from Cons(2) opened Some tried error
      have "connect_addresses (recording_sockets S) t addresses e3 (ud_close (recording_sockets S) fd w2) = (r, w')" by simp
      from Cons.IH [OF this] obtain ev' where "snd w' = snd (ud_close (recording_sockets S) fd w2) @ ev'"
        "case r of Inl _ \<Rightarrow> neutral ev'
         | Inr fd \<Rightarrow> (\<forall>fds. open_after ev' fds = fd # fds) \<and> settled (o_nonblock S) fd t ev'" by blast
      with log1 ev Some show ?thesis
        by (intro exI [of _ "Opened fd # ev @ Closed fd # ev'"])
          (auto simp: neutral_def settled_def split: sum.splits)
    qed
  qed
qed auto

lemma tcp_connection_sockets:
  "case connect_tcp (recording_sockets S) host port t (w, []) of (r, w', log) \<Rightarrow>
     (case r of
        Inl error \<Rightarrow> error \<noteq> [] \<and> open_after log [] = []
      | Inr fd \<Rightarrow> open_after log [] = [fd] \<and> settled (o_nonblock S) fd t log)"
proof -
  obtain as w1 where found: "tcp_getaddrinfo (recording_sockets S) host (to_string_u port) (w, []) = (as, w1)" by (metis prod.exhaust)
  then have log1: "snd w1 = []" using recorded_results(7) by fastforce
  show ?thesis
  proof (cases as)
    case (Inl a)
    with found log1 show ?thesis by (auto simp: connect_tcp_def)
  next
    case (Inr addresses)
    obtain r w2 where tried: "connect_addresses (recording_sockets S) t addresses [] w1 = (r, w2)" by (metis prod.exhaust)
    obtain w3 log where freed: "tcp_freeaddrinfo (recording_sockets S) w2 = (w3, log)" by (metis prod.exhaust)
    then have "log = snd w2" using recorded_calls(3) [of S w2] by simp
    with connect_addresses_events [OF tried] log1 show ?thesis
      using found Inr tried freed by (cases r) (auto simp: connect_tcp_def neutral_def)
  qed
qed

section \<open>The sockets of a TLS connection\<close>

text \<open>The library's own calls touch neither the descriptors nor the record of them.\<close>

type_synonym 'w socket_world = "('w \<times> socket_event list) \<times> nat option \<times> string"

definition silent_setup :: "'w tls_setup \<Rightarrow> ('w \<times> socket_event list) tls_setup" where
  "silent_setup U = \<lparr>tls_do = (\<lambda>c. noting (\<lambda>_. []) (tls_do U c)), tcp_error = (\<lambda>(w, log). tcp_error U w)\<rparr>"

definition silent_ssl :: "'w ssl_calls \<Rightarrow> 'w socket_world ssl_calls" where
  "silent_ssl C =
     \<lparr>ssl_read = (\<lambda>n ((w, log), rest). let (x, w) = ssl_read C n w in (x, (w, log), rest)),
      ssl_write = (\<lambda>d ((w, log), rest). let (x, w) = ssl_write C d w in (x, (w, log), rest)),
      ssl_get_error = (\<lambda>((w, log), rest). ssl_get_error C w),
      err_get_error = (\<lambda>((w, log), rest). let (x, w) = err_get_error C w in (x, (w, log), rest)),
      err_error_string = err_error_string C,
      errno_text = (\<lambda>((w, log), rest). errno_text C w)\<rparr>"

definition socket_tls :: "('a, 'w) socket_calls \<Rightarrow> 'w tls_setup \<Rightarrow> 'w socket_world tls_setup" where
  "socket_tls S U = with_sockets (recording_sockets S) (silent_setup U)"

abbreviation events :: "'w socket_world \<Rightarrow> socket_event list" where "events w \<equiv> snd (fst w)"
abbreviation descriptor :: "'w socket_world \<Rightarrow> nat option" where "descriptor w \<equiv> fst (snd w)"

lemma socket_tls_quiet:
  assumes "tls_do (socket_tls S U) c w = (b, w')" "c \<noteq> CloseSocket" "\<And>h p t. c \<noteq> ConnectTcp h p t"
  shows "events w' = events w \<and> descriptor w' = descriptor w"
  using assms
  by (cases c) (auto simp: socket_tls_def with_sockets_def silent_setup_def dest!: noted split: prod.splits)

lemma socket_tls_run [simp]:
  assumes "c \<noteq> CloseSocket" "\<And>h p t. c \<noteq> ConnectTcp h p t"
  shows "events (tls_run (socket_tls S U) c w) = events w" "descriptor (tls_run (socket_tls S U) c w) = descriptor w"
  using socket_tls_quiet [of S U c w "fst (tls_do (socket_tls S U) c w)" "snd (tls_do (socket_tls S U) c w)"] assms
  by (simp_all add: tls_run_def)

lemma silent_error [simp]:
  "events (snd (openssl_error (silent_ssl C) prefix w)) = events w"
  by (cases w) (simp add: openssl_error_def silent_ssl_def Let_def split: prod.split)

lemma socket_tls_close:
  assumes "tls_socket obj" "descriptor (tls_world obj) = Some fd"
  shows "events (tls_world (tls_close (socket_tls S U) obj)) = events (tls_world obj) @ [Closed fd]"
proof -
  have "events (tls_run (socket_tls S U) CloseSocket w) = events w @ [Closed fd]" if "descriptor w = Some fd" for w
    using that by (cases w) (auto simp: tls_run_def socket_tls_def with_sockets_def)
  with assms show ?thesis by (simp add: tls_close_def Let_def)
qed

text \<open>A step of the connection that has the socket: it keeps it, or fails and closes it.\<close>

definition keeps_socket :: "nat \<Rightarrow> socket_event list \<Rightarrow> transport_status \<times> 'w socket_world tls_object \<Rightarrow> bool" where
  "keeps_socket fd log result =
     (case result of (st, obj) \<Rightarrow>
        if ts_ok st then descriptor (tls_world obj) = Some fd \<and> events (tls_world obj) = log
        else events (tls_world obj) = log @ [Closed fd])"

lemma keeps_failed:
  assumes "tls_socket obj" "descriptor (tls_world obj) = Some fd"
  shows "keeps_socket fd (events (tls_world obj)) (close_and_fail (silent_ssl C) (socket_tls S U) prefix obj)"
  using socket_tls_close [OF assms, of S U] silent_error [of C prefix "tls_world (tls_close (socket_tls S U) obj)"]
  by (auto simp: close_and_fail_def keeps_socket_def status_failure_def Let_def simp del: silent_error split: prod.split)

lemma keeps_handshake:
  assumes "tls_socket obj" "descriptor (tls_world obj) = Some fd"
  shows "keeps_socket fd (events (tls_world obj)) (tls_handshake (silent_ssl C) (socket_tls S U) options obj)"
proof -
  define w1 where "w1 = (if tls_host options \<noteq> []
      then tls_run (socket_tls S U) (SetHostName (tls_host options)) (tls_run (socket_tls S U) SetFd (tls_world obj))
      else tls_run (socket_tls S U) SetFd (tls_world obj))"
  obtain b w2 where shaken: "tls_do (socket_tls S U) SslConnect w1 = (b, w2)" by (metis prod.exhaust)
  have w1: "events w1 = events (tls_world obj)" "descriptor w1 = Some fd" using assms by (simp_all add: w1_def)
  have w2: "events w2 = events (tls_world obj)" "descriptor w2 = Some fd" using socket_tls_quiet [OF shaken] w1 by simp_all
  obtain m w3 where failed: "openssl_error (silent_ssl C) ''SSL_connect'' w2 = (m, w3)" by (metis prod.exhaust)
  have w3: "events w3 = events (tls_world obj)" "descriptor w3 = Some fd"
    using failed silent_error [of C "''SSL_connect''" w2] w2
    by (auto simp: openssl_error_def silent_ssl_def Let_def split: prod.splits if_splits)
  have "events (tls_world (tls_close (socket_tls S U) (obj\<lparr>tls_world := w3\<rparr>))) = events (tls_world obj) @ [Closed fd]"
    using socket_tls_close [of "obj\<lparr>tls_world := w3\<rparr>" fd S U] assms w3 by simp
  then show ?thesis
    using w2 unfolding tls_handshake_def Let_def w1_def [symmetric]
    by (cases b) (simp_all add: shaken failed keeps_socket_def status_failure_def status_success_def)
qed

lemma keeps_session:
  assumes "tls_socket obj" "descriptor (tls_world obj) = Some fd"
  shows "keeps_socket fd (events (tls_world obj)) (tls_session (silent_ssl C) (socket_tls S U) options obj)"
proof -
  obtain b w1 where created: "tls_do (socket_tls S U) SslNew (tls_world obj) = (b, w1)" by (metis prod.exhaust)
  have "events w1 = events (tls_world obj)" "descriptor w1 = Some fd" using socket_tls_quiet [OF created] assms by simp_all
  then show ?thesis
    using keeps_failed [of "obj\<lparr>tls_ssl := b, tls_world := w1\<rparr>" fd C S U "''SSL_new''"]
      keeps_handshake [of "obj\<lparr>tls_ssl := b, tls_world := w1\<rparr>" fd C S U options] assms(1)
    by (cases b) (simp_all add: tls_session_def created)
qed

section \<open>Property\<close>

text \<open>
  C26. A TLS connection that is established has exactly one open socket, the one in use, which is back in
  blocking mode with the configured limits for receiving and sending; an attempt that fails, at whatever
  call and address, has closed every socket it opened.
\<close>

theorem tls_connection_sockets:
  "case tls_connect (silent_ssl C) (socket_tls S U) options
      \<lparr>tls_socket = False, tls_ctx = False, tls_ssl = False, tls_world = ((w, []), None, [])\<rparr> of (st, obj) \<Rightarrow>
     if ts_ok st
     then \<exists>fd. descriptor (tls_world obj) = Some fd \<and> open_after (events (tls_world obj)) [] = [fd] \<and>
       settled (o_nonblock S) fd (tls_timeout_seconds options) (events (tls_world obj))
     else open_after (events (tls_world obj)) [] = []"
proof -
  let ?U = "socket_tls S U" and ?C = "silent_ssl C"
  let ?obj = "\<lparr>tls_socket = False, tls_ctx = False, tls_ssl = False, tls_world = ((w, []), None, [])\<rparr>"
  have "tls_close ?U ?obj = ?obj" by (simp add: tls_close_def)
  obtain r w1 log where tcp: "connect_tcp (recording_sockets S) (tls_host options) (tls_port options)
      (tls_timeout_seconds options) (w, []) = (r, w1, log)" by (metis prod.exhaust)
  note sockets = tcp_connection_sockets [of S "tls_timeout_seconds options" "tls_host options" "tls_port options" w, unfolded tcp prod.case]
  show ?thesis
  proof (cases r)
    case (Inl e)
    with tcp have "tls_do ?U (ConnectTcp (tls_host options) (tls_port options) (tls_timeout_seconds options))
        ((w, []), None, []) = (False, (w1, log), None, e)"
      by (simp add: socket_tls_def with_sockets_def)
    with sockets Inl show ?thesis
      by (simp add: tls_connect_def \<open>tls_close ?U ?obj = ?obj\<close> status_failure_def)
  next
    case (Inr fd)
    let ?w1 = "((w1, log), Some fd, [])"
    obtain b2 w2 where ctx: "tls_do ?U CtxNew (tls_run ?U InitSsl ?w1) = (b2, w2)" by (metis prod.exhaust)
    obtain b3 w3 where trust: "tls_trust ?U options (tls_run ?U MaxProtoTls12 (tls_run ?U MinProtoTls12 w2)) = (b3, w3)"
      by (metis prod.exhaust)
    have w2: "events w2 = log" "descriptor w2 = Some fd" using socket_tls_quiet [OF ctx] by simp_all
    have w3: "events w3 = log" "descriptor w3 = Some fd"
      using trust socket_tls_quiet [of S U _ _ b3 w3] w2 by (auto simp: tls_trust_def split: if_splits)
    have "tls_do ?U (ConnectTcp (tls_host options) (tls_port options) (tls_timeout_seconds options)) ((w, []), None, []) = (True, ?w1)"
      using tcp Inr by (simp add: socket_tls_def with_sockets_def)
    then have "keeps_socket fd log (tls_connect ?C ?U options ?obj)"
      using keeps_failed [of "\<lparr>tls_socket = True, tls_ctx = b2, tls_ssl = False, tls_world = w2\<rparr>" fd C S U "''SSL_CTX_new''"]
        keeps_failed [of "\<lparr>tls_socket = True, tls_ctx = b2, tls_ssl = False, tls_world = w3\<rparr>" fd C S U "''SSL_CTX_load_verify_locations''"]
        keeps_session [of "\<lparr>tls_socket = True, tls_ctx = b2, tls_ssl = False, tls_world = w3\<rparr>" fd C S U options] w2 w3
      by (cases b2) (simp_all add: tls_connect_def \<open>tls_close ?U ?obj = ?obj\<close> ctx trust Let_def)
    with sockets Inr show ?thesis by (auto simp: keeps_socket_def split: prod.splits if_splits)
  qed
qed

end
