(* ===== verification/Spec2Isabelle.thy ===== *)
theory Spec2Isabelle
  imports Adoption Frame_Codec Request_Handler Inform Session_Repository Tls_Transport Discovery Reconnect Uci_Plan Opennds_Safety Inform_Provider Daemon_Safety Socket
begin

text \<open>
  The OpenOmada device agent: the access point's side of the ECSP protocol of an Omada controller, in
  C++ (the sources are under \<open>src/src\<close>, the headers under \<open>src/include/openomada\<close>).

  \<^bold>\<open>The program.\<close>  The agent announces itself by UDP datagrams, takes the offer of a controller,
  connects to it over TLS, proves that it knows the device account and lets the controller prove the same
  (the adoption handshake), and then serves the controller: it reports every few seconds and carries out
  configuration requests by the programs of the router (\<open>uci\<close>, \<open>wifi\<close>, \<open>ndsctl\<close>).  The state of the
  session is kept in a file, so that a restart reconnects without a new adoption.

  \<^bold>\<open>Theories and sources.\<close>  In the order of the dependencies:

  \<^item> \<open>Cpp_Prelude\<close>: integers of fixed width, strings and the C library functions every component uses.
  \<^item> \<open>Json_Boundary\<close> (\<open>protocol/json.cpp\<close> and the accessors that several files copy), \<open>Json_Text\<close> (JSON
    texts and \<open>json_escape\<close>), \<open>Mac_Address\<close> (\<open>domain/mac_address.cpp\<close>), \<open>Ecsp_Message\<close>
    (\<open>protocol/ecsp_message.cpp\<close>, \<open>message_type.hpp\<close>), \<open>Device_Profile\<close> (\<open>application/settings.hpp\<close>,
    \<open>domain/device_profile.cpp\<close>), \<open>Ecsp_Builders\<close> (\<open>protocol/ecsp_builders.cpp\<close>), \<open>Frame_Codec\<close>
    (\<open>protocol/frame_codec.cpp\<close>), \<open>Crypto_Auth\<close> (\<open>crypto/*.cpp\<close>): the data of the protocol.
  \<^item> \<open>Frame_Transport\<close> (\<open>transport/frame_transport.hpp\<close>), \<open>Tls_Transport\<close> (\<open>transport/tls_client.cpp\<close>),
    \<open>Discovery\<close> (\<open>lifecycle/discovery.cpp\<close>, \<open>transport/udp_discovery.cpp\<close>), \<open>Socket\<close>
    (\<open>transport/socket.cpp\<close>): the transports, from the interface down to the system calls.
  \<^item> \<open>Adoption\<close> (\<open>lifecycle/adoption.cpp\<close>), \<open>Lifecycle_Session\<close> (\<open>lifecycle/session.cpp\<close>), \<open>Reconnect\<close>
    (\<open>lifecycle/reconnect.cpp\<close>), \<open>Posix_Files\<close> and \<open>Session_Repository\<close>
    (\<open>persistence/session_state_repository.cpp\<close>): sessions and their state.
  \<^item> \<open>Configuration\<close>, \<open>Configuration_Exchange\<close>, \<open>Configuration_Applier\<close> (\<open>application/configuration*.cpp\<close>),
    \<open>Request_Handler\<close> (\<open>lifecycle/managed_request_handler.cpp\<close>): the requests of the controller.
  \<^item> \<open>Inform\<close> (\<open>application/inform.cpp\<close>, \<open>lifecycle/managed_session.cpp\<close>), \<open>Client_State\<close>
    (\<open>application/client_state.cpp\<close>), \<open>Telemetry\<close> (\<open>openwrt/telemetry.cpp\<close>), \<open>Inform_Provider\<close>
    (\<open>openwrt/inform_provider.cpp\<close>): the reports.
  \<^item> \<open>Capabilities\<close> (\<open>platform/capabilities.cpp\<close>), \<open>Uci_Plan\<close> (\<open>openwrt/uci.cpp\<close>), \<open>Opennds\<close> and
    \<open>Opennds_Safety\<close> (\<open>openwrt/opennds.cpp\<close>), \<open>Process\<close> (\<open>openwrt/process.cpp\<close>): the platform.
  \<^item> \<open>Daemon_Config\<close> (\<open>application/daemon_config.cpp\<close>), \<open>Daemon\<close> (\<open>cli/main.cpp\<close>), \<open>Daemon_Safety\<close>: the
    program that puts them together.  This theory has the properties that span components.

  \<^bold>\<open>How the code is modelled.\<close>  A struct is a record with a prefix for its fields, an enum a datatype, a
  \<open>std::string\<close> a list of bytes, an integer a word of its width, \<open>std::size_t\<close> a natural number, a
  \<open>std::map\<close> an ordered association list.  A function that does more than compute takes the world \<open>'w\<close> it
  acts on and returns it; what it acts through (a transport, an applier, a program, a system call) is a
  record of operations on that world, or a function of such a type, in the place of the virtual class or
  the system interface.  Error returns are values of the result records of the code, or \<open>Inl\<close> of the text
  where the code passes a \<open>std::string*\<close>.  Definitions that are part of a function of the code (a loop
  body, a branch) carry the comment of the function they belong to by their place and their name.

  \<^bold>\<open>Parameters.\<close>  json-c (\<open>jsonc\<close>), the digests and random bytes of OpenSSL (\<open>digests\<close>, \<open>backend\<close>), its TLS
  calls (\<open>ssl_calls\<close>, \<open>tls_setup\<close>), the system calls on files (\<open>posix\<close>), sockets (\<open>udp_calls\<close>,
  \<open>socket_calls\<close>) and processes (\<open>process_calls\<close>), and the clock, sleep, signals and standard error of the
  daemon (\<open>daemon_env\<close>).  What is documented of them is stated as locales: \<open>frame_log\<close>, \<open>logged_agent\<close> and
  \<open>managed_agent\<close> (a traced transport), \<open>posix_files\<close> (the file system), \<open>session_store\<close> (a repository),
  \<open>byte_stream\<close> and \<open>live_stream\<close> (a TLS connection), \<open>inform_source\<close> (a provider of reports),
  \<open>state_keeper\<close> (the surroundings of the daemon).  Each is interpreted on the model: transports and
  appliers with a record of their calls, a file system and a connection in memory whose calls fail, are
  interrupted or move fewer bytes wherever a script says so, the repository of the code over that file
  system, both providers of the code, and the daemon over all of these.

  \<^bold>\<open>Loops.\<close>  Loops over data are structural recursions or \<open>function\<close>s with a measure.  \<open>receive_until\<close>
  counts its rounds down from nine, the reconnection its attempts from the configured number: these are
  the bounds of the code.  Loops that wait for the outside are \<open>partial_function\<close>s, where \<open>None\<close> is a loop
  without end; that they return is a theorem under the assumption that calls are not interrupted for ever
  (\<open>patience\<close>, \<open>naps\<close>): \<open>state_save_atomic\<close>, \<open>reconnect_bounded\<close>, \<open>program_output\<close>, \<open>daemon_calls_return\<close>.
  The managed loop and the daemon itself are meant to run for ever; \<open>managed_loop_ends\<close> says when they do
  not.  There is no fuel.

  \<^bold>\<open>What the lemmas show.\<close>  The messages the agent prints are JSON texts of the intended values, frames and
  escapes decode to what was encoded; the parser of configurations admits only well formed networks and
  the plans made of them run exactly the commands that give the configuration asked for; the handshake
  sends nothing that matters before the controller has proved its knowledge; a request gets at most one
  answer and touches the platform at most once; the state file is replaced as a whole or not at all, and
  the daemon's sessions, its state file and its refusals follow from these (this theory).  The theorems
  that show a fault of the code say so in their comment.

  \<^bold>\<open>Not modelled.\<close>  \<open>CMakeLists.txt\<close>, the OpenWrt package and its init script, the scripts and the tests; the
  move operations and destructors of owners of descriptors, except for the calls they make, which are
  where the code makes them; running out of memory; the installation of the signal handlers, whose effect is the parameter \<open>de_stop\<close>.  The daemon
  takes the executor of programs and the transport as parameters that return; \<open>Process\<close>, \<open>Tls_Transport\<close>
  and \<open>Socket\<close> have the code behind them.  \<open>std::sort\<close> is the stable sort, one of the orders it may give.
\<close>

section \<open>Sessions\<close>


text \<open>
  C6. A managed session keeps its settings, its handshake, the interval of its reports and, but for the
  version, the sequence number and the time, its state, whatever the controller sends; so every state the
  loop saves passes the checks of the repository.
\<close>

theorem managed_session_kept:
  assumes "adopted s session" and "manage_port (se_settings session) \<noteq> 0"
    and "managed_reach E repository applier provider (session, scheduler) w (session', scheduler') w'"
  shows "se_settings session' = se_settings session \<and> se_adoption session' = se_adoption session \<and>
    state_identity (se_state session') = state_identity (se_state session) \<and>
    sched_interval_ms scheduler' = sched_interval_ms scheduler \<and>
    save_checks \<lparr>repo_path = p, repo_device_mac = mac s, repo_controller_host = controller_host s\<rparr> (se_state session') =
      Inr (mac s)"
  using managed_reach_kept [OF assms(3)] adopted_saved [OF assms(1,2)] by (simp add: same_session_def)

text \<open>A session on a quiet line.\<close>

definition sample_session :: live_session where
  "sample_session =
    (let s = default_settings\<lparr>controller_host := ''h'', controller_id := ''c1''\<rparr>;
         r = default_adoption_result\<lparr>ar_ok := True, initial_sync_complete := True, ar_controller_id := ''c1'', last_seq := 5\<rparr>
     in \<lparr>se_settings = s, se_state = managed_state_from_adoption s (manage_port s) r 0, se_adoption = r\<rparr>)"

lemma sample_session_adopted:
  "adopted (default_settings\<lparr>controller_host := ''h''\<rparr>) sample_session" "manage_port (se_settings sample_session) \<noteq> 0"
  by (auto simp: sample_session_def adopted_def same_agent_def default_settings_def Let_def)

lemma sample_reach:
  "managed_reach memory_env repository applier (static_inform_build default_lan) (sample_session, make_scheduler 3000) w
     (sample_session, make_scheduler 3000) w"
  by (rule managed_reach.reach_round [OF managed_reach.reach_start])
    (simp add: managed_round_def report_round_def scheduler_poll_def make_scheduler_def default_scheduled_def now_ms_def
      default_receive_result_def Let_def)

theorem managed_session_kept_witness:
  "save_checks \<lparr>repo_path = ''state'', repo_device_mac = mac default_settings, repo_controller_host = ''h''\<rparr>
     (se_state sample_session) = Inr (mac default_settings)"
  using managed_session_kept [OF sample_session_adopted sample_reach, of "''state''"] by simp

section \<open>The platform\<close>

text \<open>
  C5. A SET_REQUEST that asks for something the platform of the daemon cannot do (LEDs, client operations,
  rate limits, a portal without openNDS) runs nothing and changes no state, whatever else it asks for: the
  world differs only by the answer, which reports the error.
\<close>

theorem unsupported_set_refused:
  "let u = cpr_update (parse_set_request_json J payload);
       document = json_document_parse J payload;
       body = build_set_response_body_json J payload (map_option ucast (ms_config_version st)) kConfigError;
       answer = build_set_response_json J s payload (ms_controller_id st) body t
   in case handle_managed_request J T s (Some st) payload (Some (daemon_appliers E c config)) t w of ((r, state'), w') \<Rightarrow>
        if valid document \<and> ecsp_header_type J document = Some (to_underlying SetRequest) \<and> beyond_platform c u
        then state' = Some st \<and> \<not> mr_configuration_applied r \<and> w' = (if sr_ok body then snd (tp_send T answer w) else w)
        else True"
proof -
  let ?run = "handle_set J T s st payload (Some (daemon_appliers E c config)) t w"
  obtain r st' w' where set: "?run = ((r, st'), w')" by (cases ?run) auto
  then have "handle_managed_request J T s (Some st) payload (Some (daemon_appliers E c config)) t w = ((r, Some st'), w')"
    if "valid (json_document_parse J payload)"
      "ecsp_header_type J (json_document_parse J payload) = Some (to_underlying SetRequest)"
    using that by (simp add: handle_managed_request_def dispatch_request_def message_type_from_value_def)
  with handle_set_refused [OF _ set] show ?thesis
    by (auto simp: Let_def split: prod.split)
qed

text \<open>
  C30. A dry run, or a run of a disabled agent, returns 0 and does the same whatever the files, the sockets, the
  transport, the stop flag and the UCI executor are: it uses none of them.
\<close>

theorem dry_run_quiet:
  "if dc_enabled config \<and> \<not> ro_dry_run options then True
   else
     (case run_daemon E options config w of None \<Rightarrow> False | Some (n, w') \<Rightarrow> n = 0) \<and>
     run_daemon (E\<lparr>de_stop := stop, de_backend := B, de_posix := P, de_udp := U, de_connect := connect, de_transport := T,
         de_disconnect := disconnect, de_uci := uci, de_file := files\<rparr>) options config w =
       run_daemon E options config w"
proof -
  define l where "l = parse_log_level (dc_log_level config)"
  let ?E = "E\<lparr>de_level := l\<rparr>"
  let ?F = "E\<lparr>de_stop := stop, de_backend := B, de_posix := P, de_udp := U, de_connect := connect, de_transport := T,
         de_disconnect := disconnect, de_uci := uci, de_file := files, de_level := l\<rparr>"
  have "log_write ?F = log_write ?E" by (rule log_write_env) simp_all
  moreover have "detect_runtime_capabilities ?F config = detect_runtime_capabilities ?E config"
    using detect_env [of ?F ?E config] by (simp add: fun_eq_iff)
  ultimately show ?thesis
    by (simp add: run_daemon_def Let_def l_def [symmetric] split: prod.split)
qed

section \<open>The state file\<close>


lemma quiet_provider: "daemon_provider memory_env default_capabilities = static_inform_build default_lan"
  by (simp add: daemon_provider_def default_capabilities_def no_tools_def)




end
